(* ===== verification/Prelude.thy ===== *)
theory Prelude
  imports Main "HOL-Library.Word"
begin

text \<open>
  The shared vocabulary of the development: the machine integer types of the Rust sources,
  the few library operations the code uses on them (byte splitting, saturating arithmetic,
  bounds-checked slice access), and the facts about them that every component uses.

  Values that live in hardware registers are words of their width. Cycle counts, indices
  and lengths are natural numbers; where the code saturates or truncates them the bound is
  written out.
\<close>

unbundle bit_operations_syntax

type_synonym u8 = "8 word"
type_synonym u16 = "16 word"
type_synonym u32 = "32 word"
type_synonym u64 = "64 word"

named_theorems byte_simps \<open>splitting and joining bytes\<close>
named_theorems mask_simps \<open>single-bit masks read as bits\<close>
named_theorems slice_simps \<open>bounds-checked slice access\<close>
named_theorems frame_simps \<open>fields an operation leaves alone\<close>

section \<open>Bytes and addresses\<close>

abbreviation hi_byte :: "u16 \<Rightarrow> u8" where
  "hi_byte w \<equiv> ucast (drop_bit 8 w)"

abbreviation lo_byte :: "u16 \<Rightarrow> u8" where
  "lo_byte w \<equiv> ucast w"

definition join_bytes :: "u8 \<Rightarrow> u8 \<Rightarrow> u16" where
  "join_bytes hi lo = push_bit 8 (ucast hi) OR ucast lo"

definition in_range :: "u16 \<Rightarrow> u16 \<Rightarrow> u16 \<Rightarrow> bool" where
  "in_range lo hi a \<longleftrightarrow> lo \<le> a \<and> a \<le> hi"

lemma hi_byte_join [simp, byte_simps]: "hi_byte (join_bytes h l) = h"
  by (rule bit_word_eqI) (auto simp: join_bytes_def bit_simps dest: bit_imp_le_length)

lemma lo_byte_join [simp, byte_simps]: "lo_byte (join_bytes h l) = l"
  by (rule bit_word_eqI) (auto simp: join_bytes_def bit_simps)

lemma join_hi_lo [simp, byte_simps]: "join_bytes (hi_byte w) (lo_byte w) = w"
  by (rule bit_word_eqI) (auto simp: join_bytes_def bit_simps not_less)

lemma join_bytes_eq_iff: "join_bytes a b = join_bytes c d \<longleftrightarrow> a = c \<and> b = d"
  by (metis hi_byte_join lo_byte_join)

lemma unat_u8_less [simp]: "unat (v :: u8) < 256"
  by (rule order_less_le_trans [OF unsigned_less]) simp

lemma unat_u16_less [simp]: "unat (v :: u16) < 65536"
  by (rule order_less_le_trans [OF unsigned_less]) simp

lemma unat_ucast_u8 [simp]: "unat (ucast (v :: u8) :: u16) = unat v"
proof -
  have "unat v < 2 ^ 16"
    by (rule order_less_trans [OF unat_u8_less]) simp
  then show ?thesis
    by (simp add: unsigned_ucast_eq take_bit_nat_eq_self)
qed

lemma unat_join_bytes: "unat (join_bytes h l) = 256 * unat h + unat l"
proof -
  have disj: "push_bit 8 (ucast h :: u16) AND ucast l = 0"
    by (rule bit_word_eqI) (auto simp: bit_simps dest: bit_imp_le_length)
  have "join_bytes h l = push_bit 8 (ucast h) + ucast l"
    by (simp add: join_bytes_def disj disjunctive_add_eq_or)
  moreover have "unat (push_bit 8 (ucast h :: u16)) = 256 * unat h"
    using unat_u8_less [of h]
    by (simp add: push_bit_eq_mult unat_word_ariths)
  moreover have "256 * unat h + unat l < 65536"
    using unat_u8_less [of h] unat_u8_less [of l] by linarith
  ultimately show ?thesis
    by (simp add: unat_word_ariths)
qed

lemma u8_eq_max_iff: "(w :: u8) = 0xFF \<longleftrightarrow> unat w = 255"
  by (simp add: word_unat_eq_iff)

lemma u8_add_of_nat_eq_max_iff:
  "unat (w :: u8) + k < 256 \<Longrightarrow> w + of_nat k = 0xFF \<longleftrightarrow> unat w + k = 255"
  by (simp add: u8_eq_max_iff unat_word_ariths unat_of_nat)

lemma unat_bytes [byte_simps]: "unat (hi_byte w) = unat w div 256" "unat (lo_byte w) = unat w mod 256"
proof -
  have "unat w = 256 * unat (hi_byte w) + unat (lo_byte w)"
    using unat_join_bytes [of "hi_byte w" "lo_byte w"] by simp
  then show "unat (hi_byte w) = unat w div 256" "unat (lo_byte w) = unat w mod 256"
    using unat_u8_less [of "lo_byte w"] by simp_all
qed

lemma or_push_bit_nat:
  assumes "a < 2 ^ n"
  shows "(a :: nat) OR push_bit n b = a + 2 ^ n * b"
proof -
  have a: "a = take_bit n a"
    using assms by (simp add: take_bit_nat_eq_self)
  have "a AND push_bit n b = 0"
    by (subst a, rule bit_eqI) (simp add: bit_and_iff bit_take_bit_iff bit_push_bit_iff)
  then have "a OR push_bit n b = a + push_bit n b"
    by (rule disjunctive_add_eq_or [symmetric])
  then show ?thesis
    by (simp add: push_bit_eq_mult mult.commute)
qed

section \<open>Masks of low bits\<close>

lemma unat_and_mask: "unat (w AND mask n :: 'a::len word) = unat w mod 2 ^ n"
  by (simp only: take_bit_eq_mask [symmetric] unsigned_take_bit_eq) (simp only: take_bit_eq_mod)

lemma low_masks:
  "(0x01 :: u8) = mask 1" "(0x03 :: u8) = mask 2" "(0x07 :: u8) = mask 3" "(0x0F :: u8) = mask 4"
  "(0x1F :: u8) = mask 5" "(0x3F :: u8) = mask 6" "(0x7F :: u8) = mask 7"
  by (simp_all add: mask_eq_exp_minus_1)

lemma unat_and_low [byte_simps]:
  fixes v :: u8
  shows "unat (v AND 0x01) = unat v mod 2" "unat (v AND 0x03) = unat v mod 4"
    "unat (v AND 0x07) = unat v mod 8" "unat (v AND 0x0F) = unat v mod 16"
    "unat (v AND 0x1F) = unat v mod 32" "unat (v AND 0x3F) = unat v mod 64"
    "unat (v AND 0x7F) = unat v mod 128"
  by (simp_all only: low_masks unat_and_mask) simp_all

section \<open>Single-bit masks\<close>

lemma and_mask_eq_0 [mask_simps]:
  fixes v :: "'a::len word"
  shows "v AND 1 = 0 \<longleftrightarrow> \<not> bit v 0" "v AND 2 = 0 \<longleftrightarrow> \<not> bit v 1"
    "v AND 4 = 0 \<longleftrightarrow> \<not> bit v 2" "v AND 8 = 0 \<longleftrightarrow> \<not> bit v 3"
    "v AND 0x10 = 0 \<longleftrightarrow> \<not> bit v 4" "v AND 0x20 = 0 \<longleftrightarrow> \<not> bit v 5"
    "v AND 0x40 = 0 \<longleftrightarrow> \<not> bit v 6" "v AND 0x80 = 0 \<longleftrightarrow> \<not> bit v 7"
  using and_exp_eq_0_iff_not_bit [of v 0] and_exp_eq_0_iff_not_bit [of v 1]
    and_exp_eq_0_iff_not_bit [of v 2] and_exp_eq_0_iff_not_bit [of v 3]
    and_exp_eq_0_iff_not_bit [of v 4] and_exp_eq_0_iff_not_bit [of v 5]
    and_exp_eq_0_iff_not_bit [of v 6] and_exp_eq_0_iff_not_bit [of v 7]
  by simp_all

lemma bit_if: "bit (if b then x else y) k \<longleftrightarrow> (if b then bit x k else bit y k)"
  by simp

text \<open>Eight-bit words are equal when their eight bits are.\<close>

lemma u8_eq_iff_bits:
  "(a :: u8) = b \<longleftrightarrow>
     bit a 0 = bit b 0 \<and> bit a 1 = bit b 1 \<and> bit a 2 = bit b 2 \<and> bit a 3 = bit b 3 \<and>
     bit a 4 = bit b 4 \<and> bit a 5 = bit b 5 \<and> bit a 6 = bit b 6 \<and> bit a 7 = bit b 7"
proof -
  have *: "n < 8 \<longleftrightarrow> n = 0 \<or> n = 1 \<or> n = 2 \<or> n = 3 \<or> n = 4 \<or> n = 5 \<or> n = 6 \<or> n = 7" for n :: nat
    by arith
  have "a = b \<longleftrightarrow> (\<forall>n. n < 8 \<longrightarrow> bit a n = bit b n)"
    by (auto intro: bit_word_eqI)
  then show ?thesis
    unfolding * by blast
qed

section \<open>Saturating arithmetic on counters\<close>

definition u8_max :: nat where "u8_max = 255"
definition u16_max :: nat where "u16_max = 65535"
definition u32_max :: nat where "u32_max = 4294967295"
definition usize_max :: nat where "usize_max = 18446744073709551615"

lemmas uint_max_defs = u8_max_def u16_max_def u32_max_def usize_max_def

definition sat_add :: "nat \<Rightarrow> nat \<Rightarrow> nat \<Rightarrow> nat" where
  "sat_add m a b = min m (a + b)"

definition sat_mul :: "nat \<Rightarrow> nat \<Rightarrow> nat \<Rightarrow> nat" where
  "sat_mul m a b = min m (a * b)"

lemma sat_add_le: "sat_add m a b \<le> m"
  by (simp add: sat_add_def)

lemma sat_add_exact [simp]: "a + b \<le> m \<Longrightarrow> sat_add m a b = a + b"
  by (simp add: sat_add_def)

lemma sat_mul_exact [simp]: "a * b \<le> m \<Longrightarrow> sat_mul m a b = a * b"
  by (simp add: sat_mul_def)

section \<open>Bounds-checked slices\<close>

text \<open>\<open>slice.get(i).copied().unwrap_or(d)\<close>, and \<open>if let Some(x) = slice.get_mut(i) { *x = v }\<close>.\<close>

definition get_or :: "'a list \<Rightarrow> nat \<Rightarrow> 'a \<Rightarrow> 'a" where
  "get_or xs i d = (if i < length xs then xs ! i else d)"

definition set_at :: "'a list \<Rightarrow> nat \<Rightarrow> 'a \<Rightarrow> 'a list" where
  "set_at xs i v = (if i < length xs then xs[i := v] else xs)"

lemma length_set_at [simp, slice_simps]: "length (set_at xs i v) = length xs"
  by (simp add: set_at_def)

lemma get_or_set_at [slice_simps]:
  "get_or (set_at xs i v) j d = (if i = j \<and> j < length xs then v else get_or xs j d)"
  by (auto simp: get_or_def set_at_def)

lemma get_or_in [slice_simps]: "i < length xs \<Longrightarrow> get_or xs i d = xs ! i"
  by (simp add: get_or_def)

lemma get_or_out [slice_simps]: "length xs \<le> i \<Longrightarrow> get_or xs i d = d"
  by (simp add: get_or_def)

lemma nth_set_at: "i < length xs \<Longrightarrow> set_at xs i v ! i = v"
  by (simp add: set_at_def)

end
