(* ===== verification/Events.thy ===== *)
theory Events
  imports Prelude
begin

text \<open>
  The observation vocabulary of \<^verbatim>\<open>kokura-core/src/types.rs\<close>: hardware mode, mapper
  identities, clock totals and the event types the devices emit, constructor by constructor.
  Event payloads keep the order of the fields of the Rust variants.
\<close>

datatype hardware_mode = Dmg | Cgb

datatype mapper_kind =
    KRomOnly | KMbc1 | KMbc2 | KMmm01 | KMbc3 | KMbc5 | KMbc6 | KMbc7
  | KPocketCamera | KTama5 | KHuC3 | KHuC1

fun mapper_name :: "mapper_kind \<Rightarrow> string" where
  "mapper_name KRomOnly = ''ROM_ONLY''"
| "mapper_name KMbc1 = ''MBC1''"
| "mapper_name KMbc2 = ''MBC2''"
| "mapper_name KMmm01 = ''MMM01''"
| "mapper_name KMbc3 = ''MBC3''"
| "mapper_name KMbc5 = ''MBC5''"
| "mapper_name KMbc6 = ''MBC6''"
| "mapper_name KMbc7 = ''MBC7''"
| "mapper_name KPocketCamera = ''POCKET_CAMERA''"
| "mapper_name KTama5 = ''TAMA5''"
| "mapper_name KHuC3 = ''HuC3''"
| "mapper_name KHuC1 = ''HuC1''"

fun is_special :: "mapper_kind \<Rightarrow> bool" where
  "is_special KMmm01 = True"
| "is_special KMbc6 = True"
| "is_special KMbc7 = True"
| "is_special KPocketCamera = True"
| "is_special KTama5 = True"
| "is_special KHuC3 = True"
| "is_special KHuC1 = True"
| "is_special _ = False"

record clock_state =
  clk_cycles :: u64
  clk_frames :: u64
  clk_frame_phase :: nat

definition clock_default :: clock_state where
  "clock_default = \<lparr>clk_cycles = 0, clk_frames = 0, clk_frame_phase = 0\<rparr>"

datatype ppu_event =
    ScanlineAdvance u8 u8
  | PpuModeChange u8 u8 u8
  | StatSignal bool u8 u8
  | VblankEnter u8
  | FrameComplete u64
  | ScanlineRender u8

datatype hdma_deferred_reason = CpuHalted

datatype dma_event =
    OamDmaStart u16
  | OamDmaComplete u16 u16
  | HdmaStart u16 u16 u8 bool
  | GdmaStallEstimate u8 nat
  | HdmaBlock u16 u16 u8 u8 bool nat
  | HdmaComplete u16 u16 u8 bool
  | HdmaCancel u16 u16 u8
  | HdmaDeferred u8 u8 hdma_deferred_reason
  | HdmaWriteIgnored u8 u8

datatype mapper_event =
    ControlWrite mapper_kind u16 u8 u16 u16
  | RomBankChange mapper_kind u16 u8 u16 u16
  | RamBankChange mapper_kind u16 u8 u16 u16

datatype interrupt_source = Vblank | LcdStat | TimerSource | SerialSource | JoypadSource

datatype timer_event =
    DivResetEdge u16
  | TacWrite u8 u8
  | TimaOverflow u8
  | TimaReload u8 u8

datatype serial_event =
    TransferStart u8 u8 bool
  | TransferComplete u8 u8 bool

datatype joypad_event =
    JoypadRead u8 u8 u8
  | SelectionWrite u8 u8
  | InputEdge u8 u8 u8
  | InterruptEdge u8

datatype apu_event =
    MasterToggle bool u8
  | ChannelTrigger u8 u16 u8
  | ChannelLengthExpired u8
  | ChannelEnvelopeStep u8 u8 bool
  | ChannelSweepStep u16 u16 bool u8
  | ChannelDisabled u8 u8 u16
  | DacStateChange u8 bool u16 bool
  | PopRisk u8 u16
  | FrameSequencerStep u8
  | MixerControlWrite u8 u8 u8
  | MixedOutput int int u8
  | PcmFramesBuffered nat nat
  | PcmBufferWrapped nat u64
  | WaveRamWrite u8 u8
  | WaveRamAccessAliased u8 u8 bool
  | Ch3TriggerRetainsSample u8 u8
  | NoiseClockFrozen u8 u8

datatype cgb_event =
    ModeSelected bool bool
  | VramBankSwitch u8 u8
  | WramBankSwitch u8 u8
  | BgPaletteIndexWrite u8 bool
  | BgPaletteDataWrite u8 u8 bool bool
  | ObjPaletteIndexWrite u8 bool
  | ObjPaletteDataWrite u8 u8 bool bool
  | Key1Write bool bool u8
  | SpeedSwitch bool nat
  | SpeedSwitchFreeze nat u8

datatype io_event =
    IoTimer timer_event
  | IoSerial serial_event
  | IoJoypad joypad_event

datatype interrupt_event =
    Requested interrupt_source u8
  | Serviced interrupt_source u16
  | PendingBlocked u8 bool bool

text \<open>The errors of \<^verbatim>\<open>error.rs\<close> that execution and cartridge loading can return.\<close>

datatype core_error =
    RomTooSmall nat
  | UnsupportedCartridgeType u8
  | UnsupportedOpcode u8 u16
  | InvalidState string

text \<open>Mapper labels identify the mapper: no two kinds print the same name.\<close>

lemma mapper_name_inj: "mapper_name a = mapper_name b \<Longrightarrow> a = b"
  by (cases a; cases b) simp_all

end
