(* ===== verification/Joypad_Port.thy ===== *)
theory Joypad_Port
  imports Prelude Events
begin

text \<open>
  The joypad of \<^verbatim>\<open>joypad.rs\<close>: the host button mask, the P1 selection register, and the
  active-low input lines read through it. Lines are numbered \<open>0..3\<close>; bit \<open>k\<close> of the mask is
  a direction, bit \<open>k + 4\<close> an action button on the same line.
\<close>

record joypad =
  jp_mask :: u8
  jp_p1 :: u8

definition joypad_default :: joypad where
  "joypad_default = \<lparr>jp_mask = 0, jp_p1 = 0xCF\<rparr>"

definition clear_if :: "bool \<Rightarrow> u8 \<Rightarrow> u8 \<Rightarrow> u8" where
  "clear_if b m v = (if b then v AND NOT m else v)"

definition read_p1 :: "joypad \<Rightarrow> u8" where
  "read_p1 j =
     (let select = jp_p1 j AND 0x30;
          lower = 0x0F;
          lower = (if select AND 0x10 = 0 then
             clear_if (jp_mask j AND 0x08 \<noteq> 0) 0x08
               (clear_if (jp_mask j AND 0x04 \<noteq> 0) 0x04
                 (clear_if (jp_mask j AND 0x02 \<noteq> 0) 0x02
                   (clear_if (jp_mask j AND 0x01 \<noteq> 0) 0x01 lower))) else lower);
          lower = (if select AND 0x20 = 0 then
             clear_if (jp_mask j AND 0x80 \<noteq> 0) 0x08
               (clear_if (jp_mask j AND 0x40 \<noteq> 0) 0x04
                 (clear_if (jp_mask j AND 0x20 \<noteq> 0) 0x02
                   (clear_if (jp_mask j AND 0x10 \<noteq> 0) 0x01 lower))) else lower)
      in 0xC0 OR select OR lower)"

definition interrupt_edge :: "u8 \<Rightarrow> u8 \<Rightarrow> bool" where
  "interrupt_edge old_p1 new_p1 \<longleftrightarrow> (old_p1 XOR new_p1) AND old_p1 AND 0x0F \<noteq> 0"

definition set_mask :: "u8 \<Rightarrow> joypad \<Rightarrow> joypad \<times> joypad_event list" where
  "set_mask m j =
     (let old_mask = jp_mask j;
          old_p1 = read_p1 j;
          j = j\<lparr>jp_mask := m\<rparr>;
          new_p1 = read_p1 j
      in (j, (if old_mask \<noteq> m then [InputEdge old_mask m new_p1] else [])
              @ (if interrupt_edge old_p1 new_p1 then [InterruptEdge new_p1] else [])))"

definition write_p1 :: "u8 \<Rightarrow> joypad \<Rightarrow> joypad \<times> joypad_event list" where
  "write_p1 v j =
     (let old_p1 = read_p1 j;
          j = j\<lparr>jp_p1 := 0xC0 OR (v AND 0x30) OR 0x0F\<rparr>;
          new_p1 = read_p1 j
      in (j, (if old_p1 AND 0x30 \<noteq> new_p1 AND 0x30 then [SelectionWrite old_p1 new_p1] else [])
              @ (if interrupt_edge old_p1 new_p1 then [InterruptEdge new_p1] else [])))"

section \<open>The lines the register shows\<close>

definition line_low :: "joypad \<Rightarrow> nat \<Rightarrow> bool" where
  "line_low j k \<longleftrightarrow>
     (\<not> bit (jp_p1 j) 4 \<and> bit (jp_mask j) k) \<or> (\<not> bit (jp_p1 j) 5 \<and> bit (jp_mask j) (k + 4))"

lemma upto4: "k < 4 \<longleftrightarrow> k = 0 \<or> k = 1 \<or> k = 2 \<or> (k :: nat) = 3"
  by arith

lemma bit_clear_if: "bit (clear_if b m v) k \<longleftrightarrow> bit v k \<and> \<not> (b \<and> bit m k)"
  by (cases "k < 8") (auto simp: clear_if_def bit_simps dest: bit_imp_le_length)

lemma bit_read_p1_line: "k < 4 \<Longrightarrow> bit (read_p1 j) k \<longleftrightarrow> \<not> line_low j k"
  unfolding upto4 read_p1_def line_low_def Let_def
  by (elim disjE; hypsubst; simp add: bit_if bit_clear_if mask_simps bit_simps; blast)

lemma bit_read_p1_select:
  "bit (read_p1 j) 4 = bit (jp_p1 j) 4" "bit (read_p1 j) 5 = bit (jp_p1 j) 5"
  "bit (read_p1 j) 6" "bit (read_p1 j) 7"
  by (simp_all add: read_p1_def Let_def bit_if bit_clear_if mask_simps bit_simps)

section \<open>Interrupt edges\<close>

lemma interrupt_edge_iff: "interrupt_edge p q \<longleftrightarrow> (\<exists>k<4. bit p k \<and> \<not> bit q k)"
proof -
  have low: "(0x0F :: u8) = mask 4"
    by (simp add: mask_eq_exp_minus_1)
  have bits: "bit ((p XOR q) AND p AND mask 4) k \<longleftrightarrow> k < 4 \<and> bit p k \<and> \<not> bit q k" for k
    by (cases "k < 8") (auto simp: bit_and_iff bit_xor_iff bit_mask_iff dest: bit_imp_le_length)
  have "(p XOR q) AND p AND mask 4 = 0 \<longleftrightarrow> (\<forall>k. \<not> bit ((p XOR q) AND p AND mask 4) k)"
    by (metis bit_0_eq bit_word_eqI bot_apply bot_bool_def)
  then show ?thesis
    unfolding interrupt_edge_def low bits by blast
qed

lemma interrupt_edge_lines:
  "interrupt_edge (read_p1 j) (read_p1 j') \<longleftrightarrow> (\<exists>k<4. \<not> line_low j k \<and> line_low j' k)"
  unfolding interrupt_edge_iff by (auto simp: bit_read_p1_line)

text \<open>
  C34. The input register shows a line low exactly when a pressed button of a selected group is
  on it; a change of the buttons or of the selection raises the joypad interrupt exactly when
  some line goes from high to low, and a repeated identical update raises nothing.
\<close>

theorem joypad_edges:
  "(\<forall>k<4. bit (read_p1 j) k \<longleftrightarrow> \<not> line_low j k) \<and>
   (case set_mask m j of (j', ev) \<Rightarrow>
      jp_mask j' = m \<and> jp_p1 j' = jp_p1 j \<and>
      ((\<exists>p. InterruptEdge p \<in> set ev) \<longleftrightarrow> (\<exists>k<4. \<not> line_low j k \<and> line_low j' k)) \<and>
      set_mask m j' = (j', [])) \<and>
   (case write_p1 v j of (j', ev) \<Rightarrow>
      jp_mask j' = jp_mask j \<and> bit (jp_p1 j') 4 = bit v 4 \<and> bit (jp_p1 j') 5 = bit v 5 \<and>
      ((\<exists>p. InterruptEdge p \<in> set ev) \<longleftrightarrow> (\<exists>k<4. \<not> line_low j k \<and> line_low j' k)) \<and>
      write_p1 v j' = (j', []))"
proof -
  have same: "\<not> interrupt_edge p p" for p
    by (simp add: interrupt_edge_iff)
  have 1: "\<forall>k<4. bit (read_p1 j) k \<longleftrightarrow> \<not> line_low j k"
    by (simp add: bit_read_p1_line)
  have 2: "case set_mask m j of (j', ev) \<Rightarrow>
      jp_mask j' = m \<and> jp_p1 j' = jp_p1 j \<and>
      ((\<exists>p. InterruptEdge p \<in> set ev) \<longleftrightarrow> (\<exists>k<4. \<not> line_low j k \<and> line_low j' k)) \<and>
      set_mask m j' = (j', [])"
    by (auto simp: set_mask_def Let_def interrupt_edge_lines same)
  have 3: "case write_p1 v j of (j', ev) \<Rightarrow>
      jp_mask j' = jp_mask j \<and> bit (jp_p1 j') 4 = bit v 4 \<and> bit (jp_p1 j') 5 = bit v 5 \<and>
      ((\<exists>p. InterruptEdge p \<in> set ev) \<longleftrightarrow> (\<exists>k<4. \<not> line_low j k \<and> line_low j' k)) \<and>
      write_p1 v j' = (j', [])"
    by (auto simp: write_p1_def Let_def interrupt_edge_lines same bit_simps)
  show ?thesis
    using 1 2 3 by blast
qed

theorem joypad_edges_witness:
  "line_low \<lparr>jp_mask = 0x21, jp_p1 = 0xDF\<rparr> 1 \<and> \<not> line_low \<lparr>jp_mask = 0x21, jp_p1 = 0xDF\<rparr> 0 \<and>
   \<not> bit (read_p1 \<lparr>jp_mask = 0x21, jp_p1 = 0xDF\<rparr>) 1 \<and> bit (read_p1 \<lparr>jp_mask = 0x21, jp_p1 = 0xDF\<rparr>) 0"
proof -
  let ?j = "\<lparr>jp_mask = 0x21, jp_p1 = 0xDF\<rparr> :: joypad"
  have low: "line_low ?j 1" "\<not> line_low ?j 0"
    by (simp_all add: line_low_def)
  have "\<forall>k<4. bit (read_p1 ?j) k \<longleftrightarrow> \<not> line_low ?j k"
    using joypad_edges [of ?j 0 0] by blast
  then show ?thesis
    using low by simp
qed

end
