(* ===== verification/Interrupts.thy ===== *)
theory Interrupts
  imports Prelude
begin

text \<open>
  The interrupt controller of \<^verbatim>\<open>interrupt.rs\<close>: request, enable mask, priority and
  acknowledgement. The abstract reading is the set of pending source numbers \<open>0..4\<close>.
\<close>

definition INT_VBLANK :: u8 where "INT_VBLANK = 0x01"
definition INT_LCD_STAT :: u8 where "INT_LCD_STAT = 0x02"
definition INT_TIMER :: u8 where "INT_TIMER = 0x04"
definition INT_SERIAL :: u8 where "INT_SERIAL = 0x08"
definition INT_JOYPAD :: u8 where "INT_JOYPAD = 0x10"

lemmas int_mask_defs =
  INT_VBLANK_def INT_LCD_STAT_def INT_TIMER_def INT_SERIAL_def INT_JOYPAD_def

record interrupt_state =
  ie :: u8
  iflag :: u8

definition interrupt_default :: interrupt_state where
  "interrupt_default = \<lparr>ie = 0, iflag = 0\<rparr>"

definition request :: "u8 \<Rightarrow> interrupt_state \<Rightarrow> interrupt_state" where
  "request m s = s\<lparr>iflag := iflag s OR m\<rparr>"

definition pending_mask :: "interrupt_state \<Rightarrow> u8" where
  "pending_mask s = ie s AND iflag s AND 0x1F"

definition has_pending :: "interrupt_state \<Rightarrow> bool" where
  "has_pending s \<longleftrightarrow> pending_mask s \<noteq> 0"

definition highest_priority :: "interrupt_state \<Rightarrow> (u8 \<times> u16) option" where
  "highest_priority s =
     (let pending = pending_mask s in
      if pending AND INT_VBLANK \<noteq> 0 then Some (INT_VBLANK, 0x0040)
      else if pending AND INT_LCD_STAT \<noteq> 0 then Some (INT_LCD_STAT, 0x0048)
      else if pending AND INT_TIMER \<noteq> 0 then Some (INT_TIMER, 0x0050)
      else if pending AND INT_SERIAL \<noteq> 0 then Some (INT_SERIAL, 0x0058)
      else if pending AND INT_JOYPAD \<noteq> 0 then Some (INT_JOYPAD, 0x0060)
      else None)"

definition acknowledge :: "u8 \<Rightarrow> interrupt_state \<Rightarrow> interrupt_state" where
  "acknowledge m s = s\<lparr>iflag := iflag s AND NOT m\<rparr>"

section \<open>Pending sources\<close>

definition pending_source :: "interrupt_state \<Rightarrow> nat \<Rightarrow> bool" where
  "pending_source s k \<longleftrightarrow> k < 5 \<and> bit (ie s) k \<and> bit (iflag s) k"

lemma bit_1F: "bit (0x1F :: u8) k \<longleftrightarrow> k < 5"
proof -
  have "(0x1F :: u8) = mask 5" by (simp add: mask_eq_exp_minus_1)
  then show ?thesis by (simp only: bit_mask_iff) auto
qed

lemma bit_pending_mask: "bit (pending_mask s) k \<longleftrightarrow> pending_source s k"
  unfolding pending_mask_def pending_source_def bit_and_iff bit_1F by blast

lemma pending_and_masks:
  "pending_mask s AND INT_VBLANK = 0 \<longleftrightarrow> \<not> pending_source s 0"
  "pending_mask s AND INT_LCD_STAT = 0 \<longleftrightarrow> \<not> pending_source s 1"
  "pending_mask s AND INT_TIMER = 0 \<longleftrightarrow> \<not> pending_source s 2"
  "pending_mask s AND INT_SERIAL = 0 \<longleftrightarrow> \<not> pending_source s 3"
  "pending_mask s AND INT_JOYPAD = 0 \<longleftrightarrow> \<not> pending_source s 4"
  by (simp_all add: int_mask_defs mask_simps bit_pending_mask)

lemma pending_source_less: "pending_source s k \<Longrightarrow> k = 0 \<or> k = 1 \<or> k = 2 \<or> k = 3 \<or> k = 4"
  by (auto simp: pending_source_def)

lemma has_pending_iff: "has_pending s \<longleftrightarrow> (\<exists>k. pending_source s k)"
proof -
  have "pending_mask s = 0 \<longleftrightarrow> (\<forall>k. \<not> bit (pending_mask s) k)"
    by (metis bit_0_eq bit_word_eqI bot_apply bot_bool_def)
  then show ?thesis
    by (simp add: has_pending_def bit_pending_mask)
qed

lemma highest_priority_find:
  "highest_priority s =
     map_option (\<lambda>k. (2 ^ k, 0x40 + 8 * of_nat k)) (find (pending_source s) [0..<5])"
proof -
  have upt: "[0..<5] = [0, 1, 2, 3, 4 :: nat]"
    by (simp add: upt_rec)
  show ?thesis
    unfolding highest_priority_def Let_def upt
    by (simp add: pending_and_masks) (simp add: int_mask_defs)
qed

lemma pending_source_acknowledge:
  "pending_source (acknowledge (2 ^ j) s) k \<longleftrightarrow> pending_source s k \<and> k \<noteq> j"
  by (auto simp: pending_source_def acknowledge_def bit_simps)

lemma pending_source_request:
  "pending_source (request (2 ^ j) s) k \<longleftrightarrow> pending_source s k \<or> (k = j \<and> k < 5 \<and> bit (ie s) k)"
  by (auto simp: pending_source_def request_def bit_simps)

lemma has_pending_highest: "has_pending s \<longleftrightarrow> highest_priority s \<noteq> None"
  by (auto simp: highest_priority_find has_pending_iff find_None_iff pending_source_def)

lemma highest_priority_pending:
  assumes "highest_priority s = Some (m, v)"
  obtains k where "pending_source s k" "m = 2 ^ k" "v = 0x40 + 8 * of_nat k"
    "\<And>j. j < k \<Longrightarrow> \<not> pending_source s j"
  using assms
  by (auto simp: highest_priority_find find_Some_iff)

text \<open>
  The controller dispatches by fixed priority: it returns the mask and vector of the
  lowest-numbered source that is both requested and enabled, and nothing exactly when no
  source is; source \<open>k\<close> has mask \<open>2 ^ k\<close> and vector \<open>0x40 + 8 * k\<close>.
\<close>

theorem highest_priority_spec:
  "highest_priority s =
     map_option (\<lambda>k. (2 ^ k, 0x40 + 8 * of_nat k)) (find (pending_source s) [0..<5])"
  by (rule highest_priority_find)

end
