(* ===== verification/Timer_Unit.thy ===== *)
theory Timer_Unit
  imports Prelude Events
begin

text \<open>
  The timer of \<^verbatim>\<open>timer.rs\<close>: a free-running 16-bit divider, the TIMA counter clocked by the
  falling edges of one divider bit, and the four-cycle delay between a TIMA overflow and its
  reload. The module models the traced loop \<open>timer_tick\<close>, the edge-jumping \<open>timer_tick_fast\<close>
  and the register writes, and proves the two loops equivalent and the count exact.
\<close>

record timer =
  tm_div :: u16
  tm_tima :: u8
  tm_tma :: u8
  tm_tac :: u8
  tm_div_counter :: u16
  tm_delay :: nat

definition timer_default :: timer where
  "timer_default =
     \<lparr>tm_div = 0, tm_tima = 0, tm_tma = 0, tm_tac = 0, tm_div_counter = 0, tm_delay = 0\<rparr>"

definition timer_post_boot :: "bool \<Rightarrow> timer \<Rightarrow> timer" where
  "timer_post_boot cgb_mode t =
     (let counter = (if cgb_mode then 0 else 0xC600)
      in t\<lparr>tm_div_counter := counter, tm_div := drop_bit 8 counter, tm_tima := 0, tm_tma := 0,
           tm_tac := 0, tm_delay := 0\<rparr>)"

definition timer_bit :: "u8 \<Rightarrow> nat" where
  "timer_bit tac =
     (if tac AND 0x03 = 0 then 9
      else if tac AND 0x03 = 1 then 3
      else if tac AND 0x03 = 2 then 5
      else 7)"

definition timer_signal :: "u16 \<Rightarrow> u8 \<Rightarrow> bool" where
  "timer_signal div_value tac =
     (if tac AND 0x04 = 0 then False
      else drop_bit (timer_bit tac) div_value AND 1 \<noteq> 0)"

definition increment_tima :: "timer \<Rightarrow> timer \<times> timer_event list" where
  "increment_tima t =
     (if tm_delay t > 0 then (t, [])
      else let old_tima = tm_tima t; next_tima = old_tima + 1
           in if old_tima = 0xFF
              then (t\<lparr>tm_tima := next_tima, tm_delay := 4\<rparr>, [TimaOverflow old_tima])
              else (t\<lparr>tm_tima := next_tima\<rparr>, []))"

definition increment_tima_fast :: "timer \<Rightarrow> timer" where
  "increment_tima_fast t =
     (if tm_delay t > 0 then t
      else let old_tima = tm_tima t; next_tima = old_tima + 1
           in if old_tima = 0xFF
              then t\<lparr>tm_tima := next_tima, tm_delay := 4\<rparr>
              else t\<lparr>tm_tima := next_tima\<rparr>)"

function div_chunks :: "nat \<Rightarrow> u16 \<Rightarrow> u16" where
  "div_chunks remaining counter =
     (if remaining > 0
      then let chunk = min remaining u16_max
           in div_chunks (remaining - chunk) (counter + of_nat chunk)
      else counter)"
  by pat_completeness auto
termination
  by (relation "measure fst") (auto simp: u16_max_def min_def)

declare div_chunks.simps [simp del]

definition advance_div_counter :: "nat \<Rightarrow> timer \<Rightarrow> timer" where
  "advance_div_counter cycles t =
     (let counter = div_chunks cycles (tm_div_counter t)
      in t\<lparr>tm_div_counter := counter, tm_div := drop_bit 8 counter\<rparr>)"

section \<open>One cycle, traced and untraced\<close>

definition timer_cycle :: "timer \<Rightarrow> timer \<times> bool \<times> timer_event list" where
  "timer_cycle t =
     (let (t, irq, tr1) =
            (if tm_delay t > 0 then
               let t = t\<lparr>tm_delay := tm_delay t - 1\<rparr> in
               if tm_delay t = 0 then
                 let t = t\<lparr>tm_tima := tm_tma t\<rparr>
                 in (t, True, [TimaReload (tm_tima t) (tm_tma t)])
               else (t, False, [])
             else (t, False, []));
          old_div = tm_div_counter t;
          t = t\<lparr>tm_div_counter := old_div + 1, tm_div := drop_bit 8 (old_div + 1)\<rparr>;
          (t, tr2) =
            (if timer_signal old_div (tm_tac t) \<and> \<not> timer_signal (tm_div_counter t) (tm_tac t)
             then increment_tima t else (t, []))
      in (t, irq, tr1 @ tr2))"

fun timer_tick_loop :: "nat \<Rightarrow> timer \<Rightarrow> bool \<Rightarrow> timer_event list \<Rightarrow>
    timer \<times> bool \<times> timer_event list" where
  "timer_tick_loop 0 t irq tr = (t, irq, tr)"
| "timer_tick_loop (Suc n) t irq tr =
     (let (t, i, e) = timer_cycle t in timer_tick_loop n t (irq \<or> i) (tr @ e))"

definition timer_tick :: "nat \<Rightarrow> timer \<Rightarrow> timer \<times> bool \<times> timer_event list" where
  "timer_tick cycles t = timer_tick_loop cycles t False []"

definition timer_cycle_fast :: "timer \<Rightarrow> timer \<times> bool" where
  "timer_cycle_fast t =
     (let t = t\<lparr>tm_delay := tm_delay t - 1\<rparr>;
          (t, irq) = (if tm_delay t = 0 then (t\<lparr>tm_tima := tm_tma t\<rparr>, True) else (t, False));
          old_div = tm_div_counter t;
          t = t\<lparr>tm_div_counter := old_div + 1, tm_div := drop_bit 8 (old_div + 1)\<rparr>
      in (if timer_signal old_div (tm_tac t) \<and> \<not> timer_signal (tm_div_counter t) (tm_tac t)
          then increment_tima_fast t else t, irq))"

text \<open>The reload window: cycle by cycle while a reload is pending.\<close>

fun timer_drain :: "nat \<Rightarrow> timer \<Rightarrow> bool \<Rightarrow> nat \<times> timer \<times> bool" where
  "timer_drain 0 t irq = (0, t, irq)"
| "timer_drain (Suc remaining) t irq =
     (if tm_delay t > 0
      then let (t, i) = timer_cycle_fast t in timer_drain remaining t (irq \<or> i)
      else (Suc remaining, t, irq))"

lemma timer_drain_le: "fst (timer_drain n t i) \<le> n"
  by (induction n t i rule: timer_drain.induct) (auto split: prod.splits intro: le_SucI)

definition cycles_until_edge :: "u8 \<Rightarrow> timer \<Rightarrow> nat" where
  "cycles_until_edge tac t =
     (let period = 2 ^ (timer_bit tac + 1);
          offset = unat (tm_div_counter t) AND (period - 1)
      in if offset = 0 then period else period - offset)"

lemma cycles_until_edge_eq:
  "cycles_until_edge tac t =
     2 ^ (timer_bit tac + 1) - unat (tm_div_counter t) mod 2 ^ (timer_bit tac + 1)"
proof -
  have "unat (tm_div_counter t) AND (2 ^ (timer_bit tac + 1) - 1) =
      unat (tm_div_counter t) mod 2 ^ (timer_bit tac + 1)"
    by (simp only: mask_eq_exp_minus_1 [symmetric] take_bit_eq_mask [symmetric] take_bit_eq_mod)
  then show ?thesis
    by (simp add: cycles_until_edge_def Let_def)
qed

lemma cycles_until_edge_pos: "0 < cycles_until_edge tac t"
  by (simp add: cycles_until_edge_eq)

function timer_edges :: "nat \<Rightarrow> timer \<Rightarrow> bool \<Rightarrow> timer \<times> bool" where
  "timer_edges remaining t irq =
     (if remaining > 0 then
        let c = cycles_until_edge (tm_tac t) t in
        if c > remaining then (advance_div_counter remaining t, irq)
        else
          let t = increment_tima_fast (advance_div_counter c t);
              (remaining, t, irq) = timer_drain (remaining - c) t irq
          in timer_edges remaining t irq
      else (t, irq))"
  by pat_completeness auto
termination
proof (relation "measure fst", goal_cases)
  case 1
  show ?case by simp
next
  case (2 remaining t irq x xa xb y xc ya)
  then show ?case
    using timer_drain_le [of "remaining - x" xa irq] cycles_until_edge_pos [of "tm_tac t" t]
    by (simp add: prod_eq_iff)
qed

declare timer_edges.simps [simp del]

definition timer_tick_fast :: "nat \<Rightarrow> timer \<Rightarrow> timer \<times> bool" where
  "timer_tick_fast cycles t =
     (let (remaining, t, irq) = timer_drain cycles t False in
      if remaining = 0 then (t, irq)
      else if tm_tac t AND 0x04 = 0 then (advance_div_counter remaining t, irq)
      else timer_edges remaining t irq)"

section \<open>Register writes\<close>

definition write_div :: "timer \<Rightarrow> timer \<times> timer_event list" where
  "write_div t =
     (let old_div = tm_div_counter t;
          (t, tr) = (if timer_signal old_div (tm_tac t) then increment_tima t else (t, []))
      in (t\<lparr>tm_div_counter := 0, tm_div := 0\<rparr>, tr @ [DivResetEdge old_div]))"

definition write_tima :: "u8 \<Rightarrow> timer \<Rightarrow> timer" where
  "write_tima v t =
     (let t = (if tm_delay t > 0 then t\<lparr>tm_delay := 0\<rparr> else t) in t\<lparr>tm_tima := v\<rparr>)"

definition write_tma :: "u8 \<Rightarrow> timer \<Rightarrow> timer" where
  "write_tma v t = t\<lparr>tm_tma := v\<rparr>"

definition write_tac :: "u8 \<Rightarrow> timer \<Rightarrow> timer \<times> timer_event list" where
  "write_tac v t =
     (let old_tac = tm_tac t;
          old_signal = timer_signal (tm_div_counter t) old_tac;
          new_tac = v AND 0x07;
          new_signal = timer_signal (tm_div_counter t) new_tac;
          t = t\<lparr>tm_tac := new_tac\<rparr>;
          tr1 = [TacWrite old_tac new_tac];
          (t, tr2) = (if old_signal \<and> \<not> new_signal then increment_tima t else (t, []))
      in (t, tr1 @ tr2))"

section \<open>The falling edge of the selected divider bit\<close>

text \<open>The bit clocking TIMA and the enable bit, read as numbers.\<close>

lemma timer_bit_less: "timer_bit tac < 10"
  by (simp add: timer_bit_def)

lemma timer_signal_bit: "timer_signal d tac \<longleftrightarrow> bit tac 2 \<and> bit d (timer_bit tac)"
  by (simp add: timer_signal_def mask_simps and_one_eq bit_iff_odd_drop_bit odd_iff_mod_2_eq_one)

lemma bit_iff_upper_half: "bit (n :: nat) b \<longleftrightarrow> 2 ^ b \<le> n mod 2 ^ (b + 1)"
proof -
  have "n mod 2 ^ (b + 1) = 2 ^ b * of_bool (bit n b) + n mod 2 ^ b"
    using take_bit_Suc_from_most [of b n] by (simp add: take_bit_eq_mod)
  then show ?thesis
    by (cases "bit n b") (auto simp: not_le)
qed

lemma unat_add_1_mod:
  fixes w :: u16
  assumes "b < 16"
  shows "unat (w + 1) mod 2 ^ (b + 1) = (unat w mod 2 ^ (b + 1) + 1) mod 2 ^ (b + 1)"
proof -
  have "(2 :: nat) ^ (b + 1) dvd 2 ^ 16"
    using assms by (intro le_imp_power_dvd) simp
  then have "(unat w + 1) mod 2 ^ 16 mod 2 ^ (b + 1) = (unat w + 1) mod 2 ^ (b + 1)"
    by (rule mod_mod_cancel)
  then show ?thesis
    by (simp add: unat_word_ariths mod_simps)
qed

lemma falling_edge_iff:
  fixes w :: u16
  assumes "b < 16"
  shows "bit w b \<and> \<not> bit (w + 1) b \<longleftrightarrow> unat w mod 2 ^ (b + 1) = 2 ^ (b + 1) - 1"
proof -
  let ?P = "2 ^ (b + 1) :: nat"
  have 1: "bit w b \<longleftrightarrow> 2 ^ b \<le> unat w mod ?P" for w :: u16
    using assms bit_iff_upper_half [of "unat w" b] by (simp add: bit_unsigned_iff)
  define r where "r = unat w mod ?P"
  have "r < ?P" by (simp add: r_def)
  then have "2 ^ b \<le> r \<and> \<not> 2 ^ b \<le> (r + 1) mod ?P \<longleftrightarrow> r = ?P - 1"
    by (cases "r + 1 = ?P") auto
  then show ?thesis
    unfolding 1 unat_add_1_mod [OF assms] r_def .
qed

definition div_edge :: "u8 \<Rightarrow> u16 \<Rightarrow> bool" where
  "div_edge tac d \<longleftrightarrow> timer_signal d tac \<and> \<not> timer_signal (d + 1) tac"

lemma div_edge_iff:
  "div_edge tac d \<longleftrightarrow>
     bit tac 2 \<and> unat d mod 2 ^ (timer_bit tac + 1) = 2 ^ (timer_bit tac + 1) - 1"
  using falling_edge_iff [of "timer_bit tac" d] timer_bit_less [of tac]
  by (auto simp: div_edge_def timer_signal_bit)

lemma div_chunks_eq: "div_chunks n c = c + of_nat n"
proof (induction n c rule: div_chunks.induct)
  case (1 n c)
  show ?case
  proof (cases "n > 0")
    case True
    then have "div_chunks n c = c + of_nat (min n u16_max) + of_nat (n - min n u16_max)"
      using 1 by (subst div_chunks.simps) (simp add: Let_def)
    also have "\<dots> = c + (of_nat (min n u16_max + (n - min n u16_max)) :: u16)"
      by (simp only: of_nat_add add.assoc)
    finally show ?thesis by simp
  next
    case False
    then show ?thesis by (subst div_chunks.simps) simp
  qed
qed

lemma advance_div_counter_eq:
  "advance_div_counter n t =
     t\<lparr>tm_div_counter := tm_div_counter t + of_nat n,
       tm_div := drop_bit 8 (tm_div_counter t + of_nat n)\<rparr>"
  by (simp add: advance_div_counter_def div_chunks_eq Let_def)

section \<open>The edge-jumping loop follows the cycle loop\<close>

text \<open>The cycle loop on state and interrupt flag alone, without its trace.\<close>

definition timer_next :: "timer \<times> bool \<Rightarrow> timer \<times> bool" where
  "timer_next s = (case timer_cycle (fst s) of (t, i, _) \<Rightarrow> (t, snd s \<or> i))"

lemma timer_tick_loop_next:
  "(case timer_tick_loop n t i tr of (t', i', _) \<Rightarrow> (t', i')) = (timer_next ^^ n) (t, i)"
  by (induction n arbitrary: t i tr)
    (simp_all add: timer_next_def split_beta funpow_swap1)

lemma fst_increment_tima: "fst (increment_tima t) = increment_tima_fast t"
  by (simp add: increment_tima_def increment_tima_fast_def Let_def)

lemma timer_next_pending:
  "tm_delay t > 0 \<Longrightarrow>
     timer_next (t, i) = (let (t', j) = timer_cycle_fast t in (t', i \<or> j))"
  by (auto simp: timer_next_def timer_cycle_def timer_cycle_fast_def Let_def split_beta
      fst_increment_tima)

lemma timer_next_idle:
  "tm_delay t = 0 \<Longrightarrow>
     timer_next (t, i) =
       (if div_edge (tm_tac t) (tm_div_counter t)
        then increment_tima_fast (advance_div_counter 1 t) else advance_div_counter 1 t, i)"
  by (simp add: timer_next_def timer_cycle_def advance_div_counter_eq div_edge_def Let_def
      split_beta fst_increment_tima)

lemma timer_drain_next:
  assumes "timer_drain n t i = (r, t', i')"
  shows "r \<le> n \<and> (timer_next ^^ (n - r)) (t, i) = (t', i') \<and> (r > 0 \<longrightarrow> tm_delay t' = 0)"
  using assms
proof (induction n t i rule: timer_drain.induct)
  case (2 n t i)
  show ?case
  proof (cases "tm_delay t > 0")
    case True
    obtain u j where u: "timer_cycle_fast t = (u, j)" by fastforce
    have d: "timer_drain n u (i \<or> j) = (r, t', i')"
      using 2(2) True by (simp add: u)
    note IH = 2(1) [OF True u [symmetric] refl d]
    then have "(timer_next ^^ (Suc n - r)) (t, i) = (timer_next ^^ (n - r)) (timer_next (t, i))"
      by (simp add: Suc_diff_le funpow_swap1)
    also have "timer_next (t, i) = (u, i \<or> j)"
      using True by (simp add: timer_next_pending u)
    finally show ?thesis using IH by simp
  next
    case False
    then show ?thesis using 2(2) by simp
  qed
qed simp

lemma advance_div_counter_Suc:
  "advance_div_counter 1 (advance_div_counter n t) = advance_div_counter (Suc n) t"
  by (simp add: advance_div_counter_eq ac_simps)

lemma advance_div_counter_sel [simp]:
  "tm_delay (advance_div_counter n t) = tm_delay t"
  "tm_tac (advance_div_counter n t) = tm_tac t"
  "tm_tima (advance_div_counter n t) = tm_tima t"
  "tm_tma (advance_div_counter n t) = tm_tma t"
  by (simp_all add: advance_div_counter_eq)

lemma div_counter_phase:
  assumes "b < 16"
  shows "unat (d + of_nat n :: u16) mod 2 ^ (b + 1) = (unat d mod 2 ^ (b + 1) + n) mod 2 ^ (b + 1)"
proof -
  have "(2 :: nat) ^ (b + 1) dvd 2 ^ 16"
    using assms by (intro le_imp_power_dvd) simp
  then have "(unat d + n mod 2 ^ 16) mod 2 ^ 16 mod 2 ^ (b + 1) =
      (unat d + n mod 2 ^ 16) mod 2 ^ (b + 1)" and
    "n mod 2 ^ 16 mod 2 ^ (b + 1) = n mod 2 ^ (b + 1)"
    by (simp_all only: mod_mod_cancel)
  then show ?thesis
    by (simp add: unat_word_ariths unat_of_nat) (metis mod_add_cong mod_mod_trivial)
qed

lemma no_edge_before:
  assumes "j + 1 < cycles_until_edge tac t"
  shows "\<not> div_edge tac (tm_div_counter t + of_nat j)"
  using assms timer_bit_less [of tac] div_counter_phase [of "timer_bit tac" "tm_div_counter t" j]
  by (auto simp: div_edge_iff cycles_until_edge_eq)

lemma edge_at:
  assumes "bit tac 2"
  shows "div_edge tac (tm_div_counter t + of_nat (cycles_until_edge tac t - 1))"
proof -
  let ?P = "2 ^ (timer_bit tac + 1) :: nat"
  have less: "r < ?P \<Longrightarrow> r + (?P - r - 1) = ?P - 1" for r
    by linarith
  have "unat (tm_div_counter t) mod ?P + (?P - unat (tm_div_counter t) mod ?P - 1) = ?P - 1"
    by (rule less) simp
  moreover have "timer_bit tac < 16"
    using timer_bit_less [of tac] by linarith
  ultimately show ?thesis
    using assms unfolding div_edge_iff cycles_until_edge_eq
    by (simp only: div_counter_phase) simp
qed

lemma timer_next_free_run:
  assumes "tm_delay t = 0"
    and "\<And>j. j < n \<Longrightarrow> \<not> div_edge (tm_tac t) (tm_div_counter t + of_nat j)"
  shows "(timer_next ^^ n) (t, i) = (if n = 0 then t else advance_div_counter n t, i)"
  using assms
proof (induction n)
  case (Suc n)
  then have IH: "(timer_next ^^ n) (t, i) = (if n = 0 then t else advance_div_counter n t, i)"
    by simp
  show ?case
    using Suc.prems(1) Suc.prems(2) [of n]
    by (cases "n = 0") (simp_all add: IH timer_next_idle advance_div_counter_eq ac_simps)
qed simp

lemma timer_next_edge:
  assumes "tm_delay t = 0" "bit (tm_tac t) 2" and c: "c = cycles_until_edge (tm_tac t) t"
  shows "(timer_next ^^ c) (t, i) = (increment_tima_fast (advance_div_counter c t), i)"
proof -
  obtain k where k: "c = Suc k"
    using cycles_until_edge_pos [of "tm_tac t" t] unfolding c [symmetric] by (cases c) auto
  have run: "(timer_next ^^ k) (t, i) = (if k = 0 then t else advance_div_counter k t, i)"
    by (intro timer_next_free_run no_edge_before assms(1)) (use c k in linarith)
  have edge: "div_edge (tm_tac t) (tm_div_counter t + of_nat k)"
  proof -
    have "cycles_until_edge (tm_tac t) t - 1 = k"
      using c k by linarith
    then show ?thesis
      using edge_at [OF assms(2), of t] by simp
  qed
  show ?thesis
    unfolding k using assms(1) edge
    by (cases "k = 0") (simp_all add: run timer_next_idle advance_div_counter_eq ac_simps)
qed

lemma timer_next_tac: "tm_tac (fst ((timer_next ^^ n) s)) = tm_tac (fst s)"
proof (induction n)
  case (Suc n)
  have "tm_tac (fst (timer_next s)) = tm_tac (fst s)" for s
    by (simp add: timer_next_def timer_cycle_def increment_tima_def Let_def split_beta)
  with Suc show ?case by simp
qed simp

lemma increment_tima_fast_sel [simp]:
  "tm_tac (increment_tima_fast t) = tm_tac t" "tm_tma (increment_tima_fast t) = tm_tma t"
  "tm_div_counter (increment_tima_fast t) = tm_div_counter t"
  "tm_div (increment_tima_fast t) = tm_div t"
  by (simp_all add: increment_tima_fast_def Let_def)

lemma timer_edges_next:
  assumes "bit (tm_tac t) 2" "r > 0 \<longrightarrow> tm_delay t = 0"
  shows "timer_edges r t i = (timer_next ^^ r) (t, i)"
  using assms
proof (induction r t i rule: timer_edges.induct)
  case (1 r t i)
  let ?c = "cycles_until_edge (tm_tac t) t"
  show ?case
  proof (cases "r > 0 \<and> ?c \<le> r")
    case False
    have "(timer_next ^^ r) (t, i) = (if r = 0 then t else advance_div_counter r t, i)" if "r > 0"
      using 1 that False by (intro timer_next_free_run no_edge_before) auto
    then show ?thesis
      using False by (cases "r = 0") (simp_all add: timer_edges.simps Let_def)
  next
    case True
    define u where "u = increment_tima_fast (advance_div_counter ?c t)"
    obtain r' t' i' where d: "timer_drain (r - ?c) u i = (r', t', i')"
      by (metis prod_cases3)
    note D = timer_drain_next [OF d]
    have "tm_tac t' = tm_tac t"
      using D timer_next_tac [of "r - ?c - r'" "(u, i)"] by (simp add: u_def)
    with 1 True D have "timer_edges r' t' i' = (timer_next ^^ r') (t', i')"
      by (auto simp: u_def d [unfolded u_def])
    also have "(t', i') = (timer_next ^^ (r - ?c - r')) ((timer_next ^^ ?c) (t, i))"
      using D 1 True by (simp add: timer_next_edge u_def)
    also have "(timer_next ^^ r') \<dots> = (timer_next ^^ (r' + (r - ?c - r') + ?c)) (t, i)"
      by (simp only: funpow_add o_apply)
    also have "r' + (r - ?c - r') + ?c = r"
      using D True by linarith
    finally show ?thesis
      using True d by (subst timer_edges.simps) (simp add: Let_def u_def)
  qed
qed

lemma timer_tick_fast_next: "timer_tick_fast n t = (timer_next ^^ n) (t, False)"
proof -
  obtain r t1 i1 where d: "timer_drain n t False = (r, t1, i1)"
    by (metis prod_cases3)
  note D = timer_drain_next [OF d]
  have "timer_tick_fast n t = (timer_next ^^ r) (t1, i1)"
  proof (cases "r = 0")
    case False
    show ?thesis
    proof (cases "bit (tm_tac t1) 2")
      case True
      then show ?thesis
        using D False by (simp add: timer_tick_fast_def d mask_simps timer_edges_next)
    next
      case off: False
      then have "(timer_next ^^ r) (t1, i1) = (if r = 0 then t1 else advance_div_counter r t1, i1)"
        using D False by (intro timer_next_free_run) (auto simp: div_edge_iff)
      then show ?thesis
        using off False by (simp add: timer_tick_fast_def d mask_simps)
    qed
  qed (simp add: timer_tick_fast_def d)
  also have "\<dots> = (timer_next ^^ r) ((timer_next ^^ (n - r)) (t, False))"
    using D by simp
  also have "\<dots> = (timer_next ^^ (r + (n - r))) (t, False)"
    by (simp only: funpow_add o_apply)
  also have "r + (n - r) = n"
    using D by simp
  finally show ?thesis .
qed

text \<open>
  C9. The edge-jumping timer loop that the fast scheduler uses ends, for every starting state
  and every number of cycles, in the same state and with the same interrupt request as the
  loop that advances the divider one cycle at a time.
\<close>

theorem timer_tick_fast_eq_tick:
  "timer_tick_fast n t = (case timer_tick n t of (t', irq, _) \<Rightarrow> (t', irq))"
  by (simp add: timer_tick_fast_next timer_tick_def timer_tick_loop_next)

section \<open>How fast TIMA counts\<close>

text \<open>
  The number of falling edges in the next \<open>n\<close> cycles, and the exact count they produce as
  long as TIMA does not overflow.
\<close>

definition edges_in :: "nat \<Rightarrow> timer \<Rightarrow> nat" where
  "edges_in n t =
     (if bit (tm_tac t) 2
      then (unat (tm_div_counter t) mod 2 ^ (timer_bit (tm_tac t) + 1) + n)
             div 2 ^ (timer_bit (tm_tac t) + 1)
      else 0)"

lemma div_Suc_edge: "(a + Suc n) div P = (a + n) div P + (if (a + n) mod P = P - 1 then 1 else 0)"
  if "0 < (P :: nat)"
  using that div_Suc [of "a + n" P] by (auto simp: mod_Suc)

lemma edges_in_Suc:
  "edges_in (Suc n) t =
     edges_in n t + (if div_edge (tm_tac t) (tm_div_counter t + of_nat n) then 1 else 0)"
  using div_counter_phase [of "timer_bit (tm_tac t)" "tm_div_counter t" n]
    timer_bit_less [of "tm_tac t"]
  by (simp add: edges_in_def div_edge_iff div_Suc_edge del: add_Suc_right)

lemma edges_in_0 [simp]: "edges_in 0 t = 0"
  by (simp add: edges_in_def)

lemma timer_next_counts:
  assumes "tm_delay t = 0" "unat (tm_tima t) + edges_in n t < 256"
  shows "(timer_next ^^ n) (t, i) =
     ((if n = 0 then t else advance_div_counter n t)\<lparr>tm_tima := tm_tima t + of_nat (edges_in n t)\<rparr>, i)"
  using assms
proof (induction n)
  case (Suc n)
  let ?k = "edges_in n t"
  have less: "unat (tm_tima t) + ?k < 256"
    using Suc.prems(2) by (simp add: edges_in_Suc split: if_splits)
  note IH = Suc.IH [OF Suc.prems(1) less]
  have "tm_tima t + of_nat ?k = 0xFF \<longleftrightarrow> unat (tm_tima t) + ?k = 255"
    by (rule u8_add_of_nat_eq_max_iff [OF less])
  then show ?case
    using Suc.prems
    by (cases "n = 0")
      (auto simp: IH timer_next_idle edges_in_Suc advance_div_counter_eq increment_tima_fast_def
        Let_def ac_simps)
qed simp

text \<open>
  C35. With no reload pending, \<open>n\<close> cycles advance the divider by \<open>n\<close> and TIMA by exactly the
  number of whole periods of the selected divider bit that end in them (1024, 16, 64 or 256
  cycles each, none when the timer is off), raising no interrupt, as long as TIMA does not
  overflow.
\<close>

theorem timer_counts:
  assumes "tm_delay t = 0" "unat (tm_tima t) + edges_in n t < 256" "0 < n"
  shows "timer_tick_fast n t =
     (t\<lparr>tm_div_counter := tm_div_counter t + of_nat n,
        tm_div := drop_bit 8 (tm_div_counter t + of_nat n),
        tm_tima := tm_tima t + of_nat (edges_in n t)\<rparr>, False)"
proof -
  show ?thesis
    using assms by (simp add: timer_tick_fast_next timer_next_counts advance_div_counter_eq)
qed

theorem timer_counts_witness:
  "timer_tick_fast 40 (timer_default\<lparr>tm_tac := 5, tm_tima := 7\<rparr>) =
     (timer_default\<lparr>tm_tac := 5, tm_tima := 9, tm_div_counter := 40, tm_div := 0\<rparr>, False)"
proof -
  let ?t = "timer_default\<lparr>tm_tac := 5, tm_tima := 7\<rparr>"
  have e: "edges_in 40 ?t = 2"
    by (simp add: edges_in_def timer_bit_def timer_default_def)
  show ?thesis
    using timer_counts [of ?t 40, unfolded e] by (simp add: timer_default_def)
qed

text \<open>An overflow clears TIMA and reloads it from TMA four cycles later, with the interrupt.\<close>

lemma no_edge_after_edge:
  assumes "j < 8"
  shows "\<not> div_edge tac (tm_div_counter t + of_nat (cycles_until_edge tac t + j))"
proof -
  let ?P = "2 ^ (timer_bit tac + 1) :: nat"
  have P: "16 \<le> ?P"
    by (simp add: timer_bit_def)
  have "r < ?P \<Longrightarrow> (r + (?P - r + j)) mod ?P = j" for r
    using assms P by simp
  then have "(unat (tm_div_counter t) mod ?P + (cycles_until_edge tac t + j)) mod ?P = j"
    unfolding cycles_until_edge_eq by (metis mod_less_divisor zero_less_numeral zero_less_power)
  moreover have "timer_bit tac < 16"
    using timer_bit_less [of tac] by linarith
  ultimately show ?thesis
    using P assms unfolding div_edge_iff by (simp only: div_counter_phase) linarith
qed

lemma timer_next_reload_window:
  assumes "tm_delay t = 0" "bit (tm_tac t) 2" "tm_tima t = 0xFF" "k \<le> 4"
  shows "(timer_next ^^ (cycles_until_edge (tm_tac t) t + k)) (t, i) =
     ((advance_div_counter (cycles_until_edge (tm_tac t) t + k) t)
        \<lparr>tm_tima := (if k = 4 then tm_tma t else 0), tm_delay := 4 - k\<rparr>, i \<or> k = 4)"
  using assms(4)
proof (induction k)
  case 0
  show ?case
    using assms(1-3) by (simp add: timer_next_edge increment_tima_fast_def Let_def
        advance_div_counter_eq)
next
  case (Suc k)
  then have "k < 8" "k < 4" by simp_all
  note edge = no_edge_after_edge [OF this(1), of "tm_tac t" t]
  have "k = 0 \<or> k = 1 \<or> k = 2 \<or> k = 3"
    using \<open>k < 4\<close> by arith
  then show ?case
    using Suc edge
    by (auto simp: timer_next_pending timer_cycle_fast_def Let_def advance_div_counter_eq
        div_edge_def ac_simps split: prod.splits)
qed

text \<open>
  C29. The edge that finds TIMA at \<open>0xFF\<close> leaves it at zero for three more cycles; on the
  fourth cycle TIMA takes the value of TMA and the interrupt is requested, not earlier.
\<close>

theorem timer_overflow_reload:
  assumes "tm_delay t = 0" "bit (tm_tac t) 2" "tm_tima t = 0xFF" "k \<le> 4"
    and "n = cycles_until_edge (tm_tac t) t + k"
  shows "timer_tick_fast n t =
     (t\<lparr>tm_div_counter := tm_div_counter t + of_nat n,
        tm_div := drop_bit 8 (tm_div_counter t + of_nat n),
        tm_tima := (if k = 4 then tm_tma t else 0), tm_delay := 4 - k\<rparr>, k = 4)"
  using assms(1-4)
  by (simp add: timer_tick_fast_next timer_next_reload_window assms(5) advance_div_counter_eq)

theorem timer_overflow_reload_witness:
  "timer_tick_fast 20 (timer_default\<lparr>tm_tac := 5, tm_tima := 0xFF, tm_tma := 0x77\<rparr>) =
     (timer_default\<lparr>tm_tac := 5, tm_tima := 0x77, tm_tma := 0x77, tm_div_counter := 20,
        tm_div := 0\<rparr>, True)"
proof -
  let ?t = "timer_default\<lparr>tm_tac := 5, tm_tima := 0xFF, tm_tma := 0x77\<rparr>"
  have "20 = cycles_until_edge (tm_tac ?t) ?t + 4"
    by (simp add: cycles_until_edge_eq timer_bit_def timer_default_def)
  from timer_overflow_reload [OF _ _ _ _ this] show ?thesis
    by (simp add: timer_default_def)
qed

end
