(* ===== verification/Serial_Port.thy ===== *)
theory Serial_Port
  imports Prelude Events
begin

text \<open>
  The serial port of \<^verbatim>\<open>serial.rs\<close>: SB and SC, the internally clocked transfer that shifts
  in ones at 512 cycles per bit, and the two whole-byte exchanges (an external clock, a linked
  peer). The development shows how long a transfer takes however its time is cut into slices.
\<close>

definition SERIAL_INTERNAL_BIT_CYCLES :: nat where
  "SERIAL_INTERNAL_BIT_CYCLES = 512"

record serial =
  sr_sb :: u8
  sr_sc :: u8
  sr_accum :: nat
  sr_bits :: nat
  sr_active :: bool

definition serial_default :: serial where
  "serial_default = \<lparr>sr_sb = 0, sr_sc = 0, sr_accum = 0, sr_bits = 0, sr_active = False\<rparr>"

definition read_sc :: "serial \<Rightarrow> u8" where
  "read_sc s = sr_sc s OR 0x7E"

definition write_sb :: "u8 \<Rightarrow> serial \<Rightarrow> serial" where
  "write_sb v s = s\<lparr>sr_sb := v\<rparr>"

definition internal_clock :: "serial \<Rightarrow> bool" where
  "internal_clock s \<longleftrightarrow> sr_sc s AND 0x01 \<noteq> 0"

definition write_sc :: "u8 \<Rightarrow> serial \<Rightarrow> serial \<times> serial_event list" where
  "write_sc v s =
     (let s = s\<lparr>sr_sc := v AND 0x83\<rparr> in
      if sr_sc s AND 0x80 \<noteq> 0 then
        let s = s\<lparr>sr_active := True, sr_bits := 8, sr_accum := 0\<rparr>
        in (s, [TransferStart (sr_sb s) (read_sc s) (internal_clock s)])
      else (s\<lparr>sr_active := False, sr_bits := 0, sr_accum := 0\<rparr>, []))"

text \<open>The shift loop of \<open>tick\<close>, and its early-returning twin in \<open>tick_fast\<close>.\<close>

function serial_shift :: "serial \<Rightarrow> bool \<Rightarrow> serial_event list \<Rightarrow> serial \<times> bool \<times> serial_event list"
where
  "serial_shift s irq tr =
     (if sr_accum s \<ge> SERIAL_INTERNAL_BIT_CYCLES \<and> sr_bits s > 0 then
        let s = s\<lparr>sr_accum := sr_accum s - SERIAL_INTERNAL_BIT_CYCLES,
                  sr_sb := push_bit 1 (sr_sb s) OR 1, sr_bits := sr_bits s - 1\<rparr> in
        if sr_bits s = 0 then
          let s = s\<lparr>sr_active := False, sr_sc := sr_sc s AND NOT 0x80\<rparr>
          in serial_shift s True (tr @ [TransferComplete (sr_sb s) (read_sc s) True])
        else serial_shift s irq tr
      else (s, irq, tr))"
  by pat_completeness auto
termination
  by (relation "measure (\<lambda>(s, _). sr_bits s)") auto

declare serial_shift.simps [simp del]

definition serial_tick :: "nat \<Rightarrow> serial \<Rightarrow> serial \<times> bool \<times> serial_event list" where
  "serial_tick cycles s =
     (if \<not> sr_active s \<or> \<not> internal_clock s then (s, False, [])
      else serial_shift (s\<lparr>sr_accum := sat_add u16_max (sr_accum s) (cycles mod 65536)\<rparr>) False [])"

function serial_shift_fast :: "serial \<Rightarrow> serial \<times> bool" where
  "serial_shift_fast s =
     (if sr_accum s \<ge> SERIAL_INTERNAL_BIT_CYCLES \<and> sr_bits s > 0 then
        let s = s\<lparr>sr_accum := sr_accum s - SERIAL_INTERNAL_BIT_CYCLES,
                  sr_sb := push_bit 1 (sr_sb s) OR 1, sr_bits := sr_bits s - 1\<rparr> in
        if sr_bits s = 0
        then (s\<lparr>sr_active := False, sr_sc := sr_sc s AND NOT 0x80\<rparr>, True)
        else serial_shift_fast s
      else (s, False))"
  by pat_completeness auto
termination
  by (relation "measure sr_bits") auto

declare serial_shift_fast.simps [simp del]

definition serial_tick_fast :: "nat \<Rightarrow> serial \<Rightarrow> serial \<times> bool" where
  "serial_tick_fast cycles s =
     (if \<not> sr_active s \<or> \<not> internal_clock s then (s, False)
      else serial_shift_fast
             (s\<lparr>sr_accum := sat_add u16_max (sr_accum s) (cycles mod 65536)\<rparr>))"

text \<open>A completed transfer clears SC.7, the progress and the active latch.\<close>

definition finish_transfer :: "u8 \<Rightarrow> serial \<Rightarrow> serial" where
  "finish_transfer incoming s =
     s\<lparr>sr_sb := incoming, sr_sc := sr_sc s AND NOT 0x80, sr_accum := 0, sr_bits := 0,
       sr_active := False\<rparr>"

definition clock_external_byte ::
  "u8 \<Rightarrow> serial \<Rightarrow> serial \<times> (u8 \<times> serial_event list) option" where
  "clock_external_byte incoming s =
     (if \<not> sr_active s \<or> internal_clock s then (s, None)
      else
        let outgoing = sr_sb s; s = finish_transfer incoming s
        in (s, Some (outgoing, [TransferComplete (sr_sb s) (read_sc s) False])))"

definition exchange_with_peer ::
  "serial \<Rightarrow> serial \<Rightarrow> serial \<times> serial \<times> (serial_event list \<times> serial_event list) option" where
  "exchange_with_peer s peer =
     (if \<not> sr_active s \<or> \<not> sr_active peer then (s, peer, None)
      else if internal_clock s = internal_clock peer then (s, peer, None)
      else
        let self_out = sr_sb s; peer_out = sr_sb peer;
            s = finish_transfer peer_out s; peer = finish_transfer self_out peer
        in (s, peer, Some ([TransferComplete (sr_sb s) (read_sc s) (internal_clock s)],
                           [TransferComplete (sr_sb peer) (read_sc peer) (internal_clock peer)])))"

section \<open>Both shift loops compute the same transfer\<close>

lemma serial_shift_done: "sr_bits s = 0 \<Longrightarrow> serial_shift s irq tr = (s, irq, tr)"
  by (subst serial_shift.simps) simp

lemma serial_shift_fast_eq:
  "serial_shift_fast s = (case serial_shift s False tr of (s', irq, _) \<Rightarrow> (s', irq))"
proof (induction s rule: serial_shift_fast.induct)
  case (1 s)
  then show ?case
    by (subst serial_shift.simps, subst serial_shift_fast.simps)
      (auto simp: Let_def serial_shift_done)
qed

text \<open>
  The trace-free serial tick leaves the same port state and raises the same interrupt as
  the tracing one, for every state and cycle count.
\<close>

theorem serial_tick_fast_eq_tick:
  "serial_tick_fast n s = (case serial_tick n s of (s', irq, _) \<Rightarrow> (s', irq))"
  by (simp add: serial_tick_fast_def serial_tick_def serial_shift_fast_eq [where tr = "[]"])

section \<open>The transfer time\<close>

text \<open>Ones shifted in from the disconnected line.\<close>

fun shift_ones :: "nat \<Rightarrow> u8 \<Rightarrow> u8" where
  "shift_ones 0 v = v"
| "shift_ones (Suc n) v = shift_ones n (push_bit 1 v OR 1)"

lemma shift_ones_add: "shift_ones (m + n) v = shift_ones n (shift_ones m v)"
  by (induction m arbitrary: v) simp_all

lemma bit_shift_one: "bit (push_bit 1 v OR 1 :: u8) j \<longleftrightarrow> j < 8 \<and> (j = 0 \<or> bit v (j - 1))"
  by (simp only: bit_or_iff bit_push_bit_iff bit_1_iff) (auto dest: bit_imp_le_length)

lemma bit_shift_ones: "bit (shift_ones n v) k \<longleftrightarrow> k < 8 \<and> (k < n \<or> bit v (k - n))"
proof (induction n arbitrary: v)
  case (Suc n)
  show ?case
    unfolding shift_ones.simps Suc.IH bit_shift_one
    by (cases "k < n"; cases "k = n") auto
qed (auto dest: bit_imp_le_length)

lemma shift_ones_8: "shift_ones 8 v = 0xFF"
proof -
  have "shift_ones 8 v = mask 8"
    by (rule bit_word_eqI) (simp add: bit_shift_ones bit_mask_iff)
  then show ?thesis
    by (simp add: mask_eq_exp_minus_1)
qed

lemma serial_shift_fast_partial:
  assumes "sr_accum s div 512 < sr_bits s"
  shows "serial_shift_fast s =
     (s\<lparr>sr_accum := sr_accum s mod 512, sr_sb := shift_ones (sr_accum s div 512) (sr_sb s),
        sr_bits := sr_bits s - sr_accum s div 512\<rparr>, False)"
  using assms
proof (induction s rule: serial_shift_fast.induct)
  case (1 s)
  show ?case
  proof (cases "512 \<le> sr_accum s")
    case True
    then have q: "sr_accum s div 512 = Suc ((sr_accum s - 512) div 512)"
      and m: "(sr_accum s - 512) mod 512 = sr_accum s mod 512"
      by (simp_all add: le_div_geq le_mod_geq)
    show ?thesis
      using 1 True q m
      by (subst serial_shift_fast.simps) (auto simp: Let_def SERIAL_INTERNAL_BIT_CYCLES_def less_diff_conv)
  next
    case False
    then show ?thesis
      by (subst serial_shift_fast.simps) (simp add: SERIAL_INTERNAL_BIT_CYCLES_def)
  qed
qed

lemma serial_shift_fast_complete:
  assumes "sr_bits s \<le> sr_accum s div 512" "0 < sr_bits s"
  shows "serial_shift_fast s =
     (s\<lparr>sr_accum := sr_accum s - 512 * sr_bits s, sr_sb := shift_ones (sr_bits s) (sr_sb s),
        sr_bits := 0, sr_active := False, sr_sc := sr_sc s AND NOT 0x80\<rparr>, True)"
  using assms
proof (induction s rule: serial_shift_fast.induct)
  case (1 s)
  obtain b where b: "sr_bits s = Suc b"
    using 1(3) by (cases "sr_bits s") auto
  have ge: "512 \<le> sr_accum s"
    using 1(2) b by linarith
  then have "sr_accum s div 512 = Suc ((sr_accum s - 512) div 512)"
    by (simp add: le_div_geq)
  then show ?case
    using 1 b ge
    by (subst serial_shift_fast.simps)
      (cases "b = 0"; simp add: Let_def SERIAL_INTERNAL_BIT_CYCLES_def)
qed

text \<open>A transfer \<open>T\<close> cycles after it was armed with data byte \<open>v\<close>.\<close>

definition in_transfer :: "nat \<Rightarrow> u8 \<Rightarrow> serial \<Rightarrow> bool" where
  "in_transfer T v s \<longleftrightarrow>
     T < 4096 \<and> sr_active s \<and> internal_clock s \<and> sr_accum s = T mod 512 \<and>
     sr_bits s = 8 - T div 512 \<and> sr_sb s = shift_ones (T div 512) v"

lemma serial_tick_in_transfer:
  assumes "in_transfer T v s" "n \<le> 65024"
  shows "if T + n < 4096
         then snd (serial_tick_fast n s) = False \<and> in_transfer (T + n) v (fst (serial_tick_fast n s))
         else snd (serial_tick_fast n s) = True \<and> \<not> sr_active (fst (serial_tick_fast n s)) \<and>
              sr_sb (fst (serial_tick_fast n s)) = 0xFF \<and>
              sr_sc (fst (serial_tick_fast n s)) = sr_sc s AND NOT 0x80"
proof -
  define a where "a = T mod 512 + n"
  have T: "T < 4096" and s: "sr_active s" "internal_clock s" "sr_accum s = T mod 512"
      "sr_bits s = 8 - T div 512" "sr_sb s = shift_ones (T div 512) v"
    using assms(1) by (simp_all add: in_transfer_def)
  have "T mod 512 < 512" by simp
  then have tick: "serial_tick_fast n s = serial_shift_fast (s\<lparr>sr_accum := a\<rparr>)"
    using s assms(2) by (simp add: serial_tick_fast_def u16_max_def a_def)
  have div: "(T + n) div 512 = T div 512 + a div 512" and mod: "(T + n) mod 512 = a mod 512"
    unfolding a_def
    by (simp_all add: div_add1_eq [of T n] mod_simps div_add1_eq [of "T mod 512" n])
  have less: "T + n < 4096 \<longleftrightarrow> a div 512 < 8 - T div 512"
  proof -
    have "T + n < 4096 \<longleftrightarrow> (T + n) div 512 < 8"
      by (simp add: div_less_iff_less_mult)
    then show ?thesis
      unfolding div by linarith
  qed
  show ?thesis
  proof (cases "T + n < 4096")
    case True
    then show ?thesis
      using less s unfolding tick
      by (simp add: serial_shift_fast_partial in_transfer_def div mod shift_ones_add
          internal_clock_def diff_diff_left)
  next
    case False
    moreover have "T div 512 < 8"
      using T by (simp add: div_less_iff_less_mult)
    moreover from this have "shift_ones (8 - T div 512) (shift_ones (T div 512) v) = 0xFF"
      by (simp only: shift_ones_add [symmetric]) (simp add: shift_ones_8)
    ultimately show ?thesis
      using less s unfolding tick
      by (simp add: serial_shift_fast_complete)
  qed
qed

text \<open>A port driven by a list of time slices, collecting its interrupts.\<close>

fun serial_run :: "nat list \<Rightarrow> serial \<Rightarrow> serial \<times> bool list" where
  "serial_run [] s = (s, [])"
| "serial_run (n # ns) s =
     (let (s, i) = serial_tick_fast n s; (s, is) = serial_run ns s in (s, i # is))"

lemma serial_run_in_transfer:
  assumes "in_transfer T v s" "T + sum_list ns < 4096"
  shows "in_transfer (T + sum_list ns) v (fst (serial_run ns s)) \<and>
         snd (serial_run ns s) = replicate (length ns) False"
  using assms
proof (induction ns arbitrary: T s)
  case (Cons n ns)
  have "in_transfer (T + n) v (fst (serial_tick_fast n s)) \<and> \<not> snd (serial_tick_fast n s)"
    using serial_tick_in_transfer [OF Cons.prems(1), of n] Cons.prems(2) by simp
  then show ?case
    using Cons.IH [of "T + n" "fst (serial_tick_fast n s)"] Cons.prems(2)
    by (simp add: split_beta Let_def add.assoc)
qed simp

lemma in_transfer_write_sc:
  assumes "bit v 7" "bit v 0"
  shows "in_transfer 0 (sr_sb s) (fst (write_sc v s))"
  using assms
  by (simp add: write_sc_def in_transfer_def internal_clock_def mask_simps bit_simps Let_def)

text \<open>
  C30. A transfer started on the internal clock takes eight bit times of 512 cycles, however
  the scheduler slices them: while the slices sum to less than 4096 no interrupt is raised and
  the transfer stays active; the slice that reaches 4096 raises it, with SB full of ones,
  SC.7 clear and the transfer inactive.
\<close>

theorem serial_transfer_time:
  assumes start: "bit v 7" "bit v 0"
    and run: "serial_run ns (fst (write_sc v s)) = (s1, irqs)"
    and before: "sum_list ns < 4096"
    and reach: "4096 \<le> sum_list ns + n" "n \<le> 65024"
  shows "irqs = replicate (length ns) False \<and> sr_active s1 \<and>
         (case serial_tick_fast n s1 of (s2, irq) \<Rightarrow>
            irq \<and> \<not> sr_active s2 \<and> sr_sb s2 = 0xFF \<and> \<not> bit (sr_sc s2) 7)"
proof -
  note R = serial_run_in_transfer [OF in_transfer_write_sc [OF start, of s], of ns]
  have s1: "in_transfer (sum_list ns) (sr_sb s) s1" "irqs = replicate (length ns) False"
    using R run before by simp_all
  show ?thesis
    using serial_tick_in_transfer [OF s1(1) reach(2)] reach(1) s1
    by (auto simp: in_transfer_def split_beta bit_simps)
qed

theorem serial_transfer_time_witness:
  "case serial_tick_fast 96 (fst (serial_run [4000] (fst (write_sc 0x81 serial_default)))) of
     (s2, irq) \<Rightarrow> irq \<and> sr_sb s2 = 0xFF"
  using serial_transfer_time [of "0x81" "[4000]" serial_default
      "fst (serial_run [4000] (fst (write_sc 0x81 serial_default)))"
      "snd (serial_run [4000] (fst (write_sc 0x81 serial_default)))" 96]
  by auto

section \<open>Linked ports\<close>

lemma exchange_symmetric:
  "exchange_with_peer q p =
     (case exchange_with_peer p q of (p', q', e) \<Rightarrow> (q', p', map_option (\<lambda>(a, b). (b, a)) e))"
  by (auto simp: exchange_with_peer_def Let_def)

text \<open>
  A link exchange happens exactly when both ports are armed and one of them drives the
  clock; it swaps the two data bytes and disarms both ports, and otherwise it changes nothing.
\<close>

theorem exchange_with_peer_spec:
  "case exchange_with_peer p q of (p', q', e) \<Rightarrow>
     if sr_active p \<and> sr_active q \<and> internal_clock p \<noteq> internal_clock q
     then e \<noteq> None \<and> sr_sb p' = sr_sb q \<and> sr_sb q' = sr_sb p \<and>
          \<not> sr_active p' \<and> \<not> sr_active q' \<and> exchange_with_peer p' q' = (p', q', None)
     else e = None \<and> p' = p \<and> q' = q"
  by (auto simp: exchange_with_peer_def finish_transfer_def Let_def)

end
