(* ===== verification/Cpu_Core.thy ===== *)
theory Cpu_Core
  imports Prelude
begin

text \<open>
  The CPU registers and flags (\<^verbatim>\<open>cpu/mod.rs\<close>, \<^verbatim>\<open>cpu/regs.rs\<close>) and the arithmetic of
  \<^verbatim>\<open>lib.rs\<close> that touches nothing but them: the eight-bit ALU, the rotations and shifts of the
  CB page, decimal adjust and the sixteen-bit sums. Each operation takes the register file and
  returns it updated, in the order the source writes the flags.
\<close>

section \<open>Flags\<close>

type_synonym flags = u8

definition FLAG_Z :: u8 where "FLAG_Z = 0x80"
definition FLAG_N :: u8 where "FLAG_N = 0x40"
definition FLAG_H :: u8 where "FLAG_H = 0x20"
definition FLAG_C :: u8 where "FLAG_C = 0x10"

lemmas flag_masks = FLAG_Z_def FLAG_N_def FLAG_H_def FLAG_C_def

definition set_flag :: "u8 \<Rightarrow> bool \<Rightarrow> flags \<Rightarrow> flags" where
  "set_flag m v f = (if v then f OR m else f AND NOT m)"

definition flag_z :: "flags \<Rightarrow> bool" where "flag_z f \<longleftrightarrow> f AND FLAG_Z \<noteq> 0"
definition flag_n :: "flags \<Rightarrow> bool" where "flag_n f \<longleftrightarrow> f AND FLAG_N \<noteq> 0"
definition flag_h :: "flags \<Rightarrow> bool" where "flag_h f \<longleftrightarrow> f AND FLAG_H \<noteq> 0"
definition flag_c :: "flags \<Rightarrow> bool" where "flag_c f \<longleftrightarrow> f AND FLAG_C \<noteq> 0"

section \<open>Registers\<close>

record cpu =
  r_a :: u8
  r_f :: flags
  r_b :: u8
  r_c :: u8
  r_d :: u8
  r_e :: u8
  r_h :: u8
  r_l :: u8
  r_sp :: u16
  r_pc :: u16
  cpu_ime :: bool
  cpu_ime_delay :: nat
  cpu_halted :: bool
  cpu_halt_bug :: bool
  cpu_stopped :: bool

definition cpu_default :: cpu where
  "cpu_default =
     \<lparr>r_a = 0, r_f = 0, r_b = 0, r_c = 0, r_d = 0, r_e = 0, r_h = 0, r_l = 0,
      r_sp = 0xFFFE, r_pc = 0x0100, cpu_ime = False, cpu_ime_delay = 0,
      cpu_halted = False, cpu_halt_bug = False, cpu_stopped = False\<rparr>"

definition cpu_hl :: "cpu \<Rightarrow> u16" where
  "cpu_hl c = push_bit 8 (ucast (r_h c)) OR ucast (r_l c)"

definition set_hl :: "u16 \<Rightarrow> cpu \<Rightarrow> cpu" where
  "set_hl v c = c\<lparr>r_h := hi_byte v, r_l := lo_byte v\<rparr>"

definition ld_bc :: "cpu \<Rightarrow> u16" where
  "ld_bc c = push_bit 8 (ucast (r_b c)) OR ucast (r_c c)"

definition set_bc :: "u16 \<Rightarrow> cpu \<Rightarrow> cpu" where
  "set_bc v c = c\<lparr>r_b := hi_byte v, r_c := lo_byte v\<rparr>"

definition ld_de :: "cpu \<Rightarrow> u16" where
  "ld_de c = push_bit 8 (ucast (r_d c)) OR ucast (r_e c)"

definition set_de :: "u16 \<Rightarrow> cpu \<Rightarrow> cpu" where
  "set_de v c = c\<lparr>r_d := hi_byte v, r_e := lo_byte v\<rparr>"

definition put_z :: "bool \<Rightarrow> cpu \<Rightarrow> cpu" where "put_z v c = c\<lparr>r_f := set_flag FLAG_Z v (r_f c)\<rparr>"
definition put_n :: "bool \<Rightarrow> cpu \<Rightarrow> cpu" where "put_n v c = c\<lparr>r_f := set_flag FLAG_N v (r_f c)\<rparr>"
definition put_h :: "bool \<Rightarrow> cpu \<Rightarrow> cpu" where "put_h v c = c\<lparr>r_f := set_flag FLAG_H v (r_f c)\<rparr>"
definition put_c :: "bool \<Rightarrow> cpu \<Rightarrow> cpu" where "put_c v c = c\<lparr>r_f := set_flag FLAG_C v (r_f c)\<rparr>"

text \<open>The four flag writes in the order every operation makes them.\<close>

definition put_znhc :: "bool \<Rightarrow> bool \<Rightarrow> bool \<Rightarrow> bool \<Rightarrow> cpu \<Rightarrow> cpu" where
  "put_znhc z n h c = put_c c \<circ> put_h h \<circ> put_n n \<circ> put_z z"

abbreviation cpu_carry :: "cpu \<Rightarrow> bool" where
  "cpu_carry c \<equiv> flag_c (r_f c)"

section \<open>Eight-bit arithmetic\<close>

definition jr :: "u8 \<Rightarrow> cpu \<Rightarrow> cpu" where
  "jr offset c = c\<lparr>r_pc := r_pc c + scast offset\<rparr>"

definition inc8 :: "u8 \<Rightarrow> cpu \<Rightarrow> u8 \<times> cpu" where
  "inc8 v c =
     (let result = v + 1
      in (result, put_h ((v AND 0x0F) + 1 > 0x0F) (put_n False (put_z (result = 0) c))))"

definition dec8 :: "u8 \<Rightarrow> cpu \<Rightarrow> u8 \<times> cpu" where
  "dec8 v c =
     (let result = v - 1
      in (result, put_h (v AND 0x0F = 0) (put_n True (put_z (result = 0) c))))"

definition and_a :: "u8 \<Rightarrow> cpu \<Rightarrow> cpu" where
  "and_a v c =
     (let c = c\<lparr>r_a := r_a c AND v\<rparr> in put_znhc (r_a c = 0) False True False c)"

definition or_a :: "u8 \<Rightarrow> cpu \<Rightarrow> cpu" where
  "or_a v c =
     (let c = c\<lparr>r_a := r_a c OR v\<rparr> in put_znhc (r_a c = 0) False False False c)"

definition xor_a :: "u8 \<Rightarrow> cpu \<Rightarrow> cpu" where
  "xor_a v c =
     (let c = c\<lparr>r_a := r_a c XOR v\<rparr> in put_znhc (r_a c = 0) False False False c)"

definition cp_a :: "u8 \<Rightarrow> cpu \<Rightarrow> cpu" where
  "cp_a v c =
     (let a = r_a c; result = a - v
      in put_znhc (result = 0) True (a AND 0x0F < v AND 0x0F) (a < v) c)"

definition add_a :: "u8 \<Rightarrow> cpu \<Rightarrow> cpu" where
  "add_a v c =
     (let a = r_a c; result = a + v; c = c\<lparr>r_a := result\<rparr>
      in put_znhc (result = 0) False ((a AND 0x0F) + (v AND 0x0F) > 0x0F)
           ((ucast a :: u16) + ucast v > 0xFF) c)"

definition sub_a :: "u8 \<Rightarrow> cpu \<Rightarrow> cpu" where
  "sub_a v c =
     (let a = r_a c; result = a - v; c = c\<lparr>r_a := result\<rparr>
      in put_znhc (result = 0) True (a AND 0x0F < v AND 0x0F) (a < v) c)"

definition adc_a :: "u8 \<Rightarrow> cpu \<Rightarrow> cpu" where
  "adc_a v c =
     (let a = r_a c; carry = (if cpu_carry c then 1 else 0 :: u8);
          result16 = (ucast a :: u16) + ucast v + ucast carry; result = ucast result16;
          c = c\<lparr>r_a := result\<rparr>
      in put_znhc (result = 0) False ((a AND 0x0F) + (v AND 0x0F) + carry > 0x0F)
           (result16 > 0xFF) c)"

definition sbc_a :: "u8 \<Rightarrow> cpu \<Rightarrow> cpu" where
  "sbc_a v c =
     (let a = r_a c; carry = (if cpu_carry c then 1 else 0 :: u8);
          result = a - v - carry; c = c\<lparr>r_a := result\<rparr>
      in put_znhc (result = 0) True (a AND 0x0F < (v AND 0x0F) + carry)
           ((ucast a :: u16) < ucast v + ucast carry) c)"

definition rlca :: "cpu \<Rightarrow> cpu" where
  "rlca c =
     (let carry = (r_a c AND 0x80 \<noteq> 0); c = c\<lparr>r_a := word_rotl 1 (r_a c)\<rparr>
      in put_znhc False False False carry c)"

definition rla :: "cpu \<Rightarrow> cpu" where
  "rla c =
     (let carry_in = (if cpu_carry c then 1 else 0); carry = (r_a c AND 0x80 \<noteq> 0);
          c = c\<lparr>r_a := push_bit 1 (r_a c) OR carry_in\<rparr>
      in put_znhc False False False carry c)"

definition rrca :: "cpu \<Rightarrow> cpu" where
  "rrca c =
     (let carry = (r_a c AND 0x01 \<noteq> 0); c = c\<lparr>r_a := word_rotr 1 (r_a c)\<rparr>
      in put_znhc False False False carry c)"

definition daa :: "cpu \<Rightarrow> cpu" where
  "daa c =
     (let a = r_a c; carry = cpu_carry c;
          (a, carry) =
            (if \<not> flag_n (r_f c) then
               let adjust = (if flag_h (r_f c) \<or> a AND 0x0F > 0x09 then 0x06 else 0);
                   (adjust, carry) =
                     (if carry \<or> a > 0x99 then (adjust OR 0x60, True) else (adjust, carry))
               in (a + adjust, carry)
             else
               let adjust = (if flag_h (r_f c) then 0x06 else 0);
                   adjust = (if carry then adjust OR 0x60 else adjust)
               in (a - adjust, carry));
          c = c\<lparr>r_a := a\<rparr>
      in put_c carry (put_h False (put_z (a = 0) c)))"

section \<open>Sixteen-bit arithmetic\<close>

definition add_signed_to_sp_like_flags :: "u16 \<Rightarrow> u8 \<Rightarrow> cpu \<Rightarrow> u16 \<times> cpu" where
  "add_signed_to_sp_like_flags base offset c =
     (let result = base + scast offset
      in (result,
          put_znhc False False ((base AND 0x000F) + (scast offset AND 0x000F) > 0x000F)
            ((base AND 0x00FF) + (scast offset AND 0x00FF) > 0x00FF) c))"

definition add_hl :: "u16 \<Rightarrow> cpu \<Rightarrow> cpu" where
  "add_hl v c =
     (let hl = cpu_hl c; result = hl + v
      in set_hl result
           (put_c ((ucast hl :: u32) + ucast v > 0xFFFF)
             (put_h ((hl AND 0x0FFF) + (v AND 0x0FFF) > 0x0FFF) (put_n False c))))"

definition inc16 :: "u16 \<Rightarrow> u16" where "inc16 v = v + 1"
definition dec16 :: "u16 \<Rightarrow> u16" where "dec16 v = v - 1"

section \<open>Rotations and shifts of the CB page\<close>

definition cb_rlc :: "u8 \<Rightarrow> cpu \<Rightarrow> u8 \<times> cpu" where
  "cb_rlc v c =
     (let carry = (v AND 0x80 \<noteq> 0); result = push_bit 1 v OR (if carry then 1 else 0)
      in (result, put_znhc (result = 0) False False carry c))"

definition cb_rrc :: "u8 \<Rightarrow> cpu \<Rightarrow> u8 \<times> cpu" where
  "cb_rrc v c =
     (let carry = (v AND 0x01 \<noteq> 0); result = drop_bit 1 v OR (if carry then 0x80 else 0)
      in (result, put_znhc (result = 0) False False carry c))"

definition cb_rl :: "u8 \<Rightarrow> cpu \<Rightarrow> u8 \<times> cpu" where
  "cb_rl v c =
     (let carry_in = (if cpu_carry c then 1 else 0); carry = (v AND 0x80 \<noteq> 0);
          result = push_bit 1 v OR carry_in
      in (result, put_znhc (result = 0) False False carry c))"

definition cb_rr :: "u8 \<Rightarrow> cpu \<Rightarrow> u8 \<times> cpu" where
  "cb_rr v c =
     (let carry_in = (if cpu_carry c then 0x80 else 0); carry = (v AND 0x01 \<noteq> 0);
          result = drop_bit 1 v OR carry_in
      in (result, put_znhc (result = 0) False False carry c))"

definition cb_sla :: "u8 \<Rightarrow> cpu \<Rightarrow> u8 \<times> cpu" where
  "cb_sla v c =
     (let carry = (v AND 0x80 \<noteq> 0); result = push_bit 1 v
      in (result, put_znhc (result = 0) False False carry c))"

definition cb_sra :: "u8 \<Rightarrow> cpu \<Rightarrow> u8 \<times> cpu" where
  "cb_sra v c =
     (let carry = (v AND 0x01 \<noteq> 0); result = drop_bit 1 v OR (v AND 0x80)
      in (result, put_znhc (result = 0) False False carry c))"

definition cb_swap :: "u8 \<Rightarrow> cpu \<Rightarrow> u8 \<times> cpu" where
  "cb_swap v c =
     (let result = word_rotl 4 v
      in (result, put_znhc (result = 0) False False False c))"

definition cb_srl :: "u8 \<Rightarrow> cpu \<Rightarrow> u8 \<times> cpu" where
  "cb_srl v c =
     (let carry = (v AND 0x01 \<noteq> 0); result = drop_bit 1 v
      in (result, put_znhc (result = 0) False False carry c))"

end
