(* ===== verification/Cpu_Arith.thy ===== *)
theory Cpu_Arith
  imports Cpu_Core
begin

text \<open>
  What the arithmetic of \<^verbatim>\<open>lib.rs\<close> computes: the eight- and sixteen-bit operations against
  the integers, decimal adjust against decimal addition and subtraction, the CB rotations
  against each other, and the flag nibble that is always zero.
\<close>

section \<open>Reading flags back\<close>

named_theorems flag_simps \<open>flags after a flag write\<close>

lemma flag_bits [flag_simps]:
  "flag_z f = bit f 7" "flag_n f = bit f 6" "flag_h f = bit f 5" "flag_c f = bit f 4"
  by (simp_all add: flag_z_def flag_n_def flag_h_def flag_c_def flag_masks mask_simps)

lemma bit_set_flag [flag_simps]:
  "bit (set_flag FLAG_Z v f) 7 = v" "bit (set_flag FLAG_Z v f) 6 = bit f 6"
  "bit (set_flag FLAG_Z v f) 5 = bit f 5" "bit (set_flag FLAG_Z v f) 4 = bit f 4"
  "bit (set_flag FLAG_N v f) 7 = bit f 7" "bit (set_flag FLAG_N v f) 6 = v"
  "bit (set_flag FLAG_N v f) 5 = bit f 5" "bit (set_flag FLAG_N v f) 4 = bit f 4"
  "bit (set_flag FLAG_H v f) 7 = bit f 7" "bit (set_flag FLAG_H v f) 6 = bit f 6"
  "bit (set_flag FLAG_H v f) 5 = v" "bit (set_flag FLAG_H v f) 4 = bit f 4"
  "bit (set_flag FLAG_C v f) 7 = bit f 7" "bit (set_flag FLAG_C v f) 6 = bit f 6"
  "bit (set_flag FLAG_C v f) 5 = bit f 5" "bit (set_flag FLAG_C v f) 4 = v"
  by (auto simp: set_flag_def flag_masks bit_simps)

lemma put_f [flag_simps]:
  "r_f (put_z v c) = set_flag FLAG_Z v (r_f c)" "r_f (put_n v c) = set_flag FLAG_N v (r_f c)"
  "r_f (put_h v c) = set_flag FLAG_H v (r_f c)" "r_f (put_c v c) = set_flag FLAG_C v (r_f c)"
  by (simp_all add: put_z_def put_n_def put_h_def put_c_def)

lemma put_r [flag_simps]:
  "r_a (put_z v c) = r_a c" "r_a (put_n v c) = r_a c" "r_a (put_h v c) = r_a c"
  "r_a (put_c v c) = r_a c"
  by (simp_all add: put_z_def put_n_def put_h_def put_c_def)

lemma put_znhc_f [flag_simps]:
  "r_f (put_znhc z n h cy c) =
     set_flag FLAG_C cy (set_flag FLAG_H h (set_flag FLAG_N n (set_flag FLAG_Z z (r_f c))))"
  "r_a (put_znhc z n h cy c) = r_a c"
  by (simp_all add: put_znhc_def flag_simps)

text \<open>Register files that differ in A and F only.\<close>

definition only_af :: "cpu \<Rightarrow> cpu \<Rightarrow> bool" where
  "only_af c d \<longleftrightarrow> d = c\<lparr>r_a := r_a d, r_f := r_f d\<rparr>"

lemma only_af_put [flag_simps]:
  "only_af c (put_z v d) = only_af c d" "only_af c (put_n v d) = only_af c d"
  "only_af c (put_h v d) = only_af c d" "only_af c (put_c v d) = only_af c d"
  "only_af c (put_znhc z n h cy d) = only_af c d"
  by (cases c; cases d; simp add: only_af_def put_z_def put_n_def put_h_def put_c_def put_znhc_def)+

lemma only_af_set [flag_simps]:
  "only_af c c" "only_af c (d\<lparr>r_a := v\<rparr>) = only_af c d" "only_af c (d\<lparr>r_f := f\<rparr>) = only_af c d"
  by (cases c; cases d; simp add: only_af_def)+

section \<open>The unused flag bits\<close>

definition flags_clean :: "flags \<Rightarrow> bool" where
  "flags_clean f \<longleftrightarrow> f AND 0x0F = 0"

lemma flags_clean_bits: "flags_clean f \<longleftrightarrow> \<not> bit f 0 \<and> \<not> bit f 1 \<and> \<not> bit f 2 \<and> \<not> bit f 3"
  unfolding flags_clean_def u8_eq_iff_bits by (simp add: bit_simps)

lemma flags_clean_set [flag_simps]:
  "flags_clean (set_flag FLAG_Z v f) = flags_clean f"
  "flags_clean (set_flag FLAG_N v f) = flags_clean f"
  "flags_clean (set_flag FLAG_H v f) = flags_clean f"
  "flags_clean (set_flag FLAG_C v f) = flags_clean f"
  by (auto simp: flags_clean_bits set_flag_def flag_masks bit_simps)

section \<open>Words as numbers\<close>

lemma unat_low_nibble: "unat ((v :: u8) AND 0x0F) = unat v mod 16"
proof -
  have "v AND 0x0F = take_bit 4 v"
    by (simp add: take_bit_eq_mask mask_eq_exp_minus_1)
  then have "unat (v AND 0x0F) = unat (take_bit 4 v)"
    by (rule arg_cong)
  also have "\<dots> = take_bit 4 (unat v)"
    by (simp only: unsigned_take_bit_eq)
  finally show ?thesis
    by (simp add: take_bit_eq_mod)
qed

lemma unat_low_16:
  "unat ((w :: u16) AND 0x000F) = unat w mod 16"
  "unat (w AND 0x00FF) = unat w mod 256"
  "unat (w AND 0x0FFF) = unat w mod 4096"
proof -
  have *: "unat (w AND mask n) = unat w mod 2 ^ n" for n
    by (simp only: take_bit_eq_mask [symmetric] unsigned_take_bit_eq) (simp add: take_bit_eq_mod)
  show "unat (w AND 0x000F) = unat w mod 16" "unat (w AND 0x00FF) = unat w mod 256"
      "unat (w AND 0x0FFF) = unat w mod 4096"
    using * [of 4] * [of 8] * [of 12] by (simp_all add: mask_eq_exp_minus_1)
qed

lemma unat_ucast_u16_u32: "unat (ucast (w :: u16) :: u32) = unat w"
proof -
  have "unat w < 2 ^ 32"
    by (rule order_less_trans [OF unat_u16_less]) simp
  then show ?thesis
    by (simp add: unsigned_ucast_eq take_bit_nat_eq_self)
qed

lemma unat_ucast_u16_u8: "unat (ucast (w :: u16) :: u8) = unat w mod 256"
  by (simp add: unsigned_ucast_eq take_bit_eq_mod)

lemma unat_u8_sub: "unat (a - b :: u8) = (if unat b \<le> unat a then unat a - unat b else unat a + 256 - unat b)"
  using unat_u8_less [of a] unat_u8_less [of b]
  by (simp add: unat_sub_if')

lemma unat_nibble_sum3:
  "unat (k :: u8) \<le> 16 \<Longrightarrow>
     unat ((a AND 0x0F) + (v AND 0x0F) + k :: u8) = unat a mod 16 + unat v mod 16 + unat k"
proof -
  assume "unat k \<le> 16"
  moreover have "unat a mod 16 < 16" "unat v mod 16 < 16"
    by simp_all
  ultimately show ?thesis
    by (simp add: unat_word_ariths unat_low_nibble)
qed

lemma unat_nibble_sum [simp]:
  "unat ((a AND 0x0F) + (v AND 0x0F) :: u8) = unat a mod 16 + unat v mod 16"
  "unat ((a AND 0x0F) + (v AND 0x0F) + 1 :: u8) = unat a mod 16 + unat v mod 16 + 1"
  "unat ((v AND 0x0F) + 1 :: u8) = unat v mod 16 + 1"
  using unat_nibble_sum3 [of 0 a v] unat_nibble_sum3 [of 1 a v] unat_nibble_sum3 [of 1 0 v]
  by simp_all

lemma unat_wide_sum [simp]:
  "unat (ucast (a :: u8) + ucast (v :: u8) :: u16) = unat a + unat v"
  "unat (ucast a + ucast v + ucast (k :: u8) :: u16) = unat a + unat v + unat k"
proof -
  have "unat a + unat v + unat k < 65536"
    using unat_u8_less [of a] unat_u8_less [of v] unat_u8_less [of k] by linarith
  then show "unat (ucast a + ucast v :: u16) = unat a + unat v"
    "unat (ucast a + ucast v + ucast (k :: u8) :: u16) = unat a + unat v + unat k"
    by (simp_all add: unat_word_ariths)
qed

lemma u8_zero_iff: "(v :: u8) = 0 \<longleftrightarrow> unat v = 0"
  by (simp add: unat_eq_0)

lemmas word_nat = word_less_nat_alt unat_low_nibble unat_low_16 unat_ucast_u16_u32
  unat_ucast_u16_u8 unat_word_ariths

section \<open>Addition and subtraction\<close>

text \<open>
  What an addition with carry-in \<open>k\<close> and a subtraction with borrow \<open>k\<close> should leave behind,
  stated on numbers.
\<close>

definition adds :: "nat \<Rightarrow> nat \<Rightarrow> nat \<Rightarrow> cpu \<Rightarrow> cpu \<Rightarrow> bool" where
  "adds a v k c d \<longleftrightarrow>
     unat (r_a d) = (a + v + k) mod 256 \<and> flag_z (r_f d) = ((a + v + k) mod 256 = 0) \<and>
     \<not> flag_n (r_f d) \<and> flag_h (r_f d) = (16 \<le> a mod 16 + v mod 16 + k) \<and>
     flag_c (r_f d) = (256 \<le> a + v + k) \<and> only_af c d"

definition subs :: "nat \<Rightarrow> nat \<Rightarrow> nat \<Rightarrow> cpu \<Rightarrow> cpu \<Rightarrow> bool" where
  "subs a v k c d \<longleftrightarrow>
     int (unat (r_a d)) = (int a - int v - int k) mod 256 \<and>
     flag_z (r_f d) = ((int a - int v - int k) mod 256 = 0) \<and>
     flag_n (r_f d) \<and> flag_h (r_f d) = (a mod 16 < v mod 16 + k) \<and>
     flag_c (r_f d) = (a < v + k) \<and> only_af c d"

definition carry_in :: "cpu \<Rightarrow> nat" where
  "carry_in c = of_bool (cpu_carry c)"

lemma add_a_adds: "adds (unat (r_a c)) (unat v) 0 c (add_a v c)"
proof -
  have "unat (r_a c + v) = (unat (r_a c) + unat v) mod 256"
    by (simp add: unat_word_ariths)
  then show ?thesis
    by (simp add: adds_def add_a_def Let_def flag_simps word_less_nat_alt u8_zero_iff
        less_eq_Suc_le)
qed

lemma adc_a_adds: "adds (unat (r_a c)) (unat v) (carry_in c) c (adc_a v c)"
  by (simp add: adds_def adc_a_def Let_def flag_simps word_less_nat_alt u8_zero_iff
      unat_ucast_u16_u8 less_eq_Suc_le carry_in_def)

lemma int_unat_sub: "int (unat (a - b :: u8)) = (int (unat a) - int (unat b)) mod 256"
  by (simp add: uint_word_ariths)

lemma sub_zero_iff: "(a :: u8) - b = 0 \<longleftrightarrow> (int (unat a) - int (unat b)) mod 256 = 0"
  by (metis int_unat_sub of_nat_eq_0_iff u8_zero_iff)

lemma sub_a_subs: "subs (unat (r_a c)) (unat v) 0 c (sub_a v c)"
  by (simp only: subs_def sub_a_def Let_def flag_simps sub_zero_iff int_unat_sub)
    (simp add: flag_simps word_less_nat_alt unat_low_nibble uint_word_ariths)

lemma sbc_a_subs: "subs (unat (r_a c)) (unat v) (carry_in c) c (sbc_a v c)"
proof -
  have "int (unat (r_a c - v - k)) = (int (unat (r_a c)) - int (unat v) - int (unat k)) mod 256" for k
    by (simp only: int_unat_sub mod_simps)
  then have r: "int (unat (r_a c - v - k)) = (int (unat (r_a c)) - int (unat v) - int (unat k)) mod 256"
      "r_a c - v - k = 0 \<longleftrightarrow> (int (unat (r_a c)) - int (unat v) - int (unat k)) mod 256 = 0" for k
    by (simp_all only: u8_zero_iff of_nat_eq_0_iff [symmetric, where 'a = int])
  show ?thesis
    by (simp only: subs_def sbc_a_def Let_def flag_simps r)
      (simp add: flag_simps word_less_nat_alt unat_low_nibble carry_in_def uint_word_ariths mod_simps)
qed

text \<open>A comparison is a subtraction that keeps A.\<close>

lemma cp_a_sub_a: "cp_a v c = (sub_a v c)\<lparr>r_a := r_a c\<rparr>"
  by (simp add: cp_a_def sub_a_def Let_def put_znhc_def put_z_def put_n_def put_h_def put_c_def)

text \<open>
  C32. The eight-bit adds and subtractions compute the sum and the difference of their operands
  and the incoming carry modulo 256; Z, N, H and C say whether the result is zero, which of
  the two was done, and whether a carry or borrow left bit 3 and bit 7. A comparison sets the
  flags of the subtraction and keeps A.
\<close>

theorem alu_arith_spec:
  "adds (unat (r_a c)) (unat v) 0 c (add_a v c) \<and>
   adds (unat (r_a c)) (unat v) (carry_in c) c (adc_a v c) \<and>
   subs (unat (r_a c)) (unat v) 0 c (sub_a v c) \<and>
   subs (unat (r_a c)) (unat v) (carry_in c) c (sbc_a v c) \<and>
   cp_a v c = (sub_a v c)\<lparr>r_a := r_a c\<rparr>"
  by (intro conjI add_a_adds adc_a_adds sub_a_subs sbc_a_subs cp_a_sub_a)

section \<open>Decimal adjust\<close>

text \<open>Packed decimal: two digits in one byte.\<close>

definition bcd :: "nat \<Rightarrow> u8" where
  "bcd n = of_nat (16 * (n div 10) + n mod 10)"

lemma unat_bcd: "n < 100 \<Longrightarrow> unat (bcd n) = 16 * (n div 10) + n mod 10"
proof -
  assume "n < 100"
  then have "16 * (n div 10) + n mod 10 < 256" by linarith
  then show ?thesis
    unfolding bcd_def unat_of_nat by simp
qed

text \<open>Decimal adjust on numbers, in the two modes the N flag selects.\<close>

definition daa_up :: "int \<Rightarrow> bool \<Rightarrow> bool \<Rightarrow> int \<times> bool" where
  "daa_up a h cy =
     ((a + (if h \<or> 9 < a mod 16 then 6 else 0) + (if cy \<or> 0x99 < a then 0x60 else 0)) mod 256,
      cy \<or> 0x99 < a)"

definition daa_down :: "int \<Rightarrow> bool \<Rightarrow> bool \<Rightarrow> int" where
  "daa_down a h cy = (a - (if h then 6 else 0) - (if cy then 0x60 else 0)) mod 256"

lemma u8_above_nibble: "9 < (v :: u8) AND 0x0F \<longleftrightarrow> 9 < uint v mod 16"
proof -
  have "v AND 0x0F = take_bit 4 v"
    by (simp add: take_bit_eq_mask mask_eq_exp_minus_1)
  then have "uint (v AND 0x0F) = take_bit 4 (uint v)"
    by (simp only: unsigned_take_bit_eq)
  then show ?thesis
    by (simp add: word_less_def take_bit_eq_mod)
qed

lemma uint_add_u8: "uint (a + b :: u8) = (uint a + uint b) mod 256"
  by (simp add: uint_word_ariths)

lemma u8_above_99: "0x99 < (v :: u8) \<longleftrightarrow> 0x99 < uint v"
  by (simp add: word_less_def)

lemma daa_up_eq:
  assumes "\<not> flag_n (r_f c)"
  shows "int (unat (r_a (daa c))) = fst (daa_up (int (unat (r_a c))) (flag_h (r_f c)) (cpu_carry c))"
    "flag_c (r_f (daa c)) = snd (daa_up (int (unat (r_a c))) (flag_h (r_f c)) (cpu_carry c))"
    "flag_z (r_f (daa c)) = (r_a (daa c) = 0)"
  using assms
  by (auto simp: daa_def daa_up_def Let_def flag_simps u8_above_nibble u8_above_99 uint_add_u8)
    (simp_all add: add.commute)

lemma daa_down_eq:
  assumes "flag_n (r_f c)"
  shows "int (unat (r_a (daa c))) =
      daa_down (int (unat (r_a c))) (flag_h (r_f c)) (cpu_carry c)"
    "flag_c (r_f (daa c)) = cpu_carry c"
    "flag_z (r_f (daa c)) = (r_a (daa c) = 0)"
  using assms
  by (auto simp: daa_def daa_down_def Let_def flag_simps uint_word_ariths mod_simps)

text \<open>Every digit sum and difference, checked.\<close>

lemma daa_up_digits:
  assumes "0 \<le> q" "q \<le> 18" "0 \<le> p" "p \<le> 19"
  shows "daa_up ((16 * q + p) mod 256) (16 \<le> p) (256 \<le> 16 * q + p) =
     (16 * ((10 * q + p) mod 100 div 10) + (10 * q + p) mod 10, 100 \<le> 10 * q + p)"
proof -
  have "\<forall>q\<in>set [0..18]. \<forall>p\<in>set [0..19].
     daa_up ((16 * q + p) mod 256) (16 \<le> p) (256 \<le> 16 * q + p) =
     (16 * ((10 * q + p) mod 100 div 10) + (10 * q + p) mod 10, 100 \<le> 10 * q + p)"
    by code_simp
  then show ?thesis
    unfolding set_upto using assms by (meson atLeastAtMost_iff)
qed

lemma daa_down_digits:
  assumes "-9 \<le> q" "q \<le> 9" "-10 \<le> p" "p \<le> 9"
  shows "daa_down ((16 * q + p) mod 256) (p < 0) (16 * q + p < 0) =
     16 * ((10 * q + p) mod 100 div 10) + (10 * q + p) mod 10"
proof -
  have "\<forall>q\<in>set [-9..9]. \<forall>p\<in>set [-10..9].
     daa_down ((16 * q + p) mod 256) (p < 0) (16 * q + p < 0) =
     16 * ((10 * q + p) mod 100 div 10) + (10 * q + p) mod 10"
    by code_simp
  then show ?thesis
    unfolding set_upto using assms by (meson atLeastAtMost_iff)
qed

lemma u8_eq_bcdI: "n < 100 \<Longrightarrow> int (unat w) = int (16 * (n div 10) + n mod 10) \<Longrightarrow> w = bcd n"
  by (metis unat_bcd of_nat_eq_iff word_unat_eq_iff)

lemma bcd_digits:
  assumes "n < 100"
  obtains hi lo where "n = 10 * hi + lo" "hi \<le> 9" "lo \<le> 9" "unat (bcd n) = 16 * hi + lo"
proof
  show "n = 10 * (n div 10) + n mod 10" by simp
  show "n div 10 \<le> 9" "n mod 10 \<le> 9"
    using assms by (auto simp: less_Suc_eq_le [symmetric] div_less_iff_less_mult)
  show "unat (bcd n) = 16 * (n div 10) + n mod 10"
    using assms by (rule unat_bcd)
qed

lemma daa_adds:
  assumes "adds (unat (bcd x)) (unat (bcd y)) k c d" "x < 100" "y < 100" "k \<le> 1"
  shows "r_a (daa d) = bcd ((x + y + k) mod 100) \<and> flag_c (r_f (daa d)) = (100 \<le> x + y + k)"
proof -
  obtain x1 x0 where x: "x = 10 * x1 + x0" "x1 \<le> 9" "x0 \<le> 9" "unat (bcd x) = 16 * x1 + x0"
    using bcd_digits [OF assms(2)] .
  obtain y1 y0 where y: "y = 10 * y1 + y0" "y1 \<le> 9" "y0 \<le> 9" "unat (bcd y) = 16 * y1 + y0"
    using bcd_digits [OF assms(3)] .
  define q p where "q = int (x1 + y1)" and "p = int (x0 + y0 + k)"
  have q: "0 \<le> q" "q \<le> 18" and p: "0 \<le> p" "p \<le> 19"
    using assms(4) x y unfolding q_def p_def by linarith+
  have total: "int (unat (bcd x) + unat (bcd y) + k) = 16 * q + p"
    unfolding x(4) y(4) q_def p_def by simp
  have dec: "int (x + y + k) = 10 * q + p"
    unfolding x(1) y(1) q_def p_def by simp
  have half: "unat (bcd x) mod 16 + unat (bcd y) mod 16 + k = x0 + y0 + k"
    using x(3) y(3) unfolding x(4) y(4) by simp
  have half_le: "16 \<le> x0 + y0 + k \<longleftrightarrow> 16 \<le> p"
    unfolding p_def by linarith
  have total_le: "256 \<le> unat (bcd x) + unat (bcd y) + k \<longleftrightarrow> 256 \<le> 16 * q + p"
    unfolding total [symmetric] by linarith
  have "int (unat (r_a d)) = int (unat (bcd x) + unat (bcd y) + k) mod 256"
    using assms(1) by (simp add: adds_def zmod_int del: of_nat_unat)
  then have d: "int (unat (r_a d)) = (16 * q + p) mod 256" "flag_h (r_f d) = (16 \<le> p)"
    "cpu_carry d = (256 \<le> 16 * q + p)" "\<not> flag_n (r_f d)"
    using assms(1) unfolding adds_def half total_le total half_le by simp_all
  have "int (unat (r_a (daa d))) =
      16 * (int (x + y + k) mod 100 div 10) + int (x + y + k) mod 10"
    using daa_up_eq(1) [OF d(4)] daa_up_digits [OF q p] unfolding d dec by simp
  also have "\<dots> = int (16 * ((x + y + k) mod 100 div 10) + (x + y + k) mod 100 mod 10)"
    by (simp add: zmod_int zdiv_int mod_mod_cancel)
  finally have "r_a (daa d) = bcd ((x + y + k) mod 100)"
    by (intro u8_eq_bcdI) simp_all
  moreover have "flag_c (r_f (daa d)) = (100 \<le> int (x + y + k))"
    using daa_up_eq(2) [OF d(4)] daa_up_digits [OF q p] unfolding d dec by simp
  moreover have "100 \<le> int (x + y + k) \<longleftrightarrow> 100 \<le> x + y + k"
    by linarith
  ultimately show ?thesis by blast
qed

lemma daa_subs:
  assumes "subs (unat (bcd x)) (unat (bcd y)) k c d" "x < 100" "y < 100" "k \<le> 1"
  shows "r_a (daa d) = bcd (nat ((int x - int y - int k) mod 100)) \<and>
    flag_c (r_f (daa d)) = (x < y + k)"
proof -
  obtain x1 x0 where x: "x = 10 * x1 + x0" "x1 \<le> 9" "x0 \<le> 9" "unat (bcd x) = 16 * x1 + x0"
    using bcd_digits [OF assms(2)] .
  obtain y1 y0 where y: "y = 10 * y1 + y0" "y1 \<le> 9" "y0 \<le> 9" "unat (bcd y) = 16 * y1 + y0"
    using bcd_digits [OF assms(3)] .
  define q p where "q = int x1 - int y1" and "p = int x0 - int y0 - int k"
  have q: "-9 \<le> q" "q \<le> 9" and p: "-10 \<le> p" "p \<le> 9"
    using assms(4) x y unfolding q_def p_def by linarith+
  have total: "int (unat (bcd x)) - int (unat (bcd y)) - int k = 16 * q + p"
    unfolding x(4) y(4) q_def p_def by simp
  have dec: "int x - int y - int k = 10 * q + p"
    unfolding x(1) y(1) q_def p_def by simp
  have half: "unat (bcd x) mod 16 < unat (bcd y) mod 16 + k \<longleftrightarrow> p < 0"
    using x(3) y(3) unfolding x(4) y(4) p_def by simp linarith
  have borrow: "unat (bcd x) < unat (bcd y) + k \<longleftrightarrow> 16 * q + p < 0"
    unfolding total [symmetric] by linarith
  have d: "int (unat (r_a d)) = (16 * q + p) mod 256" "flag_h (r_f d) = (p < 0)"
    "cpu_carry d = (16 * q + p < 0)" "flag_n (r_f d)"
    using assms(1) unfolding subs_def half borrow total by simp_all
  have "x < y + k \<longleftrightarrow> 10 * q + p < 0"
    unfolding dec [symmetric] by linarith
  moreover have "10 * q + p < 0 \<longleftrightarrow> 16 * q + p < 0"
  proof -
    consider "q \<le> -1" | "q = 0" | "1 \<le> q" by linarith
    then show ?thesis by cases (use p in linarith)+
  qed
  ultimately have carry: "flag_c (r_f (daa d)) = (x < y + k)"
    by (simp only: daa_down_eq(2) [OF d(4)] d(3))
  define r where "r = nat ((int x - int y - int k) mod 100)"
  have r: "int r = (10 * q + p) mod 100" "r < 100"
    unfolding r_def dec by (simp_all add: nat_less_iff)
  have "int (unat (r_a (daa d))) = 16 * ((10 * q + p) mod 100 div 10) + (10 * q + p) mod 100 mod 10"
    using daa_down_eq(1) [OF d(4)] daa_down_digits [OF q p] unfolding d
    by (simp add: mod_mod_cancel)
  also have "\<dots> = int (16 * (r div 10) + r mod 10)"
    unfolding r(1) [symmetric] by (simp add: zmod_int zdiv_int)
  finally have "r_a (daa d) = bcd r"
    by (intro u8_eq_bcdI r(2))
  then show ?thesis
    using carry by (simp add: r_def)
qed

text \<open>
  C31. Decimal adjust after an addition or subtraction of packed-decimal bytes gives the
  packed-decimal sum or difference modulo 100, with carry set exactly when the decimal sum
  reaches 100 or the difference is negative, the incoming carry included.
\<close>

theorem daa_decimal:
  assumes "r_a c = bcd x" "x < 100" "y < 100"
  shows "r_a (daa (add_a (bcd y) c)) = bcd ((x + y) mod 100) \<and>
    flag_c (r_f (daa (add_a (bcd y) c))) = (100 \<le> x + y) \<and>
    r_a (daa (adc_a (bcd y) c)) = bcd ((x + y + carry_in c) mod 100) \<and>
    flag_c (r_f (daa (adc_a (bcd y) c))) = (100 \<le> x + y + carry_in c) \<and>
    r_a (daa (sub_a (bcd y) c)) = bcd (nat ((int x - int y) mod 100)) \<and>
    flag_c (r_f (daa (sub_a (bcd y) c))) = (x < y) \<and>
    r_a (daa (sbc_a (bcd y) c)) = bcd (nat ((int x - int y - int (carry_in c)) mod 100)) \<and>
    flag_c (r_f (daa (sbc_a (bcd y) c))) = (x < y + carry_in c)"
  using daa_adds [OF add_a_adds [of c "bcd y", unfolded assms(1)] assms(2,3)]
    daa_adds [OF adc_a_adds [of c "bcd y", unfolded assms(1)] assms(2,3)]
    daa_subs [OF sub_a_subs [of c "bcd y", unfolded assms(1)] assms(2,3)]
    daa_subs [OF sbc_a_subs [of c "bcd y", unfolded assms(1)] assms(2,3)]
  by (simp add: carry_in_def)

theorem daa_decimal_witness:
  "r_a (daa (add_a 0x38 (cpu_default\<lparr>r_a := 0x45\<rparr>))) = 0x83"
  using daa_decimal [of "cpu_default\<lparr>r_a := 0x45\<rparr>" 45 38] by (simp add: bcd_def)

section \<open>Sixteen-bit sums and increments\<close>

text \<open>
  HL addition is addition modulo 65536 with the carries out of bits 11 and 15 in H and C
  and Z kept; the SP-relative sum adds a signed byte modulo 65536, takes H and C from the
  unsigned low byte and clears Z and N; INC and DEC count modulo 256, keep C, and set H exactly
  when the low nibble wraps.
\<close>

theorem wide_arith_spec:
  "unat (cpu_hl (add_hl w c)) = (unat (cpu_hl c) + unat w) mod 65536 \<and>
   flag_z (r_f (add_hl w c)) = flag_z (r_f c) \<and> \<not> flag_n (r_f (add_hl w c)) \<and>
   flag_h (r_f (add_hl w c)) = (4096 \<le> unat (cpu_hl c) mod 4096 + unat w mod 4096) \<and>
   flag_c (r_f (add_hl w c)) = (65536 \<le> unat (cpu_hl c) + unat w) \<and>
   (case add_signed_to_sp_like_flags base off c of (s, d) \<Rightarrow>
      uint s = (uint base + sint off) mod 65536 \<and> \<not> flag_z (r_f d) \<and> \<not> flag_n (r_f d) \<and>
      flag_h (r_f d) = (16 \<le> unat base mod 16 + unat off mod 16) \<and>
      flag_c (r_f d) = (256 \<le> unat base mod 256 + unat off)) \<and>
   (case inc8 v c of (r, d) \<Rightarrow>
      unat r = (unat v + 1) mod 256 \<and> flag_z (r_f d) = (r = 0) \<and> \<not> flag_n (r_f d) \<and>
      flag_h (r_f d) = (unat v mod 16 = 15) \<and> flag_c (r_f d) = flag_c (r_f c)) \<and>
   (case dec8 v c of (r, d) \<Rightarrow>
      uint r = (uint v - 1) mod 256 \<and> flag_z (r_f d) = (r = 0) \<and> flag_n (r_f d) \<and>
      flag_h (r_f d) = (unat v mod 16 = 0) \<and> flag_c (r_f d) = flag_c (r_f c))"
proof -
  have hl: "cpu_hl (set_hl x d) = x" for x d
    using join_hi_lo [of x] by (simp add: cpu_hl_def set_hl_def join_bytes_def)
  have hl_f: "r_f (set_hl x d) = r_f d" for x d
    by (simp add: set_hl_def)
  have sums: "unat ((x AND 0x0FFF) + (w AND 0x0FFF) :: u16) = unat x mod 4096 + unat w mod 4096"
    "unat ((x AND 0x000F) + (w AND 0x000F) :: u16) = unat x mod 16 + unat w mod 16"
    "unat ((x AND 0x00FF) + (w AND 0x00FF) :: u16) = unat x mod 256 + unat w mod 256"
    "unat (ucast x + ucast w :: u32) = unat x + unat w" for x w :: u16
    using add_strict_mono [OF unat_u16_less [of x] unat_u16_less [of w]]
      mod_less_divisor [of 4096 "unat x"] mod_less_divisor [of 4096 "unat w"]
      mod_less_divisor [of 16 "unat x"] mod_less_divisor [of 16 "unat w"]
      mod_less_divisor [of 256 "unat x"] mod_less_divisor [of 256 "unat w"]
    by (simp_all add: unat_word_ariths unat_low_16 unat_ucast_u16_u32 del: mod_less_divisor)
  have inc: "unat (v + 1) = (unat v + 1) mod 256"
    by (simp add: unat_word_ariths)
  have nibble: "14 < unat v mod 16 \<longleftrightarrow> unat v mod 16 = 15"
    using mod_less_divisor [of 16 "unat v"] by linarith
  have low: "unat (scast off AND 0x000F :: u16) = unat off mod 16"
    "unat (scast off AND 0x00FF :: u16) = unat off"
  proof -
    have m: "unat (scast off AND mask n :: u16) = unat off mod 2 ^ n" if "n \<le> 8" for n
    proof -
      have "(scast off AND mask n :: u16) = ucast (off AND mask n)"
      proof (rule bit_word_eqI)
        fix k :: nat
        consider "k < 7" | "k = 7" | "n \<le> k"
          using \<open>n \<le> 8\<close> by linarith
        then show "bit (scast off AND mask n :: u16) k = bit (ucast (off AND mask n) :: u16) k"
          by cases (auto simp: bit_simps bit_mask_iff min_def)
      qed
      then have "unat (scast off AND mask n :: u16) = unat (off AND mask n)"
        by (simp only: unat_ucast_u8)
      also have "\<dots> = take_bit n (unat off)"
        by (simp only: take_bit_eq_mask [symmetric] unsigned_take_bit_eq)
      finally show ?thesis
        by (simp only: take_bit_eq_mod)
    qed
    show "unat (scast off AND 0x000F :: u16) = unat off mod 16"
      "unat (scast off AND 0x00FF :: u16) = unat off"
      using m [of 4] m [of 8] by (simp_all add: mask_eq_exp_minus_1)
  qed
  have s: "uint (base + scast off) = (uint base + sint off) mod 65536"
  proof -
    have u: "uint (scast off :: u16) = sint off mod 65536"
      by (simp only: scast_eq uint_word_of_int) simp
    show ?thesis
      by (simp only: uint_word_ariths u) (simp add: mod_simps)
  qed
  show ?thesis
    apply (intro conjI)
    subgoal by (simp add: add_hl_def Let_def hl unat_word_ariths)
    subgoal by (simp add: add_hl_def Let_def hl_f flag_simps)
    subgoal by (simp add: add_hl_def Let_def hl_f flag_simps)
    subgoal by (simp add: add_hl_def Let_def hl_f flag_simps word_less_nat_alt sums less_eq_Suc_le)
    subgoal by (simp add: add_hl_def Let_def hl_f flag_simps word_less_nat_alt sums less_eq_Suc_le)
    subgoal by (simp add: add_signed_to_sp_like_flags_def Let_def flag_simps s word_less_nat_alt sums low [unfolded unat_low_16] less_eq_Suc_le)
    subgoal by (simp add: inc8_def Let_def flag_simps word_less_nat_alt inc nibble)
    subgoal by (simp add: dec8_def Let_def flag_simps uint_word_ariths u8_zero_iff unat_low_nibble)
    done
qed

section \<open>Rotations undo each other\<close>

lemma bit_shl1:
  "\<not> bit (push_bit 1 v :: u8) 0" "bit (push_bit 1 v :: u8) 1 = bit v 0"
  "bit (push_bit 1 v :: u8) 2 = bit v 1" "bit (push_bit 1 v :: u8) 3 = bit v 2"
  "bit (push_bit 1 v :: u8) 4 = bit v 3" "bit (push_bit 1 v :: u8) 5 = bit v 4"
  "bit (push_bit 1 v :: u8) 6 = bit v 5" "bit (push_bit 1 v :: u8) 7 = bit v 6"
  by (simp_all only: bit_push_bit_iff) (auto dest: bit_imp_le_length)

lemma bit_shr1:
  "bit (drop_bit 1 v :: u8) 0 = bit v 1" "bit (drop_bit 1 v :: u8) 1 = bit v 2"
  "bit (drop_bit 1 v :: u8) 2 = bit v 3" "bit (drop_bit 1 v :: u8) 3 = bit v 4"
  "bit (drop_bit 1 v :: u8) 4 = bit v 5" "bit (drop_bit 1 v :: u8) 5 = bit v 6"
  "bit (drop_bit 1 v :: u8) 6 = bit v 7" "\<not> bit (drop_bit 1 v :: u8) 7"
  by (simp_all add: bit_drop_bit_eq numeral_2_eq_2 numeral_3_eq_3)
    (auto dest: bit_imp_le_length simp: eval_nat_numeral)

lemma bit_rotl4:
  "bit (word_rotl 4 (v :: u8)) 0 = bit v 4" "bit (word_rotl 4 v) 1 = bit v 5"
  "bit (word_rotl 4 v) 2 = bit v 6" "bit (word_rotl 4 v) 3 = bit v 7"
  "bit (word_rotl 4 v) 4 = bit v 0" "bit (word_rotl 4 v) 5 = bit v 1"
  "bit (word_rotl 4 v) 6 = bit v 2" "bit (word_rotl 4 v) 7 = bit v 3"
  by (simp_all only: bit_word_rotl_iff, simp_all add: bit_simps)

lemma bit_rotl1:
  "bit (word_rotl 1 (v :: u8)) 0 = bit v 7" "bit (word_rotl 1 v) 1 = bit v 0"
  "bit (word_rotl 1 v) 2 = bit v 1" "bit (word_rotl 1 v) 3 = bit v 2"
  "bit (word_rotl 1 v) 4 = bit v 3" "bit (word_rotl 1 v) 5 = bit v 4"
  "bit (word_rotl 1 v) 6 = bit v 5" "bit (word_rotl 1 v) 7 = bit v 6"
  by (simp_all only: bit_word_rotl_iff, simp_all add: bit_simps)

lemmas rot_bits = bit_rotl1 bit_or_iff bit_and_iff bit_shl1 bit_shr1 bit_rotl4 mask_simps

lemma bits_cb_rlc:
  "bit (fst (cb_rlc v c)) 0 = bit v 7"
  "bit (fst (cb_rlc v c)) 1 = bit v 0"
  "bit (fst (cb_rlc v c)) 2 = bit v 1"
  "bit (fst (cb_rlc v c)) 3 = bit v 2"
  "bit (fst (cb_rlc v c)) 4 = bit v 3"
  "bit (fst (cb_rlc v c)) 5 = bit v 4"
  "bit (fst (cb_rlc v c)) 6 = bit v 5"
  "bit (fst (cb_rlc v c)) 7 = bit v 6"
  by (simp_all only: cb_rlc_def Let_def fst_conv rot_bits bit_if)
    (simp_all add: bit_simps mask_simps)

lemma bits_cb_rrc:
  "bit (fst (cb_rrc v c)) 0 = bit v 1"
  "bit (fst (cb_rrc v c)) 1 = bit v 2"
  "bit (fst (cb_rrc v c)) 2 = bit v 3"
  "bit (fst (cb_rrc v c)) 3 = bit v 4"
  "bit (fst (cb_rrc v c)) 4 = bit v 5"
  "bit (fst (cb_rrc v c)) 5 = bit v 6"
  "bit (fst (cb_rrc v c)) 6 = bit v 7"
  "bit (fst (cb_rrc v c)) 7 = bit v 0"
  by (simp_all only: cb_rrc_def Let_def fst_conv rot_bits bit_if)
    (simp_all add: bit_simps mask_simps)

lemma bits_cb_rl:
  "bit (fst (cb_rl v c)) 0 = cpu_carry c"
  "bit (fst (cb_rl v c)) 1 = bit v 0"
  "bit (fst (cb_rl v c)) 2 = bit v 1"
  "bit (fst (cb_rl v c)) 3 = bit v 2"
  "bit (fst (cb_rl v c)) 4 = bit v 3"
  "bit (fst (cb_rl v c)) 5 = bit v 4"
  "bit (fst (cb_rl v c)) 6 = bit v 5"
  "bit (fst (cb_rl v c)) 7 = bit v 6"
  by (simp_all only: cb_rl_def Let_def fst_conv rot_bits bit_if)
    (simp_all add: bit_simps mask_simps)

lemma bits_cb_rr:
  "bit (fst (cb_rr v c)) 0 = bit v 1"
  "bit (fst (cb_rr v c)) 1 = bit v 2"
  "bit (fst (cb_rr v c)) 2 = bit v 3"
  "bit (fst (cb_rr v c)) 3 = bit v 4"
  "bit (fst (cb_rr v c)) 4 = bit v 5"
  "bit (fst (cb_rr v c)) 5 = bit v 6"
  "bit (fst (cb_rr v c)) 6 = bit v 7"
  "bit (fst (cb_rr v c)) 7 = cpu_carry c"
  by (simp_all only: cb_rr_def Let_def fst_conv rot_bits bit_if)
    (simp_all add: bit_simps mask_simps)

lemma bits_cb_swap:
  "bit (fst (cb_swap v c)) 0 = bit v 4"
  "bit (fst (cb_swap v c)) 1 = bit v 5"
  "bit (fst (cb_swap v c)) 2 = bit v 6"
  "bit (fst (cb_swap v c)) 3 = bit v 7"
  "bit (fst (cb_swap v c)) 4 = bit v 0"
  "bit (fst (cb_swap v c)) 5 = bit v 1"
  "bit (fst (cb_swap v c)) 6 = bit v 2"
  "bit (fst (cb_swap v c)) 7 = bit v 3"
  by (simp_all only: cb_swap_def Let_def fst_conv rot_bits bit_if)

lemmas cb_bits = bits_cb_rlc bits_cb_rrc bits_cb_rl bits_cb_rr bits_cb_swap

lemma bit_set_flag_any: "k < 8 \<Longrightarrow> bit (set_flag m v f) k = (if bit m k then v else bit f k)"
  by (auto simp: set_flag_def bit_simps)

lemma clear_z_last:
  "set_flag FLAG_Z False (set_flag FLAG_C cy (set_flag FLAG_H h (set_flag FLAG_N n (set_flag FLAG_Z z f)))) =
   set_flag FLAG_C cy (set_flag FLAG_H h (set_flag FLAG_N n (set_flag FLAG_Z False f)))"
  unfolding u8_eq_iff_bits by (simp add: bit_set_flag_any flag_masks)

lemma carry_cb_rotate:
  "cpu_carry (snd (cb_rl v c)) = bit v 7" "cpu_carry (snd (cb_rr v c)) = bit v 0"
  by (simp_all add: cb_rl_def cb_rr_def Let_def flag_simps mask_simps)

text \<open>
  The circular rotations undo each other, the rotations through carry undo each other and
  restore the carry, and swapping nibbles twice is the identity; the accumulator forms compute
  the same byte and carry as the CB forms and clear Z.
\<close>

theorem rotations_inverse:
  "fst (cb_rrc (fst (cb_rlc v c)) d) = v \<and> fst (cb_rlc (fst (cb_rrc v c)) d) = v \<and>
   fst (cb_swap (fst (cb_swap v c)) d) = v \<and>
   (case cb_rl v c of (w, d) \<Rightarrow> fst (cb_rr w d) = v \<and> cpu_carry (snd (cb_rr w d)) = cpu_carry c) \<and>
   (case cb_rr v c of (w, d) \<Rightarrow> fst (cb_rl w d) = v \<and> cpu_carry (snd (cb_rl w d)) = cpu_carry c) \<and>
   (case cb_rlc (r_a c) c of (w, d) \<Rightarrow> rlca c = put_z False (d\<lparr>r_a := w\<rparr>))"
proof -
  have rlca: "word_rotl 1 v = fst (cb_rlc v c)" for v
    by (simp only: u8_eq_iff_bits rot_bits cb_bits simp_thms)
  show ?thesis
    unfolding split_beta
    apply (intro conjI)
    subgoal by (simp only: u8_eq_iff_bits cb_bits simp_thms)
    subgoal by (simp only: u8_eq_iff_bits cb_bits simp_thms)
    subgoal by (simp only: u8_eq_iff_bits cb_bits simp_thms)
    subgoal by (simp only: u8_eq_iff_bits cb_bits carry_cb_rotate simp_thms)
    subgoal by (simp only: cb_bits carry_cb_rotate)
    subgoal by (simp only: u8_eq_iff_bits cb_bits carry_cb_rotate simp_thms)
    subgoal by (simp only: cb_bits carry_cb_rotate)
    subgoal
      unfolding rlca_def rlca
      by (simp add: cb_rlc_def put_znhc_def put_z_def put_n_def put_h_def put_c_def
          clear_z_last Let_def)
    done
qed

end
