(* ===== verification/Memory_Map.thy ===== *)
theory Memory_Map
  imports Prelude
begin

text \<open>
  The memory of \<^verbatim>\<open>memory.rs\<close>: two VRAM banks, eight WRAM banks, the palette RAM, and a flat
  64 KiB image that shadows what the CPU window shows. The central fact is that the shadow
  never disagrees with the banks, through every write and every bank switch.
\<close>

definition VRAM_BANK_SIZE :: nat where "VRAM_BANK_SIZE = 0x2000"
definition WRAM_BANK_SIZE :: nat where "WRAM_BANK_SIZE = 0x1000"
definition PALETTE_RAM_LEN :: nat where "PALETTE_RAM_LEN = 0x40"

lemmas mem_size_defs = VRAM_BANK_SIZE_def WRAM_BANK_SIZE_def PALETTE_RAM_LEN_def

record palette_access =
  pa_index :: u8
  pa_value :: u8
  pa_blocked :: bool
  pa_auto_increment :: bool

record memory =
  mem_data :: "u16 \<Rightarrow> u8"
  vram_banks :: "nat \<Rightarrow> u8"
  wram_banks :: "nat \<Rightarrow> u8"
  mem_vbk :: u8
  mem_svbk :: u8
  bg_palette_index :: u8
  obj_palette_index :: u8
  bg_palette_ram :: "u8 list"
  obj_palette_ram :: "u8 list"

section \<open>Banks\<close>

definition active_vram_bank :: "memory \<Rightarrow> u8" where
  "active_vram_bank m = mem_vbk m AND 0x01"

definition active_wram_bank :: "memory \<Rightarrow> u8" where
  "active_wram_bank m = (let bank = mem_svbk m AND 0x07 in if bank = 0 then 1 else bank)"

text \<open>One byte of a VRAM bank, and of the OAM region, as the slices of the accessors index them.\<close>

definition vram_bank :: "memory \<Rightarrow> u8 \<Rightarrow> nat \<Rightarrow> u8" where
  "vram_bank m bank i = vram_banks m (unat (bank AND 0x01) * VRAM_BANK_SIZE + i)"

definition mem_oam :: "memory \<Rightarrow> nat \<Rightarrow> u8" where
  "mem_oam m i = mem_data m (0xFE00 + of_nat i)"

definition read_vram8 :: "memory \<Rightarrow> u16 \<Rightarrow> u8" where
  "read_vram8 m addr = vram_bank m (mem_vbk m) (unat (addr - 0x8000))"

definition write_vram8 :: "u16 \<Rightarrow> u8 \<Rightarrow> memory \<Rightarrow> memory" where
  "write_vram8 addr v m =
     (let offset = unat (addr - 0x8000); bank = unat (mem_vbk m)
      in m\<lparr>vram_banks := (vram_banks m)(bank * VRAM_BANK_SIZE + offset := v),
           mem_data := (mem_data m)(addr := v)\<rparr>)"

definition read_wram8 :: "memory \<Rightarrow> u16 \<Rightarrow> u8" where
  "read_wram8 m addr =
     (if in_range 0xC000 0xCFFF addr then wram_banks m (unat (addr - 0xC000))
      else if in_range 0xD000 0xDFFF addr then
        wram_banks m (unat (active_wram_bank m) * WRAM_BANK_SIZE + unat (addr - 0xD000))
      else mem_data m addr)"

definition write_wram8 :: "u16 \<Rightarrow> u8 \<Rightarrow> memory \<Rightarrow> memory" where
  "write_wram8 addr v m =
     (if in_range 0xC000 0xCFFF addr then
        m\<lparr>wram_banks := (wram_banks m)(unat (addr - 0xC000) := v),
          mem_data := (mem_data m)(addr := v, addr + 0x2000 := v)\<rparr>
      else if in_range 0xD000 0xDFFF addr then
        let bank = unat (active_wram_bank m); offset = unat (addr - 0xD000);
            m = m\<lparr>wram_banks := (wram_banks m)(bank * WRAM_BANK_SIZE + offset := v),
                  mem_data := (mem_data m)(addr := v)\<rparr>
        in if addr \<le> 0xDDFF then m\<lparr>mem_data := (mem_data m)(addr + 0x2000 := v)\<rparr> else m
      else m\<lparr>mem_data := (mem_data m)(addr := v)\<rparr>)"

definition mem_read8 :: "memory \<Rightarrow> u16 \<Rightarrow> u8" where
  "mem_read8 m addr =
     (if in_range 0x8000 0x9FFF addr then read_vram8 m addr
      else if in_range 0xC000 0xDFFF addr then read_wram8 m addr
      else if in_range 0xE000 0xFDFF addr then read_wram8 m (addr - 0x2000)
      else mem_data m addr)"

definition mem_write8 :: "u16 \<Rightarrow> u8 \<Rightarrow> memory \<Rightarrow> memory" where
  "mem_write8 addr v m =
     (if in_range 0x8000 0x9FFF addr then write_vram8 addr v m
      else if in_range 0xC000 0xDFFF addr then write_wram8 addr v m
      else if in_range 0xE000 0xFDFF addr then write_wram8 (addr - 0x2000) v m
      else m\<lparr>mem_data := (mem_data m)(addr := v)\<rparr>)"

definition refresh_vram_window :: "memory \<Rightarrow> memory" where
  "refresh_vram_window m =
     m\<lparr>mem_data := (\<lambda>a. if in_range 0x8000 0x9FFF a
                    then vram_banks m (unat (mem_vbk m) * VRAM_BANK_SIZE + unat (a - 0x8000))
                    else mem_data m a)\<rparr>"

definition refresh_wram_window :: "memory \<Rightarrow> memory" where
  "refresh_wram_window m =
     (let d = mem_data m;
          d = (\<lambda>a. if in_range 0xC000 0xCFFF a then wram_banks m (unat (a - 0xC000)) else d a);
          start = unat (active_wram_bank m) * WRAM_BANK_SIZE;
          d = (\<lambda>a. if in_range 0xD000 0xDFFF a then wram_banks m (start + unat (a - 0xD000)) else d a);
          d = (\<lambda>a. if in_range 0xE000 0xEFFF a then d (a - 0x2000) else d a);
          d = (\<lambda>a. if in_range 0xF000 0xFDFF a then d (a - 0x2000) else d a)
      in m\<lparr>mem_data := d\<rparr>)"

definition set_vbk :: "u8 \<Rightarrow> memory \<Rightarrow> memory \<times> u8" where
  "set_vbk v m =
     (let m = m\<lparr>mem_vbk := v AND 0x01\<rparr>;
          m = m\<lparr>mem_data := (mem_data m)(0xFF4F := 0xFE OR mem_vbk m)\<rparr>;
          m = refresh_vram_window m
      in (m, mem_vbk m))"

definition vbk_register :: "memory \<Rightarrow> u8" where
  "vbk_register m = 0xFE OR mem_vbk m"

definition set_svbk :: "u8 \<Rightarrow> memory \<Rightarrow> memory \<times> u8" where
  "set_svbk v m =
     (let m = m\<lparr>mem_svbk := v AND 0x07\<rparr>;
          m = m\<lparr>mem_data := (mem_data m)(0xFF70 := 0xF8 OR mem_svbk m)\<rparr>;
          m = refresh_wram_window m
      in (m, active_wram_bank m))"

definition svbk_register :: "memory \<Rightarrow> u8" where
  "svbk_register m = 0xF8 OR mem_svbk m"

section \<open>Palette RAM\<close>

definition read_bg_palette_data :: "memory \<Rightarrow> bool \<Rightarrow> u8" where
  "read_bg_palette_data m blocked =
     (if blocked then 0xFF else bg_palette_ram m ! unat (bg_palette_index m AND 0x3F))"

definition write_bg_palette_data :: "u8 \<Rightarrow> bool \<Rightarrow> memory \<Rightarrow> memory \<times> palette_access" where
  "write_bg_palette_data v blocked m =
     (let index = bg_palette_index m AND 0x3F;
          auto_increment = (bg_palette_index m AND 0x80 \<noteq> 0);
          m = (if \<not> blocked then m\<lparr>bg_palette_ram := (bg_palette_ram m)[unat index := v]\<rparr> else m);
          result = \<lparr>pa_index = index, pa_value = v, pa_blocked = blocked,
                    pa_auto_increment = auto_increment\<rparr>;
          m = (if auto_increment then
                 let m = m\<lparr>bg_palette_index := 0x80 OR ((index + 1) AND 0x3F)\<rparr>
                 in m\<lparr>mem_data := (mem_data m)(0xFF68 := bg_palette_index m)\<rparr>
               else m)
      in (m\<lparr>mem_data := (mem_data m)(0xFF69 := read_bg_palette_data m blocked)\<rparr>, result))"

definition set_bg_palette_index :: "u8 \<Rightarrow> memory \<Rightarrow> memory \<times> u8" where
  "set_bg_palette_index v m =
     (let m = m\<lparr>bg_palette_index := v AND 0xBF\<rparr>
      in (m\<lparr>mem_data := (mem_data m)(0xFF68 := bg_palette_index m)\<rparr>, bg_palette_index m))"

definition read_obj_palette_data :: "memory \<Rightarrow> bool \<Rightarrow> u8" where
  "read_obj_palette_data m blocked =
     (if blocked then 0xFF else obj_palette_ram m ! unat (obj_palette_index m AND 0x3F))"

definition write_obj_palette_data :: "u8 \<Rightarrow> bool \<Rightarrow> memory \<Rightarrow> memory \<times> palette_access" where
  "write_obj_palette_data v blocked m =
     (let index = obj_palette_index m AND 0x3F;
          auto_increment = (obj_palette_index m AND 0x80 \<noteq> 0);
          m = (if \<not> blocked then m\<lparr>obj_palette_ram := (obj_palette_ram m)[unat index := v]\<rparr> else m);
          result = \<lparr>pa_index = index, pa_value = v, pa_blocked = blocked,
                    pa_auto_increment = auto_increment\<rparr>;
          m = (if auto_increment then
                 let m = m\<lparr>obj_palette_index := 0x80 OR ((index + 1) AND 0x3F)\<rparr>
                 in m\<lparr>mem_data := (mem_data m)(0xFF6A := obj_palette_index m)\<rparr>
               else m)
      in (m\<lparr>mem_data := (mem_data m)(0xFF6B := read_obj_palette_data m blocked)\<rparr>, result))"

definition set_obj_palette_index :: "u8 \<Rightarrow> memory \<Rightarrow> memory \<times> u8" where
  "set_obj_palette_index v m =
     (let m = m\<lparr>obj_palette_index := v AND 0xBF\<rparr>
      in (m\<lparr>mem_data := (mem_data m)(0xFF6A := obj_palette_index m)\<rparr>, obj_palette_index m))"

definition palette_rgb555 :: "u8 list \<Rightarrow> u8 \<Rightarrow> u8 \<Rightarrow> u16" where
  "palette_rgb555 ram palette color =
     (let base = unat ((palette AND 0x07) * 8 + (color AND 0x03) * 2);
          lo = ucast (get_or ram base 0); hi = ucast (get_or ram (base + 1) 0)
      in push_bit 8 hi OR lo)"

definition bg_palette_rgb555 :: "memory \<Rightarrow> u8 \<Rightarrow> u8 \<Rightarrow> u16" where
  "bg_palette_rgb555 m = palette_rgb555 (bg_palette_ram m)"

definition obj_palette_rgb555 :: "memory \<Rightarrow> u8 \<Rightarrow> u8 \<Rightarrow> u16" where
  "obj_palette_rgb555 m = palette_rgb555 (obj_palette_ram m)"

section \<open>Initial images\<close>

definition memory_default :: memory where
  "memory_default =
     (let m = \<lparr>mem_data = (\<lambda>_. 0), vram_banks = (\<lambda>_. 0), wram_banks = (\<lambda>_. 0), mem_vbk = 0,
               mem_svbk = 1, bg_palette_index = 0, obj_palette_index = 0,
               bg_palette_ram = replicate PALETTE_RAM_LEN 0xFF,
               obj_palette_ram = replicate PALETTE_RAM_LEN 0\<rparr>;
          m = refresh_wram_window (refresh_vram_window m)
      in m\<lparr>mem_data := (mem_data m)(0xFF4F := 0xFE, 0xFF68 := 0x00, 0xFF69 := 0xFF,
             0xFF6A := 0x00, 0xFF6B := 0x00, 0xFF70 := 0xF9)\<rparr>)"

text \<open>The deterministic HRAM pattern over \<open>FF80\<close> to \<open>FFFE\<close>.\<close>

fun hram_fill :: "nat \<Rightarrow> u16 \<Rightarrow> u8 \<Rightarrow> (u16 \<Rightarrow> u8) \<Rightarrow> u16 \<Rightarrow> u8" where
  "hram_fill 0 addr state d = d"
| "hram_fill (Suc n) addr state d =
     (let state = state * 17 + 0x3D
      in hram_fill n (addr + 1) state (d(addr := state XOR ucast addr)))"

definition memory_power_on :: memory where
  "memory_power_on =
     (let m = memory_default
      in m\<lparr>mem_data := hram_fill 127 0xFF80 0x6D (mem_data m)\<rparr>)"

end
