(* ===== verification/Memory_Laws.thy ===== *)
theory Memory_Laws
  imports Memory_Map
begin

text \<open>
  Facts about the memory of \<^verbatim>\<open>memory.rs\<close>: a byte written is the byte read back at every
  alias of its address and nowhere else, and the flat image shows exactly what the banks hold.
\<close>

section \<open>Address ranges as numbers\<close>

definition canon :: "u16 \<Rightarrow> u16" where
  "canon a = (if in_range 0xE000 0xFDFF a then a - 0x2000 else a)"

lemma unat_u16_sub: "c \<le> a \<Longrightarrow> unat (a - c :: u16) = unat a - unat c"
  by (simp add: unat_sub)

lemma unat_u16_add: "unat a + unat c < 65536 \<Longrightarrow> unat (a + c :: u16) = unat a + unat c"
  by (simp add: unat_word_ariths)

lemma in_range_nat: "in_range lo hi a \<longleftrightarrow> unat lo \<le> unat a \<and> unat a \<le> unat hi"
  by (simp add: in_range_def word_le_nat_alt)

lemma u16_eq_nat: "(a::u16) = b \<longleftrightarrow> unat a = unat b" by (simp add: word_unat_eq_iff)

lemma active_wram_bank_pos: "0 < unat (active_wram_bank m)"
  by (auto simp: active_wram_bank_def Let_def unat_gt_0)

lemma data_write8:
  "mem_data (mem_write8 a v m) b = (if canon a = canon b then v else mem_data m b)"
proof -
  have "unat (a - 0x2000) = unat a - 0x2000" if "0x2000 \<le> unat a"
    using that by (simp add: unat_u16_sub word_le_nat_alt)
  moreover have "unat (b - 0x2000) = unat b - 0x2000" if "0x2000 \<le> unat b"
    using that by (simp add: unat_u16_sub word_le_nat_alt)
  moreover have "unat (a + 0x2000) = unat a + 0x2000" if "unat a < 0xE000"
    using that by (simp add: unat_u16_add)
  ultimately
  show ?thesis
    by (auto simp: mem_write8_def write_vram8_def write_wram8_def canon_def in_range_nat Let_def
       word_le_nat_alt u16_eq_nat)
qed


definition bank_regs_ok :: "memory \<Rightarrow> bool" where
  "bank_regs_ok m \<longleftrightarrow> mem_vbk m AND 0x01 = mem_vbk m \<and> mem_svbk m AND 0x07 = mem_svbk m"

lemma active_wram_bank_write [simp]: "active_wram_bank (mem_write8 a v m) = active_wram_bank m"
  "mem_vbk (mem_write8 a v m) = mem_vbk m" "mem_svbk (mem_write8 a v m) = mem_svbk m"
  by (simp_all add: mem_write8_def write_vram8_def write_wram8_def active_wram_bank_def Let_def)

lemma mult_add_eq: "j < 4096 \<Longrightarrow> k < 4096 \<Longrightarrow> (b * 4096 + j = b * 4096 + k) = (j = (k::nat))" by simp

lemma vram_write8: "vram_banks (mem_write8 a v m) = 
   (if in_range 0x8000 0x9FFF a then (vram_banks m)(unat (mem_vbk m) * 0x2000 + unat (a - 0x8000) := v) else vram_banks m)"
  by (simp add: mem_write8_def write_vram8_def write_wram8_def Let_def mem_size_defs)

lemma in_rangeD: "in_range lo hi a \<Longrightarrow> unat (a - lo) = unat a - unat lo"
  by (simp add: in_range_def unat_u16_sub)

lemma wram_write8: "wram_banks (mem_write8 a v m) = 
   (if in_range 0xC000 0xCFFF (canon a) then (wram_banks m)(unat (canon a) - 0xC000 := v) 
    else if in_range 0xD000 0xDFFF (canon a) then
      (wram_banks m)(unat (active_wram_bank m) * 0x1000 + (unat (canon a) - 0xD000) := v)
    else wram_banks m)"
proof -
  have "unat (a - 0x2000) = unat a - 0x2000" if "0x2000 \<le> unat a"
    using that by (simp add: unat_u16_sub word_le_nat_alt)
  then show ?thesis
  using in_rangeD[of "0xC000" "0xCFFF" a] in_rangeD[of "0xC000" "0xCFFF" "a - 0x2000"]
   in_rangeD[of "0xD000" "0xDFFF" a] in_rangeD[of "0xD000" "0xDFFF" "a - 0x2000"]
  by (auto simp: mem_write8_def write_vram8_def write_wram8_def canon_def in_range_nat Let_def mem_size_defs)
qed

lemma read8_cases: "mem_read8 m a =
  (if in_range 0x8000 0x9FFF a then vram_banks m (unat (mem_vbk m AND 1) * 0x2000 + (unat a - 0x8000))
   else if in_range 0xC000 0xCFFF (canon a) then wram_banks m (unat (canon a) - 0xC000)
    else if in_range 0xD000 0xDFFF (canon a) then
      wram_banks m (unat (active_wram_bank m) * 0x1000 + (unat (canon a) - 0xD000))
    else mem_data m a)"
proof -
  have "unat (a - 0x2000) = unat a - 0x2000" if "0x2000 \<le> unat a"
    using that by (simp add: unat_u16_sub word_le_nat_alt)
  then show ?thesis
  using in_rangeD[of "0xC000" "0xCFFF" a] in_rangeD[of "0xC000" "0xCFFF" "a - 0x2000"]
   in_rangeD[of "0xD000" "0xDFFF" a] in_rangeD[of "0xD000" "0xDFFF" "a - 0x2000"]
   in_rangeD[of "0x8000" "0x9FFF" a]
  by (auto simp: mem_read8_def read_vram8_def read_wram8_def canon_def in_range_nat Let_def mem_size_defs vram_bank_def)
qed

lemma canon_vram: "in_range 0x8000 0x9FFF a \<Longrightarrow> canon a = a" "in_range 0x8000 0x9FFF (canon a) = in_range 0x8000 0x9FFF a"
proof -
  have "unat (a - 0x2000) = unat a - 0x2000" if "0x2000 \<le> unat a"
    using that by (simp add: unat_u16_sub word_le_nat_alt)
  then
 show  "in_range 0x8000 0x9FFF a \<Longrightarrow> canon a = a" "in_range 0x8000 0x9FFF (canon a) = in_range 0x8000 0x9FFF a"
  by (auto simp: canon_def in_range_nat)
qed
lemma bank_eq: "bank_regs_ok m \<Longrightarrow> unat (mem_vbk m AND 1) = unat (mem_vbk m)"
  by (simp add: bank_regs_ok_def)

lemma read_write8:
  assumes "bank_regs_ok m"
  shows "mem_read8 (mem_write8 a v m) b = (if canon a = canon b then v else mem_read8 m b)"
proof -
  note b = bank_eq [OF assms]
  have pos: "4096 \<le> unat (active_wram_bank m) * 4096" using active_wram_bank_pos[of m] by linarith
  consider "in_range 0x8000 0x9FFF b" | "in_range 0xC000 0xCFFF (canon b)" | "in_range 0xD000 0xDFFF (canon b)"
    | "\<not> in_range 0x8000 0x9FFF b" "\<not> in_range 0xC000 0xCFFF (canon b)" "\<not> in_range 0xD000 0xDFFF (canon b)" by blast
  then show ?thesis
  proof cases
    case 1
    then show ?thesis
      using canon_vram[of a] canon_vram[of b] in_rangeD[of "0x8000" "0x9FFF" a]
      by (auto simp: read8_cases vram_write8 b u16_eq_nat in_range_nat)
  next
    case 2
    then have "\<not> in_range 0x8000 0x9FFF b" using canon_vram[of b] by (auto simp: in_range_nat)
    with 2 show ?thesis using pos
      by (auto simp: read8_cases wram_write8 u16_eq_nat in_range_nat)
  next
    case 3
    then have "\<not> in_range 0x8000 0x9FFF b" using canon_vram[of b] by (auto simp: in_range_nat)
    with 3 show ?thesis using pos
      by (auto simp: read8_cases wram_write8 u16_eq_nat in_range_nat)
  next
    case 4
    then show ?thesis
      by (simp add: read8_cases data_write8)
  qed
qed

section \<open>The flat image shadows the banks\<close>

definition shadow_ok :: "memory \<Rightarrow> bool" where
  "shadow_ok m \<longleftrightarrow> (\<forall>a. mem_read8 m a = mem_data m a)"

definition memory_ok :: "memory \<Rightarrow> bool" where
  "memory_ok m \<longleftrightarrow>
     bank_regs_ok m \<and> shadow_ok m \<and>
     length (bg_palette_ram m) = PALETTE_RAM_LEN \<and> length (obj_palette_ram m) = PALETTE_RAM_LEN"

lemma mem_write8_palettes [simp]:
  "bg_palette_ram (mem_write8 a v m) = bg_palette_ram m"
  "obj_palette_ram (mem_write8 a v m) = obj_palette_ram m"
  by (simp_all add: mem_write8_def write_vram8_def write_wram8_def Let_def)

lemma memory_ok_write8: "memory_ok m \<Longrightarrow> memory_ok (mem_write8 a v m)"
  by (simp add: memory_ok_def shadow_ok_def read_write8 data_write8) (simp add: bank_regs_ok_def)

text \<open>An update outside the banked windows is seen by both views.\<close>

definition unbanked :: "u16 \<Rightarrow> bool" where
  "unbanked a \<longleftrightarrow> \<not> in_range 0x8000 0x9FFF a \<and> \<not> in_range 0xC000 0xFDFF a"

lemma canon_unbanked: "unbanked a \<Longrightarrow> canon a = a"
  by (auto simp: unbanked_def canon_def in_range_nat)

lemma read8_cong:
  assumes "vram_banks m' = vram_banks m" "wram_banks m' = wram_banks m" "mem_vbk m' = mem_vbk m"
    and "mem_svbk m' = mem_svbk m" "mem_data m' = (mem_data m)(p := v)" "unbanked p"
  shows "mem_read8 m' = (mem_read8 m)(p := v)"
proof
  fix b
  have "active_wram_bank m' = active_wram_bank m"
    by (simp add: active_wram_bank_def assms(4))
  note eqs = assms(1-3,5) this
  have p: "canon p = p" "\<not> in_range 0x8000 0x9FFF p" "\<not> in_range 0xC000 0xCFFF p"
    "\<not> in_range 0xD000 0xDFFF p"
    using assms(6) canon_unbanked [OF assms(6)] by (auto simp: unbanked_def in_range_nat)
  show "mem_read8 m' b = ((mem_read8 m)(p := v)) b"
  proof (cases "b = p")
    case True
    then show ?thesis
      by (simp add: read8_cases p eqs)
  next
    case False
    then show ?thesis
      by (simp add: read8_cases eqs)
  qed
qed

lemma memory_ok_reg:
  assumes "memory_ok m" "unbanked p"
    and "vram_banks m' = vram_banks m" "wram_banks m' = wram_banks m" "mem_vbk m' = mem_vbk m"
    and "mem_svbk m' = mem_svbk m" "mem_data m' = (mem_data m)(p := v)"
    and "length (bg_palette_ram m') = length (bg_palette_ram m)"
    and "length (obj_palette_ram m') = length (obj_palette_ram m)"
  shows "memory_ok m'"
  using assms read8_cong [OF assms(3-7,2)]
  by (simp add: memory_ok_def shadow_ok_def bank_regs_ok_def)

lemma memory_ok_indep:
  "memory_ok (m\<lparr>bg_palette_index := i\<rparr>) = memory_ok m"
  "memory_ok (m\<lparr>obj_palette_index := i\<rparr>) = memory_ok m"
  "memory_ok (m\<lparr>bg_palette_ram := (bg_palette_ram m)[k := v]\<rparr>) = memory_ok m"
  "memory_ok (m\<lparr>obj_palette_ram := (obj_palette_ram m)[k := v]\<rparr>) = memory_ok m"
  by (simp_all add: memory_ok_def shadow_ok_def bank_regs_ok_def read8_cases active_wram_bank_def)

lemma memory_ok_poke: "memory_ok m \<Longrightarrow> unbanked p \<Longrightarrow> memory_ok (m\<lparr>mem_data := (mem_data m)(p := v)\<rparr>)"
  by (rule memory_ok_reg [where p = p and v = v]) simp_all

lemma memory_ok_if: "memory_ok x \<Longrightarrow> memory_ok y \<Longrightarrow> memory_ok (if b then x else y)"
  by simp

lemma unbanked_palette: "unbanked 0xFF68" "unbanked 0xFF69" "unbanked 0xFF6A" "unbanked 0xFF6B"
  by (simp_all add: unbanked_def in_range_nat)

lemma memory_ok_palette_ops:
  assumes "memory_ok m"
  shows "memory_ok (fst (set_bg_palette_index v m))" "memory_ok (fst (set_obj_palette_index v m))"
    "memory_ok (fst (write_bg_palette_data v b m))" "memory_ok (fst (write_obj_palette_data v b m))"
  unfolding set_bg_palette_index_def set_obj_palette_index_def write_bg_palette_data_def
    write_obj_palette_data_def Let_def fst_conv
  by (intro memory_ok_poke unbanked_palette memory_ok_if memory_ok_indep [THEN iffD2] assms)+

lemma in_vram_data_refresh:
  "in_range 0x8000 0x9FFF a \<Longrightarrow> bank_regs_ok m \<Longrightarrow>
     mem_read8 (refresh_vram_window m) a = mem_data (refresh_vram_window m) a"
  by (simp add: read8_cases refresh_vram_window_def bank_eq mem_size_defs in_rangeD)

lemma shadow_refresh_vram:
  assumes "bank_regs_ok m" "\<And>a. \<not> in_range 0x8000 0x9FFF a \<Longrightarrow> mem_read8 m a = mem_data m a"
  shows "shadow_ok (refresh_vram_window m)"
  unfolding shadow_ok_def
proof
  fix a :: u16
  show "mem_read8 (refresh_vram_window m) a = mem_data (refresh_vram_window m) a"
  proof (cases "in_range 0x8000 0x9FFF a")
    case True
    then show ?thesis
      using in_vram_data_refresh assms(1) by blast
  next
    case False
    have "active_wram_bank (refresh_vram_window m) = active_wram_bank m"
      by (simp add: refresh_vram_window_def active_wram_bank_def)
    then have "mem_read8 (refresh_vram_window m) a = mem_read8 m a"
      using False by (simp add: read8_cases) (simp add: refresh_vram_window_def)
    then show ?thesis
      using assms(2) [OF False] False by (simp add: refresh_vram_window_def)
  qed
qed

lemma shadow_refresh_wram:
  assumes "\<And>a. in_range 0x8000 0x9FFF a \<Longrightarrow> mem_read8 m a = mem_data m a"
  shows "shadow_ok (refresh_wram_window m)"
  unfolding shadow_ok_def
proof
  fix a :: u16
  let ?r = "refresh_wram_window m"
  have sel: "vram_banks ?r = vram_banks m" "wram_banks ?r = wram_banks m" "mem_vbk ?r = mem_vbk m"
    "active_wram_bank ?r = active_wram_bank m"
    by (simp_all add: refresh_wram_window_def Let_def active_wram_bank_def)
  have sub: "unat (a - 0x2000) = unat a - 0x2000" if "0x2000 \<le> unat a"
    using that by (simp add: unat_u16_sub word_le_nat_alt)
  have "in_range 0xC000 0xFDFF a \<Longrightarrow> in_range 0xC000 0xCFFF a \<or> in_range 0xD000 0xDFFF a \<or>
      in_range 0xE000 0xEFFF a \<or> in_range 0xF000 0xFDFF a"
    unfolding in_range_nat by simp linarith
  then consider "in_range 0x8000 0x9FFF a" | "in_range 0xC000 0xCFFF a" | "in_range 0xD000 0xDFFF a"
    | "in_range 0xE000 0xEFFF a" | "in_range 0xF000 0xFDFF a"
    | "\<not> in_range 0x8000 0x9FFF a" "\<not> in_range 0xC000 0xFDFF a"
    by blast
  then show "mem_read8 ?r a = mem_data ?r a"
  proof cases
    case 1
    then have "mem_data ?r a = mem_data m a"
      by (simp add: refresh_wram_window_def Let_def in_range_nat)
    with 1 show ?thesis
      using assms [OF 1] by (simp add: read8_cases sel)
  next
    case 6
    then have "canon a = a" "\<not> in_range 0xC000 0xCFFF a" "\<not> in_range 0xD000 0xDFFF a"
      "\<not> in_range 0xE000 0xEFFF a" "\<not> in_range 0xF000 0xFDFF a"
      by (auto simp: canon_def in_range_nat)
    with 6 show ?thesis
      by (simp add: read8_cases sel refresh_wram_window_def Let_def)
  next
    case 2
    then have "canon a = a" "\<not> in_range 0x8000 0x9FFF a" "\<not> in_range 0xD000 0xDFFF a"
      "\<not> in_range 0xE000 0xEFFF a" "\<not> in_range 0xF000 0xFDFF a"
      by (auto simp: canon_def in_range_nat)
    with 2 show ?thesis
      by (simp add: read8_cases sel) (simp add: refresh_wram_window_def Let_def in_rangeD)
  next
    case 3
    then have "canon a = a" "\<not> in_range 0x8000 0x9FFF a" "\<not> in_range 0xC000 0xCFFF a"
      "\<not> in_range 0xE000 0xEFFF a" "\<not> in_range 0xF000 0xFDFF a"
      by (auto simp: canon_def in_range_nat)
    with 3 show ?thesis
      by (simp add: read8_cases sel)
        (simp add: refresh_wram_window_def Let_def in_rangeD mem_size_defs)
  next
    case 4
    then have "canon a = a - 0x2000" "\<not> in_range 0x8000 0x9FFF a"
      "\<not> in_range 0xF000 0xFDFF a" "in_range 0xC000 0xCFFF (a - 0x2000)"
      "\<not> in_range 0xD000 0xDFFF (a - 0x2000)"
      using sub by (auto simp: canon_def in_range_nat)
    with 4 show ?thesis
      using in_rangeD [of "0xC000" "0xCFFF" "a - 0x2000"]
      by (simp add: read8_cases sel) (simp add: refresh_wram_window_def Let_def)
  next
    case 5
    then have "canon a = a - 0x2000" "\<not> in_range 0x8000 0x9FFF a"
      "\<not> in_range 0xE000 0xEFFF a" "\<not> in_range 0xC000 0xCFFF (a - 0x2000)"
      "in_range 0xD000 0xDFFF (a - 0x2000)" "\<not> in_range 0xE000 0xEFFF (a - 0x2000)"
      using sub by (auto simp: canon_def in_range_nat)
    with 5 show ?thesis
      using in_rangeD [of "0xD000" "0xDFFF" "a - 0x2000"]
      by (simp add: read8_cases sel) (simp add: refresh_wram_window_def Let_def mem_size_defs)
  qed
qed

lemma shadow_outside: "memory_ok m \<Longrightarrow> mem_read8 m a = mem_data m a"
  by (simp add: memory_ok_def shadow_ok_def)

lemma refresh_sel [simp]:
  "bg_palette_ram (refresh_vram_window m) = bg_palette_ram m"
  "obj_palette_ram (refresh_vram_window m) = obj_palette_ram m"
  "mem_vbk (refresh_vram_window m) = mem_vbk m" "mem_svbk (refresh_vram_window m) = mem_svbk m"
  "bg_palette_ram (refresh_wram_window m) = bg_palette_ram m"
  "obj_palette_ram (refresh_wram_window m) = obj_palette_ram m"
  "mem_vbk (refresh_wram_window m) = mem_vbk m" "mem_svbk (refresh_wram_window m) = mem_svbk m"
  by (simp_all add: refresh_vram_window_def refresh_wram_window_def Let_def)

lemma memory_ok_set_vbk:
  assumes "memory_ok m"
  shows "memory_ok (fst (set_vbk v m))"
proof -
  define n where "n = m\<lparr>mem_vbk := v AND 1, mem_data := (mem_data m)(0xFF4F := 0xFE OR (v AND 1))\<rparr>"
  have p: "\<not> in_range 0xC000 0xCFFF (canon 0xFF4F)" "\<not> in_range 0xD000 0xDFFF (canon 0xFF4F)"
    by (simp_all add: canon_def in_range_nat)
  have "mem_read8 n a = mem_data n a" if "\<not> in_range 0x8000 0x9FFF a" for a
    using that shadow_outside [OF assms, of a] p
    by (auto simp: n_def read8_cases active_wram_bank_def)
  moreover have "bank_regs_ok n"
    using assms by (simp add: n_def bank_regs_ok_def memory_ok_def and.assoc)
  ultimately have "shadow_ok (refresh_vram_window n)" "bank_regs_ok n"
    by (simp_all add: shadow_refresh_vram)
  then show ?thesis
    using assms by (simp add: set_vbk_def Let_def n_def memory_ok_def bank_regs_ok_def)
qed

lemma memory_ok_set_svbk:
  assumes "memory_ok m"
  shows "memory_ok (fst (set_svbk v m))"
proof -
  define n where "n = m\<lparr>mem_svbk := v AND 7, mem_data := (mem_data m)(0xFF70 := 0xF8 OR (v AND 7))\<rparr>"
  have "mem_read8 n a = mem_data n a" if "in_range 0x8000 0x9FFF a" for a
    using that shadow_outside [OF assms, of a]
    by (auto simp: n_def read8_cases in_range_nat)
  then have "shadow_ok (refresh_wram_window n)"
    by (rule shadow_refresh_wram)
  moreover have "bank_regs_ok n"
    using assms by (simp add: n_def bank_regs_ok_def memory_ok_def and.assoc)
  ultimately show ?thesis
    using assms by (simp add: set_svbk_def Let_def n_def memory_ok_def bank_regs_ok_def)
qed

lemma memory_ok_default: "memory_ok memory_default"
proof -
  define n where "n = \<lparr>mem_data = (\<lambda>_. 0 :: u8), vram_banks = (\<lambda>_. 0), wram_banks = (\<lambda>_. 0),
    mem_vbk = 0, mem_svbk = 1, bg_palette_index = 0, obj_palette_index = 0,
    bg_palette_ram = replicate PALETTE_RAM_LEN 0xFF,
    obj_palette_ram = replicate PALETTE_RAM_LEN 0\<rparr>"
  have "bank_regs_ok n"
    by (simp add: n_def bank_regs_ok_def)
  then have "shadow_ok (refresh_wram_window (refresh_vram_window n))"
    by (intro shadow_refresh_wram in_vram_data_refresh)
  then have "memory_ok (refresh_wram_window (refresh_vram_window n))"
    by (simp add: memory_ok_def bank_regs_ok_def) (simp add: n_def)
  moreover have "unbanked 0xFF4F" "unbanked 0xFF70"
    by (simp_all add: unbanked_def in_range_nat)
  ultimately have "memory_ok (foldr (\<lambda>(p, v) m. m\<lparr>mem_data := (mem_data m)(p := v)\<rparr>)
      [(0xFF70, 0xF9), (0xFF6B, 0), (0xFF6A, 0), (0xFF69, 0xFF), (0xFF68, 0), (0xFF4F, 0xFE)]
      (refresh_wram_window (refresh_vram_window n)))"
    unfolding foldr.simps o_apply id_apply split_conv
    by (intro memory_ok_poke unbanked_palette)
  then show ?thesis
    by (simp add: memory_default_def n_def Let_def)
qed

lemma memory_ok_hram_fill:
  assumes "memory_ok m" "unat a + n \<le> 0x10000" "0xFE00 \<le> unat a"
  shows "memory_ok (m\<lparr>mem_data := hram_fill n a st (mem_data m)\<rparr>)"
  using assms
proof (induction n arbitrary: a st m)
  case (Suc n)
  define m' where "m' = m\<lparr>mem_data := (mem_data m)(a := (st * 17 + 0x3D) XOR ucast a)\<rparr>"
  have "unbanked a"
    using Suc.prems by (simp add: unbanked_def in_range_nat)
  then have ok: "memory_ok m'"
    unfolding m'_def by (intro memory_ok_poke Suc.prems)
  show ?case
  proof (cases n)
    case 0
    then show ?thesis
      using ok by (simp add: m'_def Let_def del: fun_upd_apply)
  next
    case k: (Suc k)
    then have "unat (a + 1) = unat a + 1"
      using Suc.prems by (simp add: unat_u16_add)
    with ok have "memory_ok (m'\<lparr>mem_data := hram_fill n (a + 1) (st * 17 + 0x3D) (mem_data m')\<rparr>)"
      using Suc.prems by (intro Suc.IH) simp_all
    then show ?thesis
      by (simp add: m'_def Let_def)
  qed
qed simp

lemma memory_ok_power_on: "memory_ok memory_power_on"
  using memory_ok_hram_fill [OF memory_ok_default, of "0xFF80" 127 "0x6D"]
  by (simp add: memory_power_on_def Let_def)

section \<open>Every reachable memory\<close>

inductive mem_reachable :: "memory \<Rightarrow> bool" where
  power_on: "mem_reachable memory_power_on"
| write8: "mem_reachable m \<Longrightarrow> mem_reachable (mem_write8 a v m)"
| vbk: "mem_reachable m \<Longrightarrow> mem_reachable (fst (set_vbk v m))"
| svbk: "mem_reachable m \<Longrightarrow> mem_reachable (fst (set_svbk v m))"
| bg_index: "mem_reachable m \<Longrightarrow> mem_reachable (fst (set_bg_palette_index v m))"
| obj_index: "mem_reachable m \<Longrightarrow> mem_reachable (fst (set_obj_palette_index v m))"
| bg_data: "mem_reachable m \<Longrightarrow> mem_reachable (fst (write_bg_palette_data v b m))"
| obj_data: "mem_reachable m \<Longrightarrow> mem_reachable (fst (write_obj_palette_data v b m))"

lemma mem_reachable_ok: "mem_reachable m \<Longrightarrow> memory_ok m"
  by (induction rule: mem_reachable.induct)
    (simp_all add: memory_ok_power_on memory_ok_write8 memory_ok_set_vbk memory_ok_set_svbk
      memory_ok_palette_ops)

lemma active_wram_bank_le: "unat (active_wram_bank m) \<le> 7"
proof -
  have "(mem_svbk m AND 7) \<le> 7"
    by (rule word_and_le1)
  then show ?thesis
    by (auto simp: active_wram_bank_def Let_def word_le_nat_alt)
qed

lemma unat_and_le: "unat (v AND k :: u8) \<le> unat k"
  using word_and_le1 [of v k] by (simp add: word_le_nat_alt)

text \<open>
  From the power-on image, through any sequence of bus writes, bank switches and palette
  register writes, the flat 64 KiB image agrees with the banked view at every address, and
  every index the bank and palette accessors compute is within its array.
\<close>

theorem memory_image_agrees:
  assumes "mem_reachable m"
  shows "mem_read8 m a = mem_data m a \<and>
     (in_range 0x8000 0x9FFF a \<longrightarrow>
        unat (mem_vbk m) * VRAM_BANK_SIZE + unat (a - 0x8000) < 2 * VRAM_BANK_SIZE) \<and>
     (in_range 0xD000 0xDFFF a \<longrightarrow>
        unat (active_wram_bank m) * WRAM_BANK_SIZE + unat (a - 0xD000) < 8 * WRAM_BANK_SIZE) \<and>
     unat (bg_palette_index m AND 0x3F) < length (bg_palette_ram m) \<and>
     unat (obj_palette_index m AND 0x3F) < length (obj_palette_ram m)"
proof -
  have ok: "memory_ok m"
    by (rule mem_reachable_ok [OF assms])
  have "unat (mem_vbk m) \<le> 1"
    using ok unat_and_le [of "mem_vbk m" 1] by (simp add: memory_ok_def bank_regs_ok_def)
  moreover have "in_range 0x8000 0x9FFF a \<Longrightarrow> unat (a - 0x8000) < 0x2000"
    "in_range 0xD000 0xDFFF a \<Longrightarrow> unat (a - 0xD000) < 0x1000"
    using in_rangeD [of "0x8000" "0x9FFF" a] in_rangeD [of "0xD000" "0xDFFF" a]
    by (auto simp: in_range_nat)
  ultimately show ?thesis
    using ok shadow_outside [OF ok, of a] active_wram_bank_le [of m]
      unat_and_le [of "bg_palette_index m" "0x3F"] unat_and_le [of "obj_palette_index m" "0x3F"]
    by (auto simp: memory_ok_def mem_size_defs)
qed

theorem memory_image_agrees_witness:
  "mem_data (mem_write8 0xE123 7 memory_power_on) 0xC123 = 7"
  using memory_image_agrees [OF write8 [OF power_on], of "0xE123" 7 "0xC123"]
    memory_ok_power_on
  by (simp add: memory_ok_def read_write8 canon_def in_range_def)

text \<open>
  C17. Reading any address after a write returns the written byte exactly when the two
  addresses name the same cell, where the echo window \<open>E000\<close> to \<open>FDFF\<close> names the cells of
  work RAM 0x2000 below; every other address reads what it read before.
\<close>

theorem memory_read_after_write:
  assumes "mem_reachable m"
  shows "mem_read8 (mem_write8 a v m) b = (if canon a = canon b then v else mem_read8 m b)"
  using mem_reachable_ok [OF assms] by (simp add: memory_ok_def read_write8)

theorem memory_read_after_write_witness:
  "mem_read8 (mem_write8 0xD005 0x42 memory_power_on) 0xF005 = 0x42"
  using memory_read_after_write [OF power_on, of "0xD005" "0x42" "0xF005"]
  by (simp add: canon_def in_range_def)

end
