(* ===== verification/Mbc_Banks.thy ===== *)
theory Mbc_Banks
  imports Prelude
begin

text \<open>
  The bank arithmetic every cartridge controller shares (\<^verbatim>\<open>mbc/mod.rs\<close>), and the two contracts
  a controller offers to the cartridge: \<open>rom_window\<close>, how the two 16 KiB ROM windows select a
  bank, and \<open>banked_ram\<close>, that external RAM behaves as memory wherever the controller maps it.
  The theories of the controllers interpret both on their own operations.
\<close>

section \<open>Shared bank access\<close>

definition div_ceil :: "nat \<Rightarrow> nat \<Rightarrow> nat" where
  "div_ceil a b = (a + b - 1) div b"

definition read_rom_bank :: "u8 list \<Rightarrow> nat \<Rightarrow> nat \<Rightarrow> nat \<Rightarrow> u8" where
  "read_rom_bank rom bank bank_size offset =
     (if rom = [] \<or> bank_size = 0 then 0xFF
      else
        let bank_count = max (div_ceil (length rom) bank_size) 1;
            base = sat_mul usize_max (bank mod bank_count) bank_size
        in get_or rom (sat_add usize_max base offset) 0xFF)"

definition read_ram_bank :: "u8 list \<Rightarrow> nat \<Rightarrow> nat \<Rightarrow> nat \<Rightarrow> u8" where
  "read_ram_bank ram bank bank_size offset =
     (if ram = [] \<or> bank_size = 0 then 0xFF
      else
        let bank_count = max (div_ceil (length ram) bank_size) 1;
            base = sat_mul usize_max (bank mod bank_count) bank_size
        in get_or ram (sat_add usize_max base offset) 0xFF)"

definition write_ram_bank :: "u8 list \<Rightarrow> nat \<Rightarrow> nat \<Rightarrow> nat \<Rightarrow> u8 \<Rightarrow> u8 list" where
  "write_ram_bank ram bank bank_size offset v =
     (if ram = [] \<or> bank_size = 0 then ram
      else
        let bank_count = max (div_ceil (length ram) bank_size) 1;
            base = sat_mul usize_max (bank mod bank_count) bank_size
        in set_at ram (sat_add usize_max base offset) v)"

text \<open>\<open>(addr as usize).saturating_sub(0xA000)\<close>: the offset of an external RAM address.\<close>

definition ram_offset :: "u16 \<Rightarrow> nat" where
  "ram_offset addr = unat addr - 0xA000"

section \<open>The cell a bank access names\<close>

definition in_store :: "nat \<Rightarrow> nat \<Rightarrow> nat option" where
  "in_store n i = (if i < n then Some i else None)"

definition bank_index :: "nat \<Rightarrow> nat \<Rightarrow> nat \<Rightarrow> nat \<Rightarrow> nat option" where
  "bank_index n bank bank_size offset =
     (if n = 0 \<or> bank_size = 0 then None
      else in_store n
        (sat_add usize_max (sat_mul usize_max (bank mod max (div_ceil n bank_size) 1) bank_size) offset))"

lemma in_store_less: "in_store n i = Some k \<Longrightarrow> k < n"
  by (auto simp: in_store_def split: if_splits)

lemma bank_index_less: "bank_index n bank sz offset = Some i \<Longrightarrow> i < n"
  by (auto simp: bank_index_def dest: in_store_less split: if_splits)

lemma get_or_in_store: "get_or xs i d = (case in_store (length xs) i of None \<Rightarrow> d | Some k \<Rightarrow> xs ! k)"
  by (simp add: get_or_def in_store_def)

lemma set_at_in_store:
  "set_at xs i v = (case in_store (length xs) i of None \<Rightarrow> xs | Some k \<Rightarrow> xs[k := v])"
  by (simp add: set_at_def in_store_def)

lemma read_ram_bank_index:
  "read_ram_bank ram bank sz offset =
     (case bank_index (length ram) bank sz offset of None \<Rightarrow> 0xFF | Some i \<Rightarrow> ram ! i)"
  by (simp add: read_ram_bank_def bank_index_def Let_def get_or_in_store)

lemma write_ram_bank_index:
  "write_ram_bank ram bank sz offset v =
     (case bank_index (length ram) bank sz offset of None \<Rightarrow> ram | Some i \<Rightarrow> ram[i := v])"
  by (simp add: write_ram_bank_def bank_index_def Let_def set_at_in_store)

lemma read_rom_bank_0: "0 < sz \<Longrightarrow> offset \<le> usize_max \<Longrightarrow> read_rom_bank rom 0 sz offset = get_or rom offset 0xFF"
  by (simp add: read_rom_bank_def Let_def get_or_def)

text \<open>A whole number of banks, as the ROM sizes of the header give.\<close>

definition whole_banks :: "u8 list \<Rightarrow> bool" where
  "whole_banks rom \<longleftrightarrow> rom \<noteq> [] \<and> 0x4000 dvd length rom \<and> length rom \<le> usize_max"

lemma read_rom_bank_whole:
  assumes "whole_banks rom" "offset < 0x4000"
  shows "(bank mod (length rom div 0x4000)) * 0x4000 + offset < length rom \<and>
     read_rom_bank rom bank 0x4000 offset =
       rom ! ((bank mod (length rom div 0x4000)) * 0x4000 + offset)"
proof -
  obtain k where k: "length rom = 0x4000 * k"
    using assms(1) unfolding whole_banks_def dvd_def by blast
  have "0 < k"
    using assms(1) k by (cases k) (auto simp: whole_banks_def)
  have count: "div_ceil (length rom) 0x4000 = k" "length rom div 0x4000 = k"
    by (simp_all add: k div_ceil_def)
  have "bank mod k < k"
    using \<open>0 < k\<close> by simp
  then have "Suc (bank mod k) * 0x4000 \<le> k * 0x4000"
    by (intro mult_right_mono) simp_all
  then have i: "(bank mod k) * 0x4000 + offset < length rom"
    using assms(2) k by simp
  moreover have "length rom \<le> usize_max"
    using assms(1) by (simp add: whole_banks_def)
  ultimately have "sat_mul usize_max (bank mod k) 0x4000 = (bank mod k) * 0x4000"
    "sat_add usize_max ((bank mod k) * 0x4000) offset = (bank mod k) * 0x4000 + offset"
    by (intro sat_mul_exact sat_add_exact; linarith)+
  then show ?thesis
    using i \<open>0 < k\<close> assms(1)
    by (simp add: read_rom_bank_def count Let_def get_or_def whole_banks_def)
qed

text \<open>The ROM byte two bank selections put at an address of the two windows.\<close>

definition rom_cell :: "nat \<Rightarrow> nat \<Rightarrow> nat \<Rightarrow> u16 \<Rightarrow> nat" where
  "rom_cell lo hi n a =
     (if unat a < 0x4000 then (lo mod (n div 0x4000)) * 0x4000 + unat a
      else (hi mod (n div 0x4000)) * 0x4000 + (unat a - 0x4000))"

section \<open>The contracts\<close>

locale rom_window =
  fixes read_rom :: "'s \<Rightarrow> u8 list \<Rightarrow> u16 \<Rightarrow> u8"
    and lower :: "'s \<Rightarrow> nat"
    and upper :: "'s \<Rightarrow> nat"
  assumes lower_window: "unat a < 0x4000 \<Longrightarrow>
      read_rom s rom a = read_rom_bank rom (lower s) 0x4000 (unat a)"
    and upper_window: "0x4000 \<le> unat a \<Longrightarrow> unat a < 0x8000 \<Longrightarrow>
      read_rom s rom a = read_rom_bank rom (upper s) 0x4000 (unat a - 0x4000)"
begin

text \<open>On a ROM of whole banks every window read hits the selected bank, wrapped to the ROM.\<close>

lemma read_rom_cell:
  assumes "whole_banks rom" "unat a < 0x8000"
  shows "rom_cell (lower s) (upper s) (length rom) a < length rom \<and>
    read_rom s rom a = rom ! rom_cell (lower s) (upper s) (length rom) a"
  using assms read_rom_bank_whole [OF assms(1), of "unat a" "lower s"]
    read_rom_bank_whole [OF assms(1), of "unat a - 0x4000" "upper s"]
  by (cases "unat a < 0x4000") (auto simp: rom_cell_def lower_window upper_window)

end

locale banked_ram =
  fixes read_ram :: "'s \<Rightarrow> u8 list \<Rightarrow> u16 \<Rightarrow> u8"
    and write_ram :: "'s \<Rightarrow> u8 list \<Rightarrow> u16 \<Rightarrow> u8 \<Rightarrow> u8 list"
    and ram_open :: "'s \<Rightarrow> bool"
    and ram_index :: "'s \<Rightarrow> nat \<Rightarrow> u16 \<Rightarrow> nat option"
    and view :: "'s \<Rightarrow> u8 \<Rightarrow> u8"
    and store :: "'s \<Rightarrow> u8 \<Rightarrow> u8"
  assumes index_less: "ram_index s n a = Some i \<Longrightarrow> i < n"
    and read_open: "ram_open s \<Longrightarrow> read_ram s ram a =
      (case ram_index s (length ram) a of None \<Rightarrow> 0xFF | Some i \<Rightarrow> view s (ram ! i))"
    and write_open: "ram_open s \<Longrightarrow> write_ram s ram a v =
      (case ram_index s (length ram) a of None \<Rightarrow> ram | Some i \<Rightarrow> ram[i := store s v])"
    and write_closed: "\<not> ram_open s \<Longrightarrow> write_ram s ram a v = ram"
begin

lemma length_write_ram: "length (write_ram s ram a v) = length ram"
  by (cases "ram_open s") (simp_all add: write_open write_closed split: option.split)

text \<open>A write changes at most the cell it names.\<close>

lemma write_ram_other:
  "ram_index s (length ram) a \<noteq> Some i \<Longrightarrow> write_ram s ram a v ! i = ram ! i"
  by (cases "ram_open s") (auto simp: write_open write_closed split: option.split)

lemma read_write_ram:
  assumes "ram_open s"
  shows "read_ram s (write_ram s ram a v) b =
    (if ram_index s (length ram) a = ram_index s (length ram) b \<and> ram_index s (length ram) b \<noteq> None
     then view s (store s v) else read_ram s ram b)"
  using assms index_less [of s "length ram"]
  by (cases "ram_index s (length ram) a"; cases "ram_index s (length ram) b")
    (auto simp: read_open write_open)

text \<open>RAM survives any run of bus writes with its size unchanged.\<close>

lemma length_write_all:
  "length (fold (\<lambda>(a, v) ram. write_ram s ram a v) ws ram) = length ram"
  by (induction ws arbitrary: ram) (auto simp: length_write_ram)

end

end
