(* ===== verification/Mbc_Simple.thy ===== *)
theory Mbc_Simple
  imports Mbc_Banks
begin

text \<open>
  The controllers without time or devices: \<^verbatim>\<open>rom_only.rs\<close>, \<^verbatim>\<open>mbc1.rs\<close>, \<^verbatim>\<open>mbc2.rs\<close>,
  \<^verbatim>\<open>mbc5.rs\<close>, and the two wrappers around MBC1, \<^verbatim>\<open>mmm01.rs\<close> and \<^verbatim>\<open>huc1.rs\<close>. Each one
  interprets the ROM window and RAM contracts of the shared bank theory.
\<close>

section \<open>ROM only\<close>

definition rom_only_read_rom :: "u8 list \<Rightarrow> u16 \<Rightarrow> u8" where
  "rom_only_read_rom rom addr = get_or rom (unat addr) 0xFF"

definition rom_only_read_ram :: "u8 list \<Rightarrow> u16 \<Rightarrow> u8" where
  "rom_only_read_ram ram addr = get_or ram (ram_offset addr) 0xFF"

definition rom_only_write_ram :: "u8 list \<Rightarrow> u16 \<Rightarrow> u8 \<Rightarrow> u8 list" where
  "rom_only_write_ram ram addr v = set_at ram (ram_offset addr) v"

interpretation rom_only: banked_ram "\<lambda>_ :: unit. rom_only_read_ram" "\<lambda>_. rom_only_write_ram"
  "\<lambda>_. True" "\<lambda>_ n a. in_store n (ram_offset a)" "\<lambda>_ v. v" "\<lambda>_ v. v"
  by unfold_locales (auto simp: rom_only_read_ram_def rom_only_write_ram_def get_or_in_store
      set_at_in_store dest: in_store_less)

section \<open>MBC1\<close>

record mbc1 =
  m1_rom_bank_low5 :: u8
  m1_bank_high2 :: u8
  m1_ram_bank :: u8
  m1_ram_enabled :: bool
  m1_mode :: u8

definition mbc1_default :: mbc1 where
  "mbc1_default =
     \<lparr>m1_rom_bank_low5 = 1, m1_bank_high2 = 0, m1_ram_bank = 0, m1_ram_enabled = False, m1_mode = 0\<rparr>"

definition mbc1_lower_rom_bank :: "mbc1 \<Rightarrow> nat" where
  "mbc1_lower_rom_bank s =
     (if m1_mode s = 0 then 0 else push_bit 5 (unat (m1_bank_high2 s AND 0x03)))"

definition mbc1_current_rom_bank :: "mbc1 \<Rightarrow> u16" where
  "mbc1_current_rom_bank s =
     (let bank = (m1_rom_bank_low5 s AND 0x1F) OR push_bit 5 (m1_bank_high2 s AND 0x03);
          bank = (if bank = 0 then 1 else bank)
      in ucast bank)"

definition mbc1_current_ram_bank :: "mbc1 \<Rightarrow> u16" where
  "mbc1_current_ram_bank s = (if m1_mode s = 0 then 0 else ucast (m1_ram_bank s AND 0x03))"

definition mbc1_read_rom :: "mbc1 \<Rightarrow> u8 list \<Rightarrow> u16 \<Rightarrow> u8" where
  "mbc1_read_rom s rom addr =
     (if addr \<le> 0x3FFF then read_rom_bank rom (mbc1_lower_rom_bank s) 0x4000 (unat addr)
      else if addr \<le> 0x7FFF then
        let offset = unat addr - 0x4000
        in read_rom_bank rom (unat (mbc1_current_rom_bank s)) 0x4000 offset
      else 0xFF)"

definition mbc1_read_ram :: "mbc1 \<Rightarrow> u8 list \<Rightarrow> u16 \<Rightarrow> u8" where
  "mbc1_read_ram s ram addr =
     (if \<not> m1_ram_enabled s then 0xFF
      else read_ram_bank ram (unat (mbc1_current_ram_bank s)) 0x2000 (ram_offset addr))"

definition mbc1_write_ram :: "mbc1 \<Rightarrow> u8 list \<Rightarrow> u16 \<Rightarrow> u8 \<Rightarrow> u8 list" where
  "mbc1_write_ram s ram addr v =
     (if \<not> m1_ram_enabled s then ram
      else write_ram_bank ram (unat (mbc1_current_ram_bank s)) 0x2000 (ram_offset addr) v)"

definition mbc1_write :: "u16 \<Rightarrow> u8 \<Rightarrow> mbc1 \<Rightarrow> mbc1" where
  "mbc1_write addr v s =
     (if addr \<le> 0x1FFF then s\<lparr>m1_ram_enabled := (v AND 0x0F = 0x0A)\<rparr>
      else if addr \<le> 0x3FFF then
        let v = v AND 0x1F in s\<lparr>m1_rom_bank_low5 := (if v = 0 then 1 else v)\<rparr>
      else if addr \<le> 0x5FFF then s\<lparr>m1_bank_high2 := v AND 0x03, m1_ram_bank := v AND 0x03\<rparr>
      else if addr \<le> 0x7FFF then s\<lparr>m1_mode := v AND 0x01\<rparr>
      else s)"

lemma addr_window: "addr \<le> 0x3FFF \<longleftrightarrow> unat addr < 0x4000" "addr \<le> 0x7FFF \<longleftrightarrow> unat (addr :: u16) < 0x8000"
  by (simp_all add: word_le_nat_alt less_Suc_eq_le [symmetric])

definition mbc1_ram_index :: "mbc1 \<Rightarrow> nat \<Rightarrow> u16 \<Rightarrow> nat option" where
  "mbc1_ram_index s n a =
     (if m1_ram_enabled s then bank_index n (unat (mbc1_current_ram_bank s)) 0x2000 (ram_offset a)
      else None)"

interpretation mbc1_rom: rom_window mbc1_read_rom mbc1_lower_rom_bank
  "\<lambda>s. unat (mbc1_current_rom_bank s)"
  by unfold_locales (simp_all add: mbc1_read_rom_def addr_window)

interpretation mbc1_ram: banked_ram mbc1_read_ram mbc1_write_ram "\<lambda>_. True" mbc1_ram_index
  "\<lambda>_ v. v" "\<lambda>_ v. v"
  by unfold_locales (auto simp: mbc1_ram_index_def mbc1_read_ram_def mbc1_write_ram_def
      read_ram_bank_index write_ram_bank_index dest: bank_index_less split: if_splits)

section \<open>MBC2\<close>

record mbc2 =
  m2_rom_bank :: u8
  m2_ram_enabled :: bool

definition mbc2_default :: mbc2 where
  "mbc2_default = \<lparr>m2_rom_bank = 1, m2_ram_enabled = False\<rparr>"

definition MBC2_RAM_LEN :: nat where "MBC2_RAM_LEN = 0x0200"

definition mbc2_current_rom_bank :: "mbc2 \<Rightarrow> u16" where
  "mbc2_current_rom_bank s =
     (let bank = m2_rom_bank s AND 0x0F in if bank = 0 then 1 else ucast bank)"

definition mbc2_read_rom :: "mbc2 \<Rightarrow> u8 list \<Rightarrow> u16 \<Rightarrow> u8" where
  "mbc2_read_rom s rom addr =
     (if addr \<le> 0x3FFF then get_or rom (unat addr) 0xFF
      else if addr \<le> 0x7FFF then
        let offset = unat addr - 0x4000
        in read_rom_bank rom (unat (mbc2_current_rom_bank s)) 0x4000 offset
      else 0xFF)"

definition mbc2_write :: "u16 \<Rightarrow> u8 \<Rightarrow> mbc2 \<Rightarrow> mbc2" where
  "mbc2_write addr v s =
     (if addr \<le> 0x3FFF \<and> addr AND 0x0100 = 0 then s\<lparr>m2_ram_enabled := (v AND 0x0F = 0x0A)\<rparr>
      else if addr \<le> 0x3FFF then
        let bank = v AND 0x0F in s\<lparr>m2_rom_bank := (if bank = 0 then 1 else bank)\<rparr>
      else s)"

definition mbc2_read_ram :: "mbc2 \<Rightarrow> u8 list \<Rightarrow> u16 \<Rightarrow> u8" where
  "mbc2_read_ram s ram addr =
     (if \<not> m2_ram_enabled s then 0xFF
      else let index = unat addr AND 0x01FF in 0xF0 OR get_or ram index 0x0F)"

definition mbc2_write_ram :: "mbc2 \<Rightarrow> u8 list \<Rightarrow> u16 \<Rightarrow> u8 \<Rightarrow> u8 list" where
  "mbc2_write_ram s ram addr v =
     (if \<not> m2_ram_enabled s then ram
      else let index = unat addr AND 0x01FF in set_at ram index (v AND 0x0F))"

definition mbc2_ram_index :: "mbc2 \<Rightarrow> nat \<Rightarrow> u16 \<Rightarrow> nat option" where
  "mbc2_ram_index s n a =
     (if m2_ram_enabled s then in_store n (unat a AND 0x01FF) else None)"

lemma offset_small: "unat (a :: u16) \<le> usize_max"
  by (rule order_trans [OF less_imp_le [OF unat_u16_less]]) (simp add: usize_max_def)

interpretation mbc2_rom: rom_window mbc2_read_rom "\<lambda>_. 0" "\<lambda>s. unat (mbc2_current_rom_bank s)"
  by unfold_locales (simp_all add: mbc2_read_rom_def addr_window read_rom_bank_0 offset_small)

interpretation mbc2_ram: banked_ram mbc2_read_ram mbc2_write_ram "\<lambda>_. True" mbc2_ram_index
  "\<lambda>_ v. 0xF0 OR v" "\<lambda>_ v. v AND 0x0F"
  by unfold_locales (auto simp: mbc2_ram_index_def mbc2_read_ram_def mbc2_write_ram_def
      get_or_in_store set_at_in_store Let_def dest: in_store_less split: if_splits option.splits)

section \<open>MBC5\<close>

record mbc5 =
  m5_rom_bank_low :: u8
  m5_rom_bank_high :: u8
  m5_ram_bank :: u8
  m5_ram_enabled :: bool
  m5_has_rumble :: bool
  m5_rumble_enabled :: bool

definition mbc5_default :: mbc5 where
  "mbc5_default =
     \<lparr>m5_rom_bank_low = 1, m5_rom_bank_high = 0, m5_ram_bank = 0, m5_ram_enabled = False,
      m5_has_rumble = False, m5_rumble_enabled = False\<rparr>"

definition mbc5_with_rumble :: "bool \<Rightarrow> mbc5" where
  "mbc5_with_rumble has_rumble = mbc5_default\<lparr>m5_has_rumble := has_rumble\<rparr>"

definition mbc5_current_rom_bank :: "mbc5 \<Rightarrow> u16" where
  "mbc5_current_rom_bank s =
     ucast (m5_rom_bank_low s) OR push_bit 8 (ucast (m5_rom_bank_high s AND 0x01))"

definition mbc5_current_ram_bank :: "mbc5 \<Rightarrow> u16" where
  "mbc5_current_ram_bank s =
     (if m5_has_rumble s then ucast (m5_ram_bank s AND 0x07) else ucast (m5_ram_bank s AND 0x0F))"

definition mbc5_read_rom :: "mbc5 \<Rightarrow> u8 list \<Rightarrow> u16 \<Rightarrow> u8" where
  "mbc5_read_rom s rom addr =
     (if addr \<le> 0x3FFF then get_or rom (unat addr) 0xFF
      else if addr \<le> 0x7FFF then
        let offset = unat addr - 0x4000
        in read_rom_bank rom (unat (mbc5_current_rom_bank s)) 0x4000 offset
      else 0xFF)"

definition mbc5_read_ram :: "mbc5 \<Rightarrow> u8 list \<Rightarrow> u16 \<Rightarrow> u8" where
  "mbc5_read_ram s ram addr =
     (if \<not> m5_ram_enabled s then 0xFF
      else read_ram_bank ram (unat (mbc5_current_ram_bank s)) 0x2000 (ram_offset addr))"

definition mbc5_write_ram :: "mbc5 \<Rightarrow> u8 list \<Rightarrow> u16 \<Rightarrow> u8 \<Rightarrow> u8 list" where
  "mbc5_write_ram s ram addr v =
     (if \<not> m5_ram_enabled s then ram
      else write_ram_bank ram (unat (mbc5_current_ram_bank s)) 0x2000 (ram_offset addr) v)"

definition mbc5_write :: "u16 \<Rightarrow> u8 \<Rightarrow> mbc5 \<Rightarrow> mbc5" where
  "mbc5_write addr v s =
     (if addr \<le> 0x1FFF then s\<lparr>m5_ram_enabled := (v AND 0x0F = 0x0A)\<rparr>
      else if addr \<le> 0x2FFF then s\<lparr>m5_rom_bank_low := v\<rparr>
      else if addr \<le> 0x3FFF then s\<lparr>m5_rom_bank_high := v AND 0x01\<rparr>
      else if addr \<le> 0x5FFF then
        s\<lparr>m5_rumble_enabled := (m5_has_rumble s \<and> v AND 0x08 \<noteq> 0),
          m5_ram_bank := (if m5_has_rumble s then v AND 0x07 else v AND 0x0F)\<rparr>
      else s)"

definition mbc5_ram_index :: "mbc5 \<Rightarrow> nat \<Rightarrow> u16 \<Rightarrow> nat option" where
  "mbc5_ram_index s n a =
     (if m5_ram_enabled s then bank_index n (unat (mbc5_current_ram_bank s)) 0x2000 (ram_offset a)
      else None)"

interpretation mbc5_rom: rom_window mbc5_read_rom "\<lambda>_. 0" "\<lambda>s. unat (mbc5_current_rom_bank s)"
  by unfold_locales (simp_all add: mbc5_read_rom_def addr_window read_rom_bank_0 offset_small)

interpretation mbc5_ram: banked_ram mbc5_read_ram mbc5_write_ram "\<lambda>_. True" mbc5_ram_index
  "\<lambda>_ v. v" "\<lambda>_ v. v"
  by unfold_locales (auto simp: mbc5_ram_index_def mbc5_read_ram_def mbc5_write_ram_def
      read_ram_bank_index write_ram_bank_index dest: bank_index_less split: if_splits)

section \<open>MMM01 and HuC1, around MBC1\<close>

record mmm01 =
  mm_mapped :: bool
  mm_inner :: mbc1

definition mmm01_default :: mmm01 where
  "mmm01_default = \<lparr>mm_mapped = False, mm_inner = mbc1_default\<rparr>"

definition mmm01_read_rom :: "mmm01 \<Rightarrow> u8 list \<Rightarrow> u16 \<Rightarrow> u8" where
  "mmm01_read_rom s = mbc1_read_rom (mm_inner s)"

definition mmm01_read_ram :: "mmm01 \<Rightarrow> u8 list \<Rightarrow> u16 \<Rightarrow> u8" where
  "mmm01_read_ram s = mbc1_read_ram (mm_inner s)"

definition mmm01_write_ram :: "mmm01 \<Rightarrow> u8 list \<Rightarrow> u16 \<Rightarrow> u8 \<Rightarrow> u8 list" where
  "mmm01_write_ram s = mbc1_write_ram (mm_inner s)"

definition mmm01_write :: "u16 \<Rightarrow> u8 \<Rightarrow> mmm01 \<Rightarrow> mmm01" where
  "mmm01_write addr v s =
     (let s = (if addr \<le> 0x7FFF then s\<lparr>mm_mapped := True\<rparr> else s)
      in s\<lparr>mm_inner := mbc1_write addr v (mm_inner s)\<rparr>)"

interpretation mmm01_ram: banked_ram mmm01_read_ram mmm01_write_ram "\<lambda>_. True"
  "\<lambda>s. mbc1_ram_index (mm_inner s)" "\<lambda>_ v. v" "\<lambda>_ v. v"
  by unfold_locales (auto simp: mmm01_read_ram_def mmm01_write_ram_def mbc1_ram.read_open
      mbc1_ram.write_open dest: mbc1_ram.index_less)

interpretation mmm01_rom: rom_window mmm01_read_rom "\<lambda>s. mbc1_lower_rom_bank (mm_inner s)"
  "\<lambda>s. unat (mbc1_current_rom_bank (mm_inner s))"
  by unfold_locales (simp_all add: mmm01_read_rom_def mbc1_rom.lower_window mbc1_rom.upper_window)

record huc1 =
  h1_inner :: mbc1
  h1_ir_mode :: bool
  h1_ir_output :: bool

definition huc1_default :: huc1 where
  "huc1_default = \<lparr>h1_inner = mbc1_default, h1_ir_mode = False, h1_ir_output = False\<rparr>"

definition huc1_read_rom :: "huc1 \<Rightarrow> u8 list \<Rightarrow> u16 \<Rightarrow> u8" where
  "huc1_read_rom s = mbc1_read_rom (h1_inner s)"

definition huc1_read_ram :: "huc1 \<Rightarrow> u8 list \<Rightarrow> u16 \<Rightarrow> u8" where
  "huc1_read_ram s ram addr =
     (if h1_ir_mode s then 0xC0 OR (if h1_ir_output s then 1 else 0)
      else mbc1_read_ram (h1_inner s) ram addr)"

definition huc1_write_ram :: "huc1 \<Rightarrow> u8 list \<Rightarrow> u16 \<Rightarrow> u8 \<Rightarrow> huc1 \<times> u8 list" where
  "huc1_write_ram s ram addr v =
     (if h1_ir_mode s then (s\<lparr>h1_ir_output := (v AND 0x01 \<noteq> 0)\<rparr>, ram)
      else (s, mbc1_write_ram (h1_inner s) ram addr v))"

definition huc1_write :: "u16 \<Rightarrow> u8 \<Rightarrow> huc1 \<Rightarrow> huc1" where
  "huc1_write addr v s =
     (if addr \<le> 0x1FFF then
        let s = s\<lparr>h1_ir_mode := (v AND 0x0F = 0x0E)\<rparr>
        in s\<lparr>h1_inner := (h1_inner s)\<lparr>m1_ram_enabled := \<not> h1_ir_mode s\<rparr>\<rparr>
      else s\<lparr>h1_inner := mbc1_write addr v (h1_inner s)\<rparr>)"

interpretation huc1_ram: banked_ram huc1_read_ram "\<lambda>s ram a v. snd (huc1_write_ram s ram a v)"
  "\<lambda>s. \<not> h1_ir_mode s" "\<lambda>s. mbc1_ram_index (h1_inner s)" "\<lambda>_ v. v" "\<lambda>_ v. v"
  by unfold_locales (auto simp: huc1_read_ram_def huc1_write_ram_def mbc1_ram.read_open
      mbc1_ram.write_open dest: mbc1_ram.index_less)

interpretation huc1_rom: rom_window huc1_read_rom "\<lambda>s. mbc1_lower_rom_bank (h1_inner s)"
  "\<lambda>s. unat (mbc1_current_rom_bank (h1_inner s))"
  by unfold_locales (simp_all add: huc1_read_rom_def mbc1_rom.lower_window mbc1_rom.upper_window)

section \<open>Bank registers after any control writes\<close>

definition mbc1_writes :: "(u16 \<times> u8) list \<Rightarrow> mbc1 \<Rightarrow> mbc1" where
  "mbc1_writes = fold (\<lambda>(a, v). mbc1_write a v)"

definition mbc2_writes :: "(u16 \<times> u8) list \<Rightarrow> mbc2 \<Rightarrow> mbc2" where
  "mbc2_writes = fold (\<lambda>(a, v). mbc2_write a v)"

definition mbc1_regs_ok :: "mbc1 \<Rightarrow> bool" where
  "mbc1_regs_ok s \<longleftrightarrow> m1_rom_bank_low5 s AND 0x1F \<noteq> 0"

lemma mbc1_regs_ok_write: "mbc1_regs_ok s \<Longrightarrow> mbc1_regs_ok (mbc1_write a v s)"
  by (auto simp: mbc1_regs_ok_def mbc1_write_def Let_def and.assoc)

lemma mbc1_regs_ok_writes: "mbc1_regs_ok s \<Longrightarrow> mbc1_regs_ok (mbc1_writes ws s)"
  by (induction ws arbitrary: s) (auto simp: mbc1_writes_def mbc1_regs_ok_write)

lemma mbc2_regs_ok_writes: "m2_rom_bank s AND 0x0F \<noteq> 0 \<Longrightarrow> m2_rom_bank (mbc2_writes ws s) AND 0x0F \<noteq> 0"
proof (induction ws arbitrary: s)
  case (Cons w ws)
  have "m2_rom_bank (mbc2_write (fst w) (snd w) s) AND 0x0F \<noteq> 0"
    using Cons.prems by (auto simp: mbc2_write_def Let_def and.assoc)
  then show ?case
    using Cons.IH by (simp add: mbc2_writes_def split_beta)
qed (simp add: mbc2_writes_def)

lemma mbc1_bank_bits:
  fixes l h :: u8
  shows "((l AND 0x1F) OR push_bit 5 (h AND 0x03)) AND 0x1F = l AND 0x1F"
    "((l AND 0x1F) OR push_bit 5 (h AND 0x03)) AND 0x7F = (l AND 0x1F) OR push_bit 5 (h AND 0x03)"
  unfolding low_masks by (rule bit_word_eqI; auto simp: bit_simps bit_mask_iff)+

lemma mbc1_bank_bounds:
  assumes "mbc1_regs_ok s"
  shows "unat (mbc1_current_rom_bank s) mod 32 \<noteq> 0" "unat (mbc1_current_rom_bank s) < 128"
proof -
  define b where "b = (m1_rom_bank_low5 s AND 0x1F) OR push_bit 5 (m1_bank_high2 s AND 0x03)"
  have low: "b AND 0x1F = m1_rom_bank_low5 s AND 0x1F" and all: "b AND 0x7F = b"
    unfolding b_def by (rule mbc1_bank_bits)+
  have "b AND 0x1F \<noteq> 0"
    using assms low by (simp add: mbc1_regs_ok_def)
  then have "b \<noteq> 0" "unat b mod 32 \<noteq> 0"
    by (auto simp: unat_and_low(5) [symmetric] unat_eq_0)
  moreover have "unat b < 128"
    using unat_and_low(7) [of b] unfolding all by (metis mod_less_divisor zero_less_numeral)
  moreover have "mbc1_current_rom_bank s = (let bank = if b = 0 then 1 else b in ucast bank)"
    by (simp only: mbc1_current_rom_bank_def b_def Let_def)
  ultimately show "unat (mbc1_current_rom_bank s) mod 32 \<noteq> 0" "unat (mbc1_current_rom_bank s) < 128"
    by simp_all
qed

text \<open>
  After any sequence of control writes from power-on, MBC1 never maps a bank whose low
  five bits are zero into the switchable window (banks 0x00, 0x20, 0x40 and 0x60 are
  unreachable there) and its bank is below 128; MBC2 never maps bank zero there.
\<close>

theorem switchable_bank_nonzero:
  "unat (mbc1_current_rom_bank (mbc1_writes ws mbc1_default)) mod 32 \<noteq> 0 \<and>
   unat (mbc1_current_rom_bank (mbc1_writes ws mbc1_default)) < 128 \<and>
   0 < unat (mbc2_current_rom_bank (mbc2_writes ws mbc2_default)) \<and>
   unat (mbc2_current_rom_bank (mbc2_writes ws mbc2_default)) < 16"
proof -
  have "mbc1_regs_ok (mbc1_writes ws mbc1_default)"
    by (rule mbc1_regs_ok_writes) (simp add: mbc1_regs_ok_def mbc1_default_def)
  moreover have "unat (mbc2_current_rom_bank s) < 16 \<and> 0 < unat (mbc2_current_rom_bank s)" for s
    by (auto simp: mbc2_current_rom_bank_def Let_def unat_and_low word_unat_eq_iff)
  ultimately show ?thesis
    by (simp add: mbc1_bank_bounds)
qed

end
