(* ===== verification/Mbc3_Rtc.thy ===== *)
theory Mbc3_Rtc
  imports Mbc_Simple
begin

text \<open>
  MBC3 (\<^verbatim>\<open>mbc3.rs\<close>): banked ROM and RAM plus a real-time clock driven by the host's wall
  clock. The host time in seconds is the parameter \<open>now\<close> of the operations that read it. The
  clock registers are proved to count elapsed seconds exactly, with the day counter's wrap and
  sticky carry, however the elapsed time is divided into updates.
\<close>

record mbc3 =
  m3_rom_bank :: u8
  m3_ram_bank :: u8
  m3_ram_enabled :: bool
  m3_rtc :: "u8 list"
  m3_latched :: "u8 list"
  m3_latch_value :: u8
  m3_last :: nat

definition mbc3_default :: "nat \<Rightarrow> mbc3" where
  "mbc3_default now =
     \<lparr>m3_rom_bank = 1, m3_ram_bank = 0, m3_ram_enabled = False, m3_rtc = replicate 5 0,
      m3_latched = replicate 5 0, m3_latch_value = 0, m3_last = now\<rparr>"

definition mbc3_current_rom_bank :: "mbc3 \<Rightarrow> u16" where
  "mbc3_current_rom_bank s =
     (let bank = (if m3_rom_bank s = 0 then 1 else m3_rom_bank s) in ucast bank)"

definition mbc3_current_ram_bank :: "mbc3 \<Rightarrow> u16" where
  "mbc3_current_ram_bank s = ucast (m3_ram_bank s AND 0x03)"

definition mbc3_read_rom :: "mbc3 \<Rightarrow> u8 list \<Rightarrow> u16 \<Rightarrow> u8" where
  "mbc3_read_rom s rom addr =
     (if addr \<le> 0x3FFF then get_or rom (unat addr) 0xFF
      else if addr \<le> 0x7FFF then
        let offset = unat addr - 0x4000
        in read_rom_bank rom (unat (mbc3_current_rom_bank s)) 0x4000 offset
      else 0xFF)"

definition mbc3_rtc_selected :: "mbc3 \<Rightarrow> bool" where
  "mbc3_rtc_selected s \<longleftrightarrow> 0x08 \<le> m3_ram_bank s \<and> m3_ram_bank s \<le> 0x0C"

definition mbc3_read_ram :: "mbc3 \<Rightarrow> u8 list \<Rightarrow> u16 \<Rightarrow> u8" where
  "mbc3_read_ram s ram addr =
     (if \<not> m3_ram_enabled s then 0xFF
      else if mbc3_rtc_selected s then m3_latched s ! unat (m3_ram_bank s - 0x08)
      else read_ram_bank ram (unat (mbc3_current_ram_bank s)) 0x2000 (ram_offset addr))"

definition advance_rtc_seconds :: "nat \<Rightarrow> mbc3 \<Rightarrow> mbc3" where
  "advance_rtc_seconds elapsed s =
     (if elapsed = 0 then s
      else
        let r = m3_rtc s;
            seconds = unat (r ! 0) + elapsed;
            r = r[0 := of_nat (seconds mod 60)];
            carry = seconds div 60;
            minutes = unat (r ! 1) + carry;
            r = r[1 := of_nat (minutes mod 60)];
            carry = minutes div 60;
            hours = unat (r ! 2) + carry;
            r = r[2 := of_nat (hours mod 24)];
            carry = hours div 24;
            current_days = (ucast (r ! 3) :: u16) OR push_bit 8 (ucast (r ! 4 AND 0x01));
            total_days = unat current_days + carry;
            wrapped_days = (of_nat (total_days AND 0x01FF) :: u16);
            r = r[3 := ucast wrapped_days];
            r = r[4 := (r ! 4 AND 0xFE) OR (ucast (drop_bit 8 wrapped_days) AND 0x01)];
            r = (if total_days > 0x01FF then r[4 := r ! 4 OR 0x80] else r)
        in s\<lparr>m3_rtc := r\<rparr>)"

definition update_rtc :: "nat \<Rightarrow> mbc3 \<Rightarrow> mbc3" where
  "update_rtc now s =
     (if now \<le> m3_last s then s
      else
        let elapsed = now - m3_last s; s = s\<lparr>m3_last := now\<rparr> in
        if m3_rtc s ! 4 AND 0x40 \<noteq> 0 then s else advance_rtc_seconds elapsed s)"

definition write_rtc_register :: "u8 \<Rightarrow> u8 \<Rightarrow> mbc3 \<Rightarrow> mbc3" where
  "write_rtc_register index v s =
     (let slot = unat index; r = m3_rtc s;
          r = (if index = 0 then r[slot := v mod 60]
               else if index = 1 then r[slot := v mod 60]
               else if index = 2 then r[slot := v mod 24]
               else if index = 3 then r[slot := v]
               else if index = 4 then r[slot := (v AND 0xC1) OR (r ! slot AND 0x3E)]
               else r)
      in s\<lparr>m3_rtc := r, m3_latched := (m3_latched s)[slot := r ! slot]\<rparr>)"

definition mbc3_write_ram :: "nat \<Rightarrow> mbc3 \<Rightarrow> u8 list \<Rightarrow> u16 \<Rightarrow> u8 \<Rightarrow> mbc3 \<times> u8 list" where
  "mbc3_write_ram now s ram addr v =
     (if \<not> m3_ram_enabled s then (s, ram)
      else
        let s = update_rtc now s in
        if mbc3_rtc_selected s then (write_rtc_register (m3_ram_bank s - 0x08) v s, ram)
        else (s, write_ram_bank ram (unat (mbc3_current_ram_bank s)) 0x2000 (ram_offset addr) v))"

definition mbc3_write :: "nat \<Rightarrow> u16 \<Rightarrow> u8 \<Rightarrow> mbc3 \<Rightarrow> mbc3" where
  "mbc3_write now addr v s =
     (let s = update_rtc now s in
      if addr \<le> 0x1FFF then s\<lparr>m3_ram_enabled := (v AND 0x0F = 0x0A)\<rparr>
      else if addr \<le> 0x3FFF then
        let v = v AND 0x7F in s\<lparr>m3_rom_bank := (if v = 0 then 1 else v)\<rparr>
      else if addr \<le> 0x5FFF then s\<lparr>m3_ram_bank := v\<rparr>
      else if addr \<le> 0x7FFF then
        let s = (if m3_latch_value s = 0 \<and> v = 1 then s\<lparr>m3_latched := m3_rtc s\<rparr> else s)
        in s\<lparr>m3_latch_value := v\<rparr>
      else s)"

definition mbc3_tick :: "nat \<Rightarrow> nat \<Rightarrow> mbc3 \<Rightarrow> mbc3" where
  "mbc3_tick now cycles s = update_rtc now s"

section \<open>The contracts of the cartridge\<close>

definition mbc3_ram_index :: "mbc3 \<Rightarrow> nat \<Rightarrow> u16 \<Rightarrow> nat option" where
  "mbc3_ram_index s n a =
     (if m3_ram_enabled s then bank_index n (unat (mbc3_current_ram_bank s)) 0x2000 (ram_offset a)
      else None)"

lemma update_rtc_sel [simp]:
  "m3_ram_bank (update_rtc now s) = m3_ram_bank s"
  "m3_rom_bank (update_rtc now s) = m3_rom_bank s"
  "m3_ram_enabled (update_rtc now s) = m3_ram_enabled s"
  "m3_latched (update_rtc now s) = m3_latched s"
  "m3_latch_value (update_rtc now s) = m3_latch_value s"
  by (simp_all add: update_rtc_def advance_rtc_seconds_def Let_def)

lemma update_rtc_derived [simp]:
  "mbc3_rtc_selected (update_rtc now s) = mbc3_rtc_selected s"
  "mbc3_current_ram_bank (update_rtc now s) = mbc3_current_ram_bank s"
  by (simp_all add: mbc3_rtc_selected_def mbc3_current_ram_bank_def)

interpretation mbc3_rom: rom_window mbc3_read_rom "\<lambda>_. 0" "\<lambda>s. unat (mbc3_current_rom_bank s)"
  by unfold_locales (simp_all add: mbc3_read_rom_def addr_window read_rom_bank_0 offset_small)

interpretation mbc3_ram: banked_ram mbc3_read_ram "\<lambda>s ram a v. snd (mbc3_write_ram now s ram a v)"
  "\<lambda>s. \<not> mbc3_rtc_selected s" mbc3_ram_index "\<lambda>_ v. v" "\<lambda>_ v. v" for now
  by unfold_locales (auto simp: mbc3_ram_index_def mbc3_read_ram_def mbc3_write_ram_def Let_def
      read_ram_bank_index write_ram_bank_index dest: bank_index_less split: if_splits)

section \<open>The clock as a number of seconds\<close>

definition rtc_days :: "u8 list \<Rightarrow> nat" where
  "rtc_days r = unat (r ! 3) + 256 * (unat (r ! 4) mod 2)"

definition rtc_total :: "u8 list \<Rightarrow> nat" where
  "rtc_total r = unat (r ! 0) + 60 * unat (r ! 1) + 3600 * unat (r ! 2) + 86400 * rtc_days r"

definition rtc_period :: nat where "rtc_period = 512 * 86400"

definition rtc_ok :: "u8 list \<Rightarrow> bool" where
  "rtc_ok r \<longleftrightarrow> length r = 5 \<and> unat (r ! 0) < 60 \<and> unat (r ! 1) < 60 \<and> unat (r ! 2) < 24"

lemma rtc_days_word:
  "unat ((ucast (r3 :: u8) :: u16) OR push_bit 8 (ucast (r4 AND 0x01 :: u8))) =
     unat r3 + 256 * (unat r4 mod 2)"
proof -
  have "(ucast r3 :: u16) OR push_bit 8 (ucast (r4 AND 0x01)) = join_bytes (r4 AND 0x01) r3"
    by (simp add: join_bytes_def or.commute)
  then show ?thesis
    by (simp add: unat_join_bytes unat_and_low)
qed

lemma rtc_day_bit:
  "unat (((r :: u8) AND 0xFE) OR (x AND 0x01)) mod 2 = unat x mod 2"
  "bit ((r AND 0xFE) OR (x AND 0x01)) 7 = bit r 7"
  "bit ((r AND 0xFE) OR (x AND 0x01)) 6 = bit r 6"
  "unat (y OR 0x80 :: u8) mod 2 = unat y mod 2"
proof -
  have m: "unat v mod 2 = of_bool (bit v 0)" for v :: u8
    using bit_unsigned_iff [of v 0, where 'a = nat] by (simp add: mod_2_eq_odd bit_0)
  show "unat ((r AND 0xFE) OR (x AND 0x01)) mod 2 = unat x mod 2"
    "unat (y OR 0x80 :: u8) mod 2 = unat y mod 2"
    unfolding m by (simp_all add: bit_simps)
  show "bit ((r AND 0xFE) OR (x AND 0x01)) 7 = bit r 7"
    "bit ((r AND 0xFE) OR (x AND 0x01)) 6 = bit r 6"
    by (simp_all add: bit_simps)
qed

lemma list5: "length r = 5 \<Longrightarrow> \<exists>a b c d e. r = [a, b, c, d, e]"
  by (auto simp: length_Suc_conv eval_nat_numeral)

lemma clock_digits:
  fixes sec mn hr dy :: nat
  assumes "mn = b + sec div 60" "hr = c + mn div 60" "dy = D + hr div 24"
  shows "sec + 60 * b + 3600 * c + 86400 * D =
     (sec mod 60 + 60 * (mn mod 60) + 3600 * (hr mod 24)) + 86400 * dy"
    "sec mod 60 + 60 * (mn mod 60) + 3600 * (hr mod 24) < 86400"
proof -
  have "sec = 60 * (sec div 60) + sec mod 60" "mn = 60 * (mn div 60) + mn mod 60"
    "hr = 24 * (hr div 24) + hr mod 24"
    by simp_all
  then show "sec + 60 * b + 3600 * c + 86400 * D =
     (sec mod 60 + 60 * (mn mod 60) + 3600 * (hr mod 24)) + 86400 * dy"
    using assms by linarith
  have "sec mod 60 < 60" "mn mod 60 < 60" "hr mod 24 < 24"
    by simp_all
  then show "sec mod 60 + 60 * (mn mod 60) + 3600 * (hr mod 24) < 86400"
    by linarith
qed

lemma mod_days:
  assumes "(low :: nat) < 86400"
  shows "(low + 86400 * dy) mod rtc_period = low + 86400 * (dy mod 512)"
    "rtc_period \<le> low + 86400 * dy \<longleftrightarrow> 512 \<le> dy"
proof -
  have "dy = 512 * (dy div 512) + dy mod 512" by simp
  then have "low + 86400 * dy = rtc_period * (dy div 512) + (low + 86400 * (dy mod 512))"
    unfolding rtc_period_def by linarith
  moreover have "low + 86400 * (dy mod 512) < rtc_period"
    using assms mod_less_divisor [of 512 dy] unfolding rtc_period_def by linarith
  ultimately show "(low + 86400 * dy) mod rtc_period = low + 86400 * (dy mod 512)"
    by (simp only: mod_mult_self4 mod_less)
  show "rtc_period \<le> low + 86400 * dy \<longleftrightarrow> 512 \<le> dy"
    using assms unfolding rtc_period_def by linarith
qed

lemma wrapped_days:
  "unat (of_nat (n AND 0x01FF) :: u16) = n mod 512"
proof -
  have "n AND 0x01FF = n mod 512"
    using take_bit_eq_mask [of 9 n] by (simp add: take_bit_eq_mod mask_eq_exp_minus_1)
  then show ?thesis
    by (simp add: unat_of_nat)
qed

lemma advance_rtc_total:
  assumes "rtc_ok (m3_rtc s)" "0 < e"
  defines "r \<equiv> m3_rtc s" and "r' \<equiv> m3_rtc (advance_rtc_seconds e s)"
  shows "rtc_ok r' \<and> rtc_total r' = (rtc_total r + e) mod rtc_period \<and>
     bit (r' ! 4) 7 = (bit (r ! 4) 7 \<or> rtc_period \<le> rtc_total r + e) \<and>
     bit (r' ! 4) 6 = bit (r ! 4) 6"
proof -
  obtain a b c d f where r: "m3_rtc s = [a, b, c, d, f]"
    using assms(1) list5 [of "m3_rtc s"] by (auto simp: rtc_ok_def)
  define sec where "sec = unat a + e"
  define mn where "mn = unat b + sec div 60"
  define hr where "hr = unat c + mn div 60"
  define dy where "dy = unat d + 256 * (unat f mod 2) + hr div 24"
  define w where "w = (of_nat (dy AND 0x01FF) :: u16)"
  define f' where "f' = (f AND 0xFE) OR (ucast (drop_bit 8 w) AND 0x01)"
  have r': "r' = [of_nat (sec mod 60), of_nat (mn mod 60), of_nat (hr mod 24), ucast w,
      if dy > 0x01FF then f' OR 0x80 else f']"
    using assms(2) unfolding r'_def
    by (simp add: advance_rtc_seconds_def r Let_def sec_def [symmetric] mn_def [symmetric]
        hr_def [symmetric] rtc_days_word dy_def [symmetric] w_def [symmetric] f'_def)
  have w: "unat w = dy mod 512"
    unfolding w_def by (rule wrapped_days)
  have small: "unat (of_nat (n mod k) :: u8) = n mod k" if "0 < k" "k \<le> 256" for n k
  proof -
    have "n mod k < 256"
      using that by (intro order_less_le_trans [OF mod_less_divisor])
    then show ?thesis
      by (simp add: unat_of_nat)
  qed
  have hi: "unat (ucast (drop_bit 8 w) :: u8) mod 2 = dy mod 512 div 256"
  proof -
    have "dy mod 512 div 256 < 2"
      by (simp add: div_less_iff_less_mult)
    then show ?thesis
      unfolding unat_bytes(1) w by simp
  qed
  have lo: "unat (ucast w :: u8) = dy mod 512 mod 256"
    by (simp only: unat_bytes w)
  have days: "rtc_days r' = dy mod 512"
    by (simp add: rtc_days_def r' lo f'_def rtc_day_bit hi)
  have tot: "rtc_total r + e = sec + 60 * unat b + 3600 * unat c + 86400 * (unat d + 256 * (unat f mod 2))"
    by (simp add: rtc_total_def r_def r rtc_days_def sec_def)
  note dig = clock_digits [OF mn_def hr_def dy_def]
  have total: "rtc_total r' = (rtc_total r + e) mod rtc_period"
    unfolding tot dig(1) mod_days(1) [OF dig(2)]
    by (simp add: rtc_total_def days) (simp add: r' small)
  have carry: "rtc_period \<le> rtc_total r + e \<longleftrightarrow> 512 \<le> dy"
    unfolding tot dig(1) by (rule mod_days(2) [OF dig(2)])
  have "rtc_ok r'"
    by (simp add: rtc_ok_def r' small)
  moreover have "bit (r' ! 4) 7 = (bit (r ! 4) 7 \<or> rtc_period \<le> rtc_total r + e)"
    unfolding carry by (auto simp: r' r_def r f'_def rtc_day_bit bit_simps)
  moreover have "bit (r' ! 4) 6 = bit (r ! 4) 6"
    by (simp add: r' r_def r f'_def rtc_day_bit) (auto simp: bit_simps)
  ultimately show ?thesis
    using total by blast
qed

text \<open>Every register write and every update keeps the clock fields in range.\<close>

lemma rtc_ok_write_register:
  assumes "rtc_ok (m3_rtc s)" "unat i < 5"
  shows "rtc_ok (m3_rtc (write_rtc_register i v s))"
proof -
  have u: "unat (v mod 60) < 60" "unat (v mod 24) < 24"
    by (simp_all add: unat_mod_distrib)
  show ?thesis
    using assms u by (auto simp: rtc_ok_def write_rtc_register_def Let_def nth_list_update)
qed

lemma rtc_ok_update: "rtc_ok (m3_rtc s) \<Longrightarrow> rtc_ok (m3_rtc (update_rtc now s))"
  using advance_rtc_total [of "s\<lparr>m3_last := now\<rparr>" "now - m3_last s"]
  by (auto simp: update_rtc_def Let_def)

lemma update_rtc_counts:
  assumes "rtc_ok (m3_rtc s)" "m3_last s < now"
  shows "m3_last (update_rtc now s) = now \<and>
    (if bit (m3_rtc s ! 4) 6 then m3_rtc (update_rtc now s) = m3_rtc s
     else
       rtc_total (m3_rtc (update_rtc now s)) =
         (rtc_total (m3_rtc s) + (now - m3_last s)) mod rtc_period \<and>
       rtc_ok (m3_rtc (update_rtc now s)) \<and>
       bit (m3_rtc (update_rtc now s) ! 4) 7 =
         (bit (m3_rtc s ! 4) 7 \<or> rtc_period \<le> rtc_total (m3_rtc s) + (now - m3_last s)) \<and>
       \<not> bit (m3_rtc (update_rtc now s) ! 4) 6)"
proof -
  have "m3_last (advance_rtc_seconds e t) = m3_last t" for e t
    by (simp add: advance_rtc_seconds_def Let_def)
  then show ?thesis
    using assms advance_rtc_total [of "s\<lparr>m3_last := now\<rparr>" "now - m3_last s"]
    by (auto simp: update_rtc_def Let_def mask_simps)
qed

text \<open>
  C20. When the clock is not halted, bringing it up to a later host time adds exactly the elapsed
  seconds to the time its registers show, modulo 512 days, keeps every field in range, and
  sets the day carry exactly when 512 days were passed, never clearing it; when it is halted
  the registers stand still, and the time spent halted is not added later.
\<close>

theorem mbc3_clock_counts:
  assumes "rtc_ok (m3_rtc s)" "m3_last s < now"
  shows "m3_last (update_rtc now s) = now \<and>
    (if bit (m3_rtc s ! 4) 6 then m3_rtc (update_rtc now s) = m3_rtc s
     else
       rtc_total (m3_rtc (update_rtc now s)) =
         (rtc_total (m3_rtc s) + (now - m3_last s)) mod rtc_period \<and>
       rtc_ok (m3_rtc (update_rtc now s)) \<and>
       bit (m3_rtc (update_rtc now s) ! 4) 7 =
         (bit (m3_rtc s ! 4) 7 \<or> rtc_period \<le> rtc_total (m3_rtc s) + (now - m3_last s)) \<and>
       \<not> bit (m3_rtc (update_rtc now s) ! 4) 6)"
  using assms by (rule update_rtc_counts)

theorem mbc3_clock_counts_witness:
  "rtc_total (m3_rtc (update_rtc 100 (mbc3_default 30))) = 70"
  using mbc3_clock_counts [of "mbc3_default 30" 100]
  by (simp add: mbc3_default_def rtc_ok_def rtc_total_def rtc_days_def rtc_period_def)

text \<open>
  The clock does not depend on how often it is updated: two updates leave the same total
  time, carry and timestamp as the second one alone.
\<close>

theorem mbc3_clock_slices:
  assumes "rtc_ok (m3_rtc s)" "m3_last s \<le> t1" "t1 \<le> t2"
  shows "rtc_total (m3_rtc (update_rtc t2 (update_rtc t1 s))) = rtc_total (m3_rtc (update_rtc t2 s)) \<and>
    bit (m3_rtc (update_rtc t2 (update_rtc t1 s)) ! 4) 7 = bit (m3_rtc (update_rtc t2 s) ! 4) 7 \<and>
    m3_last (update_rtc t2 (update_rtc t1 s)) = m3_last (update_rtc t2 s)"
proof (cases "t1 = m3_last s \<or> t1 = t2")
  case True
  then show ?thesis
  proof
    assume "t1 = m3_last s"
    then have "update_rtc t1 s = s" by (simp add: update_rtc_def)
    then show ?thesis by simp
  next
    assume "t1 = t2"
    moreover have "t2 \<le> m3_last (update_rtc t2 s)"
      by (simp add: update_rtc_def advance_rtc_seconds_def Let_def)
    then have "update_rtc t2 (update_rtc t2 s) = update_rtc t2 s"
      by (simp add: update_rtc_def [of t2 "update_rtc t2 s"])
    ultimately show ?thesis by simp
  qed
next
  case False
  with assms have lt: "m3_last s < t1" "t1 < t2" "m3_last s < t2" by auto
  note one = update_rtc_counts [OF assms(1) lt(1)]
  have two: "m3_last (update_rtc t1 s) < t2"
    using one lt by simp
  note second = update_rtc_counts [OF rtc_ok_update [OF assms(1)] two]
  note whole = update_rtc_counts [OF assms(1) lt(3)]
  show ?thesis
  proof (cases "bit (m3_rtc s ! 4) 6")
    case True
    then show ?thesis
      using one second whole by simp
  next
    case False
    have split: "(t1 - m3_last s) + (t2 - t1) = t2 - m3_last s"
      using lt by simp
    have mod: "((T + (t1 - m3_last s)) mod rtc_period + (t2 - t1)) mod rtc_period =
        (T + (t2 - m3_last s)) mod rtc_period" for T
      unfolding split [symmetric] by (simp add: mod_simps add.assoc)
    have over: "rtc_period \<le> T + (t1 - m3_last s) \<or> rtc_period \<le> (T + (t1 - m3_last s)) mod rtc_period + (t2 - t1)
        \<longleftrightarrow> rtc_period \<le> T + (t2 - m3_last s)" for T
      unfolding split [symmetric] by (cases "rtc_period \<le> T + (t1 - m3_last s)") auto
    show ?thesis
      using one second whole False mod [of "rtc_total (m3_rtc s)"] over [of "rtc_total (m3_rtc s)"]
      by auto
  qed
qed

theorem mbc3_clock_slices_witness:
  "rtc_total (m3_rtc (update_rtc 200 (update_rtc 100 (mbc3_default 30)))) =
   rtc_total (m3_rtc (update_rtc 200 (mbc3_default 30)))"
  using mbc3_clock_slices [of "mbc3_default 30" 100 200]
  by (simp add: mbc3_default_def rtc_ok_def)

end
