(* ===== verification/Mbc_Clocked.thy ===== *)
theory Mbc_Clocked
  imports Mbc_Simple
begin

text \<open>
  The two other controllers with a host-driven clock: HuC3 (\<^verbatim>\<open>huc3.rs\<close>), whose clock and
  command registers live in 256 nibbles, and TAMA5 (\<^verbatim>\<open>tama5.rs\<close>), whose snapshot is packed
  decimal. The host time in seconds is the parameter \<open>now\<close>.
\<close>

section \<open>HuC3\<close>

record huc3 =
  h3_rom_bank :: u8
  h3_mode :: u8
  h3_ram_bank :: u8
  h3_memory :: "u8 list"
  h3_access :: u8
  h3_command :: u8
  h3_argument :: u8
  h3_response :: u8
  h3_ready :: bool
  h3_last :: nat
  h3_subminute :: nat
  h3_ir_value :: u8

definition huc3_default :: "nat \<Rightarrow> huc3" where
  "huc3_default now =
     \<lparr>h3_rom_bank = 1, h3_mode = 0, h3_ram_bank = 0, h3_memory = replicate 0x100 0,
      h3_access = 0, h3_command = 0, h3_argument = 0, h3_response = 0, h3_ready = True,
      h3_last = now, h3_subminute = 0, h3_ir_value = 0\<rparr>"

definition huc3_current_rom_bank :: "huc3 \<Rightarrow> u16" where
  "huc3_current_rom_bank s = ucast (h3_rom_bank s AND 0x7F)"

definition huc3_current_ram_bank :: "huc3 \<Rightarrow> u16" where
  "huc3_current_ram_bank s = ucast (h3_ram_bank s AND 0x03)"

definition huc3_read_rom :: "huc3 \<Rightarrow> u8 list \<Rightarrow> u16 \<Rightarrow> u8" where
  "huc3_read_rom s rom addr =
     (if addr \<le> 0x3FFF then get_or rom (unat addr) 0xFF
      else if addr \<le> 0x7FFF then
        let offset = unat addr - 0x4000
        in read_rom_bank rom (unat (huc3_current_rom_bank s)) 0x4000 offset
      else 0xFF)"

definition huc3_read_ram :: "huc3 \<Rightarrow> u8 list \<Rightarrow> u16 \<Rightarrow> u8" where
  "huc3_read_ram s ram addr =
     (let mode = h3_mode s AND 0x0F in
      if mode = 0x00 \<or> mode = 0x0A then
        read_ram_bank ram (unat (huc3_current_ram_bank s)) 0x2000 (ram_offset addr)
      else if mode = 0x0C then
        0x80 OR push_bit 4 (h3_command s AND 0x07) OR (h3_response s AND 0x0F)
      else if mode = 0x0D then 0x80 OR (if h3_ready s then 1 else 0)
      else if mode = 0x0E then 0xC0 OR (h3_ir_value s AND 0x01)
      else 0xFF)"

definition read_rtc_nibble :: "u8 \<Rightarrow> huc3 \<Rightarrow> u8" where
  "read_rtc_nibble index s = get_or (h3_memory s) (unat index) 0 AND 0x0F"

definition write_rtc_nibble :: "u8 \<Rightarrow> u8 \<Rightarrow> huc3 \<Rightarrow> huc3" where
  "write_rtc_nibble index v s = s\<lparr>h3_memory := set_at (h3_memory s) (unat index) (v AND 0x0F)\<rparr>"

definition read_nibble_triplet :: "u8 \<Rightarrow> huc3 \<Rightarrow> nat" where
  "read_nibble_triplet start s =
     unat (read_rtc_nibble start s)
       OR push_bit 4 (unat (read_rtc_nibble (start + 1) s))
       OR push_bit 8 (unat (read_rtc_nibble (start + 2) s))"

definition write_nibble_triplet :: "u8 \<Rightarrow> nat \<Rightarrow> huc3 \<Rightarrow> huc3" where
  "write_nibble_triplet start v s =
     (let s = write_rtc_nibble start (of_nat v AND 0x0F) s;
          s = write_rtc_nibble (start + 1) (of_nat (drop_bit 4 v) AND 0x0F) s
      in write_rtc_nibble (start + 2) (of_nat (drop_bit 8 v) AND 0x0F) s)"

definition read_absolute_time :: "u8 \<Rightarrow> u8 \<Rightarrow> huc3 \<Rightarrow> nat" where
  "read_absolute_time minute_start day_start s =
     read_nibble_triplet day_start s * 1440 + read_nibble_triplet minute_start s"

definition write_absolute_time :: "u8 \<Rightarrow> u8 \<Rightarrow> nat \<Rightarrow> huc3 \<Rightarrow> huc3" where
  "write_absolute_time minute_start day_start absolute_minutes s =
     (let days = absolute_minutes div 1440; minutes = absolute_minutes mod 1440
      in write_nibble_triplet day_start days (write_nibble_triplet minute_start minutes s))"

definition huc3_update_rtc :: "nat \<Rightarrow> huc3 \<Rightarrow> huc3" where
  "huc3_update_rtc now s =
     (if now \<le> h3_last s then s
      else
        let elapsed = now - h3_last s;
            s = s\<lparr>h3_last := now\<rparr>;
            total_seconds = h3_subminute s + elapsed;
            delta_minutes = total_seconds div 60;
            s = s\<lparr>h3_subminute := total_seconds mod 60\<rparr>
        in if delta_minutes = 0 then s
           else
             let current_minutes = read_nibble_triplet 0x10 s;
                 current_days = read_nibble_triplet 0x13 s;
                 total_minutes = current_minutes + delta_minutes;
                 day_increment = total_minutes div 1440;
                 wrapped_minutes = total_minutes mod 1440;
                 s = write_nibble_triplet 0x10 wrapped_minutes s
             in write_nibble_triplet 0x13 (current_days + day_increment) s)"

definition copy_current_time_to_window :: "huc3 \<Rightarrow> huc3" where
  "copy_current_time_to_window s =
     (let m = fold (\<lambda>offset m. let m = m[offset := m ! (0x10 + offset)]
                               in m[0x03 + offset := m ! (0x13 + offset)]) [0, 1, 2] (h3_memory s)
      in s\<lparr>h3_memory := m[0x06 := 0]\<rparr>)"

definition copy_window_to_current_time :: "huc3 \<Rightarrow> huc3" where
  "copy_window_to_current_time s =
     (let old_current = read_absolute_time 0x10 0x13 s;
          old_event = read_absolute_time 0x58 0x5B s;
          m = fold (\<lambda>offset m. let m = m[0x10 + offset := m ! offset AND 0x0F]
                               in m[0x13 + offset := m ! (0x03 + offset) AND 0x0F]) [0, 1, 2]
                (h3_memory s);
          s = s\<lparr>h3_memory := m\<rparr>;
          new_current = read_absolute_time 0x10 0x13 s;
          remaining = int old_event - int old_current;
          new_event = nat (max (int new_current + remaining) 0);
          s = write_absolute_time 0x58 0x5B new_event s
      in s\<lparr>h3_subminute := 0\<rparr>)"

definition execute_extended_command :: "u8 \<Rightarrow> huc3 \<Rightarrow> huc3 \<times> u8" where
  "execute_extended_command argument s =
     (let a = argument AND 0x0F in
      if a = 0x0 then (copy_current_time_to_window s, 0)
      else if a = 0x1 then (copy_window_to_current_time s, 0)
      else if a = 0x2 then (s, 0x1)
      else (s, 0x0))"

definition execute_rtc_command :: "nat \<Rightarrow> huc3 \<Rightarrow> huc3" where
  "execute_rtc_command now s =
     (let s = s\<lparr>h3_ready := False\<rparr>;
          s = huc3_update_rtc now s;
          (s, response) =
            (if h3_command s = 0x01 then
               let v = read_rtc_nibble (h3_access s) s in (s\<lparr>h3_access := h3_access s + 1\<rparr>, v)
             else if h3_command s = 0x03 then
               let s = write_rtc_nibble (h3_access s) (h3_argument s) s;
                   s = s\<lparr>h3_access := h3_access s + 1\<rparr> in (s, h3_argument s)
             else if h3_command s = 0x04 then
               let s = s\<lparr>h3_access := (h3_access s AND 0xF0) OR (h3_argument s AND 0x0F)\<rparr>
               in (s, h3_access s AND 0x0F)
             else if h3_command s = 0x05 then
               let s = s\<lparr>h3_access := push_bit 4 (h3_argument s AND 0x0F) OR (h3_access s AND 0x0F)\<rparr>
               in (s, drop_bit 4 (h3_access s) AND 0x0F)
             else if h3_command s = 0x06 then execute_extended_command (h3_argument s) s
             else (s, 0x0F))
      in s\<lparr>h3_response := response, h3_ready := True\<rparr>)"

definition huc3_write_ram :: "nat \<Rightarrow> huc3 \<Rightarrow> u8 list \<Rightarrow> u16 \<Rightarrow> u8 \<Rightarrow> huc3 \<times> u8 list" where
  "huc3_write_ram now s ram addr v =
     (let mode = h3_mode s AND 0x0F in
      if mode = 0x00 then (s, ram)
      else if mode = 0x0A then
        (s, write_ram_bank ram (unat (huc3_current_ram_bank s)) 0x2000 (ram_offset addr) v)
      else if mode = 0x0B then
        (s\<lparr>h3_command := drop_bit 4 v AND 0x07, h3_argument := v AND 0x0F\<rparr>, ram)
      else if mode = 0x0D then
        (if v AND 0x01 = 0 then execute_rtc_command now s else s, ram)
      else if mode = 0x0E then (s\<lparr>h3_ir_value := v AND 0x01\<rparr>, ram)
      else (s, ram))"

definition huc3_write :: "nat \<Rightarrow> u16 \<Rightarrow> u8 \<Rightarrow> huc3 \<Rightarrow> huc3" where
  "huc3_write now addr v s =
     (let s = huc3_update_rtc now s in
      if addr \<le> 0x1FFF then s\<lparr>h3_mode := v AND 0x0F\<rparr>
      else if addr \<le> 0x3FFF then s\<lparr>h3_rom_bank := v AND 0x7F\<rparr>
      else if addr \<le> 0x5FFF then s\<lparr>h3_ram_bank := v AND 0x0F\<rparr>
      else s)"

definition huc3_tick :: "nat \<Rightarrow> nat \<Rightarrow> huc3 \<Rightarrow> huc3" where
  "huc3_tick now cycles s = huc3_update_rtc now s"

definition huc3_ram_index :: "huc3 \<Rightarrow> nat \<Rightarrow> u16 \<Rightarrow> nat option" where
  "huc3_ram_index s n a = bank_index n (unat (huc3_current_ram_bank s)) 0x2000 (ram_offset a)"

interpretation huc3_rom: rom_window huc3_read_rom "\<lambda>_. 0" "\<lambda>s. unat (huc3_current_rom_bank s)"
  by unfold_locales (simp_all add: huc3_read_rom_def addr_window read_rom_bank_0 offset_small)

interpretation huc3_ram: banked_ram huc3_read_ram "\<lambda>s ram a v. snd (huc3_write_ram now s ram a v)"
  "\<lambda>s. h3_mode s AND 0x0F = 0x0A" huc3_ram_index "\<lambda>_ v. v" "\<lambda>_ v. v" for now
  by unfold_locales (auto simp: huc3_ram_index_def huc3_read_ram_def huc3_write_ram_def Let_def
      read_ram_bank_index write_ram_bank_index dest: bank_index_less split: if_splits)

section \<open>TAMA5\<close>

definition to_bcd :: "u8 \<Rightarrow> u8" where
  "to_bcd v = push_bit 4 (v div 10) OR (v mod 10)"

record tama5 =
  t5_rom_bank :: u8
  t5_ram_enabled :: bool
  t5_selected :: u8
  t5_registers :: "u8 list"
  t5_latched :: "u8 list"
  t5_last :: nat

definition tama5_default :: "nat \<Rightarrow> tama5" where
  "tama5_default now =
     \<lparr>t5_rom_bank = 1, t5_ram_enabled = False, t5_selected = 0, t5_registers = replicate 0x20 0,
      t5_latched = replicate 8 0, t5_last = now\<rparr>"

definition tama5_current_rom_bank :: "tama5 \<Rightarrow> u16" where
  "tama5_current_rom_bank s =
     (let bank = t5_rom_bank s AND 0x7F in if bank = 0 then 1 else ucast bank)"

definition tama5_read_rom :: "tama5 \<Rightarrow> u8 list \<Rightarrow> u16 \<Rightarrow> u8" where
  "tama5_read_rom s rom addr =
     (if addr \<le> 0x3FFF then get_or rom (unat addr) 0xFF
      else if addr \<le> 0x7FFF then
        let offset = unat addr - 0x4000
        in read_rom_bank rom (unat (tama5_current_rom_bank s)) 0x4000 offset
      else 0xFF)"

definition tama5_read_ram :: "tama5 \<Rightarrow> u8 list \<Rightarrow> u16 \<Rightarrow> u8" where
  "tama5_read_ram s ram addr =
     (if \<not> t5_ram_enabled s then 0xFF
      else if 0x10 \<le> t5_selected s \<and> t5_selected s \<le> 0x17
        then t5_latched s ! unat (t5_selected s - 0x10)
      else get_or (t5_registers s) (unat (t5_selected s)) 0xFF)"

definition latch_rtc_snapshot :: "nat \<Rightarrow> tama5 \<Rightarrow> tama5" where
  "latch_rtc_snapshot now s =
     (let second = of_nat (now mod 60); minute = of_nat (now div 60 mod 60);
          hour = of_nat (now div 3600 mod 24); day = of_nat (now div 86400 mod 100);
          weekday = of_nat ((now div 86400 + 4) mod 7);
          l = t5_latched s;
          l = l[0 := to_bcd second, 1 := to_bcd minute, 2 := to_bcd hour, 3 := to_bcd day,
                4 := to_bcd weekday, 5 := t5_rom_bank s AND 0x0F,
                6 := drop_bit 4 (t5_rom_bank s) AND 0x07, 7 := 0]
      in s\<lparr>t5_latched := l\<rparr>)"

definition tama5_write_ram :: "nat \<Rightarrow> tama5 \<Rightarrow> u8 list \<Rightarrow> u16 \<Rightarrow> u8 \<Rightarrow> tama5 \<times> u8 list" where
  "tama5_write_ram now s ram addr v =
     (if \<not> t5_ram_enabled s then (s, ram)
      else if t5_selected s = 0x00 then
        (s\<lparr>t5_rom_bank := (t5_rom_bank s AND 0x70) OR (v AND 0x0F)\<rparr>, ram)
      else if t5_selected s = 0x01 then
        (s\<lparr>t5_rom_bank := push_bit 4 (v AND 0x07) OR (t5_rom_bank s AND 0x0F)\<rparr>, ram)
      else if t5_selected s = 0x0F then
        (if v AND 0x01 \<noteq> 0 then latch_rtc_snapshot now s else s, ram)
      else if 0x10 \<le> t5_selected s \<and> t5_selected s \<le> 0x17 then
        (s\<lparr>t5_latched := (t5_latched s)[unat (t5_selected s - 0x10) := v]\<rparr>, ram)
      else (s\<lparr>t5_registers := set_at (t5_registers s) (unat (t5_selected s)) v\<rparr>, ram))"

definition tama5_write :: "u16 \<Rightarrow> u8 \<Rightarrow> tama5 \<Rightarrow> tama5" where
  "tama5_write addr v s =
     (if addr \<le> 0x1FFF then s\<lparr>t5_ram_enabled := (v AND 0x0F = 0x0A)\<rparr>
      else if addr \<le> 0x3FFF then
        let bank = v AND 0x7F in s\<lparr>t5_rom_bank := (if bank = 0 then 1 else bank)\<rparr>
      else if addr \<le> 0x5FFF then s\<lparr>t5_selected := v AND 0x1F\<rparr>
      else s)"

definition tama5_tick :: "nat \<Rightarrow> nat \<Rightarrow> tama5 \<Rightarrow> tama5" where
  "tama5_tick now cycles s =
     (if now \<noteq> t5_last s then latch_rtc_snapshot now (s\<lparr>t5_last := now\<rparr>) else s)"

interpretation tama5_rom: rom_window tama5_read_rom "\<lambda>_. 0" "\<lambda>s. unat (tama5_current_rom_bank s)"
  by unfold_locales (simp_all add: tama5_read_rom_def addr_window read_rom_bank_0 offset_small)

section \<open>Nibble triplets\<close>

definition huc3_ok :: "huc3 \<Rightarrow> bool" where
  "huc3_ok s \<longleftrightarrow> length (h3_memory s) = 0x100 \<and> h3_subminute s < 60"

lemma nibble_or: "x < 16 \<Longrightarrow> y < 16 \<Longrightarrow>
  (x :: nat) OR push_bit 4 y OR push_bit 8 z = x + 16 * y + 256 * z"
  using or_push_bit_nat [of x 4 y] or_push_bit_nat [of "x + 16 * y" 8 z]
  by (simp add: or.assoc [symmetric])

lemma read_rtc_nibble_less: "unat (read_rtc_nibble i s) < 16"
  by (simp add: read_rtc_nibble_def unat_and_low)

lemma read_nibble_triplet_eq:
  "read_nibble_triplet i s = unat (read_rtc_nibble i s) + 16 * unat (read_rtc_nibble (i + 1) s)
     + 256 * unat (read_rtc_nibble (i + 2) s)"
  by (simp add: read_nibble_triplet_def nibble_or read_rtc_nibble_less)

lemma length_write_nibble [simp]:
  "length (h3_memory (write_rtc_nibble i v s)) = length (h3_memory s)"
  "length (h3_memory (write_nibble_triplet i n s)) = length (h3_memory s)"
  by (simp_all add: write_rtc_nibble_def write_nibble_triplet_def Let_def)

lemma write_nibble_sel [simp]:
  "h3_last (write_rtc_nibble i v s) = h3_last s" "h3_subminute (write_rtc_nibble i v s) = h3_subminute s"
  "h3_last (write_nibble_triplet i n s) = h3_last s"
  "h3_subminute (write_nibble_triplet i n s) = h3_subminute s"
  by (simp_all add: write_rtc_nibble_def write_nibble_triplet_def Let_def)

lemma read_write_nibble:
  assumes "length (h3_memory s) = 0x100"
  shows "read_rtc_nibble j (write_rtc_nibble i v s) =
    (if i = j then v AND 0x0F else read_rtc_nibble j s)"
  using assms unat_u8_less [of j]
  by (auto simp: read_rtc_nibble_def write_rtc_nibble_def get_or_set_at and.assoc
      word_unat_eq_iff)

lemma unat_nibble_of_nat: "unat ((of_nat n :: u8) AND 0x0F) = n mod 16"
  by (simp add: unat_and_low unat_of_nat mod_mod_cancel)

text \<open>A triplet read back is the written value modulo 4096, and other triplets keep theirs.\<close>

lemma read_write_triplet_same:
  assumes "length (h3_memory s) = 0x100"
  shows "read_nibble_triplet i (write_nibble_triplet i n s) = n mod 4096"
proof -
  have ne: "i \<noteq> i + 1" "i \<noteq> i + 2" "i + 1 \<noteq> i + 2" "i + 1 \<noteq> i" "i + 2 \<noteq> i" "i + 2 \<noteq> i + 1"
    by simp_all
  have "n mod 16 + 16 * (n div 16 mod 16) + 256 * (n div 256 mod 16) = n mod 4096"
    using mod_mult2_eq [of n 16 256] mod_mult2_eq [of "n div 16" 16 16]
    by (simp add: div_mult2_eq [symmetric])
  then show ?thesis
    using assms ne
    by (simp add: read_nibble_triplet_eq write_nibble_triplet_def Let_def read_write_nibble
        unat_nibble_of_nat drop_bit_eq_div)
qed

lemma read_write_triplet_other:
  assumes "length (h3_memory s) = 0x100"
    and "set [j, j + 1, j + 2] \<inter> set [i, i + 1, i + 2] = {}"
  shows "read_nibble_triplet j (write_nibble_triplet i n s) = read_nibble_triplet j s"
  using assms
  by (simp add: read_nibble_triplet_eq write_nibble_triplet_def Let_def read_write_nibble)

section \<open>The HuC3 clock counts elapsed seconds\<close>

definition huc3_seconds :: "huc3 \<Rightarrow> nat" where
  "huc3_seconds s = h3_subminute s + 60 * read_absolute_time 0x10 0x13 s"

definition huc3_period :: nat where "huc3_period = 4096 * 1440 * 60"

lemma read_triplet_cong:
  "h3_memory s = h3_memory t \<Longrightarrow> read_nibble_triplet i s = read_nibble_triplet i t"
  by (simp add: read_nibble_triplet_def read_rtc_nibble_def)

lemma huc3_minutes:
  fixes d m q :: nat
  shows "(((d + (m + q) div 1440) mod 4096) * 1440 + (m + q) mod 1440) =
     (d * 1440 + m + q) mod (4096 * 1440)"
proof -
  have "d * 1440 + m + q = (d + (m + q) div 1440) * 1440 + (m + q) mod 1440"
    by (simp add: add_mult_distrib)
  then have "(d * 1440 + m + q) mod (1440 * 4096) =
      1440 * ((d + (m + q) div 1440) mod 4096) + (m + q) mod 1440"
    by (simp only: mod_mult2_eq) (simp add: mod_simps)
  then show ?thesis
    by (simp add: mult.commute)
qed

lemma mod_with_low: "low < k \<Longrightarrow> low + k * (h mod n) = (low + k * h) mod (k * n)" for low k :: nat
  by (simp add: mod_mult2_eq)

text \<open>
  Bringing the HuC3 clock up to a later host time adds exactly the elapsed seconds to the
  day, minute and sub-minute counts, modulo 4096 days, and keeps the register file in shape.
\<close>

theorem huc3_clock_counts:
  assumes "huc3_ok s" "h3_last s < now"
  shows "huc3_ok (huc3_update_rtc now s) \<and> h3_last (huc3_update_rtc now s) = now \<and>
    huc3_seconds (huc3_update_rtc now s) mod huc3_period =
      (huc3_seconds s + (now - h3_last s)) mod huc3_period"
proof -
  define sec where "sec = h3_subminute s + (now - h3_last s)"
  define u where "u = s\<lparr>h3_last := now, h3_subminute := sec mod 60\<rparr>"
  have u: "length (h3_memory u) = 0x100" "h3_memory u = h3_memory s"
    using assms(1) by (simp_all add: u_def huc3_ok_def)
  define d m where "d = read_nibble_triplet 0x13 s" and "m = read_nibble_triplet 0x10 s"
  have dm: "read_nibble_triplet 0x13 u = d" "read_nibble_triplet 0x10 u = m"
    unfolding d_def m_def by (rule read_triplet_cong [OF u(2)])+
  define q where "q = sec div 60"
  have total: "huc3_seconds s + (now - h3_last s) = sec mod 60 + 60 * (d * 1440 + m + q)"
    by (simp add: huc3_seconds_def read_absolute_time_def d_def m_def sec_def q_def algebra_simps)
  show ?thesis
  proof (cases "q = 0")
    case True
    then have "huc3_update_rtc now s = u"
      using assms(2) by (simp add: huc3_update_rtc_def Let_def sec_def u_def q_def)
    then show ?thesis
      using True u assms(1) unfolding total
      by (simp add: huc3_seconds_def read_absolute_time_def dm) (simp add: huc3_ok_def u_def)
  next
    case False
    define v where "v = write_nibble_triplet 0x13 (d + (m + q) div 1440)
        (write_nibble_triplet 0x10 ((m + q) mod 1440) u)"
    have upd: "huc3_update_rtc now s = v"
      using assms(2) False dm
      by (simp add: huc3_update_rtc_def Let_def sec_def [symmetric] q_def [symmetric]
          u_def [symmetric] v_def)
    have "(m + q) mod 1440 < 4096"
      by (rule order_less_trans [OF mod_less_divisor]) simp_all
    then have "read_nibble_triplet 0x13 v = (d + (m + q) div 1440) mod 4096"
      "read_nibble_triplet 0x10 v = (m + q) mod 1440"
      using u(1) unfolding v_def
      by (simp_all add: read_write_triplet_same read_write_triplet_other)
    then have "huc3_seconds v = sec mod 60 + 60 * ((d * 1440 + m + q) mod (4096 * 1440))"
      by (simp add: huc3_seconds_def read_absolute_time_def huc3_minutes)
        (simp add: v_def u_def)
    also have "\<dots> = (sec mod 60 + 60 * (d * 1440 + m + q)) mod huc3_period"
      using mod_with_low [of "sec mod 60" 60 "d * 1440 + m + q" "4096 * 1440"]
      by (simp add: huc3_period_def)
    finally show ?thesis
      unfolding upd total using u(1)
      by (simp add: huc3_ok_def v_def) (simp add: u_def)
  qed
qed

theorem huc3_clock_counts_witness:
  "huc3_seconds (huc3_update_rtc 1000 (huc3_default 100)) mod huc3_period = 900"
proof -
  have "huc3_seconds (huc3_default 100) = 0" "huc3_ok (huc3_default 100)"
    "h3_last (huc3_default 100) = 100"
    by (simp_all add: huc3_ok_def huc3_default_def huc3_seconds_def read_absolute_time_def
        read_nibble_triplet_eq read_rtc_nibble_def get_or_def)
  then show ?thesis
    using huc3_clock_counts [of "huc3_default 100" 1000] by (simp add: huc3_period_def)
qed

section \<open>Setting the HuC3 clock\<close>

lemma copied_window:
  assumes "length (h3_memory s) = 0x100"
  defines "m \<equiv> fold (\<lambda>offset m. let m = m[0x10 + offset := m ! offset AND 0x0F]
                               in m[0x13 + offset := m ! (0x03 + offset) AND 0x0F]) [0, 1, 2]
                (h3_memory s)"
  shows "length m = 0x100"
    "read_absolute_time 0x10 0x13 (s\<lparr>h3_memory := m\<rparr>) = read_absolute_time 0x00 0x03 s"
    "read_nibble_triplet 0x58 (s\<lparr>h3_memory := m\<rparr>) = read_nibble_triplet 0x58 s"
    "read_nibble_triplet 0x5B (s\<lparr>h3_memory := m\<rparr>) = read_nibble_triplet 0x5B s"
  using assms(1) unfolding m_def
  by (simp_all add: Let_def read_absolute_time_def read_nibble_triplet_eq read_rtc_nibble_def
      get_or_def nth_list_update and.assoc)

text \<open>
  Setting the clock from the transfer window makes the window's days and minutes the
  current time, moves the scheduled event so that its distance from the current time is what
  it was (an event that would fall before time zero is placed at zero), modulo 4096 days, and
  restarts the minute.
\<close>

theorem huc3_set_keeps_event_distance:
  assumes "huc3_ok s"
  defines "t \<equiv> copy_window_to_current_time s"
  defines "remaining \<equiv> int (read_absolute_time 0x58 0x5B s) - int (read_absolute_time 0x10 0x13 s)"
  shows "read_absolute_time 0x10 0x13 t = read_absolute_time 0x00 0x03 s \<and>
    int (read_absolute_time 0x58 0x5B t) =
      max (int (read_absolute_time 0x00 0x03 s) + remaining) 0 mod (4096 * 1440) \<and>
    h3_subminute t = 0 \<and> huc3_ok t"
proof -
  define m where "m = fold (\<lambda>offset m. let m = m[0x10 + offset := m ! offset AND 0x0F]
                               in m[0x13 + offset := m ! (0x03 + offset) AND 0x0F]) [0, 1, 2]
                (h3_memory s)"
  define u where "u = s\<lparr>h3_memory := m\<rparr>"
  have len: "length (h3_memory s) = 0x100"
    using assms(1) by (simp add: huc3_ok_def)
  have u: "length (h3_memory u) = 0x100"
    "read_absolute_time 0x10 0x13 u = read_absolute_time 0x00 0x03 s"
    unfolding u_def m_def using copied_window [OF len] by simp_all
  define e where "e = nat (max (int (read_absolute_time 0x00 0x03 s) + remaining) 0)"
  have t: "t = (write_absolute_time 0x58 0x5B e u)\<lparr>h3_subminute := 0\<rparr>"
    by (simp only: t_def copy_window_to_current_time_def Let_def m_def [unfolded Let_def, symmetric]
        u_def [symmetric] u(2) e_def remaining_def)
  have mem: "read_absolute_time i j (v\<lparr>h3_subminute := 0\<rparr>) = read_absolute_time i j v" for i j v
    by (simp add: read_absolute_time_def read_triplet_cong [of "v\<lparr>h3_subminute := 0\<rparr>" v])
  have "e mod 1440 < 4096"
    by (rule order_less_trans [OF mod_less_divisor]) simp_all
  then have "read_absolute_time 0x58 0x5B t = (e div 1440 mod 4096) * 1440 + e mod 1440"
    using u(1) unfolding t mem
    by (simp add: read_absolute_time_def write_absolute_time_def read_write_triplet_same
        read_write_triplet_other)
  also have "\<dots> = e mod (4096 * 1440)"
    using mod_mult2_eq [of e 1440 4096] by simp
  finally have event: "read_absolute_time 0x58 0x5B t = e mod (4096 * 1440)" .
  have "read_absolute_time 0x10 0x13 t = read_absolute_time 0x10 0x13 u"
    using u(1) unfolding t mem
    by (simp add: read_absolute_time_def write_absolute_time_def read_write_triplet_other)
  moreover have "int (e mod (4096 * 1440)) =
      max (int (read_absolute_time 0x00 0x03 s) + remaining) 0 mod (4096 * 1440)"
    by (simp add: e_def zmod_int)
  moreover have "huc3_ok t" "h3_subminute t = 0"
    using u(1) by (simp_all add: t huc3_ok_def write_absolute_time_def)
  ultimately show ?thesis
    using event u(2) by simp
qed

theorem huc3_set_keeps_event_distance_witness:
  "h3_subminute (copy_window_to_current_time (huc3_default 100)) = 0"
  using huc3_set_keeps_event_distance [of "huc3_default 100"]
  by (simp add: huc3_ok_def huc3_default_def)

end
