(* ===== verification/Mbc_Flash.thy ===== *)
theory Mbc_Flash
  imports Mbc_Simple
begin

text \<open>
  MBC6 (\<^verbatim>\<open>mbc6.rs\<close>): two independent 8 KiB ROM or flash windows, two 4 KiB RAM windows, and
  the flash command state machine recognized from the last six writes. The flash array has the
  fixed size \<open>FLASH_LEN\<close> and every access is reduced modulo it, so it is a function here; the
  theorems say what a write to flash can change and what protection keeps.
\<close>

definition FLASH_LEN :: nat where "FLASH_LEN = 0x100000"
definition HIDDEN_FLASH_LEN :: nat where "HIDDEN_FLASH_LEN = 0x100"
definition FLASH_SECTOR_LEN :: nat where "FLASH_SECTOR_LEN = 0x20000"

lemmas flash_size_defs = FLASH_LEN_def HIDDEN_FLASH_LEN_def FLASH_SECTOR_LEN_def

record mbc6 =
  m6_rom_bank_a :: u8
  m6_rom_bank_b :: u8
  m6_rom_bank_a_flash :: bool
  m6_rom_bank_b_flash :: bool
  m6_ram_bank_a :: u8
  m6_ram_bank_b :: u8
  m6_ram_enabled :: bool
  m6_flash_enabled :: bool
  m6_flash_write_enabled :: bool
  m6_flash_data :: "nat \<Rightarrow> u8"
  m6_hidden_flash :: "u8 list"
  m6_sector0_protected :: bool
  m6_id_mode :: bool
  m6_hidden_mode :: bool
  m6_status_mode :: bool
  m6_status :: u8
  m6_program_mode :: bool
  m6_program_hidden_mode :: bool
  m6_history :: "(nat \<times> u8) list"

definition mbc6_default :: mbc6 where
  "mbc6_default =
     \<lparr>m6_rom_bank_a = 0, m6_rom_bank_b = 1, m6_rom_bank_a_flash = False,
      m6_rom_bank_b_flash = False, m6_ram_bank_a = 0, m6_ram_bank_b = 0, m6_ram_enabled = False,
      m6_flash_enabled = False, m6_flash_write_enabled = False, m6_flash_data = (\<lambda>_. 0xFF),
      m6_hidden_flash = replicate HIDDEN_FLASH_LEN 0xFF, m6_sector0_protected = False,
      m6_id_mode = False, m6_hidden_mode = False, m6_status_mode = False, m6_status = 0x80,
      m6_program_mode = False, m6_program_hidden_mode = False, m6_history = []\<rparr>"

definition mbc6_current_rom_bank :: "mbc6 \<Rightarrow> u16" where
  "mbc6_current_rom_bank s = ucast (m6_rom_bank_a s)"

definition mbc6_current_ram_bank :: "mbc6 \<Rightarrow> u16" where
  "mbc6_current_ram_bank s = ucast (m6_ram_bank_a s)"

definition flash_status_byte :: "mbc6 \<Rightarrow> u8" where
  "flash_status_byte s = 0x80 OR (if m6_sector0_protected s then 0x02 else 0x00)"

definition read_flash :: "mbc6 \<Rightarrow> u8 \<Rightarrow> nat \<Rightarrow> u8" where
  "read_flash s bank offset =
     (if m6_id_mode s then (if offset = 0 then 0xC2 else if offset = 1 then 0x81 else 0xFF)
      else if m6_status_mode s then flash_status_byte s
      else if m6_hidden_mode s then get_or (m6_hidden_flash s) (offset AND 0xFF) 0xFF
      else let absolute = unat bank * 0x2000 + offset in m6_flash_data s (absolute mod FLASH_LEN))"

definition read_switchable_region :: "mbc6 \<Rightarrow> u8 list \<Rightarrow> u16 \<Rightarrow> u8 \<Rightarrow> bool \<Rightarrow> u8" where
  "read_switchable_region s rom addr bank flash_selected =
     (if \<not> in_range 0x4000 0x5FFF addr \<and> \<not> in_range 0x6000 0x7FFF addr then 0xFF
      else
        let offset = (if in_range 0x4000 0x5FFF addr then unat addr - 0x4000 else unat addr - 0x6000)
        in if flash_selected then
             (if \<not> m6_flash_enabled s then 0xFF else read_flash s bank offset)
           else read_rom_bank rom (unat bank) 0x2000 offset)"

definition mbc6_read_rom :: "mbc6 \<Rightarrow> u8 list \<Rightarrow> u16 \<Rightarrow> u8" where
  "mbc6_read_rom s rom addr =
     (if addr \<le> 0x3FFF then get_or rom (unat addr) 0xFF
      else if addr \<le> 0x5FFF then
        read_switchable_region s rom addr (m6_rom_bank_a s) (m6_rom_bank_a_flash s)
      else if addr \<le> 0x7FFF then
        read_switchable_region s rom addr (m6_rom_bank_b s) (m6_rom_bank_b_flash s)
      else 0xFF)"

definition mbc6_read_ram :: "mbc6 \<Rightarrow> u8 list \<Rightarrow> u16 \<Rightarrow> u8" where
  "mbc6_read_ram s ram addr =
     (if \<not> m6_ram_enabled s then 0xFF
      else if in_range 0xA000 0xAFFF addr then
        let offset = unat addr - 0xA000 in read_ram_bank ram (unat (m6_ram_bank_a s)) 0x1000 offset
      else if in_range 0xB000 0xBFFF addr then
        let offset = unat addr - 0xB000 in read_ram_bank ram (unat (m6_ram_bank_b s)) 0x1000 offset
      else 0xFF)"

definition mbc6_write_ram :: "mbc6 \<Rightarrow> u8 list \<Rightarrow> u16 \<Rightarrow> u8 \<Rightarrow> u8 list" where
  "mbc6_write_ram s ram addr v =
     (if \<not> m6_ram_enabled s then ram
      else if in_range 0xA000 0xAFFF addr then
        let offset = unat addr - 0xA000
        in write_ram_bank ram (unat (m6_ram_bank_a s)) 0x1000 offset v
      else if in_range 0xB000 0xBFFF addr then
        let offset = unat addr - 0xB000
        in write_ram_bank ram (unat (m6_ram_bank_b s)) 0x1000 offset v
      else ram)"

section \<open>The flash command machine\<close>

definition flash_region_selected :: "mbc6 \<Rightarrow> u16 \<Rightarrow> bool" where
  "flash_region_selected s addr \<longleftrightarrow>
     (in_range 0x4000 0x5FFF addr \<and> m6_rom_bank_a_flash s) \<or>
     (in_range 0x6000 0x7FFF addr \<and> m6_rom_bank_b_flash s)"

definition flash_absolute_address :: "mbc6 \<Rightarrow> u16 \<Rightarrow> nat option" where
  "flash_absolute_address s addr =
     (if in_range 0x4000 0x5FFF addr \<and> m6_rom_bank_a_flash s then
        Some (unat (m6_rom_bank_a s) * 0x2000 + unat (addr - 0x4000))
      else if in_range 0x6000 0x7FFF addr \<and> m6_rom_bank_b_flash s then
        Some (unat (m6_rom_bank_b s) * 0x2000 + unat (addr - 0x6000))
      else None)"

definition matches_history_slice :: "(nat \<times> u8) list \<Rightarrow> nat \<Rightarrow> (nat option \<times> u8) list \<Rightarrow> bool" where
  "matches_history_slice history start pattern =
     (if length history < start + length pattern then False
      else list_all (\<lambda>((absolute, v), (expected_address, expected_value)).
             (case expected_address of None \<Rightarrow> True | Some address \<Rightarrow> absolute = address) \<and>
             v = expected_value)
           (zip (take (length pattern) (drop start history)) pattern))"

definition matches_tail :: "(nat \<times> u8) list \<Rightarrow> (nat option \<times> u8) list \<Rightarrow> bool" where
  "matches_tail history pattern =
     (if length history < length pattern then False
      else matches_history_slice history (length history - length pattern) pattern)"

definition unlock3 :: "u8 \<Rightarrow> (nat option \<times> u8) list" where
  "unlock3 c = [(Some 0x5555, 0xAA), (Some 0x2AAA, 0x55), (Some 0x5555, c)]"

definition unlock6 :: "u8 \<Rightarrow> u8 \<Rightarrow> (nat option \<times> u8) list" where
  "unlock6 p c = unlock3 p @ unlock3 c"

definition erase_sector_containing :: "nat \<Rightarrow> mbc6 \<Rightarrow> mbc6" where
  "erase_sector_containing absolute s =
     (let sector = min (absolute div FLASH_SECTOR_LEN) (FLASH_LEN div FLASH_SECTOR_LEN - 1) in
      if sector = 0 \<and> (m6_sector0_protected s \<or> \<not> m6_flash_write_enabled s) then s
      else
        let base = sector * FLASH_SECTOR_LEN; top = min (base + FLASH_SECTOR_LEN) FLASH_LEN
        in s\<lparr>m6_flash_data := (\<lambda>i. if base \<le> i \<and> i < top then 0xFF else m6_flash_data s i)\<rparr>)"

definition erase_chip :: "mbc6 \<Rightarrow> mbc6" where
  "erase_chip s =
     (if m6_sector0_protected s \<or> \<not> m6_flash_write_enabled s then
        let sector1 = min FLASH_SECTOR_LEN FLASH_LEN
        in s\<lparr>m6_flash_data := (\<lambda>i. if sector1 \<le> i then 0xFF else m6_flash_data s i)\<rparr>
      else s\<lparr>m6_flash_data := (\<lambda>_. 0xFF)\<rparr>)"

definition flash_can_program_absolute :: "mbc6 \<Rightarrow> nat \<Rightarrow> bool" where
  "flash_can_program_absolute s absolute \<longleftrightarrow>
     absolute div FLASH_SECTOR_LEN \<noteq> 0 \<or>
     (\<not> m6_sector0_protected s \<and> m6_flash_write_enabled s)"

definition enter_flash_status :: "mbc6 \<Rightarrow> mbc6" where
  "enter_flash_status s =
     (let s = s\<lparr>m6_program_mode := False, m6_program_hidden_mode := False, m6_status_mode := True\<rparr>
      in s\<lparr>m6_status := flash_status_byte s\<rparr>)"

definition exit_flash_modes :: "mbc6 \<Rightarrow> mbc6" where
  "exit_flash_modes s =
     s\<lparr>m6_id_mode := False, m6_hidden_mode := False, m6_status_mode := False,
       m6_program_mode := False, m6_program_hidden_mode := False, m6_history := []\<rparr>"

definition push_command :: "nat \<Rightarrow> u8 \<Rightarrow> mbc6 \<Rightarrow> mbc6" where
  "push_command absolute v s =
     (let h = m6_history s @ [(absolute, v)]
      in s\<lparr>m6_history := (if length h > 6 then tl h else h)\<rparr>)"

definition decode_flash_command :: "mbc6 \<Rightarrow> mbc6" where
  "decode_flash_command s =
     (let h = m6_history s in
      if matches_tail h (unlock3 0x90) then
        s\<lparr>m6_id_mode := True, m6_hidden_mode := False, m6_status_mode := False\<rparr>
      else if matches_tail h (unlock3 0xA0) then
        s\<lparr>m6_program_mode := True, m6_program_hidden_mode := False, m6_id_mode := False,
          m6_hidden_mode := False, m6_status_mode := False\<rparr>
      else if matches_tail h (unlock6 0x60 0xE0) then
        s\<lparr>m6_program_hidden_mode := m6_flash_write_enabled s, m6_program_mode := False,
          m6_hidden_mode := False, m6_id_mode := False, m6_status_mode := False\<rparr>
      else if matches_tail h (unlock6 0x60 0x77) then
        s\<lparr>m6_hidden_mode := True, m6_id_mode := False, m6_status_mode := False,
          m6_program_mode := False, m6_program_hidden_mode := False\<rparr>
      else if matches_tail h (unlock6 0x60 0x04) then
        enter_flash_status
          (if m6_flash_write_enabled s
           then s\<lparr>m6_hidden_flash := replicate (length (m6_hidden_flash s)) 0xFF\<rparr> else s)
      else if matches_tail h (unlock6 0x60 0x40) then
        enter_flash_status
          (if m6_flash_write_enabled s then s\<lparr>m6_sector0_protected := False\<rparr> else s)
      else if matches_tail h (unlock6 0x60 0x20) then
        enter_flash_status
          (if m6_flash_write_enabled s then s\<lparr>m6_sector0_protected := True\<rparr> else s)
      else if matches_tail h (unlock6 0x80 0x10) then enter_flash_status (erase_chip s)
      else if length h \<ge> 6 \<and>
              matches_history_slice h (length h - 6)
                (unlock3 0x80 @ [(Some 0x5555, 0xAA), (Some 0x2AAA, 0x55)]) then
        (case last h of (absolute, v) \<Rightarrow>
           if v = 0x30 then enter_flash_status (erase_sector_containing absolute s) else s)
      else s)"

definition write_flash :: "u16 \<Rightarrow> u8 \<Rightarrow> mbc6 \<Rightarrow> mbc6" where
  "write_flash addr v s =
     (if v = 0xF0 then exit_flash_modes s
      else case flash_absolute_address s addr of
        None \<Rightarrow> s
      | Some absolute \<Rightarrow>
          if m6_program_hidden_mode s then
            enter_flash_status
              (if m6_flash_write_enabled s then
                 let index = absolute AND 0xFF
                 in s\<lparr>m6_hidden_flash :=
                        set_at (m6_hidden_flash s) index (get_or (m6_hidden_flash s) index 0 AND v)\<rparr>
               else s)
          else if m6_program_mode s then
            enter_flash_status
              (if flash_can_program_absolute s absolute then
                 let i = absolute mod FLASH_LEN
                 in s\<lparr>m6_flash_data := (m6_flash_data s)(i := m6_flash_data s i AND v)\<rparr>
               else s)
          else decode_flash_command (push_command absolute v s))"

definition mbc6_write :: "u16 \<Rightarrow> u8 \<Rightarrow> mbc6 \<Rightarrow> mbc6" where
  "mbc6_write addr v s =
     (if m6_flash_enabled s \<and> flash_region_selected s addr then write_flash addr v s
      else if addr \<le> 0x03FF then s\<lparr>m6_ram_enabled := (v AND 0x0F = 0x0A)\<rparr>
      else if addr \<le> 0x07FF then s\<lparr>m6_ram_bank_a := v AND 0x07\<rparr>
      else if addr \<le> 0x0BFF then s\<lparr>m6_ram_bank_b := v AND 0x07\<rparr>
      else if addr \<le> 0x0FFF then
        let s = s\<lparr>m6_flash_enabled := (v AND 0x01 \<noteq> 0)\<rparr>
        in if \<not> m6_flash_enabled s then exit_flash_modes s else s
      else if addr \<le> 0x13FF then s\<lparr>m6_flash_write_enabled := (v AND 0x01 \<noteq> 0)\<rparr>
      else if in_range 0x2000 0x27FF addr then s\<lparr>m6_rom_bank_a := v AND 0x7F\<rparr>
      else if in_range 0x2800 0x2FFF addr then s\<lparr>m6_rom_bank_a_flash := (v AND 0x08 \<noteq> 0)\<rparr>
      else if in_range 0x3000 0x37FF addr then s\<lparr>m6_rom_bank_b := v AND 0x7F\<rparr>
      else if in_range 0x3800 0x3FFF addr then s\<lparr>m6_rom_bank_b_flash := (v AND 0x08 \<noteq> 0)\<rparr>
      else s)"

definition mbc6_ram_index :: "mbc6 \<Rightarrow> nat \<Rightarrow> u16 \<Rightarrow> nat option" where
  "mbc6_ram_index s n a =
     (if \<not> m6_ram_enabled s then None
      else if in_range 0xA000 0xAFFF a then bank_index n (unat (m6_ram_bank_a s)) 0x1000 (unat a - 0xA000)
      else if in_range 0xB000 0xBFFF a then bank_index n (unat (m6_ram_bank_b s)) 0x1000 (unat a - 0xB000)
      else None)"

interpretation mbc6_ram: banked_ram mbc6_read_ram mbc6_write_ram "\<lambda>_. True" mbc6_ram_index
  "\<lambda>_ v. v" "\<lambda>_ v. v"
  by unfold_locales (auto simp: mbc6_ram_index_def mbc6_read_ram_def mbc6_write_ram_def Let_def
      read_ram_bank_index write_ram_bank_index dest: bank_index_less split: if_splits)

section \<open>What a flash write can change\<close>

lemma flash_modes_sel [simp]:
  "m6_flash_data (enter_flash_status s) = m6_flash_data s"
  "m6_flash_data (exit_flash_modes s) = m6_flash_data s"
  "m6_hidden_flash (enter_flash_status s) = m6_hidden_flash s"
  "m6_hidden_flash (exit_flash_modes s) = m6_hidden_flash s"
  "m6_sector0_protected (enter_flash_status s) = m6_sector0_protected s"
  "m6_sector0_protected (exit_flash_modes s) = m6_sector0_protected s"
  "m6_flash_write_enabled (enter_flash_status s) = m6_flash_write_enabled s"
  "m6_flash_write_enabled (exit_flash_modes s) = m6_flash_write_enabled s"
  "m6_flash_data (push_command a v s) = m6_flash_data s"
  "m6_hidden_flash (push_command a v s) = m6_hidden_flash s"
  "m6_sector0_protected (push_command a v s) = m6_sector0_protected s"
  "m6_flash_write_enabled (push_command a v s) = m6_flash_write_enabled s"
  by (simp_all add: enter_flash_status_def exit_flash_modes_def push_command_def Let_def)

lemma erase_sel [simp]:
  "m6_hidden_flash (erase_chip s) = m6_hidden_flash s"
  "m6_hidden_flash (erase_sector_containing a s) = m6_hidden_flash s"
  "m6_sector0_protected (erase_chip s) = m6_sector0_protected s"
  "m6_sector0_protected (erase_sector_containing a s) = m6_sector0_protected s"
  by (simp_all add: erase_chip_def erase_sector_containing_def Let_def)

lemma erase_data:
  "m6_flash_data (erase_chip s) i \<in> {m6_flash_data s i, 0xFF}"
  "m6_flash_data (erase_sector_containing a s) i \<in> {m6_flash_data s i, 0xFF}"
  by (simp_all add: erase_chip_def erase_sector_containing_def Let_def)

definition sector0_locked :: "mbc6 \<Rightarrow> bool" where
  "sector0_locked s \<longleftrightarrow> m6_sector0_protected s \<or> \<not> m6_flash_write_enabled s"

lemma erase_locked:
  assumes "sector0_locked s" "i < FLASH_SECTOR_LEN"
  shows "m6_flash_data (erase_chip s) i = m6_flash_data s i"
    "m6_flash_data (erase_sector_containing a s) i = m6_flash_data s i"
proof -
  show "m6_flash_data (erase_chip s) i = m6_flash_data s i"
    using assms by (simp add: erase_chip_def sector0_locked_def Let_def flash_size_defs)
  show "m6_flash_data (erase_sector_containing a s) i = m6_flash_data s i"
  proof (cases "min (a div FLASH_SECTOR_LEN) (FLASH_LEN div FLASH_SECTOR_LEN - 1)")
    case 0
    then show ?thesis
      using assms(1) by (auto simp: erase_sector_containing_def sector0_locked_def Let_def)
  next
    case (Suc k)
    then show ?thesis
      using assms(2) by (simp add: erase_sector_containing_def Let_def flash_size_defs)
  qed
qed

lemma decode_flash_data: "m6_flash_data (decode_flash_command s) i \<in> {m6_flash_data s i, 0xFF}"
  using erase_data(1) [where s = s and i = i]
    erase_data(2) [where s = s and i = i and a = "fst (last (m6_history s))"]
  by (auto simp: decode_flash_command_def Let_def split_beta)

lemma decode_flash_locked:
  assumes "sector0_locked s" "i < FLASH_SECTOR_LEN"
  shows "m6_flash_data (decode_flash_command s) i = m6_flash_data s i"
  using erase_locked [OF assms]
  by (auto simp: decode_flash_command_def Let_def split_beta)

lemma decode_flash_disabled:
  assumes "\<not> m6_flash_write_enabled s"
  shows "m6_hidden_flash (decode_flash_command s) = m6_hidden_flash s"
    "m6_sector0_protected (decode_flash_command s) = m6_sector0_protected s"
  using assms by (auto simp: decode_flash_command_def Let_def split_beta)

lemma decode_flash_write_enabled [simp]:
  "m6_flash_write_enabled (decode_flash_command s) = m6_flash_write_enabled s"
  by (auto simp: decode_flash_command_def Let_def split_beta erase_chip_def
      erase_sector_containing_def)

lemma write_flash_write_enabled [simp]:
  "m6_flash_write_enabled (write_flash a v s) = m6_flash_write_enabled s"
  by (auto simp: write_flash_def Let_def split: option.splits)

lemma write_flash_data:
  "m6_flash_data (write_flash a v s) i \<in> {m6_flash_data s i, m6_flash_data s i AND v, 0xFF}"
  using decode_flash_data [of "push_command x v s" i for x]
  by (auto simp: write_flash_def Let_def split: option.splits)

lemma sector0_index: "a div FLASH_SECTOR_LEN \<noteq> 0 \<Longrightarrow> a < FLASH_LEN \<Longrightarrow> FLASH_SECTOR_LEN \<le> a mod FLASH_LEN"
  by (auto simp: flash_size_defs div_eq_0_iff not_less)

definition mbc6_ok :: "mbc6 \<Rightarrow> bool" where
  "mbc6_ok s \<longleftrightarrow> unat (m6_rom_bank_a s) < 128 \<and> unat (m6_rom_bank_b s) < 128"

lemma flash_absolute_less:
  assumes "mbc6_ok s" "flash_absolute_address s a = Some x"
  shows "x < FLASH_LEN"
proof -
  have "k * 0x2000 + unat (a - c) < FLASH_LEN" if "unat (a - c) < 0x2000" "k < 128" for k c
    using that unfolding FLASH_LEN_def by linarith
  moreover have "unat (a - 0x4000) < 0x2000" if "in_range 0x4000 0x5FFF a"
    using that by (auto simp: in_range_def unat_sub word_le_nat_alt)
  moreover have "unat (a - 0x6000) < 0x2000" if "in_range 0x6000 0x7FFF a"
    using that by (auto simp: in_range_def unat_sub word_le_nat_alt)
  ultimately show ?thesis
    using assms by (auto simp: flash_absolute_address_def mbc6_ok_def split: if_splits)
qed

lemma write_flash_locked:
  assumes "mbc6_ok s" "sector0_locked s" "i < FLASH_SECTOR_LEN"
  shows "m6_flash_data (write_flash a v s) i = m6_flash_data s i"
proof -
  have "m6_flash_data (decode_flash_command (push_command x v s)) i = m6_flash_data s i" for x
    using decode_flash_locked [of "push_command x v s" i] assms(2,3)
    by (simp add: sector0_locked_def)
  moreover have "x mod FLASH_LEN \<noteq> i"
    if "flash_absolute_address s a = Some x" "flash_can_program_absolute s x" for x
  proof -
    have "x div FLASH_SECTOR_LEN \<noteq> 0"
      using that(2) assms(2) by (auto simp: flash_can_program_absolute_def sector0_locked_def)
    then show ?thesis
      using sector0_index flash_absolute_less [OF assms(1) that(1)] assms(3) by fastforce
  qed
  ultimately show ?thesis
    by (auto simp: write_flash_def Let_def split: option.splits)
qed

lemma write_flash_disabled:
  assumes "\<not> m6_flash_write_enabled s"
  shows "m6_hidden_flash (write_flash a v s) = m6_hidden_flash s"
    "m6_sector0_protected (write_flash a v s) = m6_sector0_protected s"
  using assms decode_flash_disabled [of "push_command x v s" for x]
  by (auto simp: write_flash_def Let_def split: option.splits)

lemma flash_banks_sel [simp]:
  "m6_rom_bank_a (enter_flash_status s) = m6_rom_bank_a s"
  "m6_rom_bank_b (enter_flash_status s) = m6_rom_bank_b s"
  "m6_rom_bank_a (exit_flash_modes s) = m6_rom_bank_a s"
  "m6_rom_bank_b (exit_flash_modes s) = m6_rom_bank_b s"
  "m6_rom_bank_a (push_command a v s) = m6_rom_bank_a s"
  "m6_rom_bank_b (push_command a v s) = m6_rom_bank_b s"
  "m6_rom_bank_a (erase_chip s) = m6_rom_bank_a s"
  "m6_rom_bank_b (erase_chip s) = m6_rom_bank_b s"
  "m6_rom_bank_a (erase_sector_containing a s) = m6_rom_bank_a s"
  "m6_rom_bank_b (erase_sector_containing a s) = m6_rom_bank_b s"
  by (simp_all add: enter_flash_status_def exit_flash_modes_def push_command_def erase_chip_def
      erase_sector_containing_def Let_def)

lemma decode_flash_banks [simp]:
  "m6_rom_bank_a (decode_flash_command s) = m6_rom_bank_a s"
  "m6_rom_bank_b (decode_flash_command s) = m6_rom_bank_b s"
  by (simp_all add: decode_flash_command_def Let_def split_beta)

lemma write_flash_banks [simp]:
  "m6_rom_bank_a (write_flash a v s) = m6_rom_bank_a s"
  "m6_rom_bank_b (write_flash a v s) = m6_rom_bank_b s"
  by (auto simp: write_flash_def Let_def split: option.splits)

lemma mbc6_ok_write: "mbc6_ok s \<Longrightarrow> mbc6_ok (mbc6_write a v s)"
  by (auto simp: mbc6_ok_def mbc6_write_def Let_def unat_and_low exit_flash_modes_def)

text \<open>
  A bus write to an MBC6 cartridge changes each flash byte only by clearing bits of it
  with the written value or by erasing it to \<open>0xFF\<close>; programming never sets a bit.
\<close>

theorem mbc6_flash_write_effect:
  "m6_flash_data (mbc6_write a v s) i \<in> {m6_flash_data s i, m6_flash_data s i AND v, 0xFF}"
  using write_flash_data [of a v s i]
  by (auto simp: mbc6_write_def Let_def)

text \<open>Cartridge writes that leave the flash write-enable register alone.\<close>

definition mbc6_writes :: "(u16 \<times> u8) list \<Rightarrow> mbc6 \<Rightarrow> mbc6" where
  "mbc6_writes = fold (\<lambda>(a, v). mbc6_write a v)"

lemma mbc6_write_disabled:
  assumes "mbc6_ok s" "\<not> m6_flash_write_enabled s" "\<not> in_range 0x1000 0x13FF a"
  shows "\<not> m6_flash_write_enabled (mbc6_write a v s)"
    "m6_hidden_flash (mbc6_write a v s) = m6_hidden_flash s"
    "m6_sector0_protected (mbc6_write a v s) = m6_sector0_protected s"
    "i < FLASH_SECTOR_LEN \<Longrightarrow> m6_flash_data (mbc6_write a v s) i = m6_flash_data s i"
proof -
  have r: "0x0FFF < a \<Longrightarrow> a \<le> 0x13FF \<Longrightarrow> False"
    using assms(3) by (auto simp: in_range_def word_le_nat_alt word_less_nat_alt)
  have lock: "sector0_locked s"
    using assms(2) by (simp add: sector0_locked_def)
  show "\<not> m6_flash_write_enabled (mbc6_write a v s)"
    "m6_hidden_flash (mbc6_write a v s) = m6_hidden_flash s"
    "m6_sector0_protected (mbc6_write a v s) = m6_sector0_protected s"
    "i < FLASH_SECTOR_LEN \<Longrightarrow> m6_flash_data (mbc6_write a v s) i = m6_flash_data s i"
    using r assms(2) write_flash_disabled [OF assms(2)] write_flash_locked [OF assms(1) lock]
    by (auto simp: mbc6_write_def Let_def not_le)
qed

text \<open>
  While flash writing is disabled, no sequence of cartridge writes that stays away from
  the write-enable register can change a byte of flash sector zero, the hidden region, or the
  sector's protection flag.
\<close>

theorem mbc6_flash_write_protected:
  assumes "mbc6_ok s" "\<not> m6_flash_write_enabled s"
    and "\<forall>w\<in>set ws. \<not> in_range 0x1000 0x13FF (fst w)" "i < FLASH_SECTOR_LEN"
  shows "m6_flash_data (mbc6_writes ws s) i = m6_flash_data s i \<and>
    m6_hidden_flash (mbc6_writes ws s) = m6_hidden_flash s \<and>
    m6_sector0_protected (mbc6_writes ws s) = m6_sector0_protected s"
  using assms
proof (induction ws arbitrary: s)
  case (Cons w ws)
  note step = mbc6_write_disabled [OF Cons.prems(1,2), where a = "fst w" and v = "snd w"]
  show ?case
    using Cons.IH [OF mbc6_ok_write [OF Cons.prems(1)]] Cons.prems step
    by (simp add: mbc6_writes_def split_beta)
qed (simp add: mbc6_writes_def)

theorem mbc6_flash_write_protected_witness:
  "m6_flash_data (mbc6_writes [(0x0C00, 1), (0x2800, 8), (0x4555, 0xAA)] mbc6_default) 7 = 0xFF"
  using mbc6_flash_write_protected [of mbc6_default "[(0x0C00, 1), (0x2800, 8), (0x4555, 0xAA)]" 7]
  by (simp add: mbc6_ok_def mbc6_default_def in_range_def FLASH_SECTOR_LEN_def)

end
