(* ===== verification/Mbc_Eeprom.thy ===== *)
theory Mbc_Eeprom
  imports Mbc_Simple
begin

text \<open>
  MBC7 (\<^verbatim>\<open>mbc7.rs\<close>): the accelerometer registers and the serial EEPROM clocked bit by bit
  through one byte of pins. The protocol theorems run whole transactions over the pin writes:
  a word written by its command bits is the word read back by its command bits.
\<close>

datatype eeprom_mode = Idle | CollectingCommand | ReadingWord | WritingWord | WritingAll

record mbc7 =
  m7_rom_bank :: u8
  m7_ram_enable_1 :: bool
  m7_ram_enable_2 :: bool
  m7_accel_latched :: bool
  m7_accel_x :: u16
  m7_accel_y :: u16
  m7_io :: u8
  m7_eeprom :: "u8 list"
  m7_write_enabled :: bool
  m7_mode :: eeprom_mode
  m7_started :: bool
  m7_shift :: u32
  m7_bits :: nat
  m7_pending :: u8
  m7_output :: u16
  m7_output_bits :: nat

definition mbc7_default :: mbc7 where
  "mbc7_default =
     \<lparr>m7_rom_bank = 1, m7_ram_enable_1 = False, m7_ram_enable_2 = False, m7_accel_latched = False,
      m7_accel_x = 0x8000, m7_accel_y = 0x8000, m7_io = 0x01, m7_eeprom = replicate 0x100 0xFF,
      m7_write_enabled = False, m7_mode = Idle, m7_started = False, m7_shift = 0, m7_bits = 0,
      m7_pending = 0, m7_output = 0, m7_output_bits = 0\<rparr>"

definition mbc7_ram_enabled :: "mbc7 \<Rightarrow> bool" where
  "mbc7_ram_enabled s \<longleftrightarrow> m7_ram_enable_1 s \<and> m7_ram_enable_2 s"

definition data_out :: "mbc7 \<Rightarrow> bool" where
  "data_out s \<longleftrightarrow> m7_io s AND 0x01 \<noteq> 0"

definition set_data_out :: "bool \<Rightarrow> mbc7 \<Rightarrow> mbc7" where
  "set_data_out high s =
     (if high then s\<lparr>m7_io := m7_io s OR 0x01\<rparr> else s\<lparr>m7_io := m7_io s AND NOT 0x01\<rparr>)"

definition mbc7_read_rom :: "mbc7 \<Rightarrow> u8 list \<Rightarrow> u16 \<Rightarrow> u8" where
  "mbc7_read_rom s rom addr =
     (if addr \<le> 0x3FFF then get_or rom (unat addr) 0xFF
      else if addr \<le> 0x7FFF then
        let offset = unat addr - 0x4000 in read_rom_bank rom (unat (m7_rom_bank s)) 0x4000 offset
      else 0xFF)"

definition mbc7_read_ram :: "mbc7 \<Rightarrow> u8 list \<Rightarrow> u16 \<Rightarrow> u8" where
  "mbc7_read_ram s ram addr =
     (if \<not> mbc7_ram_enabled s then 0xFF
      else
        let r = drop_bit 4 addr AND 0x0F in
        if r = 0x2 then ucast (m7_accel_x s)
        else if r = 0x3 then ucast (drop_bit 8 (m7_accel_x s))
        else if r = 0x4 then ucast (m7_accel_y s)
        else if r = 0x5 then ucast (drop_bit 8 (m7_accel_y s))
        else if r = 0x6 then 0x00
        else if r = 0x7 then 0xFF
        else if r = 0x8 then m7_io s AND 0xC3
        else 0xFF)"

definition mbc7_write :: "u16 \<Rightarrow> u8 \<Rightarrow> mbc7 \<Rightarrow> mbc7" where
  "mbc7_write addr v s =
     (if addr \<le> 0x1FFF then s\<lparr>m7_ram_enable_1 := (v AND 0x0F = 0x0A)\<rparr>
      else if addr \<le> 0x3FFF then s\<lparr>m7_rom_bank := v AND 0x7F\<rparr>
      else if addr \<le> 0x5FFF then s\<lparr>m7_ram_enable_2 := (v = 0x40)\<rparr>
      else s)"

section \<open>The EEPROM\<close>

definition push_bit7 :: "bool \<Rightarrow> mbc7 \<Rightarrow> mbc7" where
  "push_bit7 high s =
     s\<lparr>m7_shift := push_bit 1 (m7_shift s) OR (if high then 1 else 0),
       m7_bits := sat_add u8_max (m7_bits s) 1\<rparr>"

definition read_word :: "mbc7 \<Rightarrow> u8 \<Rightarrow> u16" where
  "read_word s address =
     (let index = unat address * 2
      in join_bytes (get_or (m7_eeprom s) index 0xFF) (get_or (m7_eeprom s) (index + 1) 0xFF))"

definition write_word :: "u8 \<Rightarrow> u16 \<Rightarrow> mbc7 \<Rightarrow> mbc7" where
  "write_word address v s =
     (let index = unat address * 2;
          e = set_at (m7_eeprom s) index (hi_byte v)
      in s\<lparr>m7_eeprom := set_at e (index + 1) (lo_byte v)\<rparr>)"

definition decode_command :: "mbc7 \<Rightarrow> mbc7" where
  "decode_command s =
     (let bits = (ucast (m7_shift s) :: u16) AND 0x03FF;
          opcode = drop_bit 8 bits AND 0x03;
          s = s\<lparr>m7_shift := 0, m7_bits := 0\<rparr>
      in if opcode = 2 then
           let s = s\<lparr>m7_pending := ucast (bits AND 0x7F)\<rparr>;
               s = s\<lparr>m7_output := read_word s (m7_pending s)\<rparr>
           in s\<lparr>m7_output_bits := 16, m7_mode := ReadingWord\<rparr>
         else if opcode = 1 then
           s\<lparr>m7_pending := ucast (bits AND 0x7F), m7_mode := WritingWord\<rparr>
         else if opcode = 3 then
           let s = s\<lparr>m7_pending := ucast (bits AND 0x7F)\<rparr>;
               s = (if m7_write_enabled s then write_word (m7_pending s) 0xFFFF s else s)
           in set_data_out True (s\<lparr>m7_mode := Idle\<rparr>)
         else
           let sub = drop_bit 6 bits AND 0x0F;
               s = (if sub = 0 then s\<lparr>m7_write_enabled := False\<rparr>
                    else if sub = 1 then s\<lparr>m7_mode := WritingAll\<rparr>
                    else if sub = 2 then
                      (let s = (if m7_write_enabled s
                                then s\<lparr>m7_eeprom := replicate (length (m7_eeprom s)) 0xFF\<rparr> else s)
                       in s\<lparr>m7_mode := Idle\<rparr>)
                    else if sub = 3 then s\<lparr>m7_write_enabled := True\<rparr>
                    else s)
           in set_data_out True s)"

definition on_rising_clock :: "bool \<Rightarrow> mbc7 \<Rightarrow> mbc7" where
  "on_rising_clock di s =
     (case m7_mode s of
        Idle \<Rightarrow>
          (if di then
             s\<lparr>m7_started := True, m7_mode := CollectingCommand, m7_shift := 0, m7_bits := 0\<rparr>
           else s)
      | CollectingCommand \<Rightarrow>
          (let s = push_bit7 di s in if m7_bits s = 10 then decode_command s else s)
      | ReadingWord \<Rightarrow>
          (if m7_output_bits s > 0 then
             let b = (m7_output s AND 0x8000 \<noteq> 0); s = set_data_out b s
             in s\<lparr>m7_output := push_bit 1 (m7_output s), m7_output_bits := m7_output_bits s - 1\<rparr>
           else set_data_out True s)
      | WritingWord \<Rightarrow>
          (let s = push_bit7 di s in
           if m7_bits s = 16 then
             let s = (if m7_write_enabled s
                      then write_word (m7_pending s) (ucast (m7_shift s)) s else s)
             in set_data_out True (s\<lparr>m7_mode := Idle\<rparr>)
           else s)
      | WritingAll \<Rightarrow>
          (let s = push_bit7 di s in
           if m7_bits s = 16 then
             let s = (if m7_write_enabled s then
                        let v = ucast (m7_shift s)
                        in fold (\<lambda>address. write_word (of_nat address) v) [0..<0x80] s
                      else s)
             in set_data_out True (s\<lparr>m7_mode := Idle\<rparr>)
           else s))"

definition reset_transaction :: "mbc7 \<Rightarrow> mbc7" where
  "reset_transaction s =
     set_data_out True
       (s\<lparr>m7_started := False, m7_mode := Idle, m7_shift := 0, m7_bits := 0, m7_output_bits := 0\<rparr>)"

definition clock_eeprom :: "u8 \<Rightarrow> mbc7 \<Rightarrow> mbc7" where
  "clock_eeprom v s =
     (let next_io = v AND 0xC2;
          old_cs = (m7_io s AND 0x80 \<noteq> 0); old_clk = (m7_io s AND 0x40 \<noteq> 0);
          new_cs = (next_io AND 0x80 \<noteq> 0); new_clk = (next_io AND 0x40 \<noteq> 0);
          di = (next_io AND 0x02 \<noteq> 0);
          s = (if \<not> old_cs \<and> new_cs then reset_transaction s else s);
          s = (if new_cs \<and> \<not> old_clk \<and> new_clk then on_rising_clock di s else s);
          s = (if old_cs \<and> \<not> new_cs then reset_transaction s else s)
      in s\<lparr>m7_io := next_io OR (if data_out s then 1 else 0)\<rparr>)"

definition mbc7_write_ram :: "mbc7 \<Rightarrow> u8 list \<Rightarrow> u16 \<Rightarrow> u8 \<Rightarrow> mbc7 \<times> u8 list" where
  "mbc7_write_ram s ram addr v =
     (if \<not> mbc7_ram_enabled s then (s, ram)
      else
        let r = drop_bit 4 addr AND 0x0F in
        if r = 0x0 then
          (if v = 0x55
           then s\<lparr>m7_accel_latched := False, m7_accel_x := 0x8000, m7_accel_y := 0x8000\<rparr> else s, ram)
        else if r = 0x1 then
          (if v = 0xAA \<and> \<not> m7_accel_latched s
           then s\<lparr>m7_accel_latched := True, m7_accel_x := 0x81D0, m7_accel_y := 0x81D0\<rparr> else s, ram)
        else if r = 0x8 then (clock_eeprom v s, ram)
        else (s, ram))"

interpretation mbc7_rom: rom_window mbc7_read_rom "\<lambda>_. 0" "\<lambda>s. unat (m7_rom_bank s)"
  by unfold_locales (simp_all add: mbc7_read_rom_def addr_window read_rom_bank_0 offset_small)

section \<open>Words of the EEPROM\<close>

lemma read_write_word:
  assumes "length (m7_eeprom s) = 0x100" "unat a < 128" "unat b < 128"
  shows "read_word (write_word a v s) b = (if a = b then v else read_word s b)"
  using assms
  by (auto simp: read_word_def write_word_def Let_def get_or_set_at word_unat_eq_iff)

section \<open>Bits on the wire\<close>

text \<open>One clock of the protocol with chip select held: the data bit while the clock is low, then high.\<close>

definition clock_bit :: "bool \<Rightarrow> mbc7 \<Rightarrow> mbc7" where
  "clock_bit di s =
     (let pins = (if di then 0x82 else 0x80)
      in clock_eeprom (pins OR 0x40) (clock_eeprom pins s))"

fun clock_bits :: "bool list \<Rightarrow> mbc7 \<Rightarrow> mbc7 \<times> bool list" where
  "clock_bits [] s = (s, [])"
| "clock_bits (b # bs) s =
     (let s = clock_bit b s; (t, out) = clock_bits bs s in (t, data_out s # out))"

definition selected :: "mbc7 \<Rightarrow> bool" where
  "selected s \<longleftrightarrow> bit (m7_io s) 7"

definition pins_of :: "mbc7 \<Rightarrow> bool \<Rightarrow> u8" where
  "pins_of s di = (if di then 0xC2 else 0xC0) OR (if data_out s then 1 else 0)"

lemma data_out_io: "data_out s = bit (m7_io s) 0"
  by (simp add: data_out_def mask_simps)

lemma pins_of_view [simp]: "selected (s\<lparr>m7_io := pins_of t di\<rparr>)"
  "data_out (s\<lparr>m7_io := pins_of t di\<rparr>) = data_out t"
  by (simp_all add: selected_def data_out_io pins_of_def bit_simps)

text \<open>With chip select held, one clock is one rising edge, whatever the clock pin showed before.\<close>

lemma clock_bit_rising:
  assumes "selected s"
  shows "clock_bit di s =
      (let u = s\<lparr>m7_io := (if di then 0x82 else 0x80) OR (if data_out s then 1 else 0)\<rparr>;
           t = on_rising_clock di u
       in t\<lparr>m7_io := pins_of t di\<rparr>)"
  using assms
  by (cases di; cases "data_out s")
    (simp_all add: clock_bit_def clock_eeprom_def Let_def selected_def mask_simps data_out_io
      pins_of_def bit_simps)

fun shift_in :: "bool list \<Rightarrow> u32 \<Rightarrow> u32" where
  "shift_in [] w = w"
| "shift_in (b # bs) w = shift_in bs (push_bit 1 w OR (if b then 1 else 0))"

text \<open>The bits a mode collects before it acts.\<close>

definition collect_limit :: "eeprom_mode \<Rightarrow> nat" where
  "collect_limit m = (if m = CollectingCommand then 10 else 16)"

definition collecting :: "eeprom_mode \<Rightarrow> bool" where
  "collecting m \<longleftrightarrow> m = CollectingCommand \<or> m = WritingWord \<or> m = WritingAll"

lemma on_rising_collect:
  assumes "collecting (m7_mode s)" "Suc (m7_bits s) < collect_limit (m7_mode s)"
  shows "on_rising_clock d s = push_bit7 d s"
  using assms
  by (cases "m7_mode s")
    (simp_all add: on_rising_clock_def collecting_def collect_limit_def push_bit7_def u8_max_def
      Let_def)

lemma data_out_kept:
  "data_out (s\<lparr>m7_io := (if d then 0x82 else 0x80) OR (if b then 1 else 0)\<rparr>) = b"
  by (simp add: data_out_io bit_simps)

lemma data_out_indep:
  "data_out (s\<lparr>m7_shift := x, m7_bits := n\<rparr>) = data_out s"
  by (simp add: data_out_def)

lemma pins_of_cong: "data_out s = data_out t \<Longrightarrow> pins_of s d = pins_of t d"
  by (simp add: pins_of_def)

lemma clock_bit_collect:
  assumes "selected s" "collecting (m7_mode s)" "Suc (m7_bits s) < collect_limit (m7_mode s)"
  shows "clock_bit d s =
    s\<lparr>m7_shift := push_bit 1 (m7_shift s) OR (if d then 1 else 0), m7_bits := Suc (m7_bits s),
      m7_io := pins_of s d\<rparr>"
proof -
  define u where "u = s\<lparr>m7_io := (if d then 0x82 else 0x80) OR (if data_out s then 1 else 0)\<rparr>"
  have "m7_bits s + 1 \<le> u8_max"
    using assms(3) by (simp add: collect_limit_def u8_max_def split: if_splits)
  then have p: "push_bit7 d u = u\<lparr>m7_shift := push_bit 1 (m7_shift s) OR (if d then 1 else 0),
      m7_bits := Suc (m7_bits s)\<rparr>"
    by (simp add: push_bit7_def u_def)
  have "data_out (push_bit7 d u) = data_out s"
    by (simp only: p data_out_indep) (simp only: u_def data_out_kept)
  then have "pins_of (push_bit7 d u) d = pins_of s d"
    by (rule pins_of_cong)
  moreover have "on_rising_clock d u = push_bit7 d u"
    using assms(2,3) by (intro on_rising_collect) (simp_all add: u_def)
  ultimately have "clock_bit d s = (push_bit7 d u)\<lparr>m7_io := pins_of s d\<rparr>"
    by (simp add: clock_bit_rising [OF assms(1)] u_def Let_def)
  then show ?thesis
    unfolding p by (simp add: u_def)
qed

lemma clock_bits_collect:
  assumes "selected s" "collecting (m7_mode s)"
    and "m7_bits s + length bs < collect_limit (m7_mode s)"
  shows "\<exists>io. fst (clock_bits bs s) =
      s\<lparr>m7_shift := shift_in bs (m7_shift s), m7_bits := m7_bits s + length bs, m7_io := io\<rparr> \<and>
    selected (fst (clock_bits bs s))"
  using assms
proof (induction bs arbitrary: s)
  case Nil
  then show ?case
    by (intro exI [of _ "m7_io s"]) simp
next
  case (Cons b bs)
  define t where "t = clock_bit b s"
  have t: "t = s\<lparr>m7_shift := push_bit 1 (m7_shift s) OR (if b then 1 else 0), m7_bits := Suc (m7_bits s),
      m7_io := pins_of s b\<rparr>"
    unfolding t_def using Cons.prems by (intro clock_bit_collect) simp_all
  have "selected t"
    unfolding t by (rule pins_of_view)
  then obtain io where "fst (clock_bits bs t) =
      t\<lparr>m7_shift := shift_in bs (m7_shift t), m7_bits := m7_bits t + length bs, m7_io := io\<rparr>"
    "selected (fst (clock_bits bs t))"
    using Cons.IH [of t] Cons.prems by (auto simp: t)
  then show ?case
    by (auto simp: t_def [symmetric] split_beta Let_def t)
qed

lemma clock_bits_append:
  "clock_bits (xs @ ys) s =
     (case clock_bits xs s of (t, o1) \<Rightarrow> case clock_bits ys t of (u, o2) \<Rightarrow> (u, o1 @ o2))"
  by (induction xs arbitrary: s) (simp_all add: split_beta Let_def)

text \<open>The start bit, and the clocks that complete a command or a data word.\<close>

lemma clock_bit_start:
  assumes "selected s" "m7_mode s = Idle"
  shows "clock_bit True s =
    s\<lparr>m7_started := True, m7_mode := CollectingCommand, m7_shift := 0, m7_bits := 0,
      m7_io := pins_of s True\<rparr>"
  using assms
  by (cases "bit (m7_io s) 0")
    (simp_all add: clock_bit_rising on_rising_clock_def Let_def pins_of_def data_out_io)

definition collected :: "mbc7 \<Rightarrow> mbc7" where
  "collected t =
     (if m7_mode t = CollectingCommand then decode_command t
      else if m7_mode t = WritingWord then
        set_data_out True
          ((if m7_write_enabled t then write_word (m7_pending t) (ucast (m7_shift t)) t else t)
             \<lparr>m7_mode := Idle\<rparr>)
      else
        set_data_out True
          ((if m7_write_enabled t then
              fold (\<lambda>address. write_word (of_nat address) (ucast (m7_shift t))) [0..<0x80] t
            else t)\<lparr>m7_mode := Idle\<rparr>))"

lemma clock_bit_last:
  assumes "selected s" "collecting (m7_mode s)" "Suc (m7_bits s) = collect_limit (m7_mode s)"
  shows "\<exists>io. clock_bit d s =
    (let u = collected (s\<lparr>m7_shift := push_bit 1 (m7_shift s) OR (if d then 1 else 0),
               m7_bits := Suc (m7_bits s), m7_io := io\<rparr>)
     in u\<lparr>m7_io := pins_of u d\<rparr>)"
proof -
  define io where "io = (if d then 0x82 else 0x80) OR (if data_out s then 1 else 0 :: u8)"
  have "m7_bits s + 1 \<le> u8_max"
    using assms(3) by (simp add: collect_limit_def u8_max_def split: if_splits)
  then have p: "push_bit7 d (s\<lparr>m7_io := io\<rparr>) =
      s\<lparr>m7_shift := push_bit 1 (m7_shift s) OR (if d then 1 else 0), m7_bits := Suc (m7_bits s),
        m7_io := io\<rparr>"
    by (simp add: push_bit7_def)
  have "clock_bit d s = (let u = on_rising_clock d (s\<lparr>m7_io := io\<rparr>) in u\<lparr>m7_io := pins_of u d\<rparr>)"
    by (simp add: clock_bit_rising [OF assms(1)] io_def Let_def)
  with assms(2,3) show ?thesis
    by (intro exI [of _ io])
      (cases "m7_mode s"; simp add: on_rising_clock_def p collecting_def collect_limit_def Let_def
        collected_def)
qed

lemma shift_in_snoc: "shift_in (bs @ [b]) w = push_bit 1 (shift_in bs w) OR (if b then 1 else 0)"
  by (induction bs arbitrary: w) simp_all

lemma clock_bits_full:
  assumes "selected s" "collecting (m7_mode s)" "m7_bits s = 0" "m7_shift s = 0"
    and "length bs = collect_limit (m7_mode s)"
  shows "\<exists>io. fst (clock_bits bs s) =
    (let u = collected (s\<lparr>m7_shift := shift_in bs 0, m7_bits := length bs, m7_io := io\<rparr>)
     in u\<lparr>m7_io := pins_of u (last bs)\<rparr>)"
proof -
  have "bs \<noteq> []"
    using assms(5) by (auto simp: collect_limit_def split: if_splits)
  then obtain cs l where bs: "bs = cs @ [l]"
    by (metis append_butlast_last_id)
  obtain io where t: "fst (clock_bits cs s) = s\<lparr>m7_shift := shift_in cs 0, m7_bits := length cs, m7_io := io\<rparr>"
    "selected (fst (clock_bits cs s))"
    using clock_bits_collect [OF assms(1,2), of cs] assms(3-5) by (auto simp: bs)
  show ?thesis
    using clock_bit_last [OF t(2), of l] assms(2,5)
    by (auto simp: t(1) bs clock_bits_append split_beta Let_def shift_in_snoc)
qed

text \<open>The number a run of bits spells, most significant first.\<close>

lemma bit_shift_in:
  "j < 32 \<Longrightarrow> bit (shift_in bs 0) j \<longleftrightarrow> j < length bs \<and> rev bs ! j"
proof (induction bs arbitrary: j rule: rev_induct)
  case (snoc b bs)
  show ?case
  proof (cases j)
    case 0
    then show ?thesis
      by (simp only: shift_in_snoc bit_or_iff bit_push_bit_iff) (simp add: bit_1_iff)
  next
    case (Suc k)
    with snoc.prems have "k < 32" by simp
    then show ?thesis
      using snoc.IH [OF \<open>k < 32\<close>] snoc.prems Suc
      by (simp only: shift_in_snoc bit_or_iff bit_push_bit_iff) (simp add: bit_1_iff)
  qed
qed simp

text \<open>A command: two opcode bits, one ignored bit, a seven-bit word address.\<close>

definition command :: "bool \<Rightarrow> bool \<Rightarrow> bool \<Rightarrow> bool list \<Rightarrow> bool list" where
  "command o1 o0 x ab = [o1, o0, x] @ ab"

definition word_address :: "bool list \<Rightarrow> u8" where
  "word_address ab = ucast (shift_in ab 0)"

lemma wide_masks: "(0x03FF :: u16) = mask 10" "(0x7F :: u16) = mask 7" "(0x03 :: u16) = mask 2"
  by (simp_all add: mask_eq_exp_minus_1)

lemma command_fields:
  fixes ab :: "bool list" and o1 o0 x :: bool
  assumes "length ab = 7"
  defines "w \<equiv> (ucast (shift_in (command o1 o0 x ab) 0) :: u16) AND 0x03FF"
  shows "drop_bit 8 w AND 0x03 = (if o1 then 2 else 0) OR (if o0 then 1 else 0)"
    "ucast (w AND 0x7F) = word_address ab"
proof -
  have nth: "rev (command o1 o0 x ab) ! k =
      (if k < 7 then rev ab ! k else if k = 7 then x else if k = 8 then o0 else o1)"
    if "k < 10" for k
    using that assms(1) by (auto simp: command_def nth_append nth_Cons')
  have len: "length (command o1 o0 x ab) = 10"
    using assms(1) by (simp add: command_def)
  have bit_w: "bit w k \<longleftrightarrow> k < 10 \<and> rev (command o1 o0 x ab) ! k" for k
    unfolding w_def wide_masks by (auto simp: bit_simps bit_mask_iff bit_shift_in len)
  show "drop_bit 8 w AND 0x03 = (if o1 then 2 else 0) OR (if o0 then 1 else 0)"
  proof (rule bit_word_eqI)
    fix k :: nat
    have "bit ((if o1 then 2 else 0) OR (if o0 then 1 else 0) :: u16) k =
        ((k = 1 \<and> o1) \<or> (k = 0 \<and> o0))"
      using bit_exp_iff [of 1 k, where 'a = "16 word"] by (auto simp: bit_or_iff bit_1_iff)
    moreover have "bit (drop_bit 8 w AND 0x03) k = (k < 2 \<and> bit w (8 + k))"
      unfolding wide_masks by (auto simp: bit_and_iff bit_mask_iff bit_drop_bit_eq)
    moreover have "rev (command o1 o0 x ab) ! 8 = o0" "rev (command o1 o0 x ab) ! 9 = o1"
      using nth [of 8] nth [of 9] by simp_all
    then have "(k < 2 \<and> bit w (8 + k)) = ((k = 1 \<and> o1) \<or> (k = 0 \<and> o0))"
      unfolding bit_w by (cases "k = 0"; cases "k = 1"; simp)
    ultimately show "bit (drop_bit 8 w AND 0x03) k = bit ((if o1 then 2 else 0) OR (if o0 then 1 else 0) :: u16) k"
      by simp
  qed
  show "ucast (w AND 0x7F) = word_address ab"
  proof (rule bit_word_eqI)
    fix k :: nat
    assume "k < LENGTH(8)"
    then have "bit (ucast (w AND 0x7F) :: u8) k = (k < 7 \<and> bit w k)"
      unfolding wide_masks by (auto simp: bit_ucast_iff bit_and_iff bit_mask_iff)
    moreover have "bit (word_address ab) k = (k < 7 \<and> rev ab ! k)"
      using \<open>k < LENGTH(8)\<close> assms(1) by (auto simp: word_address_def bit_ucast_iff bit_shift_in)
    ultimately show "bit (ucast (w AND 0x7F) :: u8) k = bit (word_address ab) k"
      by (auto simp: bit_w nth)
  qed
qed

lemma word_address_less: "length ab = 7 \<Longrightarrow> unat (word_address ab) < 128"
proof -
  assume "length ab = 7"
  then have "word_address ab AND 0x7F = word_address ab"
    unfolding low_masks
    by (intro bit_word_eqI) (auto simp: word_address_def bit_simps bit_mask_iff bit_shift_in)
  then have "unat (word_address ab) = unat (word_address ab) mod 128"
    by (metis unat_and_low(7))
  then show ?thesis
    by (metis mod_less_divisor zero_less_numeral)
qed

section \<open>Whole transactions\<close>

lemma decode_write:
  assumes "m7_shift s = shift_in (command False True x ab) 0" "length ab = 7"
  shows "decode_command s =
    s\<lparr>m7_shift := 0, m7_bits := 0, m7_pending := word_address ab, m7_mode := WritingWord\<rparr>"
  using command_fields [OF assms(2), of False True x]
  by (simp add: decode_command_def Let_def assms(1))

lemma decode_read:
  assumes "m7_shift s = shift_in (command True False x ab) 0" "length ab = 7"
  shows "decode_command s =
    s\<lparr>m7_shift := 0, m7_bits := 0, m7_pending := word_address ab,
      m7_output := read_word s (word_address ab), m7_output_bits := 16, m7_mode := ReadingWord\<rparr>"
  using command_fields [OF assms(2), of True False x]
  by (simp add: decode_command_def Let_def assms(1) read_word_def)

lemma clock_command:
  assumes "selected s" "m7_mode s = Idle" "length ab = 7"
  shows "\<exists>io io'. fst (clock_bits (True # command o1 o0 x ab) s) =
      (let u = decode_command (s\<lparr>m7_started := True, m7_mode := CollectingCommand,
                 m7_shift := shift_in (command o1 o0 x ab) 0, m7_bits := 10, m7_io := io\<rparr>)
       in u\<lparr>m7_io := io'\<rparr>) \<and>
    selected (fst (clock_bits (True # command o1 o0 x ab) s))"
proof -
  define s1 where "s1 = clock_bit True s"
  have s1: "s1 = s\<lparr>m7_started := True, m7_mode := CollectingCommand, m7_shift := 0, m7_bits := 0,
      m7_io := pins_of s True\<rparr>"
    unfolding s1_def using assms(1,2) by (rule clock_bit_start)
  have sel: "selected s1"
    unfolding s1 by (rule pins_of_view)
  have len: "length (command o1 o0 x ab) = 10"
    using assms(3) by (simp add: command_def)
  obtain io where "fst (clock_bits (command o1 o0 x ab) s1) =
      (let u = collected (s1\<lparr>m7_shift := shift_in (command o1 o0 x ab) 0, m7_bits := 10, m7_io := io\<rparr>)
       in u\<lparr>m7_io := pins_of u (last (command o1 o0 x ab))\<rparr>)"
    using clock_bits_full [OF sel, of "command o1 o0 x ab"] len
    by (auto simp: s1 collecting_def collect_limit_def)
  then show ?thesis
    by (auto simp: s1_def [symmetric] split_beta Let_def collected_def s1)
qed

lemma eeprom_write:
  assumes "selected s" "m7_mode s = Idle" "length (m7_eeprom s) = 0x100"
    and "length ab = 7" "length db = 16" "unat b < 128"
    and "t = fst (clock_bits (True # command False True x ab @ db) s)"
  shows "selected t \<and> m7_mode t = Idle \<and> m7_write_enabled t = m7_write_enabled s \<and>
    length (m7_eeprom t) = 0x100 \<and>
    read_word t b =
      (if m7_write_enabled s \<and> b = word_address ab then ucast (shift_in db 0) else read_word s b)"
proof -
  define c where "c = fst (clock_bits (True # command False True x ab) s)"
  obtain io where c: "c = s\<lparr>m7_started := True, m7_shift := 0, m7_bits := 0,
      m7_pending := word_address ab, m7_mode := WritingWord, m7_io := io\<rparr>" and "selected c"
    using clock_command [OF assms(1,2,4), of False True x]
    by (auto simp: c_def Let_def decode_write [OF _ assms(4)])
  have "t = fst (clock_bits db c)"
    using clock_bits_append [of "True # command False True x ab" db s]
    by (simp add: assms(7) c_def split_beta)
  moreover obtain io2 where "fst (clock_bits db c) =
      (let u = collected (c\<lparr>m7_shift := shift_in db 0, m7_bits := 16, m7_io := io2\<rparr>)
       in u\<lparr>m7_io := pins_of u (last db)\<rparr>)"
    using clock_bits_full [OF \<open>selected c\<close>, of db] assms(5)
    by (auto simp: c collecting_def collect_limit_def)
  ultimately have t: "t = (let u = collected (c\<lparr>m7_shift := shift_in db 0, m7_bits := 16, m7_io := io2\<rparr>)
       in u\<lparr>m7_io := pins_of u (last db)\<rparr>)"
    by simp
  have cong: "read_word u b = read_word v b" if "m7_eeprom u = m7_eeprom v" for u v
    using that by (simp add: read_word_def)
  have sd: "m7_eeprom (set_data_out h u) = m7_eeprom u" "m7_mode (set_data_out h u) = m7_mode u"
    "m7_write_enabled (set_data_out h u) = m7_write_enabled u" for h u
    by (simp_all add: set_data_out_def)
  have ww: "m7_write_enabled (write_word a v u) = m7_write_enabled u"
    "length (m7_eeprom (write_word a v u)) = length (m7_eeprom u)" for a v u
    by (simp_all add: write_word_def Let_def)
  define w where "w = write_word (word_address ab) (ucast (shift_in db 0))
      (c\<lparr>m7_shift := shift_in db 0, m7_bits := 16, m7_io := io2\<rparr>)"
  have eep: "m7_eeprom t = (if m7_write_enabled s then m7_eeprom w else m7_eeprom s)"
    by (simp add: t Let_def collected_def sd w_def) (simp add: c)
  have "read_word w b = (if b = word_address ab then ucast (shift_in db 0) else read_word s b)"
    using read_write_word [of "c\<lparr>m7_shift := shift_in db 0, m7_bits := 16, m7_io := io2\<rparr>"
        "word_address ab" b "ucast (shift_in db 0)"] assms(3,6) word_address_less [OF assms(4)]
      cong [of "c\<lparr>m7_shift := shift_in db 0, m7_bits := 16, m7_io := io2\<rparr>" s]
    by (auto simp: w_def c)
  then have "read_word t b =
      (if m7_write_enabled s \<and> b = word_address ab then ucast (shift_in db 0) else read_word s b)"
    using cong [of t w] cong [of t s] eep by (cases "m7_write_enabled s") auto
  moreover have "length (m7_eeprom t) = 0x100"
    using eep assms(3) by (simp add: w_def ww) (simp add: c)
  moreover have "m7_mode t = Idle" "m7_write_enabled t = m7_write_enabled s"
    by (simp_all add: t Let_def collected_def sd ww c)
  moreover have "selected t"
    unfolding t Let_def by (rule pins_of_view)
  ultimately show ?thesis by blast
qed

text \<open>Reading shifts the word out, most significant bit first.\<close>

lemma clock_bit_read:
  assumes "selected s" "m7_mode s = ReadingWord" "0 < m7_output_bits s"
  shows "\<exists>io. clock_bit d s = s\<lparr>m7_output := push_bit 1 (m7_output s),
      m7_output_bits := m7_output_bits s - 1, m7_io := io\<rparr> \<and>
    selected (clock_bit d s) \<and> data_out (clock_bit d s) = bit (m7_output s) 15"
proof -
  have m: "m7_output s AND 0x8000 \<noteq> 0 \<longleftrightarrow> bit (m7_output s) 15"
    using and_exp_eq_0_iff_not_bit [of "m7_output s" 15] by simp
  define u where "u = on_rising_clock d
      (s\<lparr>m7_io := (if d then 0x82 else 0x80) OR (if data_out s then 1 else 0)\<rparr>)"
  have cb: "clock_bit d s = u\<lparr>m7_io := pins_of u d\<rparr>"
    by (simp add: clock_bit_rising [OF assms(1)] u_def Let_def)
  have out: "data_out u = bit (m7_output s) 15"
    using assms(2,3) m
    by (auto simp: u_def on_rising_clock_def Let_def set_data_out_def data_out_io bit_simps)
  have upd: "u\<lparr>m7_io := x\<rparr> = s\<lparr>m7_output := push_bit 1 (m7_output s),
      m7_output_bits := m7_output_bits s - 1, m7_io := x\<rparr>" for x
    using assms(2,3) by (simp add: u_def on_rising_clock_def Let_def set_data_out_def)
  have "selected (clock_bit d s)" "data_out (clock_bit d s) = bit (m7_output s) 15"
    unfolding cb using out by simp_all
  then show ?thesis
    by (intro exI [of _ "pins_of u d"] conjI) (simp_all add: cb upd)
qed

lemma clock_bits_read:
  assumes "selected s" "m7_mode s = ReadingWord" "length ds \<le> m7_output_bits s" "length ds \<le> 16"
  shows "snd (clock_bits ds s) = map (\<lambda>i. bit (m7_output s) (15 - i)) [0..<length ds]"
  using assms
proof (induction ds arbitrary: s)
  case (Cons d ds)
  obtain io where t: "clock_bit d s = s\<lparr>m7_output := push_bit 1 (m7_output s),
      m7_output_bits := m7_output_bits s - 1, m7_io := io\<rparr>" "selected (clock_bit d s)"
    "data_out (clock_bit d s) = bit (m7_output s) 15"
    using clock_bit_read [OF Cons.prems(1,2), of d] Cons.prems(3) by auto
  have bits: "bit (push_bit 1 (m7_output s)) (15 - i) = bit (m7_output s) (15 - Suc i)"
    if "i < 15" for i
    using that by (simp only: bit_push_bit_iff) (auto simp: Suc_diff_Suc)
  have "snd (clock_bits ds (clock_bit d s)) =
      map (\<lambda>i. bit (m7_output (clock_bit d s)) (15 - i)) [0..<length ds]"
    using Cons.prems t(2) by (intro Cons.IH) (simp_all add: t(1))
  also have "\<dots> = map (\<lambda>i. bit (m7_output s) (15 - Suc i)) [0..<length ds]"
    using Cons.prems(4) bits by (auto simp: t(1) simp del: push_bit_Suc)
  finally show ?case
    by (simp add: split_beta Let_def t(3) upt_conv_Cons map_Suc_upt [symmetric] del: upt_Suc)
qed simp

lemma word_bits_out:
  "length db = 16 \<Longrightarrow> map (\<lambda>i. bit (ucast (shift_in db 0) :: u16) (15 - i)) [0..<16] = db"
  by (rule nth_equalityI) (auto simp: bit_ucast_iff bit_shift_in rev_nth)

lemma eeprom_read:
  assumes "selected s" "m7_mode s = Idle" "length ab = 7" "length ds = 16"
  shows "drop 11 (snd (clock_bits (True # command True False x ab @ ds) s)) =
    map (\<lambda>i. bit (read_word s (word_address ab)) (15 - i)) [0..<16]"
proof -
  have len: "length (snd (clock_bits bs u)) = length bs" for bs u
    by (induction bs arbitrary: u) (simp_all add: split_beta Let_def)
  define c where "c = fst (clock_bits (True # command True False x ab) s)"
  obtain io where c: "c = s\<lparr>m7_started := True, m7_shift := 0, m7_bits := 0,
      m7_pending := word_address ab, m7_output := read_word s (word_address ab),
      m7_output_bits := 16, m7_mode := ReadingWord, m7_io := io\<rparr>" and sel: "selected c"
    using clock_command [OF assms(1,2,3), of True False x]
    by (auto simp: c_def Let_def decode_read [OF _ assms(3)] read_word_def)
  have "drop 11 (snd (clock_bits (True # command True False x ab @ ds) s)) = snd (clock_bits ds c)"
    using clock_bits_append [of "True # command True False x ab" ds s]
      len [of "True # command True False x ab" s] assms(3)
    by (simp add: c_def split_beta command_def)
  also have "\<dots> = map (\<lambda>i. bit (m7_output c) (15 - i)) [0..<16]"
    using clock_bits_read [OF sel, of ds] assms(4) by (simp add: c)
  finally show ?thesis
    by (simp add: c)
qed

text \<open>
  C19. A word clocked into an EEPROM with writing enabled is clocked out again by a later read
  command for the same address, bit for bit, whatever the ignored command bit and the data pin
  are during the read.
\<close>

theorem eeprom_roundtrip:
  assumes "selected s" "m7_mode s = Idle" "length (m7_eeprom s) = 0x100" "m7_write_enabled s"
    and "length ab = 7" "length db = 16" "length ds = 16"
    and "t = fst (clock_bits (True # command False True x ab @ db) s)"
  shows "drop 11 (snd (clock_bits (True # command True False y ab @ ds) t)) = db"
proof -
  have t: "selected t" "m7_mode t = Idle" "read_word t (word_address ab) = ucast (shift_in db 0)"
    using eeprom_write [OF assms(1-3,5,6) word_address_less [OF assms(5)] assms(8)] assms(4)
    by simp_all
  show ?thesis
    using eeprom_read [OF t(1,2) assms(5,7)] word_bits_out [OF assms(6)] by (simp add: t(3))
qed

definition eeprom_ready :: mbc7 where
  "eeprom_ready = mbc7_default\<lparr>m7_write_enabled := True, m7_io := 0x81\<rparr>"

theorem eeprom_roundtrip_witness:
  "let db = replicate 8 True @ replicate 8 False; ab = replicate 7 True;
       t = fst (clock_bits (True # command False True False ab @ db) eeprom_ready)
   in drop 11 (snd (clock_bits (True # command True False False ab @ replicate 16 False) t)) = db"
  unfolding Let_def
  by (rule eeprom_roundtrip [OF _ _ _ _ _ _ _ refl])
    (simp_all add: eeprom_ready_def mbc7_default_def selected_def bit_simps)

text \<open>
  Clocking a write command and sixteen data bits into a selected, idle EEPROM stores
  exactly those bits, most significant first, in the addressed word when writing is enabled,
  stores nothing when it is not, and leaves every other word and the enable latch alone; the
  EEPROM is idle again afterwards.
\<close>

theorem eeprom_write_transaction:
  assumes "selected s" "m7_mode s = Idle" "length (m7_eeprom s) = 0x100"
    and "length ab = 7" "length db = 16" "unat b < 128"
    and "t = fst (clock_bits (True # command False True x ab @ db) s)"
  shows "m7_mode t = Idle \<and> m7_write_enabled t = m7_write_enabled s \<and>
    length (m7_eeprom t) = 0x100 \<and>
    read_word t b =
      (if m7_write_enabled s \<and> b = word_address ab then ucast (shift_in db 0) else read_word s b)"
  using eeprom_write [OF assms] by blast

theorem eeprom_write_transaction_witness:
  "m7_mode (fst (clock_bits (True # command False True False (replicate 7 True) @ replicate 16 True)
     eeprom_ready)) = Idle"
  using eeprom_write_transaction [of eeprom_ready "replicate 7 True" "replicate 16 True" 0 _ False,
      OF _ _ _ _ _ _ refl]
  by (simp add: eeprom_ready_def mbc7_default_def selected_def bit_simps)

end
