(* ===== verification/Mbc_Camera.thy ===== *)
theory Mbc_Camera
  imports Mbc_Simple
begin

text \<open>
  The Pocket Camera controller (\<^verbatim>\<open>camera.rs\<close>): banked RAM, the camera registers, and the timed
  capture that blocks RAM while it runs. The theorem gives the capture's duration from the
  exposure registers, independently of how the cycles are delivered.
\<close>

record camera =
  cam_rom_bank :: u8
  cam_ram_bank :: u8
  cam_ram_write_enabled :: bool
  cam_selected :: bool
  cam_capture_active :: bool
  cam_remaining :: nat
  cam_registers :: "u8 list"

definition camera_default :: camera where
  "camera_default =
     \<lparr>cam_rom_bank = 1, cam_ram_bank = 0, cam_ram_write_enabled = False, cam_selected = False,
      cam_capture_active = False, cam_remaining = 0, cam_registers = replicate 0x80 0\<rparr>"

definition camera_read_rom :: "camera \<Rightarrow> u8 list \<Rightarrow> u16 \<Rightarrow> u8" where
  "camera_read_rom s rom addr =
     (if addr \<le> 0x3FFF then get_or rom (unat addr) 0xFF
      else if addr \<le> 0x7FFF then
        let offset = unat addr - 0x4000 in read_rom_bank rom (unat (cam_rom_bank s)) 0x4000 offset
      else 0xFF)"

definition camera_read_ram :: "camera \<Rightarrow> u8 list \<Rightarrow> u16 \<Rightarrow> u8" where
  "camera_read_ram s ram addr =
     (if cam_selected s then
        let index = unat addr AND 0x7F in
        if index = 0 then
          (cam_registers s ! 0 AND 0x06) OR (if cam_capture_active s then 1 else 0)
        else get_or (cam_registers s) index 0
      else if cam_capture_active s then 0x00
      else read_ram_bank ram (unat (cam_ram_bank s)) 0x2000 (ram_offset addr))"

definition capture_duration_cycles :: "camera \<Rightarrow> nat" where
  "capture_duration_cycles s =
     (let n_bit = (if get_or (cam_registers s) 1 0 AND 0x80 \<noteq> 0 then 0 else 512);
          exposure = push_bit 8 (unat (get_or (cam_registers s) 2 0))
                       OR unat (get_or (cam_registers s) 3 0)
      in sat_mul u32_max (32446 + n_bit + 16 * exposure) 4)"

definition camera_write_ram :: "camera \<Rightarrow> u8 list \<Rightarrow> u16 \<Rightarrow> u8 \<Rightarrow> camera \<times> u8 list" where
  "camera_write_ram s ram addr v =
     (if cam_selected s then
        let index = unat addr AND 0x7F;
            s = s\<lparr>cam_registers := set_at (cam_registers s) index v\<rparr>
        in (if index = 0 then
              let capture_requested = (v AND 0x01 \<noteq> 0);
                  s = s\<lparr>cam_registers := (cam_registers s)[0 := v AND 0x07]\<rparr>
              in if capture_requested then
                   let s = (if cam_remaining s = 0
                            then s\<lparr>cam_remaining := capture_duration_cycles s\<rparr> else s)
                   in s\<lparr>cam_capture_active := True\<rparr>
                 else s\<lparr>cam_capture_active := False\<rparr>
            else s, ram)
      else if cam_ram_write_enabled s \<and> \<not> cam_capture_active s then
        (s, write_ram_bank ram (unat (cam_ram_bank s)) 0x2000 (ram_offset addr) v)
      else (s, ram))"

definition camera_write :: "u16 \<Rightarrow> u8 \<Rightarrow> camera \<Rightarrow> camera" where
  "camera_write addr v s =
     (if addr \<le> 0x1FFF then s\<lparr>cam_ram_write_enabled := (v AND 0x0F = 0x0A)\<rparr>
      else if addr \<le> 0x3FFF then s\<lparr>cam_rom_bank := v AND 0x3F\<rparr>
      else if addr \<le> 0x5FFF then
        s\<lparr>cam_selected := (v AND 0x10 \<noteq> 0), cam_ram_bank := v AND 0x0F\<rparr>
      else s)"

definition camera_tick :: "nat \<Rightarrow> camera \<Rightarrow> camera" where
  "camera_tick cycles s =
     (if \<not> cam_capture_active s then s
      else
        let s = s\<lparr>cam_remaining := cam_remaining s - cycles\<rparr> in
        if cam_remaining s = 0 then
          s\<lparr>cam_capture_active := False,
            cam_registers := (cam_registers s)[0 := cam_registers s ! 0 AND NOT 0x01]\<rparr>
        else s)"

definition camera_ram_index :: "camera \<Rightarrow> nat \<Rightarrow> u16 \<Rightarrow> nat option" where
  "camera_ram_index s n a = bank_index n (unat (cam_ram_bank s)) 0x2000 (ram_offset a)"

interpretation camera_rom: rom_window camera_read_rom "\<lambda>_. 0" "\<lambda>s. unat (cam_rom_bank s)"
  by unfold_locales (simp_all add: camera_read_rom_def addr_window read_rom_bank_0 offset_small)

interpretation camera_ram: banked_ram camera_read_ram "\<lambda>s ram a v. snd (camera_write_ram s ram a v)"
  "\<lambda>s. \<not> cam_selected s \<and> cam_ram_write_enabled s \<and> \<not> cam_capture_active s" camera_ram_index
  "\<lambda>_ v. v" "\<lambda>_ v. v"
  by unfold_locales (auto simp: camera_ram_index_def camera_read_ram_def camera_write_ram_def
      Let_def read_ram_bank_index write_ram_bank_index dest: bank_index_less split: if_splits)

section \<open>Captures\<close>

definition capturing :: "nat \<Rightarrow> camera \<Rightarrow> bool" where
  "capturing n s \<longleftrightarrow> cam_capture_active s \<and> cam_remaining s = n \<and> 0 < n"

lemma camera_tick_capturing:
  assumes "capturing n s"
  shows "if k < n then capturing (n - k) (camera_tick k s)
         else \<not> cam_capture_active (camera_tick k s) \<and> cam_remaining (camera_tick k s) = 0"
  using assms by (auto simp: capturing_def camera_tick_def Let_def)

lemma camera_tick_idle: "\<not> cam_capture_active s \<Longrightarrow> camera_tick k s = s"
  by (simp add: camera_tick_def)

lemma camera_ticks_active:
  "capturing n s \<Longrightarrow> cam_capture_active (fold camera_tick ks s) \<longleftrightarrow> sum_list ks < n"
proof (induction ks arbitrary: n s)
  case (Cons k ks)
  have idle: "\<not> cam_capture_active t \<Longrightarrow> \<not> cam_capture_active (fold camera_tick ks t)" for t
    by (induction ks) (simp_all add: camera_tick_idle)
  show ?case
    using camera_tick_capturing [OF Cons.prems, of k] Cons.IH [of "n - k" "camera_tick k s"]
      idle [of "camera_tick k s"]
    by (cases "k < n") auto
qed (simp add: capturing_def)

text \<open>
  Starting a capture on an idle camera keeps it active for exactly
  \<open>4 * (32446 + N + 16 * exposure)\<close> cycles, where \<open>N\<close> is 512 unless bit 7 of register one is
  set and the exposure is the big-endian pair in registers two and three, however the cycles
  are delivered; the product fits the counter, so the saturation never acts.
\<close>

theorem camera_capture_duration:
  assumes "cam_selected s" "\<not> cam_capture_active s" "cam_remaining s = 0"
    and "length (cam_registers s) = 0x80" "bit v 0" "unat a AND 0x7F = 0"
  shows "cam_capture_active (fold camera_tick ks (fst (camera_write_ram s ram a v))) \<longleftrightarrow>
    sum_list ks < 4 * (32446 + (if bit (cam_registers s ! 1) 7 then 0 else 512)
      + 16 * (256 * unat (cam_registers s ! 2) + unat (cam_registers s ! 3)))"
proof -
  define d where "d = 4 * (32446 + (if bit (cam_registers s ! 1) 7 then 0 else 512)
      + 16 * (256 * unat (cam_registers s ! 2) + unat (cam_registers s ! 3)))"
  have e: "push_bit 8 (unat (x :: u8)) OR unat (y :: u8) = 256 * unat x + unat y" for x y
    using or_push_bit_nat [of "unat y" 8 "unat x"] unat_u8_less [of y] by (simp add: or.commute)
  have "256 * unat (cam_registers s ! 2) + unat (cam_registers s ! 3) < 65536"
    using unat_u8_less [of "cam_registers s ! 2"] unat_u8_less [of "cam_registers s ! 3"]
    by linarith
  then have dur: "capture_duration_cycles (s\<lparr>cam_registers := (cam_registers s)[0 := w]\<rparr>) = d" for w
    using assms(4)
    by (simp add: capture_duration_cycles_def get_or_def e mask_simps d_def u32_max_def sat_mul_def
        Let_def)
  have "capturing d (fst (camera_write_ram s ram a v))"
    using assms dur
    by (simp add: camera_write_ram_def Let_def mask_simps capturing_def set_at_def) (simp add: d_def)
  then show ?thesis
    unfolding d_def [symmetric] by (rule camera_ticks_active)
qed

theorem camera_capture_duration_witness:
  "cam_capture_active (fold camera_tick [131831] (fst (camera_write_ram
     (camera_default\<lparr>cam_selected := True\<rparr>) [] 0xA000 1)))"
  using camera_capture_duration [of "camera_default\<lparr>cam_selected := True\<rparr>" 1 "0xA000" "[131831]" "[]"]
  by (simp add: camera_default_def)

end
