(* ===== verification/Cartridge_Slot.thy ===== *)
theory Cartridge_Slot
  imports Events Mbc_Simple Mbc3_Rtc Mbc_Clocked Mbc_Flash Mbc_Eeprom Mbc_Camera
begin

text \<open>
  The cartridge: the controller dispatch of \<^verbatim>\<open>mbc/mod.rs\<close>, and \<^verbatim>\<open>cartridge.rs\<close> with its header
  parsing, RAM sizing, battery saves and dirty tracking. The RAM contract holds of the dispatch
  as a whole, from the contracts of the controllers, and carries the save guarantees. The
  header keeps the title as the bytes before the first NUL; their decoding to text is left out.
\<close>

datatype mbc =
    MRomOnly
  | MMbc1 mbc1
  | MMbc2 mbc2
  | MMmm01 mmm01
  | MMbc3 mbc3
  | MMbc5 mbc5
  | MMbc6 mbc6
  | MMbc7 mbc7
  | MCamera camera
  | MTama5 tama5
  | MHuC3 huc3
  | MHuC1 huc1

fun mbc_ram_access_enabled :: "mbc \<Rightarrow> bool" where
  "mbc_ram_access_enabled MRomOnly = True"
| "mbc_ram_access_enabled (MMbc1 m) = m1_ram_enabled m"
| "mbc_ram_access_enabled (MMbc2 m) = m2_ram_enabled m"
| "mbc_ram_access_enabled (MMmm01 m) = m1_ram_enabled (mm_inner m)"
| "mbc_ram_access_enabled (MMbc3 m) = m3_ram_enabled m"
| "mbc_ram_access_enabled (MMbc5 m) = m5_ram_enabled m"
| "mbc_ram_access_enabled (MMbc6 m) = m6_ram_enabled m"
| "mbc_ram_access_enabled (MMbc7 m) = (m7_ram_enable_1 m \<and> m7_ram_enable_2 m)"
| "mbc_ram_access_enabled (MCamera m) = (cam_ram_write_enabled m \<and> \<not> cam_selected m)"
| "mbc_ram_access_enabled (MTama5 m) = t5_ram_enabled m"
| "mbc_ram_access_enabled (MHuC3 m) = (h3_mode m AND 0x0F = 0x0A)"
| "mbc_ram_access_enabled (MHuC1 m) = (\<not> h1_ir_mode m \<and> m1_ram_enabled (h1_inner m))"

fun mbc_current_rom_bank :: "mbc \<Rightarrow> u16" where
  "mbc_current_rom_bank MRomOnly = 1"
| "mbc_current_rom_bank (MMbc1 m) = mbc1_current_rom_bank m"
| "mbc_current_rom_bank (MMbc2 m) = mbc2_current_rom_bank m"
| "mbc_current_rom_bank (MMmm01 m) = mbc1_current_rom_bank (mm_inner m)"
| "mbc_current_rom_bank (MMbc3 m) = mbc3_current_rom_bank m"
| "mbc_current_rom_bank (MMbc5 m) = mbc5_current_rom_bank m"
| "mbc_current_rom_bank (MMbc6 m) = mbc6_current_rom_bank m"
| "mbc_current_rom_bank (MMbc7 m) = ucast (m7_rom_bank m)"
| "mbc_current_rom_bank (MCamera m) = ucast (cam_rom_bank m)"
| "mbc_current_rom_bank (MTama5 m) = tama5_current_rom_bank m"
| "mbc_current_rom_bank (MHuC3 m) = huc3_current_rom_bank m"
| "mbc_current_rom_bank (MHuC1 m) = mbc1_current_rom_bank (h1_inner m)"

fun mbc_current_ram_bank :: "mbc \<Rightarrow> u16" where
  "mbc_current_ram_bank MRomOnly = 0"
| "mbc_current_ram_bank (MMbc1 m) = mbc1_current_ram_bank m"
| "mbc_current_ram_bank (MMbc2 m) = 0"
| "mbc_current_ram_bank (MMmm01 m) = mbc1_current_ram_bank (mm_inner m)"
| "mbc_current_ram_bank (MMbc3 m) = mbc3_current_ram_bank m"
| "mbc_current_ram_bank (MMbc5 m) = mbc5_current_ram_bank m"
| "mbc_current_ram_bank (MMbc6 m) = mbc6_current_ram_bank m"
| "mbc_current_ram_bank (MMbc7 m) = 0"
| "mbc_current_ram_bank (MCamera m) = ucast (cam_ram_bank m)"
| "mbc_current_ram_bank (MTama5 m) = 0"
| "mbc_current_ram_bank (MHuC3 m) = huc3_current_ram_bank m"
| "mbc_current_ram_bank (MHuC1 m) = mbc1_current_ram_bank (h1_inner m)"

fun mbc_read_rom :: "mbc \<Rightarrow> u8 list \<Rightarrow> u16 \<Rightarrow> u8" where
  "mbc_read_rom MRomOnly rom a = rom_only_read_rom rom a"
| "mbc_read_rom (MMbc1 m) rom a = mbc1_read_rom m rom a"
| "mbc_read_rom (MMbc2 m) rom a = mbc2_read_rom m rom a"
| "mbc_read_rom (MMmm01 m) rom a = mmm01_read_rom m rom a"
| "mbc_read_rom (MMbc3 m) rom a = mbc3_read_rom m rom a"
| "mbc_read_rom (MMbc5 m) rom a = mbc5_read_rom m rom a"
| "mbc_read_rom (MMbc6 m) rom a = mbc6_read_rom m rom a"
| "mbc_read_rom (MMbc7 m) rom a = mbc7_read_rom m rom a"
| "mbc_read_rom (MCamera m) rom a = camera_read_rom m rom a"
| "mbc_read_rom (MTama5 m) rom a = tama5_read_rom m rom a"
| "mbc_read_rom (MHuC3 m) rom a = huc3_read_rom m rom a"
| "mbc_read_rom (MHuC1 m) rom a = huc1_read_rom m rom a"

fun mbc_read_ram :: "mbc \<Rightarrow> u8 list \<Rightarrow> u16 \<Rightarrow> u8" where
  "mbc_read_ram MRomOnly ram a = rom_only_read_ram ram a"
| "mbc_read_ram (MMbc1 m) ram a = mbc1_read_ram m ram a"
| "mbc_read_ram (MMbc2 m) ram a = mbc2_read_ram m ram a"
| "mbc_read_ram (MMmm01 m) ram a = mmm01_read_ram m ram a"
| "mbc_read_ram (MMbc3 m) ram a = mbc3_read_ram m ram a"
| "mbc_read_ram (MMbc5 m) ram a = mbc5_read_ram m ram a"
| "mbc_read_ram (MMbc6 m) ram a = mbc6_read_ram m ram a"
| "mbc_read_ram (MMbc7 m) ram a = mbc7_read_ram m ram a"
| "mbc_read_ram (MCamera m) ram a = camera_read_ram m ram a"
| "mbc_read_ram (MTama5 m) ram a = tama5_read_ram m ram a"
| "mbc_read_ram (MHuC3 m) ram a = huc3_read_ram m ram a"
| "mbc_read_ram (MHuC1 m) ram a = huc1_read_ram m ram a"

fun mbc_write_ram :: "nat \<Rightarrow> mbc \<Rightarrow> u8 list \<Rightarrow> u16 \<Rightarrow> u8 \<Rightarrow> mbc \<times> u8 list" where
  "mbc_write_ram now MRomOnly ram a v = (MRomOnly, rom_only_write_ram ram a v)"
| "mbc_write_ram now (MMbc1 m) ram a v = (MMbc1 m, mbc1_write_ram m ram a v)"
| "mbc_write_ram now (MMbc2 m) ram a v = (MMbc2 m, mbc2_write_ram m ram a v)"
| "mbc_write_ram now (MMmm01 m) ram a v = (MMmm01 m, mmm01_write_ram m ram a v)"
| "mbc_write_ram now (MMbc3 m) ram a v = apfst MMbc3 (mbc3_write_ram now m ram a v)"
| "mbc_write_ram now (MMbc5 m) ram a v = (MMbc5 m, mbc5_write_ram m ram a v)"
| "mbc_write_ram now (MMbc6 m) ram a v = (MMbc6 m, mbc6_write_ram m ram a v)"
| "mbc_write_ram now (MMbc7 m) ram a v = apfst MMbc7 (mbc7_write_ram m ram a v)"
| "mbc_write_ram now (MCamera m) ram a v = apfst MCamera (camera_write_ram m ram a v)"
| "mbc_write_ram now (MTama5 m) ram a v = apfst MTama5 (tama5_write_ram now m ram a v)"
| "mbc_write_ram now (MHuC3 m) ram a v = apfst MHuC3 (huc3_write_ram now m ram a v)"
| "mbc_write_ram now (MHuC1 m) ram a v = apfst MHuC1 (huc1_write_ram m ram a v)"

fun mbc_write :: "nat \<Rightarrow> u16 \<Rightarrow> u8 \<Rightarrow> mbc \<Rightarrow> mbc" where
  "mbc_write now a v MRomOnly = MRomOnly"
| "mbc_write now a v (MMbc1 m) = MMbc1 (mbc1_write a v m)"
| "mbc_write now a v (MMbc2 m) = MMbc2 (mbc2_write a v m)"
| "mbc_write now a v (MMmm01 m) = MMmm01 (mmm01_write a v m)"
| "mbc_write now a v (MMbc3 m) = MMbc3 (mbc3_write now a v m)"
| "mbc_write now a v (MMbc5 m) = MMbc5 (mbc5_write a v m)"
| "mbc_write now a v (MMbc6 m) = MMbc6 (mbc6_write a v m)"
| "mbc_write now a v (MMbc7 m) = MMbc7 (mbc7_write a v m)"
| "mbc_write now a v (MCamera m) = MCamera (camera_write a v m)"
| "mbc_write now a v (MTama5 m) = MTama5 (tama5_write a v m)"
| "mbc_write now a v (MHuC3 m) = MHuC3 (huc3_write now a v m)"
| "mbc_write now a v (MHuC1 m) = MHuC1 (huc1_write a v m)"

fun mbc_tick :: "nat \<Rightarrow> nat \<Rightarrow> mbc \<Rightarrow> mbc" where
  "mbc_tick now cycles (MMbc3 m) = MMbc3 (mbc3_tick now cycles m)"
| "mbc_tick now cycles (MCamera m) = MCamera (camera_tick cycles m)"
| "mbc_tick now cycles (MTama5 m) = MTama5 (tama5_tick now cycles m)"
| "mbc_tick now cycles (MHuC3 m) = MHuC3 (huc3_tick now cycles m)"
| "mbc_tick now cycles m = m"

section \<open>The cartridge\<close>

record cartridge_header =
  hdr_title_bytes :: "u8 list"
  hdr_cartridge_type :: u8
  hdr_rom_size_code :: u8
  hdr_ram_size_code :: u8
  hdr_cgb_flag :: u8
  hdr_sgb_flag :: u8

record cartridge =
  cart_rom :: "u8 list"
  cart_ram :: "u8 list"
  cart_mbc :: mbc
  cart_header :: cartridge_header
  cart_dirty :: bool

definition cart_empty :: cartridge where
  "cart_empty =
     \<lparr>cart_rom = replicate 0x8000 0, cart_ram = [], cart_mbc = MRomOnly,
      cart_header = \<lparr>hdr_title_bytes = map of_nat [69, 77, 80, 84, 89], hdr_cartridge_type = 0,
        hdr_rom_size_code = 0, hdr_ram_size_code = 0, hdr_cgb_flag = 0, hdr_sgb_flag = 0\<rparr>,
      cart_dirty = False\<rparr>"

definition ram_size_bytes :: "u8 \<Rightarrow> u8 \<Rightarrow> nat" where
  "ram_size_bytes cartridge_type code =
     (if cartridge_type = 0x05 \<or> cartridge_type = 0x06 then MBC2_RAM_LEN
      else if cartridge_type = 0x22 then 0x0100
      else if code = 0x01 then 0x0800
      else if code = 0x02 then 0x2000
      else if code = 0x03 then 0x8000
      else if code = 0x04 then 0x20000
      else if code = 0x05 then 0x10000
      else 0)"

definition mbc_for_type :: "nat \<Rightarrow> u8 \<Rightarrow> mbc option" where
  "mbc_for_type now t =
     (if t = 0x00 then Some MRomOnly
      else if 0x01 \<le> t \<and> t \<le> 0x03 then Some (MMbc1 mbc1_default)
      else if 0x05 \<le> t \<and> t \<le> 0x06 then Some (MMbc2 mbc2_default)
      else if 0x08 \<le> t \<and> t \<le> 0x09 then Some MRomOnly
      else if 0x0B \<le> t \<and> t \<le> 0x0D then Some (MMmm01 mmm01_default)
      else if 0x0F \<le> t \<and> t \<le> 0x13 then Some (MMbc3 (mbc3_default now))
      else if 0x19 \<le> t \<and> t \<le> 0x1B then Some (MMbc5 mbc5_default)
      else if 0x1C \<le> t \<and> t \<le> 0x1E then Some (MMbc5 (mbc5_with_rumble True))
      else if t = 0x20 then Some (MMbc6 mbc6_default)
      else if t = 0x22 then Some (MMbc7 mbc7_default)
      else if t = 0xFC then Some (MCamera camera_default)
      else if t = 0xFD then Some (MTama5 (tama5_default now))
      else if t = 0xFE then Some (MHuC3 (huc3_default now))
      else if t = 0xFF then Some (MHuC1 huc1_default)
      else None)"

definition cart_from_rom :: "nat \<Rightarrow> u8 list \<Rightarrow> core_error + cartridge" where
  "cart_from_rom now rom =
     (if length rom < 0x150 then Inl (RomTooSmall (length rom))
      else
        let title = takeWhile (\<lambda>b. b \<noteq> 0) (take 16 (drop 0x134 rom));
            cartridge_type = rom ! 0x147; rom_size_code = rom ! 0x148; ram_size_code = rom ! 0x149;
            cgb_flag = rom ! 0x143; sgb_flag = rom ! 0x146;
            ram_len = ram_size_bytes cartridge_type ram_size_code
        in case mbc_for_type now cartridge_type of
             None \<Rightarrow> Inl (UnsupportedCartridgeType cartridge_type)
           | Some m \<Rightarrow>
               Inr \<lparr>cart_rom = rom, cart_ram = replicate ram_len 0, cart_mbc = m,
                    cart_header = \<lparr>hdr_title_bytes = title, hdr_cartridge_type = cartridge_type,
                      hdr_rom_size_code = rom_size_code, hdr_ram_size_code = ram_size_code,
                      hdr_cgb_flag = cgb_flag, hdr_sgb_flag = sgb_flag\<rparr>,
                    cart_dirty = False\<rparr>)"

definition supports_cgb :: "cartridge \<Rightarrow> bool" where
  "supports_cgb c \<longleftrightarrow> hdr_cgb_flag (cart_header c) \<in> {0x80, 0xC0}"

definition cgb_only :: "cartridge \<Rightarrow> bool" where
  "cgb_only c \<longleftrightarrow> hdr_cgb_flag (cart_header c) = 0xC0"

definition supports_sgb :: "cartridge \<Rightarrow> bool" where
  "supports_sgb c \<longleftrightarrow> hdr_sgb_flag (cart_header c) = 0x03"

definition has_battery_backed_ram :: "cartridge \<Rightarrow> bool" where
  "has_battery_backed_ram c \<longleftrightarrow>
     hdr_cartridge_type (cart_header c) \<in>
       {0x03, 0x06, 0x09, 0x0D, 0x0F, 0x10, 0x13, 0x1B, 0x1E, 0x22, 0xFC, 0xFD, 0xFE, 0xFF} \<and>
     cart_ram c \<noteq> []"

definition battery_save_bytes :: "cartridge \<Rightarrow> u8 list option" where
  "battery_save_bytes c = (if has_battery_backed_ram c then Some (cart_ram c) else None)"

definition battery_save_dirty :: "cartridge \<Rightarrow> bool" where
  "battery_save_dirty c \<longleftrightarrow> has_battery_backed_ram c \<and> cart_dirty c"

definition battery_ram_access_enabled :: "cartridge \<Rightarrow> bool" where
  "battery_ram_access_enabled c \<longleftrightarrow>
     has_battery_backed_ram c \<and> mbc_ram_access_enabled (cart_mbc c)"

definition mark_battery_save_clean :: "cartridge \<Rightarrow> cartridge" where
  "mark_battery_save_clean c = c\<lparr>cart_dirty := False\<rparr>"

definition load_battery_save_bytes :: "u8 list \<Rightarrow> cartridge \<Rightarrow> cartridge \<times> nat" where
  "load_battery_save_bytes bytes c =
     (if \<not> has_battery_backed_ram c then (c, 0)
      else
        let len = min (length (cart_ram c)) (length bytes)
        in (c\<lparr>cart_ram := take len bytes @ drop len (cart_ram c), cart_dirty := False\<rparr>, len))"

fun mbc_kind :: "mbc \<Rightarrow> mapper_kind" where
  "mbc_kind MRomOnly = KRomOnly"
| "mbc_kind (MMbc1 _) = KMbc1"
| "mbc_kind (MMbc2 _) = KMbc2"
| "mbc_kind (MMmm01 _) = KMmm01"
| "mbc_kind (MMbc3 _) = KMbc3"
| "mbc_kind (MMbc5 _) = KMbc5"
| "mbc_kind (MMbc6 _) = KMbc6"
| "mbc_kind (MMbc7 _) = KMbc7"
| "mbc_kind (MCamera _) = KPocketCamera"
| "mbc_kind (MTama5 _) = KTama5"
| "mbc_kind (MHuC3 _) = KHuC3"
| "mbc_kind (MHuC1 _) = KHuC1"

definition cart_read_rom :: "cartridge \<Rightarrow> u16 \<Rightarrow> u8" where
  "cart_read_rom c a = mbc_read_rom (cart_mbc c) (cart_rom c) a"

definition cart_write_mbc :: "nat \<Rightarrow> u16 \<Rightarrow> u8 \<Rightarrow> cartridge \<Rightarrow> cartridge" where
  "cart_write_mbc now a v c = c\<lparr>cart_mbc := mbc_write now a v (cart_mbc c)\<rparr>"

definition cart_read_ram :: "cartridge \<Rightarrow> u16 \<Rightarrow> u8" where
  "cart_read_ram c a = mbc_read_ram (cart_mbc c) (cart_ram c) a"

definition cart_write_ram :: "nat \<Rightarrow> u16 \<Rightarrow> u8 \<Rightarrow> cartridge \<Rightarrow> cartridge" where
  "cart_write_ram now a v c =
     (let before = mbc_read_ram (cart_mbc c) (cart_ram c) a;
          (m, ram) = mbc_write_ram now (cart_mbc c) (cart_ram c) a v;
          c = c\<lparr>cart_mbc := m, cart_ram := ram\<rparr>;
          after = mbc_read_ram (cart_mbc c) (cart_ram c) a
      in if has_battery_backed_ram c \<and> before \<noteq> after then c\<lparr>cart_dirty := True\<rparr> else c)"

definition cart_tick :: "nat \<Rightarrow> nat \<Rightarrow> cartridge \<Rightarrow> cartridge" where
  "cart_tick now cycles c = c\<lparr>cart_mbc := mbc_tick now cycles (cart_mbc c)\<rparr>"

end
