(* ===== verification/Cartridge_Laws.thy ===== *)
theory Cartridge_Laws
  imports Cartridge_Slot
begin

text \<open>
  The promises of the cartridge: its RAM is memory through every controller, a change of battery
  RAM is always flagged for saving, saves round-trip, loading a ROM succeeds exactly for
  supported headers, and ROM reads stay inside the ROM.
\<close>

section \<open>External RAM through every controller\<close>

fun mbc_ram_open :: "mbc \<Rightarrow> bool" where
  "mbc_ram_open (MMbc3 m) = (\<not> mbc3_rtc_selected m)"
| "mbc_ram_open (MMbc7 m) = False"
| "mbc_ram_open (MCamera m) =
     (\<not> cam_selected m \<and> cam_ram_write_enabled m \<and> \<not> cam_capture_active m)"
| "mbc_ram_open (MTama5 m) = False"
| "mbc_ram_open (MHuC3 m) = (h3_mode m AND 0x0F = 0x0A)"
| "mbc_ram_open (MHuC1 m) = (\<not> h1_ir_mode m)"
| "mbc_ram_open _ = True"

fun mbc_ram_index :: "mbc \<Rightarrow> nat \<Rightarrow> u16 \<Rightarrow> nat option" where
  "mbc_ram_index MRomOnly n a = in_store n (ram_offset a)"
| "mbc_ram_index (MMbc1 m) n a = mbc1_ram_index m n a"
| "mbc_ram_index (MMbc2 m) n a = mbc2_ram_index m n a"
| "mbc_ram_index (MMmm01 m) n a = mbc1_ram_index (mm_inner m) n a"
| "mbc_ram_index (MMbc3 m) n a = mbc3_ram_index m n a"
| "mbc_ram_index (MMbc5 m) n a = mbc5_ram_index m n a"
| "mbc_ram_index (MMbc6 m) n a = mbc6_ram_index m n a"
| "mbc_ram_index (MCamera m) n a = camera_ram_index m n a"
| "mbc_ram_index (MHuC3 m) n a = huc3_ram_index m n a"
| "mbc_ram_index (MHuC1 m) n a = mbc1_ram_index (h1_inner m) n a"
| "mbc_ram_index _ n a = None"

fun mbc_view :: "mbc \<Rightarrow> u8 \<Rightarrow> u8" where
  "mbc_view (MMbc2 _) v = 0xF0 OR v"
| "mbc_view _ v = v"

fun mbc_store :: "mbc \<Rightarrow> u8 \<Rightarrow> u8" where
  "mbc_store (MMbc2 _) v = v AND 0x0F"
| "mbc_store _ v = v"

lemmas component_index_less =
  rom_only.index_less mbc1_ram.index_less mbc2_ram.index_less mbc3_ram.index_less
  mbc5_ram.index_less mbc6_ram.index_less camera_ram.index_less huc3_ram.index_less

lemmas component_reads =
  rom_only.read_open mbc1_ram.read_open mbc2_ram.read_open mmm01_ram.read_open mbc3_ram.read_open
  mbc5_ram.read_open mbc6_ram.read_open camera_ram.read_open huc3_ram.read_open huc1_ram.read_open

lemmas component_writes =
  rom_only.write_open mbc1_ram.write_open mbc2_ram.write_open mmm01_ram.write_open
  mbc3_ram.write_open mbc5_ram.write_open mbc6_ram.write_open camera_ram.write_open
  huc3_ram.write_open huc1_ram.write_open

lemmas component_closed =
  mbc3_ram.write_closed camera_ram.write_closed huc3_ram.write_closed huc1_ram.write_closed

interpretation cart_ram: banked_ram mbc_read_ram "\<lambda>m ram a v. snd (mbc_write_ram now m ram a v)"
  mbc_ram_open mbc_ram_index mbc_view mbc_store for now
proof
  show "mbc_ram_index s n a = Some i \<Longrightarrow> i < n" for s n a i
    by (cases s) (auto dest: component_index_less in_store_less)
  show "mbc_ram_open s \<Longrightarrow> mbc_read_ram s ram a =
      (case mbc_ram_index s (length ram) a of None \<Rightarrow> 0xFF | Some i \<Rightarrow> mbc_view s (ram ! i))"
    for s ram a
    by (cases s) (simp_all add: component_reads split: option.split)
  show "mbc_ram_open s \<Longrightarrow> snd (mbc_write_ram now s ram a v) =
      (case mbc_ram_index s (length ram) a of None \<Rightarrow> ram | Some i \<Rightarrow> ram[i := mbc_store s v])"
    for s ram a v
    by (cases s) (simp_all add: component_writes split: option.split)
  show "\<not> mbc_ram_open s \<Longrightarrow> snd (mbc_write_ram now s ram a v) = ram" for s ram a v
    by (cases s) (simp_all add: component_closed mbc7_write_ram_def tama5_write_ram_def Let_def)
qed

lemma mbc_write_ram_kind:
  "mbc_kind (fst (mbc_write_ram now m ram a v)) = mbc_kind m"
  by (cases m) simp_all

lemma mbc_kind_write: "mbc_kind (mbc_write now a v m) = mbc_kind m"
  by (cases m) simp_all

lemma mbc_kind_tick: "mbc_kind (mbc_tick now n m) = mbc_kind m"
  by (cases m) simp_all

text \<open>A write to open RAM keeps the part of the controller that decides where RAM is.\<close>

lemma mbc_write_ram_same_index:
  "mbc_ram_open m \<Longrightarrow>
     mbc_ram_open (fst (mbc_write_ram now m ram a v)) \<and>
     mbc_ram_index (fst (mbc_write_ram now m ram a v)) n b = mbc_ram_index m n b \<and>
     mbc_view (fst (mbc_write_ram now m ram a v)) = mbc_view m"
  by (cases m)
    (auto simp: mbc3_write_ram_def mbc3_ram_index_def mbc3_rtc_selected_def
      mbc3_current_ram_bank_def camera_write_ram_def huc3_write_ram_def huc1_write_ram_def Let_def
      fun_eq_iff)

text \<open>
  C16. Whatever byte-addressed RAM the cartridge has, a byte written to external RAM that is
  mapped is read back at every address the controller maps to the same cell, and no other mapped
  cell changes. MBC2 keeps the low nibble of the byte and shows the high nibble as ones, every
  other controller gives back the byte. The controller must give access to RAM: not to the clock
  of an MBC3 or the ports of a HuC, nor while the camera shows its registers, captures or
  protects its RAM. Without access the RAM bytes do not change; so it always is for MBC7 and
  TAMA5, whose storage is behind registers of their own.
\<close>

theorem cartridge_ram_read_after_write:
  fixes c
  defines "n \<equiv> length (cart_ram c)"
  shows "(mbc_ram_open (cart_mbc c) \<longrightarrow>
      cart_read_ram (cart_write_ram now a v c) b =
        (if mbc_ram_index (cart_mbc c) n a = mbc_ram_index (cart_mbc c) n b
            \<and> mbc_ram_index (cart_mbc c) n b \<noteq> None
         then (if mbc_kind (cart_mbc c) = KMbc2 then 0xF0 OR (v AND 0x0F) else v)
         else cart_read_ram c b)) \<and>
    (\<not> mbc_ram_open (cart_mbc c) \<longrightarrow> cart_ram (cart_write_ram now a v c) = cart_ram c)"
proof (intro conjI impI)
  let ?m = "cart_mbc c" and ?ram = "cart_ram c"
  assume "mbc_ram_open ?m"
  note op = this
  define m' ram' where "m' = fst (mbc_write_ram now ?m ?ram a v)"
    and "ram' = snd (mbc_write_ram now ?m ?ram a v)"
  have keep: "mbc_ram_open m'" "mbc_ram_index m' k x = mbc_ram_index ?m k x"
    "mbc_view m' = mbc_view ?m" for k x
    using mbc_write_ram_same_index [OF op, of now ?ram a v k x] by (simp_all add: m'_def)
  have "cart_read_ram (cart_write_ram now a v c) b = mbc_read_ram m' ram' b"
    by (simp add: cart_read_ram_def cart_write_ram_def Let_def split_beta m'_def ram'_def)
  also have "\<dots> = mbc_read_ram ?m ram' b"
    using keep op by (simp add: cart_ram.read_open split: option.split)
  finally have "cart_read_ram (cart_write_ram now a v c) b =
      (if mbc_ram_index ?m n a = mbc_ram_index ?m n b \<and> mbc_ram_index ?m n b \<noteq> None
       then mbc_view ?m (mbc_store ?m v) else cart_read_ram c b)"
    using cart_ram.read_write_ram [OF op, of now ?ram a v b]
    by (auto simp: ram'_def n_def cart_read_ram_def)
  moreover have "mbc_view ?m (mbc_store ?m v) = (if mbc_kind ?m = KMbc2 then 0xF0 OR (v AND 0x0F) else v)"
    by (cases ?m) simp_all
  ultimately show "cart_read_ram (cart_write_ram now a v c) b =
      (if mbc_ram_index ?m n a = mbc_ram_index ?m n b \<and> mbc_ram_index ?m n b \<noteq> None
       then (if mbc_kind ?m = KMbc2 then 0xF0 OR (v AND 0x0F) else v) else cart_read_ram c b)"
    by presburger
next
  assume "\<not> mbc_ram_open (cart_mbc c)"
  then show "cart_ram (cart_write_ram now a v c) = cart_ram c"
    by (simp add: cart_write_ram_def Let_def split_beta cart_ram.write_closed)
qed

theorem cartridge_ram_read_after_write_witness:
  "let c = cart_empty\<lparr>cart_ram := replicate 0x2000 0,
             cart_mbc := MMbc5 (mbc5_default\<lparr>m5_ram_enabled := True\<rparr>)\<rparr>
   in cart_read_ram (cart_write_ram 0 0xA123 7 c) 0xA123 = 7"
  using cartridge_ram_read_after_write [of "cart_empty\<lparr>cart_ram := replicate 0x2000 0,
             cart_mbc := MMbc5 (mbc5_default\<lparr>m5_ram_enabled := True\<rparr>)\<rparr>" 0 "0xA123" 7 "0xA123"]
  by (simp add: Let_def mbc5_ram_index_def mbc5_default_def bank_index_def in_store_def
      ram_offset_def div_ceil_def mbc5_current_ram_bank_def sat_mul_def sat_add_def usize_max_def)

section \<open>Battery saves\<close>

text \<open>Bus operations on a cartridge.\<close>

datatype cart_op = RamWrite nat u16 u8 | ControlPoke nat u16 u8 | TickOp nat nat

fun cart_step :: "cart_op \<Rightarrow> cartridge \<Rightarrow> cartridge" where
  "cart_step (RamWrite now a v) c = cart_write_ram now a v c"
| "cart_step (ControlPoke now a v) c = cart_write_mbc now a v c"
| "cart_step (TickOp now n) c = cart_tick now n c"

lemma cart_write_ram_sel:
  "cart_rom (cart_write_ram now a v c) = cart_rom c"
  "cart_header (cart_write_ram now a v c) = cart_header c"
  "cart_ram (cart_write_ram now a v c) = snd (mbc_write_ram now (cart_mbc c) (cart_ram c) a v)"
  "mbc_kind (cart_mbc (cart_write_ram now a v c)) = mbc_kind (cart_mbc c)"
  by (simp_all add: cart_write_ram_def Let_def split_beta mbc_write_ram_kind)

lemma cart_step_shape:
  "length (cart_ram (cart_step op c)) = length (cart_ram c)"
  "cart_rom (cart_step op c) = cart_rom c"
  "cart_header (cart_step op c) = cart_header c"
  "mbc_kind (cart_mbc (cart_step op c)) = mbc_kind (cart_mbc c)"
  by (cases op; simp add: cart_write_ram_sel cart_ram.length_write_ram cart_write_mbc_def
      cart_tick_def mbc_kind_write mbc_kind_tick)+

lemma battery_cong:
  "length (cart_ram c) = length (cart_ram d) \<Longrightarrow> cart_header c = cart_header d \<Longrightarrow>
     has_battery_backed_ram c = has_battery_backed_ram d"
  by (auto simp: has_battery_backed_ram_def)

text \<open>MBC2 RAM holds nibbles; only bytes loaded from elsewhere could break that.\<close>

definition nibble_ram_ok :: "cartridge \<Rightarrow> bool" where
  "nibble_ram_ok c \<longleftrightarrow>
     (mbc_kind (cart_mbc c) = KMbc2 \<longrightarrow> (\<forall>b\<in>set (cart_ram c). b AND 0xF0 = 0))"

lemma nibble_view_inj:
  assumes "(a :: u8) AND 0xF0 = 0" "0xF0 OR a = 0xF0 OR (b AND 0x0F)"
  shows "a = b AND 0x0F"
proof -
  have F0: "bit (0xF0 :: u8) k \<longleftrightarrow> 4 \<le> k \<and> k < 8" for k
  proof -
    have "(0xF0 :: u8) = push_bit 4 (mask 4)" by (simp add: mask_eq_exp_minus_1)
    then show ?thesis by (simp only: bit_push_bit_iff bit_mask_iff) auto
  qed
  show ?thesis
  proof (rule bit_word_eqI)
    fix k :: nat
    assume k: "k < LENGTH(8)"
    have 1: "\<not> (bit a k \<and> 4 \<le> k)"
      using arg_cong [OF assms(1), of "\<lambda>w. bit w k"] k F0 [of k] by (simp add: bit_and_iff)
    have 2: "(4 \<le> k \<or> bit a k) = (4 \<le> k \<or> bit (b AND 0x0F) k)"
      using arg_cong [OF assms(2), of "\<lambda>w. bit w k"] k F0 [of k] by (auto simp: bit_or_iff)
    show "bit a k = bit (b AND 0x0F) k"
      using 1 2 by (cases "4 \<le> k") (auto simp: low_masks(4) bit_simps bit_mask_iff)
  qed
qed

lemma nibble_store_ok: "(v AND 0x0F) AND 0xF0 = (0 :: u8)"
  by (simp add: and.assoc)

lemma nibble_ram_ok_step:
  assumes "nibble_ram_ok c"
  shows "nibble_ram_ok (cart_step op c)"
proof (cases "mbc_kind (cart_mbc c) = KMbc2")
  case False
  then show ?thesis
    by (simp add: nibble_ram_ok_def cart_step_shape)
next
  case True
  then obtain m where m: "cart_mbc c = MMbc2 m"
    by (cases "cart_mbc c") auto
  have ram: "\<forall>b\<in>set (cart_ram c). b AND 0xF0 = 0"
    using assms True by (simp add: nibble_ram_ok_def)
  have "set (mbc2_write_ram m (cart_ram c) a v) \<subseteq> insert (v AND 0x0F) (set (cart_ram c))" for a v
    by (auto simp: mbc2_write_ram_def set_at_def Let_def dest: set_update_subset_insert [THEN subsetD])
  then have "\<forall>b\<in>set (mbc2_write_ram m (cart_ram c) a v). b AND 0xF0 = 0" for a v
    using ram nibble_store_ok by blast
  then show ?thesis
    using ram
    by (cases op) (simp_all add: nibble_ram_ok_def cart_write_ram_sel m cart_write_mbc_def cart_tick_def)
qed

text \<open>What the game can read of the RAM: all of it, but of MBC2 RAM the low nibbles only.\<close>

definition visible_ram :: "cartridge \<Rightarrow> u8 list" where
  "visible_ram c = map (mbc_view (cart_mbc c)) (cart_ram c)"

lemma mbc_view_kind: "mbc_kind m = mbc_kind n \<Longrightarrow> mbc_view m = mbc_view n"
  by (cases m; cases n) (auto simp: fun_eq_iff)

lemma visible_nibbles:
  assumes "nibble_ram_ok c" "nibble_ram_ok d" "mbc_kind (cart_mbc d) = mbc_kind (cart_mbc c)" "visible_ram d = visible_ram c"
  shows "cart_ram d = cart_ram c"
proof (cases "mbc_kind (cart_mbc c) = KMbc2")
  case False
  have "mbc_view m = (\<lambda>v. v)" if "mbc_kind m \<noteq> KMbc2" for m
    using that by (cases m) (auto simp: fun_eq_iff)
  then show ?thesis
    using False assms(3,4) by (simp add: visible_ram_def)
next
  case True
  have low: "b AND 0x0F = b" if "b AND 0xF0 = 0" for b :: u8
  proof -
    have "(0xF0 OR 0x0F :: u8) = mask 8"
      by (simp add: mask_eq_exp_minus_1)
    then have "b AND (0xF0 OR 0x0F) = b"
      using take_bit_length_eq [of b] by (simp only: flip: take_bit_eq_mask) simp
    then show ?thesis
      unfolding bit.conj_disj_distrib that by simp
  qed
  have view: "mbc_view (cart_mbc c) = (\<lambda>v. 0xF0 OR v)" "mbc_view (cart_mbc d) = (\<lambda>v. 0xF0 OR v)"
    using True assms(3) by (cases "cart_mbc c"; cases "cart_mbc d"; auto simp: fun_eq_iff)+
  have "inj_on (\<lambda>v. 0xF0 OR v) (set (cart_ram c) \<union> set (cart_ram d))"
  proof (rule inj_onI)
    fix a b
    assume "a \<in> set (cart_ram c) \<union> set (cart_ram d)" "b \<in> set (cart_ram c) \<union> set (cart_ram d)" "0xF0 OR a = 0xF0 OR b"
    then show "a = b"
      using nibble_view_inj [of a b] low [of b] assms(1-3) True by (auto simp: nibble_ram_ok_def)
  qed
  then show ?thesis
    using assms(4) by (simp add: visible_ram_def view inj_on_map_eq_map Un_commute)
qed

lemma cart_write_ram_marks:
  assumes "has_battery_backed_ram c"
    and "visible_ram (cart_write_ram now a v c) \<noteq> visible_ram c"
  shows "cart_dirty (cart_write_ram now a v c)"
proof -
  let ?m = "cart_mbc c" and ?ram = "cart_ram c"
  define m' ram' where "m' = fst (mbc_write_ram now ?m ?ram a v)"
    and "ram' = snd (mbc_write_ram now ?m ?ram a v)"
  have "mbc_view (cart_mbc (cart_write_ram now a v c)) = mbc_view ?m"
    by (rule mbc_view_kind) (simp add: cart_write_ram_sel)
  then have seen: "map (mbc_view ?m) ram' \<noteq> map (mbc_view ?m) ?ram"
    using assms(2) by (simp add: visible_ram_def cart_write_ram_sel ram'_def)
  then have changed: "ram' \<noteq> ?ram"
    by auto
  then have op: "mbc_ram_open ?m"
    using cart_ram.write_closed [of ?m now ?ram a v] by (auto simp: ram'_def)
  have w: "ram' = (case mbc_ram_index ?m (length ?ram) a of None \<Rightarrow> ?ram
      | Some i \<Rightarrow> ?ram[i := mbc_store ?m v])"
    unfolding ram'_def by (rule cart_ram.write_open [OF op])
  then obtain i where i: "mbc_ram_index ?m (length ?ram) a = Some i"
    using changed by (cases "mbc_ram_index ?m (length ?ram) a") auto
  then have less: "i < length ?ram" and ram': "ram' = ?ram[i := mbc_store ?m v]"
    using w cart_ram.index_less by auto
  have view: "mbc_view ?m (?ram ! i) \<noteq> mbc_view ?m (mbc_store ?m v)"
    using seen less by (auto simp: ram' map_update) (metis list_update_id nth_map)
  have keep: "mbc_ram_open m'" "mbc_ram_index m' k x = mbc_ram_index ?m k x"
    "mbc_view m' = mbc_view ?m" for k x
    using mbc_write_ram_same_index [OF op, of now ?ram a v k x] by (simp_all add: m'_def)
  have before: "mbc_read_ram ?m ?ram a = mbc_view ?m (?ram ! i)"
    by (simp add: cart_ram.read_open [OF op] i)
  have after: "mbc_read_ram m' ram' a = mbc_view ?m (mbc_store ?m v)"
    using less by (simp add: cart_ram.read_open [OF keep(1)] keep i ram')
  have "has_battery_backed_ram (c\<lparr>cart_mbc := m', cart_ram := ram'\<rparr>)"
    using assms(1) battery_cong [of "c\<lparr>cart_mbc := m', cart_ram := ram'\<rparr>" c] by (simp add: ram')
  then show ?thesis
    using view before after
    by (simp add: cart_write_ram_def Let_def split_beta m'_def [symmetric] ram'_def [symmetric])
qed

lemma cart_dirty_step: "cart_dirty c \<Longrightarrow> cart_dirty (cart_step op c)"
  by (cases op) (simp_all add: cart_write_ram_def cart_write_mbc_def cart_tick_def Let_def split_beta)

lemma cart_step_marks:
  assumes "has_battery_backed_ram c" "visible_ram (cart_step op c) \<noteq> visible_ram c"
  shows "cart_dirty (cart_step op c)"
proof (cases op)
  case (RamWrite now a v)
  then show ?thesis
    using assms cart_write_ram_marks by simp
next
  case (ControlPoke now a v)
  have "mbc_view (cart_mbc (cart_step op c)) = mbc_view (cart_mbc c)"
    by (rule mbc_view_kind) (rule cart_step_shape)
  with ControlPoke assms(2) show ?thesis
    by (simp add: visible_ram_def cart_write_mbc_def)
next
  case (TickOp now n)
  have "mbc_view (cart_mbc (cart_step op c)) = mbc_view (cart_mbc c)"
    by (rule mbc_view_kind) (rule cart_step_shape)
  with TickOp assms(2) show ?thesis
    by (simp add: visible_ram_def cart_tick_def)
qed

text \<open>
  C18. No change of battery RAM that the game can see is missed: after any sequence of RAM
  writes, control writes and ticks, if the visible RAM of a battery cartridge differs from what
  it was at the start, the cartridge reports its save as dirty. Visible is the whole RAM, but of
  MBC2 RAM only the low nibbles: as long as the high nibbles start at zero, which a foreign save
  file may break, any change of the RAM bytes is reported. The sequence keeps the ROM, the
  header and the RAM size.
\<close>

theorem battery_changes_are_dirty:
  fixes c ops
  assumes "has_battery_backed_ram c"
  defines "d \<equiv> fold cart_step ops c"
  shows "(visible_ram d \<noteq> visible_ram c \<longrightarrow> battery_save_dirty d) \<and>
    (nibble_ram_ok c \<and> cart_ram d \<noteq> cart_ram c \<longrightarrow> battery_save_dirty d) \<and>
    length (cart_ram d) = length (cart_ram c) \<and> cart_rom d = cart_rom c \<and> cart_header d = cart_header c"
proof -
  have "(visible_ram d \<noteq> visible_ram c \<longrightarrow> cart_dirty d) \<and> (nibble_ram_ok c \<longrightarrow> nibble_ram_ok d) \<and>
      mbc_kind (cart_mbc d) = mbc_kind (cart_mbc c) \<and> length (cart_ram d) = length (cart_ram c) \<and>
      cart_rom d = cart_rom c \<and> cart_header d = cart_header c" if "d = fold cart_step ops c" for d
    using that
  proof (induction ops arbitrary: d rule: rev_induct)
    case (snoc op ops)
    let ?e = "fold cart_step ops c"
    have d: "d = cart_step op ?e"
      using snoc.prems by simp
    note IH = snoc.IH [OF refl]
    have "has_battery_backed_ram ?e"
      using IH assms(1) battery_cong [of ?e c] by simp
    then show ?case
      using IH cart_step_marks [of ?e op] cart_dirty_step [of ?e op] nibble_ram_ok_step [of ?e op]
      unfolding d cart_step_shape by auto
  qed simp
  from this [OF d_def [THEN meta_eq_to_obj_eq]] show ?thesis
    using assms(1) battery_cong [of d c] visible_nibbles [of c d] by (auto simp: battery_save_dirty_def)
qed

theorem battery_changes_are_dirty_witness:
  "let c = cart_empty\<lparr>cart_ram := [0], cart_header := (cart_header cart_empty)\<lparr>hdr_cartridge_type := 9\<rparr>\<rparr>
   in battery_save_dirty (fold cart_step [RamWrite 0 0xA000 5] c)"
  using battery_changes_are_dirty [of "cart_empty\<lparr>cart_ram := [0],
      cart_header := (cart_header cart_empty)\<lparr>hdr_cartridge_type := 9\<rparr>\<rparr>" "[RamWrite 0 0xA000 5]"]
  by (simp add: Let_def nibble_ram_ok_def has_battery_backed_ram_def cart_empty_def
      cart_write_ram_sel rom_only_write_ram_def set_at_def ram_offset_def)

text \<open>
  C33. A battery save restores what it saved: loading a cartridge's own save bytes gives back
  its RAM and a clean flag, loading another save overwrites the common prefix and keeps the
  rest, and neither changes the size of the RAM.
\<close>

theorem battery_save_roundtrip:
  assumes "battery_save_bytes c = Some bytes"
  shows "load_battery_save_bytes bytes d =
      (if has_battery_backed_ram d
       then (d\<lparr>cart_ram := take (length (cart_ram d)) bytes @ drop (length bytes) (cart_ram d),
               cart_dirty := False\<rparr>, min (length (cart_ram d)) (length bytes))
       else (d, 0)) \<and>
    load_battery_save_bytes bytes c = (c\<lparr>cart_dirty := False\<rparr>, length (cart_ram c)) \<and>
    length (cart_ram (fst (load_battery_save_bytes bytes d))) = length (cart_ram d)"
  using assms
  by (auto simp: battery_save_bytes_def load_battery_save_bytes_def min_def Let_def
      split: if_splits)

theorem battery_save_roundtrip_witness:
  "let c = cart_empty\<lparr>cart_ram := [1, 2], cart_header := (cart_header cart_empty)\<lparr>hdr_cartridge_type := 3\<rparr>\<rparr>
   in load_battery_save_bytes [1, 2] c = (c, 2)"
  using battery_save_roundtrip [of "cart_empty\<lparr>cart_ram := [1, 2],
      cart_header := (cart_header cart_empty)\<lparr>hdr_cartridge_type := 3\<rparr>\<rparr>" "[1, 2]"]
  by (simp add: Let_def battery_save_bytes_def has_battery_backed_ram_def cart_empty_def)

text \<open>
  C38. An MBC7 cartridge's battery save never changes: the game's data lives in the EEPROM,
  which no save contains, while the RAM the save copies is never written, whatever the game
  does.
\<close>

theorem mbc7_save_is_constant:
  assumes "mbc_kind (cart_mbc c) = KMbc7"
  shows "battery_save_bytes (fold cart_step ops c) = battery_save_bytes c"
proof -
  have "cart_ram (fold cart_step ops c) = cart_ram c \<and> cart_header (fold cart_step ops c) = cart_header c"
    using assms
  proof (induction ops arbitrary: c)
    case (Cons op ops)
    then obtain m where m: "cart_mbc c = MMbc7 m"
      by (cases "cart_mbc c") auto
    have "cart_ram (cart_step op c) = cart_ram c"
      by (cases op) (simp_all add: cart_write_ram_sel m mbc7_write_ram_def Let_def
          cart_write_mbc_def cart_tick_def)
    then show ?case
      using Cons.IH [of "cart_step op c"] Cons.prems by (simp add: cart_step_shape)
  qed simp
  then show ?thesis
    by (simp add: battery_save_bytes_def has_battery_backed_ram_def)
qed

theorem mbc7_save_is_constant_witness:
  "let c = cart_empty\<lparr>cart_ram := replicate 256 0, cart_mbc := MMbc7 (mbc7_default\<lparr>m7_ram_enable_1 := True,
             m7_ram_enable_2 := True\<rparr>)\<rparr>
   in battery_save_bytes (fold cart_step [RamWrite 0 0xA080 0x82] c) = battery_save_bytes c"
  unfolding Let_def by (rule mbc7_save_is_constant) simp

section \<open>Loading a ROM\<close>

definition supported_type :: "u8 \<Rightarrow> bool" where
  "supported_type t \<longleftrightarrow>
     unat t \<in> {0, 1, 2, 3, 5, 6, 8, 9, 0x0B, 0x0C, 0x0D, 0x0F, 0x10, 0x11, 0x12, 0x13,
       0x19, 0x1A, 0x1B, 0x1C, 0x1D, 0x1E, 0x20, 0x22, 0xFC, 0xFD, 0xFE, 0xFF}"

lemma supported_type_mapper: "mbc_for_type now t \<noteq> None \<longleftrightarrow> supported_type t"
proof -
  have eq: "t = w \<longleftrightarrow> unat t = unat w" for w
    by (simp add: word_unat_eq_iff)
  have ranges: "1 \<le> n \<and> n \<le> 3 \<longleftrightarrow> n = 1 \<or> n = 2 \<or> n = 3"
    "5 \<le> n \<and> n \<le> 6 \<longleftrightarrow> n = 5 \<or> n = 6" "8 \<le> n \<and> n \<le> 9 \<longleftrightarrow> n = 8 \<or> n = 9"
    "0x0B \<le> n \<and> n \<le> 0x0D \<longleftrightarrow> n = 0x0B \<or> n = 0x0C \<or> n = 0x0D"
    "0x0F \<le> n \<and> n \<le> 0x13 \<longleftrightarrow> n = 0x0F \<or> n = 0x10 \<or> n = 0x11 \<or> n = 0x12 \<or> n = 0x13"
    "0x19 \<le> n \<and> n \<le> 0x1B \<longleftrightarrow> n = 0x19 \<or> n = 0x1A \<or> n = 0x1B"
    "0x1C \<le> n \<and> n \<le> 0x1E \<longleftrightarrow> n = 0x1C \<or> n = 0x1D \<or> n = 0x1E" for n :: nat
    by arith+
  have "mbc_for_type now t = None \<longleftrightarrow> \<not> supported_type t"
    unfolding mbc_for_type_def supported_type_def eq word_le_nat_alt unsigned_numeral
      unsigned_0 unsigned_1
    by (simp add: ranges [simplified]) arith
  then show ?thesis by simp
qed

lemma cart_from_rom_loaded:
  assumes "0x150 \<le> length rom" "supported_type (rom ! 0x147)"
  obtains c where "cart_from_rom now rom = Inr c" "cart_rom c = rom" "\<not> cart_dirty c"
    "hdr_cartridge_type (cart_header c) = rom ! 0x147"
    "cart_ram c = replicate (ram_size_bytes (rom ! 0x147) (rom ! 0x149)) 0" "nibble_ram_ok c"
  using assms supported_type_mapper [of now "rom ! 0x147"]
  by (auto simp: cart_from_rom_def Let_def nibble_ram_ok_def)

text \<open>
  C36. Loading fails with the ROM's length exactly when it is shorter than the header, fails
  with the type byte when that is not one of the supported cartridge types, and otherwise
  gives a clean cartridge holding exactly that ROM, with the RAM its header asks for, all zero.
\<close>

theorem cart_from_rom_spec:
  "case cart_from_rom now rom of
     Inl e \<Rightarrow> (length rom < 0x150 \<and> e = RomTooSmall (length rom)) \<or>
       (0x150 \<le> length rom \<and> \<not> supported_type (rom ! 0x147) \<and>
        e = UnsupportedCartridgeType (rom ! 0x147))
   | Inr c \<Rightarrow> 0x150 \<le> length rom \<and> supported_type (rom ! 0x147) \<and> cart_rom c = rom \<and>
       \<not> cart_dirty c \<and> hdr_cartridge_type (cart_header c) = rom ! 0x147 \<and>
       cart_ram c = replicate (ram_size_bytes (rom ! 0x147) (rom ! 0x149)) 0"
proof (cases "0x150 \<le> length rom \<and> supported_type (rom ! 0x147)")
  case True
  then obtain c where "cart_from_rom now rom = Inr c" "cart_rom c = rom" "\<not> cart_dirty c"
    "hdr_cartridge_type (cart_header c) = rom ! 0x147"
    "cart_ram c = replicate (ram_size_bytes (rom ! 0x147) (rom ! 0x149)) 0"
    using cart_from_rom_loaded by blast
  then show ?thesis
    using True by simp
next
  case False
  then show ?thesis
    using supported_type_mapper [of now "rom ! 0x147"]
    by (cases "length rom < 0x150") (simp_all add: cart_from_rom_def Let_def)
qed

section \<open>ROM windows\<close>

fun mbc_lower_bank :: "mbc \<Rightarrow> nat" where
  "mbc_lower_bank (MMbc1 m) = mbc1_lower_rom_bank m"
| "mbc_lower_bank (MMmm01 m) = mbc1_lower_rom_bank (mm_inner m)"
| "mbc_lower_bank (MHuC1 m) = mbc1_lower_rom_bank (h1_inner m)"
| "mbc_lower_bank _ = 0"

lemmas component_cells =
  mbc1_rom.read_rom_cell mbc2_rom.read_rom_cell mmm01_rom.read_rom_cell mbc3_rom.read_rom_cell
  mbc5_rom.read_rom_cell mbc7_rom.read_rom_cell camera_rom.read_rom_cell tama5_rom.read_rom_cell
  huc3_rom.read_rom_cell huc1_rom.read_rom_cell

text \<open>
  C37. On a ROM of whole banks every controller with 16 KiB windows reads an existing ROM byte:
  the byte at the address's offset in its lower bank or in the bank it reports as current,
  wrapped to the number of banks.
\<close>

theorem cartridge_rom_in_range:
  assumes "whole_banks (cart_rom c)" "unat a < 0x8000"
    and "mbc_kind (cart_mbc c) \<noteq> KRomOnly" "mbc_kind (cart_mbc c) \<noteq> KMbc6"
  defines "i \<equiv> rom_cell (mbc_lower_bank (cart_mbc c)) (unat (mbc_current_rom_bank (cart_mbc c)))
      (length (cart_rom c)) a"
  shows "i < length (cart_rom c) \<and> cart_read_rom c a = cart_rom c ! i"
  using assms(3,4) component_cells [OF assms(1,2)]
  by (cases "cart_mbc c") (simp_all add: i_def cart_read_rom_def)

theorem cartridge_rom_in_range_witness:
  "let c = cart_empty\<lparr>cart_mbc := MMbc1 mbc1_default\<rparr> in cart_read_rom c 0x4123 = cart_rom c ! 0x4123"
  using cartridge_rom_in_range [of "cart_empty\<lparr>cart_mbc := MMbc1 mbc1_default\<rparr>" "0x4123"]
  by (simp add: Let_def whole_banks_def cart_empty_def usize_max_def rom_cell_def
      mbc1_current_rom_bank_def mbc1_default_def)

end
