(* ===== verification/Ppu_State.thy ===== *)
theory Ppu_State
  imports Events Memory_Map "HOL-Library.Product_Lexorder"
begin

text \<open>
  The state of the PPU of \<^verbatim>\<open>ppu/mod.rs\<close>: registers, pixel planes, the position within the frame
  (line and elapsed cycles of the line), the latched sprite list and the STAT interrupt latch;
  its register decoding, the mode as a function of the position, the sprite selection with its
  fetch penalty, and the STAT interrupt line.
\<close>

definition CYCLES_PER_SCANLINE :: nat where "CYCLES_PER_SCANLINE = 456"
definition VISIBLE_SCANLINES :: u8 where "VISIBLE_SCANLINES = 144"
definition TOTAL_SCANLINES :: u8 where "TOTAL_SCANLINES = 154"
definition FRAME_CYCLES :: nat where "FRAME_CYCLES = CYCLES_PER_SCANLINE * unat TOTAL_SCANLINES"
definition SCREEN_WIDTH :: nat where "SCREEN_WIDTH = 160"
definition FRAMEBUFFER_LEN :: nat where "FRAMEBUFFER_LEN = 160 * 144"

lemmas scan_defs = CYCLES_PER_SCANLINE_def VISIBLE_SCANLINES_def TOTAL_SCANLINES_def

datatype ppu_mode = HBlank | VBlank | OamSearch | Transfer

fun mode_bits :: "ppu_mode \<Rightarrow> u8" where
  "mode_bits HBlank = 0"
| "mode_bits VBlank = 1"
| "mode_bits OamSearch = 2"
| "mode_bits Transfer = 3"

text \<open>The four bytes of one OAM entry.\<close>

record oam_entry =
  sp_y :: u8
  sp_x :: u8
  sp_tile :: u8
  sp_attr :: u8

record ppu =
  ppu_lcdc :: u8
  ppu_stat :: u8
  ppu_ly :: u8
  ppu_lyc :: u8
  ppu_scx :: u8
  ppu_scy :: u8
  ppu_wx :: u8
  ppu_wy :: u8
  ppu_bgp :: u8
  ppu_obp0 :: u8
  ppu_obp1 :: u8
  ppu_framebuffer :: "u8 list"
  ppu_color_framebuffer :: "u16 list"
  ppu_bg_color_ids :: "u8 list"
  ppu_bg_priority_flags :: "u8 list"
  ppu_scanline_sprites :: "(nat \<times> oam_entry) list"
  ppu_window_line_counter :: u8
  ppu_mode_cycles :: nat
  ppu_frame_serial :: u64
  ppu_stat_line :: bool
  ppu_sprite_penalty :: nat

definition ppu_default :: ppu where
  "ppu_default =
     \<lparr>ppu_lcdc = 0x91, ppu_stat = 0x85, ppu_ly = 0, ppu_lyc = 0, ppu_scx = 0, ppu_scy = 0,
      ppu_wx = 7, ppu_wy = 0, ppu_bgp = 0xE4, ppu_obp0 = 0xE4, ppu_obp1 = 0xE4,
      ppu_framebuffer = replicate FRAMEBUFFER_LEN 0,
      ppu_color_framebuffer = replicate FRAMEBUFFER_LEN 0,
      ppu_bg_color_ids = replicate FRAMEBUFFER_LEN 0,
      ppu_bg_priority_flags = replicate FRAMEBUFFER_LEN 0,
      ppu_scanline_sprites = [], ppu_window_line_counter = 0, ppu_mode_cycles = 0,
      ppu_frame_serial = 0, ppu_stat_line = False, ppu_sprite_penalty = 0\<rparr>"

section \<open>Register bits\<close>

definition lcd_enabled :: "ppu \<Rightarrow> bool" where
  "lcd_enabled p \<longleftrightarrow> ppu_lcdc p AND 0x80 \<noteq> 0"

definition bg_enabled :: "ppu \<Rightarrow> bool" where
  "bg_enabled p \<longleftrightarrow> ppu_lcdc p AND 0x01 \<noteq> 0"

definition sprite_enabled :: "ppu \<Rightarrow> bool" where
  "sprite_enabled p \<longleftrightarrow> ppu_lcdc p AND 0x02 \<noteq> 0"

definition sprite_height :: "ppu \<Rightarrow> nat" where
  "sprite_height p = (if ppu_lcdc p AND 0x04 \<noteq> 0 then 16 else 8)"

definition bg_map_base :: "ppu \<Rightarrow> nat" where
  "bg_map_base p = (if ppu_lcdc p AND 0x08 \<noteq> 0 then 0x1C00 else 0x1800)"

definition tile_data_8000 :: "ppu \<Rightarrow> bool" where
  "tile_data_8000 p \<longleftrightarrow> ppu_lcdc p AND 0x10 \<noteq> 0"

definition window_enabled :: "ppu \<Rightarrow> bool" where
  "window_enabled p \<longleftrightarrow> ppu_lcdc p AND 0x20 \<noteq> 0"

definition window_map_base :: "ppu \<Rightarrow> nat" where
  "window_map_base p = (if ppu_lcdc p AND 0x40 \<noteq> 0 then 0x1C00 else 0x1800)"

definition window_visible_on_line :: "ppu \<Rightarrow> u8 \<Rightarrow> bool" where
  "window_visible_on_line p line \<longleftrightarrow>
     bg_enabled p \<and> window_enabled p \<and> ppu_wy p < VISIBLE_SCANLINES \<and> line \<ge> ppu_wy p \<and>
     ppu_wx p \<le> 166"

section \<open>Modes\<close>

definition mode3_penalty_dots :: "ppu \<Rightarrow> u8 \<Rightarrow> nat" where
  "mode3_penalty_dots p line =
     (let penalty = 0;
          penalty = (if bg_enabled p then penalty + unat (ppu_scx p AND 0x07) else penalty);
          penalty = (if window_visible_on_line p line then penalty + 6 else penalty)
      in penalty + ppu_sprite_penalty p)"

definition mode3_end_cycles :: "ppu \<Rightarrow> u8 \<Rightarrow> nat" where
  "mode3_end_cycles p line = 252 + mode3_penalty_dots p line"

definition mode_for_state :: "ppu \<Rightarrow> u8 \<Rightarrow> nat \<Rightarrow> ppu_mode" where
  "mode_for_state p line mode_cycles =
     (if \<not> lcd_enabled p then HBlank
      else if line \<ge> VISIBLE_SCANLINES then VBlank
      else if mode_cycles < 80 then OamSearch
      else if mode_cycles < mode3_end_cycles p line then Transfer
      else HBlank)"

definition current_mode :: "ppu \<Rightarrow> ppu_mode" where
  "current_mode p =
     (if \<not> lcd_enabled p then HBlank
      else if ppu_ly p \<ge> VISIBLE_SCANLINES then VBlank
      else if ppu_mode_cycles p < 80 then OamSearch
      else if ppu_mode_cycles p < mode3_end_cycles p (ppu_ly p) then Transfer
      else HBlank)"

definition stat_coincidence :: "ppu \<Rightarrow> bool" where
  "stat_coincidence p \<longleftrightarrow> ppu_ly p = ppu_lyc p"

definition read_stat :: "ppu \<Rightarrow> u8" where
  "read_stat p =
     (let coincidence = (if stat_coincidence p then 0x04 else 0x00)
      in 0x80 OR (ppu_stat p AND 0x78) OR coincidence OR mode_bits (current_mode p))"

definition can_cpu_access_vram :: "ppu \<Rightarrow> bool" where
  "can_cpu_access_vram p \<longleftrightarrow> \<not> lcd_enabled p \<or> current_mode p \<noteq> Transfer"

definition can_cpu_access_oam :: "ppu \<Rightarrow> bool" where
  "can_cpu_access_oam p \<longleftrightarrow> \<not> lcd_enabled p \<or> current_mode p \<in> {HBlank, VBlank}"

section \<open>The STAT interrupt line\<close>

definition update_stat :: "ppu \<Rightarrow> ppu" where
  "update_stat p =
     (let coincidence = (ppu_ly p = ppu_lyc p);
          p = (if coincidence then p\<lparr>ppu_stat := ppu_stat p OR 0x04\<rparr>
               else p\<lparr>ppu_stat := ppu_stat p AND NOT 0x04\<rparr>)
      in p\<lparr>ppu_stat := (ppu_stat p AND NOT 0x03) OR mode_bits (current_mode p)\<rparr>)"

definition stat_interrupt_selected :: "ppu \<Rightarrow> bool" where
  "stat_interrupt_selected p =
     (if \<not> lcd_enabled p then False
      else
        let coincidence_selected = (ppu_stat p AND 0x40 \<noteq> 0 \<and> stat_coincidence p);
            mode_selected = (case current_mode p of
               HBlank \<Rightarrow> ppu_stat p AND 0x08 \<noteq> 0
             | VBlank \<Rightarrow> ppu_stat p AND 0x10 \<noteq> 0
             | OamSearch \<Rightarrow> ppu_stat p AND 0x20 \<noteq> 0
             | Transfer \<Rightarrow> False)
        in coincidence_selected \<or> mode_selected)"

definition refresh_stat_interrupt_line :: "ppu \<Rightarrow> ppu \<times> bool" where
  "refresh_stat_interrupt_line p =
     (let old_line = ppu_stat_line p;
          p = update_stat p;
          p = p\<lparr>ppu_stat_line := stat_interrupt_selected p\<rparr>
      in (p, \<not> old_line \<and> ppu_stat_line p))"

section \<open>Sprite selection and the transfer penalty\<close>

definition oam_chunk :: "(nat \<Rightarrow> u8) \<Rightarrow> nat \<Rightarrow> oam_entry" where
  "oam_chunk oam i = \<lparr>sp_y = oam (4 * i), sp_x = oam (4 * i + 1), sp_tile = oam (4 * i + 2),
     sp_attr = oam (4 * i + 3)\<rparr>"

text \<open>The scan over the forty entries, stopping at the tenth one that meets the line.\<close>

fun select_sprites :: "nat \<Rightarrow> nat \<Rightarrow> (nat \<times> oam_entry) list \<Rightarrow> (nat \<times> oam_entry) list
    \<Rightarrow> (nat \<times> oam_entry) list" where
  "select_sprites height y [] visible = visible"
| "select_sprites height y ((oam_index, chunk) # rest) visible =
     (let sy = int (unat (sp_y chunk)) - 16 in
      if sy \<le> int y \<and> int y < sy + int height then
        let visible = visible @ [(oam_index, chunk)] in
        if length visible = 10 then visible else select_sprites height y rest visible
      else select_sprites height y rest visible)"

definition selected_sprites_on_line :: "ppu \<Rightarrow> (nat \<Rightarrow> u8) \<Rightarrow> nat \<Rightarrow> (nat \<times> oam_entry) list" where
  "selected_sprites_on_line p oam y =
     select_sprites (sprite_height p) y (map (\<lambda>i. (i, oam_chunk oam i)) [0..<40]) []"

definition bg_map_coords :: "ppu \<Rightarrow> nat \<Rightarrow> nat \<Rightarrow> nat option \<Rightarrow> bool \<Rightarrow> nat \<times> nat \<times> nat" where
  "bg_map_coords p y x window_line use_window =
     (if use_window then
        (window_map_base p, x + 7 - unat (ppu_wx p),
         (case window_line of Some w \<Rightarrow> w | None \<Rightarrow> y - unat (ppu_wy p)))
      else
        (bg_map_base p, (x + unat (ppu_scx p)) AND 0xFF, (y + unat (ppu_scy p)) AND 0xFF))"

definition bg_tile_id_for_pixel_with_window_line :: "ppu \<Rightarrow> nat \<Rightarrow> nat \<Rightarrow> nat option \<Rightarrow> nat" where
  "bg_tile_id_for_pixel_with_window_line p y x window_line =
     (let use_window = (window_visible_on_line p (of_nat y) \<and> x + 7 \<ge> unat (ppu_wx p));
          (base, px, py) = bg_map_coords p y x window_line use_window;
          tile_x = (px div 8) AND 0x1F;
          tile_y = (py div 8) AND 0x1F
      in base + tile_y * 32 + tile_x)"

definition bg_tile_id_for_pixel_for_penalty :: "ppu \<Rightarrow> nat \<Rightarrow> nat \<Rightarrow> nat" where
  "bg_tile_id_for_pixel_for_penalty p y x =
     (let window_line = (if y = unat (ppu_ly p) \<and> window_visible_on_line p (ppu_ly p)
                         then Some (unat (ppu_window_line_counter p)) else None)
      in bg_tile_id_for_pixel_with_window_line p y x window_line)"

text \<open>The fetch stalls of the sorted sprites; \<open>seen\<close> is the list of map cells fetched so far.\<close>

fun sprite_stalls :: "ppu \<Rightarrow> nat \<Rightarrow> (nat \<times> oam_entry) list \<Rightarrow> nat list \<Rightarrow> nat \<Rightarrow> nat" where
  "sprite_stalls p line [] seen penalty = penalty"
| "sprite_stalls p line ((i, chunk) # rest) seen penalty =
     (if sp_x chunk = 0 then sprite_stalls p line rest seen (penalty + 11)
      else
        let sx = int (unat (sp_x chunk)) - 8;
            pixel_x = nat (max sx 0);
            tile_id = bg_tile_id_for_pixel_for_penalty p line pixel_x;
            (seen, penalty) =
              (if tile_id \<notin> set seen
               then (seen @ [tile_id], penalty + (5 - (pixel_x AND 7)))
               else (seen, penalty))
        in sprite_stalls p line rest seen (penalty + 6))"

definition sprite_penalty_from_selected ::
  "ppu \<Rightarrow> u8 \<Rightarrow> (nat \<times> oam_entry) list \<Rightarrow> (nat \<times> oam_entry) list \<times> nat" where
  "sprite_penalty_from_selected p line ordered =
     (let ordered = sort_key (\<lambda>(i, s). (unat (sp_x s), i)) ordered
      in (ordered, sprite_stalls p (unat line) ordered [] 0))"

definition latch_scanline_state :: "(nat \<Rightarrow> u8) \<Rightarrow> ppu \<Rightarrow> ppu" where
  "latch_scanline_state oam p =
     (if \<not> lcd_enabled p \<or> ppu_ly p \<ge> VISIBLE_SCANLINES then
        p\<lparr>ppu_scanline_sprites := [], ppu_sprite_penalty := 0\<rparr>
      else
        let selected = selected_sprites_on_line p oam (unat (ppu_ly p));
            (selected, penalty) = sprite_penalty_from_selected p (ppu_ly p) selected;
            p = p\<lparr>ppu_sprite_penalty := penalty\<rparr>
        in p\<lparr>ppu_scanline_sprites := selected\<rparr>)"

definition refresh_mode3_penalty :: "(nat \<Rightarrow> u8) \<Rightarrow> ppu \<Rightarrow> ppu" where
  "refresh_mode3_penalty oam p =
     (if \<not> lcd_enabled p \<or> ppu_ly p \<ge> VISIBLE_SCANLINES then
        p\<lparr>ppu_scanline_sprites := [], ppu_sprite_penalty := 0\<rparr>
      else latch_scanline_state oam p)"

end
