(* ===== verification/Ppu_Laws.thy ===== *)
theory Ppu_Laws
  imports Ppu_Timing
begin

text \<open>
  Facts about the PPU clock: the STAT line refresh is idempotent, the two tick loops agree, a
  tick moves the position in the frame by exactly its cycles, and the mid-instruction
  predictions of LY and STAT show what the tick would.
\<close>

section \<open>The STAT refresh\<close>

lemma update_stat_eq:
  "update_stat p = p\<lparr>ppu_stat := ppu_stat (update_stat p)\<rparr>"
  by (simp add: update_stat_def Let_def)

lemma update_stat_sel [simp]:
  "ppu_lcdc (update_stat p) = ppu_lcdc p" "ppu_ly (update_stat p) = ppu_ly p"
  "ppu_lyc (update_stat p) = ppu_lyc p" "ppu_scx (update_stat p) = ppu_scx p"
  "ppu_wx (update_stat p) = ppu_wx p" "ppu_wy (update_stat p) = ppu_wy p"
  "ppu_mode_cycles (update_stat p) = ppu_mode_cycles p"
  "ppu_sprite_penalty (update_stat p) = ppu_sprite_penalty p"
  "ppu_stat_line (update_stat p) = ppu_stat_line p"
  "ppu_frame_serial (update_stat p) = ppu_frame_serial p"
  by (simp_all add: update_stat_def Let_def)

text \<open>Everything the mode depends on.\<close>

definition same_view :: "ppu \<Rightarrow> ppu \<Rightarrow> bool" where
  "same_view p q \<longleftrightarrow>
     ppu_lcdc p = ppu_lcdc q \<and> ppu_scx p = ppu_scx q \<and> ppu_wx p = ppu_wx q \<and> ppu_wy p = ppu_wy q
     \<and> ppu_sprite_penalty p = ppu_sprite_penalty q"

lemma same_view_fns:
  assumes "same_view p q"
  shows "lcd_enabled p = lcd_enabled q" "mode3_end_cycles p l = mode3_end_cycles q l"
    "mode_for_state p l c = mode_for_state q l c"
  using assms
  by (auto simp: same_view_def lcd_enabled_def mode3_end_cycles_def mode3_penalty_dots_def
      window_visible_on_line_def bg_enabled_def window_enabled_def mode_for_state_def Let_def)

lemma current_mode_state: "current_mode p = mode_for_state p (ppu_ly p) (ppu_mode_cycles p)"
  by (simp add: current_mode_def mode_for_state_def)

lemma same_view_update [simp]: "same_view (update_stat p) p"
  by (simp add: same_view_def)

lemma current_mode_update [simp]: "current_mode (update_stat p) = current_mode p"
  by (simp add: current_mode_state same_view_fns(3) [OF same_view_update])

lemma status_bits_high:
  "3 \<le> k \<Longrightarrow> k < 8 \<Longrightarrow> \<not> bit (mode_bits m) k \<and> \<not> bit (0x04 :: u8) k \<and> \<not> bit (0x03 :: u8) k"
proof -
  assume "3 \<le> k" "k < 8"
  then consider "k = 3" | "k = 4" | "k = 5" | "k = 6" | "k = 7" by linarith
  then show ?thesis by cases (cases m; simp)+
qed
text \<open>The enable bits of STAT are not touched by the refresh of its status bits.\<close>

lemma stat_enable_update:
  "3 \<le> k \<Longrightarrow> bit (ppu_stat (update_stat p)) k = bit (ppu_stat p) k"
  "ppu_stat (update_stat p) AND 0x78 = ppu_stat p AND 0x78"
proof -
  show bits: "3 \<le> k \<Longrightarrow> bit (ppu_stat (update_stat p)) k = bit (ppu_stat p) k" for k
    using status_bits_high [of k]
    by (cases "k < 8") (auto simp: update_stat_def Let_def bit_simps dest: bit_imp_le_length)
  show "ppu_stat (update_stat p) AND 0x78 = ppu_stat p AND 0x78"
    using bits [of 3] bits [of 4] bits [of 5] bits [of 6]
    by (simp add: u8_eq_iff_bits bit_and_iff)
qed

lemma stat_bits_update:
  "bit (ppu_stat (update_stat p)) 2 \<longleftrightarrow> stat_coincidence p"
  "bit (ppu_stat (update_stat p)) 0 \<longleftrightarrow> bit (mode_bits (current_mode p)) 0"
  "bit (ppu_stat (update_stat p)) (Suc 0) \<longleftrightarrow> bit (mode_bits (current_mode p)) 1"
proof -
  have "current_mode (p\<lparr>ppu_stat := v\<rparr>) = current_mode p" for v
    by (simp add: current_mode_state same_view_def same_view_fns(3) [of "p\<lparr>ppu_stat := v\<rparr>" p])
  then show "bit (ppu_stat (update_stat p)) 2 \<longleftrightarrow> stat_coincidence p"
    "bit (ppu_stat (update_stat p)) 0 \<longleftrightarrow> bit (mode_bits (current_mode p)) 0"
    "bit (ppu_stat (update_stat p)) (Suc 0) \<longleftrightarrow> bit (mode_bits (current_mode p)) 1"
    by (cases "current_mode p"; simp add: update_stat_def stat_coincidence_def Let_def bit_simps)+
qed

lemma update_stat_again [simp]: "update_stat (update_stat p) = update_stat p"
proof -
  have "ppu_stat (update_stat (update_stat p)) = ppu_stat (update_stat p)"
    by (simp add: u8_eq_iff_bits stat_enable_update stat_bits_update stat_coincidence_def)
  then show ?thesis
    by (subst update_stat_eq) simp
qed

lemma selected_update [simp]: "stat_interrupt_selected (update_stat p) = stat_interrupt_selected p"
  by (simp add: stat_interrupt_selected_def lcd_enabled_def stat_coincidence_def mask_simps
      stat_enable_update Let_def split: ppu_mode.split)

definition refreshed :: "ppu \<Rightarrow> ppu" where
  "refreshed p = (update_stat p)\<lparr>ppu_stat_line := stat_interrupt_selected p\<rparr>"

lemma refresh_eq:
  "refresh_stat_interrupt_line p = (refreshed p, \<not> ppu_stat_line p \<and> stat_interrupt_selected p)"
  by (simp add: refresh_stat_interrupt_line_def refreshed_def Let_def)

lemma refreshed_sel [simp]:
  "ppu_lcdc (refreshed p) = ppu_lcdc p" "ppu_ly (refreshed p) = ppu_ly p"
  "ppu_lyc (refreshed p) = ppu_lyc p" "ppu_mode_cycles (refreshed p) = ppu_mode_cycles p"
  "ppu_sprite_penalty (refreshed p) = ppu_sprite_penalty p"
  "ppu_frame_serial (refreshed p) = ppu_frame_serial p"
  "ppu_stat_line (refreshed p) = stat_interrupt_selected p"
  "ppu_stat (refreshed p) = ppu_stat (update_stat p)"
  "same_view (refreshed p) p"
  by (simp_all add: refreshed_def same_view_def)

lemma mode_update_stat [simp]:
  "mode_for_state (p\<lparr>ppu_stat := v\<rparr>) l c = mode_for_state p l c"
  "mode_for_state (p\<lparr>ppu_stat_line := b\<rparr>) l c = mode_for_state p l c"
  by (rule same_view_fns; simp add: same_view_def)+

lemma update_stat_line: "update_stat (p\<lparr>ppu_stat_line := b\<rparr>) = (update_stat p)\<lparr>ppu_stat_line := b\<rparr>"
  by (rule ppu.equality) (simp_all add: update_stat_def Let_def current_mode_state)

lemma selected_line: "stat_interrupt_selected (p\<lparr>ppu_stat_line := b\<rparr>) = stat_interrupt_selected p"
  by (simp add: stat_interrupt_selected_def lcd_enabled_def stat_coincidence_def Let_def
      current_mode_state split: ppu_mode.split)

lemma selected_refreshed [simp]:
  "stat_interrupt_selected (refreshed p) = stat_interrupt_selected p"
  by (simp add: refreshed_def selected_line)

lemma refreshed_again [simp]: "refreshed (refreshed p) = refreshed p"
  by (simp add: refreshed_def update_stat_line selected_line)

section \<open>The two tick loops agree\<close>

lemma ppu_line_end_fast_eq:
  "ppu_line_end_fast (p, r) = (case ppu_line_end (p, r, tr) of (p', r', _) \<Rightarrow> (p', r'))"
  by (simp add: ppu_line_end_def ppu_line_end_fast_def Let_def)

lemma ppu_pass_fast_eq:
  "ppu_pass_fast step (p, r) = (case ppu_pass step (p, r, tr) of (p', r', _) \<Rightarrow> (p', r'))"
proof -
  let ?p = "p\<lparr>ppu_mode_cycles := ppu_mode_cycles p + step\<rparr>"
  let ?ready = "ppu_line_ready (current_mode p) ?p"
  define r1 where "r1 = (if ?ready then r\<lparr>pr_render_scanline := Some (ppu_ly p)\<rparr> else r)"
  define tr1 where "tr1 = (if ?ready then tr @ [ScanlineRender (ppu_ly p)] else tr)"
  obtain q r2 tr2 where le: "ppu_line_end (?p, r1, tr1) = (q, r2, tr2)"
    by (metis prod_cases3)
  have lef: "ppu_line_end_fast (?p, r1) = (q, r2)"
    by (simp add: ppu_line_end_fast_eq [where tr = tr1] le)
  show ?thesis
    using le lef unfolding r1_def tr1_def
    by (cases ?ready) (simp_all add: ppu_pass_def ppu_pass_fast_def refresh_eq Let_def)
qed

lemma ppu_tick_loop_fast_eq:
  "ppu_tick_loop_fast n (p, r) = (case ppu_tick_loop n (p, r, tr) of (p', r', _) \<Rightarrow> (p', r'))"
proof (induction n arbitrary: p r tr rule: less_induct)
  case (less n)
  show ?case
  proof (cases "n > 0")
    case True
    define k where "k = min n (mode_boundary p)"
    obtain p' r' tr' where pass: "ppu_pass k (p, r, tr) = (p', r', tr')"
      by (metis prod_cases3)
    have "n - k < n"
      using True by (auto simp: k_def mode_boundary_def)
    from less [OF this, of p' r' tr'] True show ?thesis
      using pass ppu_pass_fast_eq [of k p r tr]
      by (subst ppu_tick_loop.simps, subst ppu_tick_loop_fast.simps) (simp flip: k_def)
  qed (simp add: ppu_tick_loop.simps ppu_tick_loop_fast.simps)
qed

text \<open>
  C10. The tick the fast scheduler uses leaves the PPU in the same state, with the same VBlank,
  frame, STAT interrupt and line-render signals, as the traced tick.
\<close>

theorem ppu_tick_fast_eq_tick:
  "ppu_tick_fast n p = (case ppu_tick n p of (p', r, _) \<Rightarrow> (p', r))"
  by (simp add: ppu_tick_def ppu_tick_fast_def ppu_tick_loop_fast_eq [where tr = "[]"]
      split: prod.split)

section \<open>The position in the frame\<close>

text \<open>
  The states the LCD runs through: a line and cycle within the frame, and a sprite penalty of at
  most ten fetches, so that the transfer always ends within its line.
\<close>

definition frame_pos :: "ppu \<Rightarrow> nat" where
  "frame_pos p = unat (ppu_ly p) * CYCLES_PER_SCANLINE + ppu_mode_cycles p"

definition ppu_timed :: "ppu \<Rightarrow> bool" where
  "ppu_timed p \<longleftrightarrow> lcd_enabled p \<and> ppu_ly p < TOTAL_SCANLINES \<and>
     ppu_mode_cycles p < CYCLES_PER_SCANLINE \<and> ppu_sprite_penalty p \<le> 110"

lemma mode3_end_le: "ppu_sprite_penalty p \<le> 110 \<Longrightarrow> mode3_end_cycles p l \<le> CYCLES_PER_SCANLINE"
proof -
  assume "ppu_sprite_penalty p \<le> 110"
  moreover have "unat (ppu_scx p AND 0x07) < 8"
    by (simp add: unat_and_low)
  ultimately show ?thesis
    by (simp add: mode3_end_cycles_def mode3_penalty_dots_def CYCLES_PER_SCANLINE_def Let_def)
qed

lemma mode_boundary_le:
  "ppu_timed p \<Longrightarrow> ppu_mode_cycles p + mode_boundary p \<le> CYCLES_PER_SCANLINE"
  using mode3_end_le [of p "ppu_ly p"]
  by (auto simp: ppu_timed_def mode_boundary_def CYCLES_PER_SCANLINE_def split: ppu_mode.split)

lemma u8_succ_cases:
  "unat (l :: u8) < 154 \<Longrightarrow> unat (l + 1) = unat l + 1"
  by (simp add: unat_word_ariths)

text \<open>What one pass does, without its trace.\<close>

definition ppu_moved :: "nat \<Rightarrow> ppu \<Rightarrow> ppu" where
  "ppu_moved step p = fst (ppu_line_end_fast (p\<lparr>ppu_mode_cycles := ppu_mode_cycles p + step\<rparr>, undefined))"

lemma fst_line_end_fast: "fst (ppu_line_end_fast (p, r)) = fst (ppu_line_end_fast (p, r'))"
  by (simp add: ppu_line_end_fast_def Let_def)

lemma fst_ppu_pass: "fst (ppu_pass step (p, r, tr)) = refreshed (ppu_moved step p)"
proof -
  have "fst (ppu_line_end (q, r, tr)) = fst (ppu_line_end_fast (q, undefined))" for q r tr
    using ppu_line_end_fast_eq [of q r tr] fst_line_end_fast [of q r undefined]
    by (auto split: prod.splits)
  then show ?thesis
    by (simp add: ppu_pass_def refresh_eq ppu_moved_def Let_def split: prod.split) (metis fst_conv)
qed

lemma ppu_moved_cases:
  "ppu_moved step p =
     (let c = ppu_mode_cycles p + step; l = ppu_ly p + 1 in
      if c < CYCLES_PER_SCANLINE then p\<lparr>ppu_mode_cycles := c\<rparr>
      else if l = VISIBLE_SCANLINES then
        p\<lparr>ppu_mode_cycles := c - CYCLES_PER_SCANLINE, ppu_ly := l, ppu_scanline_sprites := [],
          ppu_sprite_penalty := 0\<rparr>
      else if l \<ge> TOTAL_SCANLINES then
        p\<lparr>ppu_mode_cycles := c - CYCLES_PER_SCANLINE, ppu_ly := 0,
          ppu_frame_serial := ppu_frame_serial p + 1, ppu_window_line_counter := 0\<rparr>
      else p\<lparr>ppu_mode_cycles := c - CYCLES_PER_SCANLINE, ppu_ly := l\<rparr>)"
  by (simp add: ppu_moved_def ppu_line_end_fast_def Let_def)

lemma line_cases:
  assumes "unat l < 154"
  shows "(154 :: u8) \<le> l + 1 \<longleftrightarrow> unat l = 153" "l = (143 :: u8) \<longleftrightarrow> unat l = 143"
    "unat (l + 1) = unat l + 1" "l + 1 < (154 :: u8) \<longleftrightarrow> unat l \<noteq> 153"
  using assms u8_succ_cases [OF assms]
  by (auto simp: word_le_nat_alt word_less_nat_alt word_unat_eq_iff)

lemma timed_line: "ppu_timed p \<Longrightarrow> unat (ppu_ly p) < 154"
  by (simp add: ppu_timed_def TOTAL_SCANLINES_def word_less_nat_alt)

lemma ppu_moved_within:
  "ppu_mode_cycles p + step < 456 \<Longrightarrow>
     ppu_moved step p = p\<lparr>ppu_mode_cycles := ppu_mode_cycles p + step\<rparr>"
  by (simp add: ppu_moved_cases scan_defs)

lemma ppu_moved_wrap:
  assumes "ppu_mode_cycles p + step = 456" "unat (ppu_ly p) = 153"
  shows "ppu_moved step p = p\<lparr>ppu_mode_cycles := 0, ppu_ly := 0,
     ppu_frame_serial := ppu_frame_serial p + 1, ppu_window_line_counter := 0\<rparr>"
proof -
  have "ppu_ly p + 1 = 154"
    using assms(2) by (simp add: word_unat_eq_iff unat_word_ariths)
  then show ?thesis
    by (simp add: ppu_moved_cases scan_defs assms(1))
qed

lemma ppu_moved_next:
  assumes "ppu_mode_cycles p + step = 456" "unat (ppu_ly p) < 153"
  shows "ppu_ly (ppu_moved step p) = ppu_ly p + 1" "ppu_mode_cycles (ppu_moved step p) = 0"
    "ppu_frame_serial (ppu_moved step p) = ppu_frame_serial p"
    "ppu_lcdc (ppu_moved step p) = ppu_lcdc p"
    "ppu_sprite_penalty (ppu_moved step p) \<le> ppu_sprite_penalty p"
proof -
  have "\<not> 154 \<le> ppu_ly p + 1"
    using line_cases(1) [of "ppu_ly p"] assms(2) by simp
  then show "ppu_ly (ppu_moved step p) = ppu_ly p + 1" "ppu_mode_cycles (ppu_moved step p) = 0"
    "ppu_frame_serial (ppu_moved step p) = ppu_frame_serial p"
    "ppu_lcdc (ppu_moved step p) = ppu_lcdc p"
    "ppu_sprite_penalty (ppu_moved step p) \<le> ppu_sprite_penalty p"
    by (simp_all add: ppu_moved_cases scan_defs assms(1) Let_def)
qed

lemma ppu_moved_timed:
  assumes "ppu_timed p" "ppu_mode_cycles p + step \<le> CYCLES_PER_SCANLINE"
  shows "ppu_timed (ppu_moved step p) \<and>
    frame_pos (ppu_moved step p) = (frame_pos p + step) mod FRAME_CYCLES \<and>
    ppu_frame_serial (ppu_moved step p) =
       ppu_frame_serial p + of_nat ((frame_pos p + step) div FRAME_CYCLES)"
proof -
  have F: "FRAME_CYCLES = 70224" by (simp add: FRAME_CYCLES_def scan_defs)
  have P: "frame_pos p + step = unat (ppu_ly p) * 456 + (ppu_mode_cycles p + step)"
    by (simp add: frame_pos_def scan_defs)
  note ly = timed_line [OF assms(1)]
  consider (within) "ppu_mode_cycles p + step < 456"
    | (wrap) "ppu_mode_cycles p + step = 456" "unat (ppu_ly p) = 153"
    | (line) "ppu_mode_cycles p + step = 456" "unat (ppu_ly p) < 153"
    using assms(2) ly by (fastforce simp: scan_defs)
  then show ?thesis
  proof cases
    case within
    then have "frame_pos p + step < 70224"
      using ly P by linarith
    with within assms(1) show ?thesis
      by (simp add: ppu_moved_within ppu_timed_def lcd_enabled_def frame_pos_def scan_defs F)
  next
    case wrap
    then have "frame_pos p + step = 70224" "frame_pos (ppu_moved step p) = 0"
      using P by (simp_all add: ppu_moved_wrap [OF wrap] frame_pos_def [of "ppu_moved step p"]
          frame_pos_def [of "p\<lparr>ppu_mode_cycles := c, ppu_ly := l, ppu_frame_serial := f,
            ppu_window_line_counter := w\<rparr>" for c l f w])
    with assms(1) show ?thesis
      by (simp add: ppu_moved_wrap [OF wrap] ppu_timed_def lcd_enabled_def scan_defs F)
  next
    case line
    have l: "unat (ppu_ly p + 1) = unat (ppu_ly p) + 1" "ppu_ly p + 1 < 154"
      using line_cases(3,4) [OF ly] line(2) by simp_all
    then have "frame_pos p + step = unat (ppu_ly p + 1) * 456" "unat (ppu_ly p + 1) * 456 < 70224"
      using P line by (simp_all add: word_less_nat_alt)
    with line assms(1) l(2) ppu_moved_next [OF line] show ?thesis
      by (simp add: ppu_timed_def lcd_enabled_def frame_pos_def [of "ppu_moved step p"] scan_defs F)
  qed
qed

lemma refreshed_timed [simp]:
  "ppu_timed (refreshed p) = ppu_timed p" "frame_pos (refreshed p) = frame_pos p"
  by (simp_all add: ppu_timed_def frame_pos_def lcd_enabled_def)

text \<open>How often \<open>n\<close> cycles from position \<open>pos\<close> pass the end of the frame, and the start of VBlank.\<close>

definition frames_in :: "nat \<Rightarrow> nat \<Rightarrow> nat" where
  "frames_in pos n = (pos + n) div FRAME_CYCLES"

definition vblank_offset :: nat where "vblank_offset = 10 * CYCLES_PER_SCANLINE"

lemma div_add_shift:
  assumes "0 < (b :: nat)"
  shows "(a + n) div b = a div b + (a mod b + n) div b"
proof -
  have "a + n = (a mod b + n) + b * (a div b)"
    by simp
  then show ?thesis
    using assms by (metis add.commute div_mult_self2 not_gr_zero)
qed

lemma FRAME_CYCLES_pos: "0 < FRAME_CYCLES"
  by (simp add: FRAME_CYCLES_def scan_defs)

lemma frames_in_add:
  "frames_in pos (k + n) = frames_in pos k + frames_in ((pos + k) mod FRAME_CYCLES) n"
  using div_add_shift [OF FRAME_CYCLES_pos, of "pos + k" n] by (simp add: frames_in_def add.assoc)

definition enters_vblank :: "nat \<Rightarrow> nat \<Rightarrow> bool" where
  "enters_vblank pos n \<longleftrightarrow>
     (pos + vblank_offset) div FRAME_CYCLES < (pos + n + vblank_offset) div FRAME_CYCLES"

lemma enters_vblank_add:
  "enters_vblank pos (k + n) \<longleftrightarrow>
     enters_vblank pos k \<or> enters_vblank ((pos + k) mod FRAME_CYCLES) n"
proof -
  have mono: "(pos + vblank_offset) div FRAME_CYCLES \<le> (pos + k + vblank_offset) div FRAME_CYCLES"
    "(pos + k + vblank_offset) div FRAME_CYCLES \<le> (pos + k + n + vblank_offset) div FRAME_CYCLES"
    by (simp_all add: div_le_mono)
  show ?thesis
    using mono div_add_shift [OF FRAME_CYCLES_pos, of "pos + k" vblank_offset]
      div_add_shift [OF FRAME_CYCLES_pos, of "pos + k" "n + vblank_offset"]
    by (auto simp: enters_vblank_def add.assoc)
qed

lemma line_end_flags:
  "pr_vblank_enter (snd (ppu_line_end_fast (p, r))) \<longleftrightarrow>
     pr_vblank_enter r \<or> (CYCLES_PER_SCANLINE \<le> ppu_mode_cycles p \<and> ppu_ly p = 143)"
  "pr_frame_completed (snd (ppu_line_end_fast (p, r))) \<longleftrightarrow>
     pr_frame_completed r \<or> (CYCLES_PER_SCANLINE \<le> ppu_mode_cycles p \<and> 154 \<le> ppu_ly p + 1)"
  by (auto simp: ppu_line_end_fast_def Let_def scan_defs)

lemma pass_fast_flags:
  assumes "ppu_pass_fast step (p, r) = (p', r')"
  shows "pr_vblank_enter r' \<longleftrightarrow>
      pr_vblank_enter r \<or> (CYCLES_PER_SCANLINE \<le> ppu_mode_cycles p + step \<and> ppu_ly p = 143)"
    "pr_frame_completed r' \<longleftrightarrow>
      pr_frame_completed r \<or> (CYCLES_PER_SCANLINE \<le> ppu_mode_cycles p + step \<and> 154 \<le> ppu_ly p + 1)"
proof -
  let ?p = "p\<lparr>ppu_mode_cycles := ppu_mode_cycles p + step\<rparr>"
  define r1 where
    "r1 = (if ppu_line_ready (current_mode p) ?p then r\<lparr>pr_render_scanline := Some (ppu_ly p)\<rparr> else r)"
  obtain q r2 where le: "ppu_line_end_fast (?p, r1) = (q, r2)"
    by fastforce
  have "pr_vblank_enter r' = pr_vblank_enter r2" "pr_frame_completed r' = pr_frame_completed r2"
    using assms le unfolding r1_def
    by (auto simp: ppu_pass_fast_def refresh_eq Let_def split: if_splits)
  moreover have "pr_vblank_enter r1 = pr_vblank_enter r" "pr_frame_completed r1 = pr_frame_completed r"
    by (simp_all add: r1_def)
  ultimately show "pr_vblank_enter r' \<longleftrightarrow>
      pr_vblank_enter r \<or> (CYCLES_PER_SCANLINE \<le> ppu_mode_cycles p + step \<and> ppu_ly p = 143)"
    "pr_frame_completed r' \<longleftrightarrow>
      pr_frame_completed r \<or> (CYCLES_PER_SCANLINE \<le> ppu_mode_cycles p + step \<and> 154 \<le> ppu_ly p + 1)"
    using line_end_flags [of ?p r1] by (simp_all add: le)
qed

lemma crossing:
  assumes "l < 154" "c < 456" "c + k \<le> (456 :: nat)"
  shows "enters_vblank (l * 456 + c) k \<longleftrightarrow> c + k = 456 \<and> l = 143"
    "0 < frames_in (l * 456 + c) k \<longleftrightarrow> c + k = 456 \<and> l = 153"
proof -
  have F: "FRAME_CYCLES = 70224" "vblank_offset = 4560"
    by (simp_all add: FRAME_CYCLES_def vblank_offset_def scan_defs)
  show "0 < frames_in (l * 456 + c) k \<longleftrightarrow> c + k = 456 \<and> l = 153"
    using assms unfolding frames_in_def F by (auto simp: div_greater_zero_iff)
  show "enters_vblank (l * 456 + c) k \<longleftrightarrow> c + k = 456 \<and> l = 143"
  proof (cases "l < 144")
    case True
    then have "(l * 456 + c + 4560) div 70224 = 0"
      using assms(2) by simp
    then show ?thesis
      using assms True unfolding enters_vblank_def F by (auto simp: div_greater_zero_iff)
  next
    case False
    then have "(l * 456 + c + 4560) div 70224 = 1" "(l * 456 + c + k + 4560) div 70224 = 1"
      using assms by (auto intro: div_nat_eqI)
    then show ?thesis
      using False unfolding enters_vblank_def F by simp
  qed
qed

lemma pass_flags_timed:
  assumes "ppu_timed p" "ppu_mode_cycles p + step \<le> CYCLES_PER_SCANLINE"
    and "ppu_pass_fast step (p, r) = (p', r')"
  shows "pr_vblank_enter r' \<longleftrightarrow> pr_vblank_enter r \<or> enters_vblank (frame_pos p) step"
    "pr_frame_completed r' \<longleftrightarrow> pr_frame_completed r \<or> 0 < frames_in (frame_pos p) step"
proof -
  have c: "unat (ppu_ly p) < 154" "ppu_mode_cycles p < 456" "ppu_mode_cycles p + step \<le> 456"
    using assms(1,2) timed_line [OF assms(1)] by (simp_all add: scan_defs ppu_timed_def)
  show "pr_vblank_enter r' \<longleftrightarrow> pr_vblank_enter r \<or> enters_vblank (frame_pos p) step"
    "pr_frame_completed r' \<longleftrightarrow> pr_frame_completed r \<or> 0 < frames_in (frame_pos p) step"
    using crossing [OF c] line_cases [OF c(1)] c(3)
    unfolding pass_fast_flags [OF assms(3)]
    by (auto simp: frame_pos_def scan_defs)
qed

lemma fst_pass_fast: "fst (ppu_pass_fast step (p, r)) = refreshed (ppu_moved step p)"
  using fst_ppu_pass [of step p r "[]"] ppu_pass_fast_eq [of step p r "[]"]
  by (auto split: prod.splits)

lemma ppu_loop_timed:
  assumes "ppu_timed p" "ppu_tick_loop_fast n (p, r) = (p', r')"
  shows "ppu_timed p' \<and> frame_pos p' = (frame_pos p + n) mod FRAME_CYCLES \<and>
    ppu_frame_serial p' = ppu_frame_serial p + of_nat (frames_in (frame_pos p) n) \<and>
    (pr_frame_completed r' \<longleftrightarrow> pr_frame_completed r \<or> 0 < frames_in (frame_pos p) n) \<and>
    (pr_vblank_enter r' \<longleftrightarrow> pr_vblank_enter r \<or> enters_vblank (frame_pos p) n)"
  using assms
proof (induction n arbitrary: p r rule: less_induct)
  case (less n)
  show ?case
  proof (cases "n > 0")
    case False
    have "frame_pos p < FRAME_CYCLES"
      using less.prems(1) timed_line [of p]
      by (simp add: frame_pos_def ppu_timed_def FRAME_CYCLES_def scan_defs)
    with False less.prems show ?thesis
      by (simp add: ppu_tick_loop_fast.simps frames_in_def enters_vblank_def)
  next
    case True
    define k where "k = min n (mode_boundary p)"
    have "0 < mode_boundary p"
      by (simp add: mode_boundary_def)
    then have k: "k \<le> n" "n - k < n" "ppu_mode_cycles p + k \<le> CYCLES_PER_SCANLINE"
      using True mode_boundary_le [OF less.prems(1)] by (auto simp: k_def)
    obtain q s where pass: "ppu_pass_fast k (p, r) = (q, s)"
      by fastforce
    then have q: "q = refreshed (ppu_moved k p)"
      using fst_pass_fast [of k p r] by simp
    have rest: "ppu_tick_loop_fast (n - k) (q, s) = (p', r')"
      using less.prems(2) True by (simp add: ppu_tick_loop_fast.simps [of n] pass flip: k_def)
    note moved = ppu_moved_timed [OF less.prems(1) k(3)]
    note flags = pass_flags_timed [OF less.prems(1) k(3) pass]
    have "n = k + (n - k)"
      using k(1) by simp
    then have add: "frames_in pos n = frames_in pos k + frames_in ((pos + k) mod FRAME_CYCLES) (n - k)"
      "enters_vblank pos n \<longleftrightarrow> enters_vblank pos k \<or> enters_vblank ((pos + k) mod FRAME_CYCLES) (n - k)"
      for pos
      by (metis frames_in_add, metis enters_vblank_add)
    have pos: "((frame_pos p + k) mod FRAME_CYCLES + (n - k)) mod FRAME_CYCLES =
        (frame_pos p + n) mod FRAME_CYCLES"
      by (simp only: mod_add_left_eq add.assoc le_add_diff_inverse [OF k(1)])
    show ?thesis
      using less.IH [OF k(2) _ rest] moved flags unfolding q
      by (simp add: add pos frames_in_def [of "frame_pos p" k])
  qed
qed

text \<open>
  C12. With the LCD on, a tick of \<open>n\<close> cycles moves the position in the frame (line times 456 plus
  cycle of the line) by exactly \<open>n\<close> modulo 70224, counts one frame for each end of frame it
  passes, and reports a completed frame and the entry into VBlank exactly when it passes the
  end of line 153 and the start of line 144. A penalty of at most 110 dots, which ten sprites
  cannot exceed, is what keeps the transfer within its line.
\<close>

theorem ppu_tick_position:
  assumes "ppu_timed p"
  shows "case ppu_tick n p of (p', r, _) \<Rightarrow>
    ppu_timed p' \<and> frame_pos p' = (frame_pos p + n) mod FRAME_CYCLES \<and>
    ppu_frame_serial p' = ppu_frame_serial p + of_nat (frames_in (frame_pos p) n) \<and>
    (pr_frame_completed r \<longleftrightarrow> 0 < frames_in (frame_pos p) n) \<and>
    (pr_vblank_enter r \<longleftrightarrow> enters_vblank (frame_pos p) n)"
proof -
  obtain p' r tr where t: "ppu_tick_loop n (p, ppu_result_none, []) = (p', r, tr)"
    by (metis prod_cases3)
  then have "ppu_tick_loop_fast n (p, ppu_result_none) = (p', r)"
    by (simp add: ppu_tick_loop_fast_eq [where tr = "[]"])
  moreover have "ppu_tick n p = (p', r, tr)"
    using assms t by (simp add: ppu_tick_def ppu_timed_def lcd_enabled_def)
  ultimately show ?thesis
    using ppu_loop_timed [OF assms] by (simp add: ppu_result_none_def)
qed

theorem ppu_tick_position_witness:
  "ppu_ly (fst (ppu_tick 65700 ppu_default)) = 144"
proof -
  have timed: "ppu_timed ppu_default"
    by (simp add: ppu_timed_def ppu_default_def lcd_enabled_def scan_defs)
  obtain p' r tr where t: "ppu_tick 65700 ppu_default = (p', r, tr)"
    by (metis prod_cases3)
  have "frame_pos ppu_default = 0"
    by (simp add: frame_pos_def ppu_default_def)
  with ppu_tick_position [OF timed, of 65700]
  have pos: "frame_pos p' = 65700" and p': "ppu_timed p'"
    by (simp_all add: t FRAME_CYCLES_def scan_defs)
  have "unat (ppu_ly p') = 144"
    using pos p' by (simp add: frame_pos_def ppu_timed_def scan_defs)
  then show ?thesis
    by (simp add: t word_unat_eq_iff)
qed

section \<open>Prediction\<close>

lemma predict_lines_pos:
  assumes "unat l < 154"
  shows "predict_lines l c = (of_nat ((unat l * 456 + c) mod 70224 div 456), c mod 456)"
  using assms
proof (induction l c rule: predict_lines.induct)
  case (1 l c)
  show ?case
  proof (cases "c \<ge> 456")
    case True
    define l' where "l' = (if l + 1 \<ge> 154 then 0 else l + 1)"
    have l': "unat l' = (unat l + 1) mod 154" "unat l' < 154"
      using line_cases [OF 1(2)] 1(2) by (auto simp: l'_def)
    have "(unat l' * 456 + (c - 456)) mod 70224 = (unat l * 456 + c) mod 70224"
    proof (cases "unat l = 153")
      case eq: True
      then have "unat l * 456 + c = (c - 456) + 70224"
        using True by simp
      moreover have "unat l' = 0"
        using eq l' by simp
      ultimately show ?thesis
        by (simp only: mod_add_self2) simp
    next
      case False
      then show ?thesis
        using l' 1(2) True by simp
    qed
    moreover have "(c - 456) mod 456 = c mod 456"
      using True by (simp add: le_mod_geq)
    moreover have "predict_lines l' (c - 456) =
        (of_nat ((unat l' * 456 + (c - 456)) mod 70224 div 456), (c - 456) mod 456)"
      using 1(1) True l'(2) by (simp add: l'_def scan_defs)
    ultimately show ?thesis
      using True by (subst predict_lines.simps) (simp add: l'_def scan_defs Let_def)
  next
    case False
    then show ?thesis
      using 1(2) by (subst predict_lines.simps) (simp add: scan_defs)
  qed
qed

lemma predict_state_tick:
  assumes "ppu_timed p" "ppu_mode_cycles p + n \<le> u32_max" "ppu_timed q"
    and "frame_pos q = (frame_pos p + n) mod FRAME_CYCLES"
  shows "predict_state_after_cycles p n = (ppu_ly q, ppu_mode_cycles q)"
proof -
  have F: "FRAME_CYCLES = 70224" by (simp add: FRAME_CYCLES_def scan_defs)
  have "predict_state_after_cycles p n =
      (of_nat ((frame_pos p + n) mod FRAME_CYCLES div 456), (ppu_mode_cycles p + n) mod 456)"
    using assms(1,2) predict_lines_pos [OF timed_line [OF assms(1)]]
    by (simp add: predict_state_after_cycles_def ppu_timed_def frame_pos_def scan_defs F add.assoc)
  moreover have "(ppu_mode_cycles p + n) mod 456 = (frame_pos p + n) mod FRAME_CYCLES mod 456"
    by (simp add: F mod_mod_cancel frame_pos_def scan_defs add.assoc)
  moreover have "frame_pos q div 456 = unat (ppu_ly q)" "frame_pos q mod 456 = ppu_mode_cycles q"
    using assms(3) by (simp_all add: frame_pos_def ppu_timed_def scan_defs)
  ultimately show ?thesis
    using assms(4) by simp
qed

lemma pass_kept:
  assumes "ppu_pass_fast step (p, r) = (p', r')"
  shows "ppu_lcdc p' = ppu_lcdc p" "ppu_lyc p' = ppu_lyc p" "ppu_scx p' = ppu_scx p"
    "ppu_wx p' = ppu_wx p" "ppu_wy p' = ppu_wy p" "ppu_stat p' AND 0x78 = ppu_stat p AND 0x78"
    "\<not> pr_vblank_enter r' \<Longrightarrow> ppu_sprite_penalty p' = ppu_sprite_penalty p"
proof -
  have p': "p' = refreshed (ppu_moved step p)"
    using fst_pass_fast [of step p r] assms by simp
  have "ppu_stat (ppu_moved step p) = ppu_stat p"
    by (simp add: ppu_moved_cases Let_def)
  then show "ppu_lcdc p' = ppu_lcdc p" "ppu_lyc p' = ppu_lyc p" "ppu_scx p' = ppu_scx p"
    "ppu_wx p' = ppu_wx p" "ppu_wy p' = ppu_wy p" "ppu_stat p' AND 0x78 = ppu_stat p AND 0x78"
    using refreshed_sel(9) [of "ppu_moved step p"]
    by (simp_all add: p' same_view_def stat_enable_update)
      (simp_all add: ppu_moved_cases Let_def)
  show "ppu_sprite_penalty p' = ppu_sprite_penalty p" if "\<not> pr_vblank_enter r'"
    using that unfolding pass_fast_flags(1) [OF assms] p'
    by (auto simp: ppu_moved_cases Let_def scan_defs)
qed

definition kept_config :: "ppu \<Rightarrow> ppu \<Rightarrow> bool" where
  "kept_config p q \<longleftrightarrow>
     ppu_lcdc q = ppu_lcdc p \<and> ppu_lyc q = ppu_lyc p \<and> ppu_scx q = ppu_scx p \<and>
     ppu_wx q = ppu_wx p \<and> ppu_wy q = ppu_wy p \<and> ppu_stat q AND 0x78 = ppu_stat p AND 0x78"

lemma loop_kept:
  assumes "ppu_tick_loop_fast n (p, r) = (p', r')"
  shows "kept_config p p' \<and> (pr_vblank_enter r \<longrightarrow> pr_vblank_enter r') \<and>
    (\<not> pr_vblank_enter r' \<longrightarrow> ppu_sprite_penalty p' = ppu_sprite_penalty p)"
  using assms
proof (induction n arbitrary: p r rule: less_induct)
  case (less n)
  show ?case
  proof (cases "n > 0")
    case False
    then show ?thesis
      using less.prems by (simp add: ppu_tick_loop_fast.simps kept_config_def)
  next
    case True
    define k where "k = min n (mode_boundary p)"
    have k: "n - k < n"
      using True by (simp add: k_def) (simp add: mode_boundary_def)
    obtain q s where pass: "ppu_pass_fast k (p, r) = (q, s)"
      by fastforce
    have rest: "ppu_tick_loop_fast (n - k) (q, s) = (p', r')"
      using less.prems True by (simp add: ppu_tick_loop_fast.simps [of n] pass flip: k_def)
    have "pr_vblank_enter r \<longrightarrow> pr_vblank_enter s"
      using pass_fast_flags(1) [OF pass] by simp
    then show ?thesis
      using less.IH [OF k rest] pass_kept [OF pass] by (auto simp: kept_config_def)
  qed
qed

text \<open>
  The predictions the bus uses for reads in the middle of an instruction are what ticking
  shows: the predicted LY is the line the PPU is in after the same number of cycles, and the
  predicted STAT is the STAT it then reads, as long as those cycles do not enter VBlank (which
  drops the cached sprite penalty) or end outside the transfer window it affects.
\<close>

theorem ppu_prediction:
  assumes "ppu_timed p" "ppu_mode_cycles p + n \<le> u32_max" "ppu_tick_fast n p = (q, r)"
  shows "predict_ly_after_cycles p n = ppu_ly q \<and>
    (pr_vblank_enter r \<and> ppu_ly q < VISIBLE_SCANLINES \<or>
     predict_stat_after_cycles p n = read_stat q)"
proof -
  have loop: "ppu_tick_loop_fast n (p, ppu_result_none) = (q, r)"
    using assms(1,3) by (simp add: ppu_tick_fast_def ppu_timed_def lcd_enabled_def)
  note timed = ppu_loop_timed [OF assms(1) loop]
  have state: "predict_state_after_cycles p n = (ppu_ly q, ppu_mode_cycles q)"
    using predict_state_tick [OF assms(1,2)] timed by blast
  note kept = loop_kept [OF loop]
  have "predict_stat_after_cycles p n = read_stat q"
    if vis: "\<not> pr_vblank_enter r \<or> VISIBLE_SCANLINES \<le> ppu_ly q"
  proof -
    have "mode_for_state p (ppu_ly q) (ppu_mode_cycles q) = current_mode q"
    proof (cases "VISIBLE_SCANLINES \<le> ppu_ly q")
      case True
      then show ?thesis
        using kept by (simp add: mode_for_state_def current_mode_def lcd_enabled_def kept_config_def)
    next
      case False
      then have "same_view p q"
        using kept vis by (simp add: same_view_def kept_config_def)
      then show ?thesis
        by (simp add: same_view_fns current_mode_state)
    qed
    then show ?thesis
      using state kept
      by (simp add: predict_stat_after_cycles_def read_stat_def stat_coincidence_def kept_config_def)
  qed
  then show ?thesis
    using state
    by (cases "VISIBLE_SCANLINES \<le> ppu_ly q") (auto simp: predict_ly_after_cycles_def not_le)
qed

theorem ppu_prediction_witness:
  "predict_ly_after_cycles ppu_default 1000 = ppu_ly (fst (ppu_tick_fast 1000 ppu_default))"
proof -
  have "ppu_timed ppu_default" "ppu_mode_cycles ppu_default + 1000 \<le> u32_max"
    by (simp_all add: ppu_timed_def ppu_default_def lcd_enabled_def scan_defs u32_max_def)
  then show ?thesis
    using ppu_prediction [of ppu_default 1000] by (metis prod.collapse)
qed

section \<open>Sprite selection\<close>

definition meets_line :: "nat \<Rightarrow> nat \<Rightarrow> nat \<times> oam_entry \<Rightarrow> bool" where
  "meets_line height y s \<longleftrightarrow> unat (sp_y (snd s)) \<le> y + 16 \<and> y + 16 < unat (sp_y (snd s)) + height"

lemma select_sprites_take:
  "length visible < 10 \<Longrightarrow>
     select_sprites height y xs visible =
       visible @ take (10 - length visible) (filter (meets_line height y) xs)"
proof (induction height y xs visible rule: select_sprites.induct)
  case (2 height y oam_index chunk rest visible)
  have meets: "(int (unat (sp_y chunk)) - 16 \<le> int y \<and> int y < int (unat (sp_y chunk)) - 16 + int height)
      \<longleftrightarrow> meets_line height y (oam_index, chunk)"
    by (auto simp: meets_line_def simp del: of_nat_unat)
  show ?case
  proof (cases "meets_line height y (oam_index, chunk)")
    case True
    show ?thesis
    proof (cases "length visible = 9")
      case False
      then have "select_sprites height y rest (visible @ [(oam_index, chunk)]) =
          (visible @ [(oam_index, chunk)]) @
            take (10 - length (visible @ [(oam_index, chunk)])) (filter (meets_line height y) rest)"
        using 2 True unfolding meets [symmetric] by (simp add: Let_def del: of_nat_unat)
      moreover have "10 - length visible = Suc (10 - length (visible @ [(oam_index, chunk)]))"
        using False 2(3) by simp
      ultimately show ?thesis
        using True False meets by (simp add: Let_def del: of_nat_unat)
    qed (use True meets in \<open>simp add: Let_def del: of_nat_unat\<close>)
  next
    case False
    then show ?thesis
      using 2 meets by (auto simp: Let_def simp del: of_nat_unat)
  qed
qed simp

lemma sprite_stalls_le: "sprite_stalls p line xs seen penalty \<le> penalty + 11 * length xs"
proof (induction p line xs seen penalty rule: sprite_stalls.induct)
  case (2 p line i chunk rest seen penalty)
  show ?case
  proof (cases "sp_x chunk = 0")
    case True
    then show ?thesis using 2(1) by simp
  next
    case False
    define px where "px = nat (max (int (unat (sp_x chunk)) - 8) 0)"
    define tile where "tile = bg_tile_id_for_pixel_for_penalty p line px"
    define seen' where "seen' = (if tile \<notin> set seen then seen @ [tile] else seen)"
    define pen where "pen = (if tile \<notin> set seen then penalty + (5 - (px AND 7)) else penalty)"
    have "sprite_stalls p line ((i, chunk) # rest) seen penalty =
        sprite_stalls p line rest seen' (pen + 6)"
      using False by (simp add: Let_def px_def tile_def seen'_def pen_def)
    also have "\<dots> \<le> pen + 6 + 11 * length rest"
      by (rule 2(2) [OF False refl refl refl, folded px_def tile_def])
        (simp_all add: seen'_def pen_def)
    also have "pen \<le> penalty + 5"
      by (simp add: pen_def)
    finally show ?thesis by simp
  qed
qed simp

definition oam_entries :: "(nat \<Rightarrow> u8) \<Rightarrow> (nat \<times> oam_entry) list" where
  "oam_entries oam = map (\<lambda>i. (i, oam_chunk oam i)) [0..<40]"

lemma selected_sprites_take:
  "selected_sprites_on_line p oam y = take 10 (filter (meets_line (sprite_height p) y) (oam_entries oam))"
  by (simp add: selected_sprites_on_line_def select_sprites_take oam_entries_def)

text \<open>
  Latching a visible line keeps the first ten OAM entries that meet it, in the order of
  their X position and then their index, and gives a transfer penalty of at most 110 dots, so
  the clock stays in the states where every transfer ends within its line.
\<close>

theorem latch_selects_sprites:
  assumes "lcd_enabled p" "ppu_ly p < VISIBLE_SCANLINES"
  shows "ppu_scanline_sprites (latch_scanline_state oam p) =
      sort_key (\<lambda>(i, s). (unat (sp_x s), i))
        (take 10 (filter (meets_line (sprite_height p) (unat (ppu_ly p))) (oam_entries oam))) \<and>
    ppu_sprite_penalty (latch_scanline_state oam p) \<le> 110 \<and>
    (ppu_timed p \<longrightarrow> ppu_timed (latch_scanline_state oam p))"
proof -
  let ?sel = "take 10 (filter (meets_line (sprite_height p) (unat (ppu_ly p))) (oam_entries oam))"
  let ?sorted = "sort_key (\<lambda>(i, s). (unat (sp_x s), i)) ?sel"
  have "11 * length ?sorted \<le> 11 * 10"
    by (intro mult_le_mono2) simp
  then have "sprite_stalls p l ?sorted [] 0 \<le> 110" for l
    using sprite_stalls_le [of p l ?sorted "[]" 0] by linarith
  moreover have "\<not> VISIBLE_SCANLINES \<le> ppu_ly p"
    using assms(2) by simp
  ultimately show ?thesis
    using assms(1)
    by (simp add: latch_scanline_state_def sprite_penalty_from_selected_def selected_sprites_take
        Let_def ppu_timed_def lcd_enabled_def)
qed

theorem latch_selects_sprites_witness:
  "ppu_sprite_penalty (latch_scanline_state (\<lambda>_. 0) ppu_default) \<le> 110"
  using latch_selects_sprites [of ppu_default "\<lambda>_. 0"]
  by (simp add: ppu_default_def lcd_enabled_def VISIBLE_SCANLINES_def)

end
