(* ===== verification/Ppu_Render.thy ===== *)
theory Ppu_Render
  imports Ppu_Timing
begin

text \<open>
  The drawing half of \<^verbatim>\<open>ppu/mod.rs\<close>: one line of background and window pixels from the tile
  maps, and the sprites composed over it. Index arithmetic on \<open>usize\<close> is written with the
  wrap-around of a build without overflow checks wherever an operand can be too small.
\<close>

definition usize_of_int :: "int \<Rightarrow> nat" where
  "usize_of_int i = nat (i mod 2 ^ 64)"

definition vram_get :: "(nat \<Rightarrow> u8) \<Rightarrow> nat \<Rightarrow> u8" where
  "vram_get bank i = (if i < VRAM_BANK_SIZE then bank i else 0)"

definition tile_color :: "u8 \<Rightarrow> u8 \<Rightarrow> nat \<Rightarrow> u8" where
  "tile_color lo hi k = push_bit 1 (drop_bit k hi AND 1) OR (drop_bit k lo AND 1)"

definition apply_palette :: "u8 \<Rightarrow> u8 \<Rightarrow> u8" where
  "apply_palette palette color_id = drop_bit (unat color_id * 2) palette AND 0x03"

definition apply_cgb_palette :: "u16 \<Rightarrow> u8" where
  "apply_cgb_palette rgb555 =
     (let r = unat (rgb555 AND 0x1F);
          g = unat (drop_bit 5 rgb555 AND 0x1F);
          b = unat (drop_bit 10 rgb555 AND 0x1F)
      in of_nat ((r * 3 + g * 6 + b) div 10))"

section \<open>Background and window\<close>

text \<open>The pixel a map position selects: its color number, priority flag and two output values.\<close>

definition bg_pixel :: "ppu \<Rightarrow> (nat \<Rightarrow> u8) \<Rightarrow> (nat \<Rightarrow> u8) \<Rightarrow> memory \<Rightarrow> bool \<Rightarrow> nat \<Rightarrow> nat option
    \<Rightarrow> nat \<Rightarrow> u8 \<times> u8 \<times> u8 \<times> u16" where
  "bg_pixel p vram0 vram1 m cgb_mode y window_line x =
     (let use_window = (window_visible_on_line p (of_nat y) \<and> x + 7 \<ge> unat (ppu_wx p));
          (map_base, px, py) = bg_map_coords p y x window_line use_window;
          tile_x = (px div 8) AND 0x1F;
          tile_y = (py div 8) AND 0x1F;
          map_index = map_base + tile_y * 32 + tile_x;
          tile_number = vram_get vram0 map_index;
          attr = (if cgb_mode then vram_get vram1 map_index else 0);
          palette = attr AND 0x07;
          tile_bank = (if cgb_mode \<and> attr AND 0x08 \<noteq> 0 then vram1 else vram0);
          xflip = (cgb_mode \<and> attr AND 0x20 \<noteq> 0);
          yflip = (cgb_mode \<and> attr AND 0x40 \<noteq> 0);
          priority = (cgb_mode \<and> attr AND 0x80 \<noteq> 0);
          fine_x = (if xflip then px AND 7 else 7 - (px AND 7));
          fine_y = (if yflip then 7 - (py AND 7) else py AND 7);
          tile_addr = (if tile_data_8000 p then unat tile_number * 16
                       else nat (0x1000 + sint tile_number * 16));
          lo = vram_get tile_bank (tile_addr + fine_y * 2);
          hi = vram_get tile_bank (tile_addr + fine_y * 2 + 1);
          color_id = tile_color lo hi fine_x;
          (gray, rgb555) =
            (if cgb_mode then
               let rgb555 = bg_palette_rgb555 m palette color_id
               in (apply_cgb_palette rgb555, rgb555)
             else
               let gray = apply_palette (ppu_bgp p) color_id
               in (gray, dmg_gray_rgb555 gray))
      in (color_id, if priority then 1 else 0, gray, rgb555))"

definition put_bg :: "nat \<Rightarrow> u8 \<times> u8 \<times> u8 \<times> u16 \<Rightarrow> ppu \<Rightarrow> ppu" where
  "put_bg i = (\<lambda>(color_id, priority, gray, rgb555) p.
     p\<lparr>ppu_bg_color_ids := (ppu_bg_color_ids p)[i := color_id],
       ppu_bg_priority_flags := (ppu_bg_priority_flags p)[i := priority],
       ppu_framebuffer := (ppu_framebuffer p)[i := gray],
       ppu_color_framebuffer := (ppu_color_framebuffer p)[i := rgb555]\<rparr>)"

definition render_scanline_from_vram_with_mode ::
  "nat \<Rightarrow> (nat \<Rightarrow> u8) \<Rightarrow> (nat \<Rightarrow> u8) \<Rightarrow> memory \<Rightarrow> bool \<Rightarrow> nat option \<Rightarrow> ppu \<Rightarrow> ppu" where
  "render_scanline_from_vram_with_mode y vram0 vram1 m cgb_mode window_line p =
     (let base = y * SCREEN_WIDTH in
      if \<not> bg_enabled p then
        fold (\<lambda>x. put_bg (base + x) (0, 0, 0, dmg_gray_rgb555 0)) [0..<SCREEN_WIDTH] p
      else
        fold (\<lambda>x p. put_bg (base + x) (bg_pixel p vram0 vram1 m cgb_mode y window_line x) p)
          [0..<SCREEN_WIDTH] p)"

section \<open>Sprites\<close>

definition sprite_on_screen :: "nat \<Rightarrow> oam_entry \<Rightarrow> bool" where
  "sprite_on_screen height s \<longleftrightarrow>
     (let sy = int (unat (sp_y s)) - 16; sx = int (unat (sp_x s)) - 8
      in \<not> (sx \<le> -8 \<or> sx \<ge> int SCREEN_WIDTH \<or> sy \<le> - int height \<or> sy \<ge> 144))"

text \<open>The two bytes of the tile row that a sprite shows on line \<open>y\<close>.\<close>

definition sprite_row_bytes ::
  "nat \<Rightarrow> (nat \<Rightarrow> u8) \<Rightarrow> (nat \<Rightarrow> u8) \<Rightarrow> bool \<Rightarrow> nat \<Rightarrow> oam_entry \<Rightarrow> u8 \<times> u8" where
  "sprite_row_bytes height vram0 vram1 cgb_mode y s =
     (let sy = int (unat (sp_y s)) - 16;
          tile_bank = (if cgb_mode \<and> sp_attr s AND 0x08 \<noteq> 0 then vram1 else vram0);
          yflip = (sp_attr s AND 0x40 \<noteq> 0);
          sprite_row = usize_of_int (int y - sy);
          tile_y = (if yflip then usize_of_int (int height - 1 - int sprite_row) else sprite_row);
          tile_index = (if height = 16 then sp_tile s AND 0xFE else sp_tile s);
          tile_addr = usize_of_int (int (unat tile_index * 16 + tile_y * 2))
      in (vram_get tile_bank tile_addr, vram_get tile_bank (usize_of_int (int tile_addr + 1))))"

text \<open>Column \<open>px\<close> of a sprite: nothing off screen, on color zero, or behind the background.\<close>

definition draw_sprite_column ::
  "memory \<Rightarrow> bool \<Rightarrow> nat \<Rightarrow> oam_entry \<Rightarrow> u8 \<times> u8 \<Rightarrow> nat \<Rightarrow> ppu \<Rightarrow> ppu" where
  "draw_sprite_column m cgb_mode y s row px p =
     (let sx = int (unat (sp_x s)) - 8;
          screen_x = sx + int px in
      if \<not> (0 \<le> screen_x \<and> screen_x < int SCREEN_WIDTH) then p
      else
        let xflip = (sp_attr s AND 0x20 \<noteq> 0);
            priority_behind_bg = (sp_attr s AND 0x80 \<noteq> 0);
            tx = (if xflip then px else 7 - px);
            color_id = tile_color (fst row) (snd row) tx in
        if color_id = 0 then p
        else
          let idx = y * SCREEN_WIDTH + nat screen_x;
              bg_blocks_obj = (ppu_bg_priority_flags p ! idx \<noteq> 0 \<and> ppu_bg_color_ids p ! idx \<noteq> 0) in
          if bg_blocks_obj \<or> (priority_behind_bg \<and> ppu_bg_color_ids p ! idx \<noteq> 0) then p
          else
            let dmg_palette = (if sp_attr s AND 0x10 \<noteq> 0 then ppu_obp1 p else ppu_obp0 p);
                (gray, rgb555) =
                  (if cgb_mode then
                     let rgb555 = obj_palette_rgb555 m (sp_attr s AND 0x07) color_id
                     in (apply_cgb_palette rgb555, rgb555)
                   else
                     let gray = apply_palette dmg_palette color_id
                     in (gray, dmg_gray_rgb555 gray))
            in p\<lparr>ppu_framebuffer := (ppu_framebuffer p)[idx := gray],
                 ppu_color_framebuffer := (ppu_color_framebuffer p)[idx := rgb555]\<rparr>)"

definition draw_sprite ::
  "(nat \<Rightarrow> u8) \<Rightarrow> (nat \<Rightarrow> u8) \<Rightarrow> memory \<Rightarrow> nat \<Rightarrow> bool \<Rightarrow> oam_entry \<Rightarrow> ppu \<Rightarrow> ppu" where
  "draw_sprite vram0 vram1 m y cgb_mode s p =
     (let height = sprite_height p in
      if \<not> sprite_on_screen height s then p
      else
        let row = sprite_row_bytes height vram0 vram1 cgb_mode y s
        in fold (draw_sprite_column m cgb_mode y s row) [0..<8] p)"

text \<open>The drawing order: descending X, then descending OAM index.\<close>

definition draw_order :: "(nat \<times> oam_entry) list \<Rightarrow> (nat \<times> oam_entry) list" where
  "draw_order sprites = sort_key (\<lambda>(i, s). (- int (unat (sp_x s)), - int i)) sprites"

definition overlay_sprite_list_on_scanline_with_vram_mode ::
  "(nat \<Rightarrow> u8) \<Rightarrow> (nat \<Rightarrow> u8) \<Rightarrow> memory \<Rightarrow> (nat \<times> oam_entry) list \<Rightarrow> nat \<Rightarrow> bool \<Rightarrow> ppu \<Rightarrow> ppu" where
  "overlay_sprite_list_on_scanline_with_vram_mode vram0 vram1 m sprites y cgb_mode p =
     fold (\<lambda>(_, s). draw_sprite vram0 vram1 m y cgb_mode s) (draw_order sprites) p"

definition overlay_sprites_on_scanline_with_vram_mode ::
  "(nat \<Rightarrow> u8) \<Rightarrow> (nat \<Rightarrow> u8) \<Rightarrow> memory \<Rightarrow> (nat \<Rightarrow> u8) \<Rightarrow> nat \<Rightarrow> bool \<Rightarrow> ppu \<Rightarrow> ppu" where
  "overlay_sprites_on_scanline_with_vram_mode vram0 vram1 m oam y cgb_mode p =
     (let visible = selected_sprites_on_line p oam y
      in overlay_sprite_list_on_scanline_with_vram_mode vram0 vram1 m visible y cgb_mode p)"

definition overlay_latched_sprites_on_scanline_with_vram_mode ::
  "(nat \<Rightarrow> u8) \<Rightarrow> (nat \<Rightarrow> u8) \<Rightarrow> memory \<Rightarrow> nat \<Rightarrow> bool \<Rightarrow> ppu \<Rightarrow> ppu" where
  "overlay_latched_sprites_on_scanline_with_vram_mode vram0 vram1 m y cgb_mode p =
     (let visible = ppu_scanline_sprites p
      in overlay_sprite_list_on_scanline_with_vram_mode vram0 vram1 m visible y cgb_mode p)"

section \<open>Whole lines\<close>

definition render_scanline_from_memory_with_mode :: "memory \<Rightarrow> nat \<Rightarrow> bool \<Rightarrow> ppu \<Rightarrow> ppu" where
  "render_scanline_from_memory_with_mode m y cgb_mode p =
     (if y \<ge> unat VISIBLE_SCANLINES then p
      else
        let vram0 = vram_bank m 0; vram1 = vram_bank m 1;
            p = render_scanline_from_vram_with_mode y vram0 vram1 m cgb_mode None p
        in if sprite_enabled p
           then overlay_sprites_on_scanline_with_vram_mode vram0 vram1 m (mem_oam m) y cgb_mode p
           else p)"

definition render_visible_area_from_memory_with_mode :: "memory \<Rightarrow> bool \<Rightarrow> ppu \<Rightarrow> ppu" where
  "render_visible_area_from_memory_with_mode m cgb_mode p =
     fold (\<lambda>y. render_scanline_from_memory_with_mode m y cgb_mode) [0..<unat VISIBLE_SCANLINES] p"

definition render_current_scanline_from_memory_with_mode :: "memory \<Rightarrow> bool \<Rightarrow> ppu \<Rightarrow> ppu" where
  "render_current_scanline_from_memory_with_mode m cgb_mode p =
     (let y = unat (ppu_ly p) in
      if y \<ge> unat VISIBLE_SCANLINES then p
      else
        let vram0 = vram_bank m 0; vram1 = vram_bank m 1;
            window_line = (if window_visible_on_line p (ppu_ly p)
                           then Some (unat (ppu_window_line_counter p)) else None);
            p = render_scanline_from_vram_with_mode y vram0 vram1 m cgb_mode window_line p;
            p = (if sprite_enabled p
                 then overlay_latched_sprites_on_scanline_with_vram_mode vram0 vram1 m y cgb_mode p
                 else p)
        in if window_line \<noteq> None
           then p\<lparr>ppu_window_line_counter := ppu_window_line_counter p + 1\<rparr> else p)"

text \<open>Two counting estimates used by diagnostics.\<close>

definition visible_sprite_count_estimate :: "ppu \<Rightarrow> (nat \<Rightarrow> u8) \<Rightarrow> nat" where
  "visible_sprite_count_estimate p oam =
     length (filter (\<lambda>i. let s = oam_chunk oam i; h = int (sprite_height p);
                           sy = int (unat (sp_y s)) - 16; sx = int (unat (sp_x s)) - 8
                       in sx > -8 \<and> sx < 160 \<and> sy > - h \<and> sy < 144) [0..<40])"

definition nonzero_oam_entries :: "(nat \<Rightarrow> u8) \<Rightarrow> nat" where
  "nonzero_oam_entries oam =
     length (filter (\<lambda>i. \<exists>k\<in>{0, 1, 2, 3}. oam (4 * i + k) \<noteq> 0) [0..<40])"

end
