(* ===== verification/Ppu_Render_Laws.thy ===== *)
theory Ppu_Render_Laws
  imports Ppu_Render
begin

text \<open>
  What a drawn line holds: every background pixel is the pixel its map position selects, the
  sprite composed over a column is the one with the smallest X and OAM index among those that
  are opaque and not hidden there, and no other line of any plane changes.
\<close>

section \<open>Planes\<close>

definition planes_ok :: "ppu \<Rightarrow> bool" where
  "planes_ok p \<longleftrightarrow>
     length (ppu_framebuffer p) = FRAMEBUFFER_LEN \<and> length (ppu_color_framebuffer p) = FRAMEBUFFER_LEN \<and>
     length (ppu_bg_color_ids p) = FRAMEBUFFER_LEN \<and> length (ppu_bg_priority_flags p) = FRAMEBUFFER_LEN"

text \<open>The four planes at one index.\<close>

definition pixel_at :: "ppu \<Rightarrow> nat \<Rightarrow> u8 \<times> u8 \<times> u8 \<times> u16" where
  "pixel_at p i = (ppu_bg_color_ids p ! i, ppu_bg_priority_flags p ! i, ppu_framebuffer p ! i,
     ppu_color_framebuffer p ! i)"

text \<open>Everything but the planes.\<close>

definition same_registers :: "ppu \<Rightarrow> ppu \<Rightarrow> bool" where
  "same_registers p q \<longleftrightarrow>
     p\<lparr>ppu_framebuffer := [], ppu_color_framebuffer := [], ppu_bg_color_ids := [],
       ppu_bg_priority_flags := []\<rparr> =
     q\<lparr>ppu_framebuffer := [], ppu_color_framebuffer := [], ppu_bg_color_ids := [],
       ppu_bg_priority_flags := []\<rparr>"

lemma same_registers_refl [simp]: "same_registers p p"
  by (simp add: same_registers_def)

lemma same_registers_trans: "same_registers p q \<Longrightarrow> same_registers q r \<Longrightarrow> same_registers p r"
  by (simp add: same_registers_def)

lemma same_registers_field:
  assumes "same_registers p q"
    and "\<And>r a b c d. f (r\<lparr>ppu_framebuffer := a, ppu_color_framebuffer := b,
      ppu_bg_color_ids := c, ppu_bg_priority_flags := d\<rparr>) = f r"
  shows "f p = f q"
  using assms unfolding same_registers_def by metis

lemma same_registersD:
  assumes "same_registers p q"
  shows "ppu_lcdc p = ppu_lcdc q" "ppu_scx p = ppu_scx q" "ppu_scy p = ppu_scy q"
    "ppu_wx p = ppu_wx q" "ppu_wy p = ppu_wy q" "ppu_bgp p = ppu_bgp q" "ppu_obp0 p = ppu_obp0 q"
    "ppu_obp1 p = ppu_obp1 q" "ppu_scanline_sprites p = ppu_scanline_sprites q"
    "ppu_window_line_counter p = ppu_window_line_counter q" "ppu_ly p = ppu_ly q"
  by (rule same_registers_field [OF assms]; simp)+

section \<open>Background\<close>

lemma bg_pixel_registers:
  assumes "same_registers p q"
  shows "bg_pixel p = bg_pixel q"
proof -
  note reg = same_registersD [OF assms]
  have "window_visible_on_line p = window_visible_on_line q"
    by (intro ext) (simp add: window_visible_on_line_def bg_enabled_def window_enabled_def reg)
  moreover have "bg_map_coords p = bg_map_coords q"
    by (intro ext) (simp add: bg_map_coords_def window_map_base_def bg_map_base_def reg split: option.split)
  moreover have "tile_data_8000 p = tile_data_8000 q"
    by (simp add: tile_data_8000_def reg)
  ultimately show ?thesis
    unfolding bg_pixel_def by (simp only: reg)
qed

lemma put_bg_registers: "same_registers p (put_bg i v p)"
  by (cases v) (simp add: put_bg_def same_registers_def)

lemma put_bg_planes: "planes_ok p \<Longrightarrow> planes_ok (put_bg i v p)"
  by (cases v) (simp add: put_bg_def planes_ok_def)

lemma pixel_at_put_bg:
  "planes_ok p \<Longrightarrow> i < FRAMEBUFFER_LEN \<Longrightarrow>
     pixel_at (put_bg j v p) i = (if i = j then v else pixel_at p i)"
  by (cases v) (simp add: put_bg_def pixel_at_def planes_ok_def)

text \<open>A fold that puts one pixel per column, each computed from registers alone.\<close>

lemma fold_put_bg:
  assumes "planes_ok p" "\<And>q x. same_registers p q \<Longrightarrow> f q x = f p x"
  shows "let q = fold (\<lambda>x r. put_bg (base + x) (f r x) r) [0..<n] p in same_registers p q \<and> planes_ok q \<and>
    (\<forall>i < FRAMEBUFFER_LEN. pixel_at q i =
       (if base \<le> i \<and> i < base + n then f p (i - base) else pixel_at p i))"
proof (induction n)
  case (Suc n)
  define r where "r = fold (\<lambda>x r. put_bg (base + x) (f r x) r) [0..<n] p"
  have r: "same_registers p r" "planes_ok r"
    "\<forall>i < FRAMEBUFFER_LEN. pixel_at r i =
       (if base \<le> i \<and> i < base + n then f p (i - base) else pixel_at p i)"
    using Suc by (simp_all add: r_def Let_def)
  have step: "fold (\<lambda>x r. put_bg (base + x) (f r x) r) [0..<Suc n] p = put_bg (base + n) (f p n) r"
    using assms(2) [OF r(1)] by (simp add: r_def)
  show ?case
    unfolding step Let_def
    using r same_registers_trans [OF r(1) put_bg_registers] put_bg_planes [OF r(2)]
    by (auto simp: pixel_at_put_bg)
qed (auto simp: assms(1))

lemma row_index:
  "y < 144 \<Longrightarrow> x < SCREEN_WIDTH \<Longrightarrow> y * SCREEN_WIDTH + x < FRAMEBUFFER_LEN"
  by (simp add: SCREEN_WIDTH_def FRAMEBUFFER_LEN_def)

definition blank_pixel :: "u8 \<times> u8 \<times> u8 \<times> u16" where
  "blank_pixel = (0, 0, 0, 0x7FFF)"

text \<open>
  The background read as arithmetic. A line shows at each column one point of a 256 by 256 map of
  tiles, the window's where it is visible and the scrolled background's elsewhere.
\<close>

definition map_point :: "ppu \<Rightarrow> nat \<Rightarrow> nat option \<Rightarrow> nat \<Rightarrow> nat \<times> nat \<times> nat" where
  "map_point p y window_line x =
     (if bit (ppu_lcdc p) 5 \<and> unat (ppu_wy p) \<le> y \<and> unat (ppu_wx p) \<le> 166 \<and> unat (ppu_wx p) \<le> x + 7
      then (if bit (ppu_lcdc p) 6 then 0x1C00 else 0x1800, x + 7 - unat (ppu_wx p),
            (case window_line of Some w \<Rightarrow> w | None \<Rightarrow> y - unat (ppu_wy p)))
      else (if bit (ppu_lcdc p) 3 then 0x1C00 else 0x1800, (x + unat (ppu_scx p)) mod 256,
            (y + unat (ppu_scy p)) mod 256))"

text \<open>The tile and the attributes of a map cell; tiles from 128 on are common to both areas.\<close>

definition tile_start :: "ppu \<Rightarrow> nat \<Rightarrow> nat" where
  "tile_start p tile = (if bit (ppu_lcdc p) 4 \<or> 128 \<le> tile then 16 * tile else 0x1000 + 16 * tile)"

text \<open>Column \<open>c\<close> of a row of two bytes, counted from the left.\<close>

definition column_color :: "u8 \<Rightarrow> u8 \<Rightarrow> nat \<Rightarrow> nat" where
  "column_color lo hi c = of_bool (bit lo (7 - c)) + 2 * of_bool (bit hi (7 - c))"

text \<open>The colour of a color number: two bits of the DMG palette, or a pair of bytes of CGB palette RAM.\<close>

definition dmg_shade :: "u8 \<Rightarrow> nat \<Rightarrow> nat" where
  "dmg_shade palette color = unat palette div 4 ^ color mod 4"

definition cgb_color :: "u8 list \<Rightarrow> nat \<Rightarrow> nat \<Rightarrow> nat" where
  "cgb_color ram palette color =
     unat (get_or ram (8 * palette + 2 * color) 0) + 256 * unat (get_or ram (8 * palette + 2 * color + 1) 0)"

definition cgb_shade :: "nat \<Rightarrow> nat" where
  "cgb_shade rgb = (3 * (rgb mod 32) + 6 * (rgb div 32 mod 32) + rgb div 1024 mod 32) div 10"

definition shown_pixel ::
  "ppu \<Rightarrow> (nat \<Rightarrow> u8) \<Rightarrow> (nat \<Rightarrow> u8) \<Rightarrow> memory \<Rightarrow> bool \<Rightarrow> nat \<Rightarrow> nat option \<Rightarrow> nat \<Rightarrow> u8 \<times> u8 \<times> u8 \<times> u16" where
  "shown_pixel p vram0 vram1 m cgb y window_line x =
     (let (base, sx, sy) = map_point p y window_line x;
          cell = base + 32 * (sy div 8 mod 32) + sx div 8 mod 32;
          attr = (if cgb then vram1 cell else 0);
          column = (if bit attr 5 then 7 - sx mod 8 else sx mod 8);
          row = (if bit attr 6 then 7 - sy mod 8 else sy mod 8);
          bank = (if bit attr 3 then vram1 else vram0);
          addr = tile_start p (unat (vram0 cell)) + 2 * row;
          color = column_color (bank addr) (bank (addr + 1)) column;
          rgb = cgb_color (bg_palette_ram m) (unat attr mod 8) color;
          shade = (if cgb then cgb_shade rgb else dmg_shade (ppu_bgp p) color)
      in (of_nat color, of_bool (bit attr 7), of_nat shade,
          if cgb then of_nat rgb else [0x7FFF, 0x56B5, 0x294A, 0] ! shade))"

lemma nat_masks: "(n :: nat) AND 0x1F = n mod 32" "n AND 0xFF = n mod 256" "n AND 7 = n mod 8"
proof -
  have "(0x1F :: nat) = mask 5" "(0xFF :: nat) = mask 8" "(7 :: nat) = mask 3"
    by (simp_all add: mask_eq_exp_minus_1)
  then show "n AND 0x1F = n mod 32" "n AND 0xFF = n mod 256" "n AND 7 = n mod 8"
    by (simp_all only: flip: take_bit_eq_mask) (simp_all add: take_bit_eq_mod)
qed

lemma map_point_eq:
  assumes "y < 144" "bg_enabled p"
  shows "bg_map_coords p y x w (window_visible_on_line p (of_nat y) \<and> x + 7 \<ge> unat (ppu_wx p)) = map_point p y w x"
proof -
  have y: "unat (of_nat y :: u8) = y"
    using assms(1) by (simp add: unat_of_nat)
  have "window_visible_on_line p (of_nat y) \<longleftrightarrow> bit (ppu_lcdc p) 5 \<and> unat (ppu_wy p) \<le> y \<and> unat (ppu_wx p) \<le> 166"
    using assms y by (auto simp: window_visible_on_line_def window_enabled_def VISIBLE_SCANLINES_def word_less_nat_alt
        word_le_nat_alt and_mask_eq_0)
  then show ?thesis
    by (simp add: bg_map_coords_def map_point_def window_map_base_def bg_map_base_def and_mask_eq_0 nat_masks conj_ac)
qed

lemma sint_byte: "sint (t :: u8) = (if unat t < 128 then int (unat t) else int (unat t) - 256)"
proof -
  obtain n where n: "unat t = n" "uint t = int n" "n < 256"
    using unat_u8_less [of t] by (metis uint_nat)
  have "sint t = take_bit 8 (uint t) - 256 * of_bool (bit (uint t) 7)"
    by (simp add: sint_uint signed_take_bit_eq_take_bit_minus)
  moreover have "take_bit 8 (int n) = int n"
    using n(3) by (simp add: take_bit_int_eq_self)
  moreover have "bit (int n) 7 \<longleftrightarrow> 128 \<le> n"
  proof (cases "128 \<le> n")
    case True
    then have "int n div 128 = 1"
      using n(3) by simp
    with True show ?thesis
      by (simp add: bit_iff_odd)
  qed (use n(3) in \<open>simp add: bit_iff_odd\<close>)
  ultimately show ?thesis
    unfolding n(1,2) by auto
qed

lemma tile_start_eq:
  "(if tile_data_8000 p then unat t * 16 else nat (0x1000 + sint t * 16)) = tile_start p (unat (t :: u8))"
proof -
  obtain n where n: "unat t = n" "n < 256"
    using unat_u8_less [of t] by blast
  then show ?thesis
    unfolding sint_byte n(1) by (auto simp: tile_start_def tile_data_8000_def and_mask_eq_0)
qed

lemma tile_color_eq: "tile_color lo hi (7 - c) = of_nat (column_color lo hi c)"
proof -
  have one: "drop_bit k v AND 1 = of_bool (bit v k)" for k and v :: u8
    by (simp add: and_one_eq mod_2_eq_odd bit_iff_odd_drop_bit)
  show ?thesis
    unfolding tile_color_def column_color_def one
    by (cases "bit hi (7 - c)"; cases "bit lo (7 - c)") simp_all
qed

lemma column_color_less: "column_color lo hi c < 4"
  by (simp add: column_color_def)

lemma dmg_shade_eq:
  assumes "c < 4"
  shows "apply_palette palette (of_nat c) = of_nat (dmg_shade palette c)" "dmg_shade palette c < 4"
proof -
  have c: "unat (of_nat c :: u8) = c"
    using assms by (simp add: unat_of_nat)
  have pow: "(2 :: nat) ^ (c * 2) = 4 ^ c"
    by (simp add: power_mult mult.commute [of c])
  have "unat (apply_palette palette (of_nat c)) = dmg_shade palette c"
    unfolding apply_palette_def dmg_shade_def c unat_and_low
    by (simp only: unat_drop_bit_eq) (simp only: drop_bit_eq_div pow)
  moreover show "dmg_shade palette c < 4"
    by (simp add: dmg_shade_def)
  ultimately show "apply_palette palette (of_nat c) = of_nat (dmg_shade palette c)"
    by (simp add: word_unat_eq_iff unat_of_nat)
qed

lemma dmg_gray: "n < 4 \<Longrightarrow> dmg_gray_rgb555 (of_nat n) = [0x7FFF, 0x56B5, 0x294A, 0] ! n"
  by (simp add: dmg_gray_rgb555_def min_def word_le_nat_alt unat_of_nat)

lemma cgb_color_eq:
  assumes "c < 4"
  shows "bg_palette_rgb555 m (attr AND 0x07) (of_nat c) = of_nat (cgb_color (bg_palette_ram m) (unat attr mod 8) c)"
    "cgb_color ram k c < 65536"
proof -
  let ?b = "(attr AND 0x07 AND 0x07) * 8 + (of_nat c AND 0x03 :: u8) * 2"
  have "unat (of_nat c :: u8) = c"
    using assms by (simp add: unat_of_nat)
  then have "unat ?b = 8 * (unat attr mod 8) + 2 * c"
    using assms by (simp add: unat_word_ariths unat_and_low and.assoc)
  then have "bg_palette_rgb555 m (attr AND 0x07) (of_nat c) =
      join_bytes (get_or (bg_palette_ram m) (8 * (unat attr mod 8) + 2 * c + 1) 0)
        (get_or (bg_palette_ram m) (8 * (unat attr mod 8) + 2 * c) 0)"
    by (simp add: bg_palette_rgb555_def palette_rgb555_def join_bytes_def Let_def)
  moreover have less: "cgb_color ram k c < 65536" for ram k
    using unat_u8_less [of "get_or ram (8 * k + 2 * c) 0"] unat_u8_less [of "get_or ram (8 * k + 2 * c + 1) 0"]
    unfolding cgb_color_def by linarith
  moreover have "unat (of_nat (cgb_color ram k c) :: u16) = cgb_color ram k c" for ram k
    using less by (simp add: unat_of_nat)
  ultimately show "bg_palette_rgb555 m (attr AND 0x07) (of_nat c) = of_nat (cgb_color (bg_palette_ram m) (unat attr mod 8) c)"
    by (simp add: word_unat_eq_iff unat_join_bytes) (simp add: cgb_color_def)
  show "cgb_color ram k c < 65536"
    by (rule less)
qed

lemma cgb_shade_eq:
  assumes "n < 65536"
  shows "apply_cgb_palette (of_nat n) = of_nat (cgb_shade n)"
proof -
  have m: "unat ((w :: u16) AND 0x1F) = unat w mod 32" for w
    using unat_and_mask [of w 5] by (simp add: mask_eq_exp_minus_1)
  have "unat (of_nat n :: u16) = n"
    using assms by (simp add: unat_of_nat)
  then show ?thesis
    unfolding apply_cgb_palette_def cgb_shade_def Let_def m unat_drop_bit_eq
    by (simp only: drop_bit_eq_div) (simp add: mult.commute)
qed

lemma bg_pixel_shown:
  assumes "y < 144" "bg_enabled p"
  shows "bg_pixel p vram0 vram1 m cgb y w x = shown_pixel p vram0 vram1 m cgb y w x"
proof -
  obtain base sx sy where point: "map_point p y w x = (base, sx, sy)"
    by (cases "map_point p y w x")
  have base: "base \<le> 0x1C00"
    using point by (auto simp: map_point_def split: if_splits)
  define cell where "cell = base + 32 * (sy div 8 mod 32) + sx div 8 mod 32"
  define attr where "attr = (if cgb then vram1 cell else 0)"
  define col where "col = (if bit attr 5 then 7 - sx mod 8 else sx mod 8)"
  define row where "row = (if bit attr 6 then 7 - sy mod 8 else sy mod 8)"
  define bank where "bank = (if bit attr 3 then vram1 else vram0)"
  define addr where "addr = tile_start p (unat (vram0 cell)) + 2 * row"
  define color where "color = column_color (bank addr) (bank (addr + 1)) col"
  have "sy div 8 mod 32 \<le> 31" "sx div 8 mod 32 \<le> 31"
    by simp_all
  with base have "cell < VRAM_BANK_SIZE"
    unfolding cell_def VRAM_BANK_SIZE_def by linarith
  then have cells: "vram_get vram0 cell = vram0 cell" "vram_get vram1 cell = vram1 cell"
    by (simp_all add: vram_get_def)
  have "sy mod 8 < 8"
    by simp
  then have "row \<le> 7"
    by (auto simp: row_def)
  moreover have "unat (vram0 cell) \<le> 255"
    using unat_u8_less [of "vram0 cell"] by linarith
  then have "tile_start p (unat (vram0 cell)) \<le> 0x1000 + 16 * 127"
    by (auto simp: tile_start_def)
  ultimately have "addr + 1 < VRAM_BANK_SIZE"
    unfolding addr_def VRAM_BANK_SIZE_def by linarith
  then have bytes: "vram_get bank addr = bank addr" "vram_get bank (addr + 1) = bank (addr + 1)"
    by (simp_all add: vram_get_def)
  have fine: "(if cgb \<and> attr AND 0x20 \<noteq> 0 then sx mod 8 else 7 - sx mod 8) = 7 - col"
    "(if cgb \<and> attr AND 0x40 \<noteq> 0 then 7 - sy mod 8 else sy mod 8) = row"
    "(if cgb \<and> attr AND 0x08 \<noteq> 0 then vram1 else vram0) = bank" "(cgb \<and> attr AND 0x80 \<noteq> 0) = bit attr 7"
    by (auto simp: col_def row_def bank_def attr_def and_mask_eq_0)
  have cell: "base + sy div 8 mod 32 * 32 + sx div 8 mod 32 = cell"
    and addr: "tile_start p (unat (vram0 cell)) + row * 2 = addr"
    by (simp_all add: cell_def addr_def mult.commute)
  have color: "color < 4"
    unfolding color_def by (rule column_color_less)
  have "bg_pixel p vram0 vram1 m cgb y w x =
      (let (gray, rgb555) =
            (if cgb then
               let rgb555 = bg_palette_rgb555 m (attr AND 0x07) (of_nat color)
               in (apply_cgb_palette rgb555, rgb555)
             else
               let gray = apply_palette (ppu_bgp p) (of_nat color)
               in (gray, dmg_gray_rgb555 gray))
      in (of_nat color, if bit attr 7 then 1 else 0, gray, rgb555))"
    using map_point_eq [OF assms, of x w] unfolding bg_pixel_def Let_def point
    by (simp only: prod.case nat_masks cell cells tile_start_eq flip: attr_def)
      (simp only: fine addr bytes tile_color_eq flip: color_def)
  also have "\<dots> = shown_pixel p vram0 vram1 m cgb y w x"
    unfolding shown_pixel_def Let_def point prod.case
    by (simp only: flip: cell_def attr_def col_def row_def bank_def addr_def color_def)
      (simp add: cgb_color_eq [OF color] cgb_shade_eq dmg_shade_eq [OF color] dmg_gray)
  finally show ?thesis .
qed

text \<open>
  C39. Drawing the background of a line fills its 160 pixels, in all four planes, with the pixel
  at the map point under the column, and changes no other line and no register. The map point is
  the window's where the window is on, begun and reached, else the scrolled background's; its
  tile lies at 16 times its number, or from 0x1000 on for the numbers below 128 in the signed
  mode; a row is two bytes with the leftmost column in bit 7, CGB attributes flip it, choose its
  bank and palette and give the priority flag; the colour goes through the DMG palette or the
  CGB palette RAM. With the background disabled the line is blank.
\<close>

theorem background_line:
  assumes "planes_ok p" "y < 144"
  shows "let q = render_scanline_from_vram_with_mode y vram0 vram1 m cgb window_line p in
    same_registers p q \<and> planes_ok q \<and>
    (\<forall>i < FRAMEBUFFER_LEN. pixel_at q i =
       (if i div SCREEN_WIDTH = y
        then (if bit (ppu_lcdc p) 0 then shown_pixel p vram0 vram1 m cgb y window_line (i mod SCREEN_WIDTH)
              else blank_pixel)
        else pixel_at p i))"
proof -
  define f where "f = (\<lambda>r x. if bg_enabled p then bg_pixel r vram0 vram1 m cgb y window_line x
      else (0, 0, 0, dmg_gray_rgb555 0))"
  have gray: "dmg_gray_rgb555 0 = 0x7FFF"
    by (simp add: dmg_gray_rgb555_def)
  have q: "render_scanline_from_vram_with_mode y vram0 vram1 m cgb window_line p =
      fold (\<lambda>x r. put_bg (y * SCREEN_WIDTH + x) (f r x) r) [0..<SCREEN_WIDTH] p"
    by (simp add: render_scanline_from_vram_with_mode_def f_def Let_def)
  have f: "f r x = f p x" if "same_registers p r" for r x
    using bg_pixel_registers [OF that] by (simp add: f_def)
  have row: "(y * SCREEN_WIDTH \<le> i \<and> i < y * SCREEN_WIDTH + SCREEN_WIDTH) = (i div SCREEN_WIDTH = y)"
    "i div SCREEN_WIDTH = y \<Longrightarrow> i - y * SCREEN_WIDTH = i mod SCREEN_WIDTH" for i
    by (auto simp: SCREEN_WIDTH_def minus_div_mult_eq_mod [symmetric])
  have shown: "f p x = (if bit (ppu_lcdc p) 0 then shown_pixel p vram0 vram1 m cgb y window_line x else blank_pixel)" for x
    using bg_pixel_shown [OF assms(2), of p] by (simp add: f_def blank_pixel_def gray bg_enabled_def and_mask_eq_0)
  show ?thesis
    using fold_put_bg [where f = f and base = "y * SCREEN_WIDTH" and n = SCREEN_WIDTH, OF assms(1) f] row
    unfolding q Let_def by (simp add: shown)
qed

section \<open>Sprites\<close>

text \<open>The output a sprite gives column \<open>x\<close> of line \<open>y\<close>, if it shows there at all.\<close>

definition sprite_color :: "ppu \<Rightarrow> memory \<Rightarrow> bool \<Rightarrow> oam_entry \<Rightarrow> u8 \<Rightarrow> u8 \<times> u16" where
  "sprite_color p m cgb s color_id =
     (if cgb then
        let rgb555 = obj_palette_rgb555 m (sp_attr s AND 0x07) color_id
        in (apply_cgb_palette rgb555, rgb555)
      else
        let gray = apply_palette (if sp_attr s AND 0x10 \<noteq> 0 then ppu_obp1 p else ppu_obp0 p) color_id
        in (gray, dmg_gray_rgb555 gray))"

definition hidden_by_bg :: "ppu \<Rightarrow> oam_entry \<Rightarrow> nat \<Rightarrow> bool" where
  "hidden_by_bg p s i \<longleftrightarrow>
     ppu_bg_color_ids p ! i \<noteq> 0 \<and> (ppu_bg_priority_flags p ! i \<noteq> 0 \<or> bit (sp_attr s) 7)"

definition column_pixel ::
  "ppu \<Rightarrow> memory \<Rightarrow> bool \<Rightarrow> oam_entry \<Rightarrow> u8 \<times> u8 \<Rightarrow> nat \<Rightarrow> nat \<Rightarrow> (u8 \<times> u16) option" where
  "column_pixel p m cgb s row px i =
     (let color_id = tile_color (fst row) (snd row) (if bit (sp_attr s) 5 then px else 7 - px)
      in if color_id = 0 \<or> hidden_by_bg p s i then None else Some (sprite_color p m cgb s color_id))"

definition sprite_pixel ::
  "ppu \<Rightarrow> (nat \<Rightarrow> u8) \<Rightarrow> (nat \<Rightarrow> u8) \<Rightarrow> memory \<Rightarrow> bool \<Rightarrow> nat \<Rightarrow> nat \<Rightarrow> oam_entry \<Rightarrow> (u8 \<times> u16) option"
where
  "sprite_pixel p vram0 vram1 m cgb y x s =
     (if sprite_on_screen (sprite_height p) s \<and> unat (sp_x s) \<le> x + 8 \<and> x < unat (sp_x s)
      then column_pixel p m cgb s (sprite_row_bytes (sprite_height p) vram0 vram1 cgb y s)
             (x + 8 - unat (sp_x s)) (y * SCREEN_WIDTH + x)
      else None)"

definition put_obj :: "nat \<Rightarrow> (u8 \<times> u16) option \<Rightarrow> ppu \<Rightarrow> ppu" where
  "put_obj i c p = (case c of None \<Rightarrow> p
     | Some (gray, rgb555) \<Rightarrow> p\<lparr>ppu_framebuffer := (ppu_framebuffer p)[i := gray],
          ppu_color_framebuffer := (ppu_color_framebuffer p)[i := rgb555]\<rparr>)"

lemma draw_column_put:
  "draw_sprite_column m cgb y s row px p =
     (if 8 \<le> unat (sp_x s) + px \<and> unat (sp_x s) + px < SCREEN_WIDTH + 8
      then put_obj (y * SCREEN_WIDTH + (unat (sp_x s) + px - 8))
             (column_pixel p m cgb s row px (y * SCREEN_WIDTH + (unat (sp_x s) + px - 8))) p
      else p)"
proof -
  let ?sx = "int (unat (sp_x s)) - 8"
  have on: "(0 \<le> ?sx + int px \<and> ?sx + int px < int SCREEN_WIDTH) \<longleftrightarrow>
      8 \<le> unat (sp_x s) + px \<and> unat (sp_x s) + px < SCREEN_WIDTH + 8"
    by (auto simp del: of_nat_unat)
  have idx: "nat (?sx + int px) = unat (sp_x s) + px - 8"
    by (simp del: of_nat_unat)
  show ?thesis
    unfolding draw_sprite_column_def Let_def on idx
    by (simp add: put_obj_def column_pixel_def hidden_by_bg_def sprite_color_def Let_def mask_simps
        if_distrib [where f = "\<lambda>c. case c of None \<Rightarrow> _ | Some x \<Rightarrow> _ x"] cong: if_cong)
qed

text \<open>What the composition depends on besides the two output planes.\<close>

definition same_scene :: "ppu \<Rightarrow> ppu \<Rightarrow> bool" where
  "same_scene p q \<longleftrightarrow>
     same_registers p q \<and> ppu_bg_color_ids p = ppu_bg_color_ids q \<and>
     ppu_bg_priority_flags p = ppu_bg_priority_flags q \<and>
     length (ppu_framebuffer p) = length (ppu_framebuffer q) \<and>
     length (ppu_color_framebuffer p) = length (ppu_color_framebuffer q)"

lemma same_scene_refl [simp]: "same_scene p p"
  by (simp add: same_scene_def)

lemma same_scene_trans: "same_scene p q \<Longrightarrow> same_scene q r \<Longrightarrow> same_scene p r"
  by (auto simp: same_scene_def intro: same_registers_trans)

lemma put_obj_scene [simp]: "same_scene p (put_obj i c p)"
  by (cases c) (auto simp: put_obj_def same_scene_def same_registers_def)

lemma column_pixel_scene: "same_scene p q \<Longrightarrow> column_pixel p = column_pixel q"
proof -
  assume same: "same_scene p q"
  then have "sprite_color p = sprite_color q"
    using same_registersD(7,8) [of p q]
    by (intro ext) (simp add: sprite_color_def same_scene_def)
  with same show ?thesis
    by (intro ext) (simp add: column_pixel_def hidden_by_bg_def same_scene_def Let_def)
qed

lemma sprite_pixel_scene: "same_scene p q \<Longrightarrow> sprite_pixel p = sprite_pixel q"
  using same_registersD(1) [of p q] column_pixel_scene [of p q]
  by (intro ext) (simp add: sprite_pixel_def sprite_height_def same_scene_def)

text \<open>The two output planes at one index, and the effect of one optional pixel on them.\<close>

definition shown :: "ppu \<Rightarrow> nat \<Rightarrow> u8 \<times> u16" where
  "shown p i = (ppu_framebuffer p ! i, ppu_color_framebuffer p ! i)"

lemma shown_put_obj:
  assumes "planes_ok p" "i < FRAMEBUFFER_LEN"
  shows "shown (put_obj j c p) i = (if i = j then (case c of None \<Rightarrow> shown p i | Some g \<Rightarrow> g) else shown p i)"
  using assms by (auto simp: put_obj_def shown_def planes_ok_def split: option.split prod.split)

lemma planes_ok_scene: "same_scene p q \<Longrightarrow> planes_ok p \<Longrightarrow> planes_ok q"
  by (simp add: same_scene_def planes_ok_def)

lemma draw_column_scene [simp]: "same_scene p (draw_sprite_column m cgb y s row px p)"
  by (simp add: draw_column_put)

lemma fold_scene:
  assumes "\<And>a q. same_scene q (f a q)"
  shows "same_scene p (fold f xs p)"
  using assms by (induction xs arbitrary: p) (auto intro: same_scene_trans)

lemma column_index:
  assumes "t < 160"
  shows "(8 \<le> a + n \<and> a + n < 168 \<and> q * 160 + t = y * 160 + (a + n - 8)) \<longleftrightarrow>
     (q = y \<and> a \<le> t + 8 \<and> q * 160 + t - y * 160 + 8 - a = (n :: nat))"
proof (cases "8 \<le> a + n")
  case True
  then obtain k where k: "a + n = k + 8"
    by (metis add.commute le_iff_add)
  have "q = y \<and> t = k" if "q * 160 + t = y * 160 + k" "k < 160"
  proof -
    have "(q * 160 + t) div 160 = q" "(y * 160 + k) div 160 = y"
      using assms that(2) by simp_all
    with that(1) show ?thesis by simp
  qed
  then show ?thesis
    using True k assms by auto
qed auto

lemma draw_columns_shown:
  assumes "planes_ok p" "i < FRAMEBUFFER_LEN"
  shows "shown (fold (draw_sprite_column m cgb y s row) [0..<n] p) i =
    (let px = i - y * SCREEN_WIDTH + 8 - unat (sp_x s) in
     if i div SCREEN_WIDTH = y \<and> unat (sp_x s) \<le> i mod SCREEN_WIDTH + 8 \<and> px < n
     then (case column_pixel p m cgb s row px i of None \<Rightarrow> shown p i | Some g \<Rightarrow> g) else shown p i)"
proof (induction n)
  case (Suc n)
  define r where "r = fold (draw_sprite_column m cgb y s row) [0..<n] p"
  have scene: "same_scene p r"
    unfolding r_def by (rule fold_scene) simp
  let ?j = "y * SCREEN_WIDTH + (unat (sp_x s) + n - 8)"
  have here: "(8 \<le> unat (sp_x s) + n \<and> unat (sp_x s) + n < SCREEN_WIDTH + 8 \<and> i = ?j) \<longleftrightarrow>
      (i div SCREEN_WIDTH = y \<and> unat (sp_x s) \<le> i mod SCREEN_WIDTH + 8 \<and>
       i - y * SCREEN_WIDTH + 8 - unat (sp_x s) = n)"
    using column_index [of "i mod SCREEN_WIDTH" "unat (sp_x s)" n "i div SCREEN_WIDTH" y]
    by (simp add: SCREEN_WIDTH_def)
  have step: "fold (draw_sprite_column m cgb y s row) [0..<Suc n] p = draw_sprite_column m cgb y s row n r"
    by (simp add: r_def)
  have drawn: "shown (draw_sprite_column m cgb y s row n r) i =
      (if 8 \<le> unat (sp_x s) + n \<and> unat (sp_x s) + n < SCREEN_WIDTH + 8 \<and> i = ?j
       then (case column_pixel p m cgb s row n i of None \<Rightarrow> shown r i | Some g \<Rightarrow> g) else shown r i)"
  proof -
    obtain j where j: "j = ?j"
      by blast
    have put: "shown (put_obj j c r) i =
        (if i = j then (case c of None \<Rightarrow> shown r i | Some g \<Rightarrow> g) else shown r i)" for c
      by (rule shown_put_obj [OF planes_ok_scene [OF scene assms(1)] assms(2)])
    show ?thesis
      unfolding draw_column_put column_pixel_scene [OF scene, symmetric] j [symmetric]
      by (cases "i = j") (use put in auto)
  qed
  show ?case
    unfolding step drawn here using Suc unfolding r_def [symmetric] Let_def
    by (cases "i - y * SCREEN_WIDTH + 8 - unat (sp_x s) = n") (auto simp: less_Suc_eq split: option.split)
qed simp

lemma sprite_on_screen_x: "sprite_on_screen h s \<Longrightarrow> 0 < unat (sp_x s)"
  by (auto simp: sprite_on_screen_def Let_def simp del: of_nat_unat)

lemma draw_sprite_shown:
  assumes "planes_ok p" "y < 144" "x < SCREEN_WIDTH"
  shows "shown (draw_sprite vram0 vram1 m y cgb s p) (y * SCREEN_WIDTH + x) =
    (case sprite_pixel p vram0 vram1 m cgb y x s of None \<Rightarrow> shown p (y * SCREEN_WIDTH + x) | Some g \<Rightarrow> g)"
proof (cases "sprite_on_screen (sprite_height p) s")
  case True
  have "(y * SCREEN_WIDTH + x) div SCREEN_WIDTH = y" "(y * SCREEN_WIDTH + x) mod SCREEN_WIDTH = x"
    using assms(3) by simp_all
  then show ?thesis
    using True draw_columns_shown [OF assms(1) row_index [OF assms(2,3)], of m cgb y s _ 8]
    by (auto simp: draw_sprite_def sprite_pixel_def Let_def)
qed (simp add: draw_sprite_def sprite_pixel_def)

lemma draw_sprite_other_line:
  assumes "planes_ok p" "i < FRAMEBUFFER_LEN" "i div SCREEN_WIDTH \<noteq> y"
  shows "shown (draw_sprite vram0 vram1 m y cgb s p) i = shown p i"
  using draw_columns_shown [OF assms(1,2), of m cgb y s _ 8] assms(3)
  by (simp add: draw_sprite_def Let_def)

lemma draw_sprite_scene [simp]: "same_scene p (draw_sprite vram0 vram1 m y cgb s p)"
  by (simp add: draw_sprite_def Let_def fold_scene)

lemma draw_list_shown:
  assumes "planes_ok p" "y < 144" "x < SCREEN_WIDTH"
  shows "shown (fold (\<lambda>(_, s). draw_sprite vram0 vram1 m y cgb s) xs p) (y * SCREEN_WIDTH + x) =
    (case find (\<lambda>(_, s). sprite_pixel p vram0 vram1 m cgb y x s \<noteq> None) (rev xs) of
       None \<Rightarrow> shown p (y * SCREEN_WIDTH + x)
     | Some (_, s) \<Rightarrow> the (sprite_pixel p vram0 vram1 m cgb y x s))"
proof (induction xs rule: rev_induct)
  case (snoc e xs)
  define r where "r = fold (\<lambda>(_, s). draw_sprite vram0 vram1 m y cgb s) xs p"
  have scene: "same_scene p r"
    unfolding r_def by (rule fold_scene) (auto split: prod.split)
  note ok = planes_ok_scene [OF scene assms(1)]
  show ?case
    using snoc draw_sprite_shown [OF ok assms(2,3), of vram0 vram1 m cgb "snd e"]
    unfolding r_def [symmetric]
    by (cases e) (auto simp: sprite_pixel_scene [OF scene, symmetric] simp flip: r_def split: option.splits)
qed simp

lemma draw_list_other_line:
  assumes "planes_ok p" "i < FRAMEBUFFER_LEN" "i div SCREEN_WIDTH \<noteq> y"
  shows "shown (fold (\<lambda>(_, s). draw_sprite vram0 vram1 m y cgb s) xs p) i = shown p i"
  using assms(1)
proof (induction xs arbitrary: p)
  case (Cons e xs)
  have "planes_ok (draw_sprite vram0 vram1 m y cgb (snd e) p)"
    using planes_ok_scene [OF draw_sprite_scene Cons.prems] .
  then show ?case
    using Cons.IH draw_sprite_other_line [OF Cons.prems assms(2,3)] by (simp add: case_prod_unfold)
qed simp

lemma find_sorted_last:
  fixes k :: "'a \<Rightarrow> 'b::linorder"
  assumes "sorted (map k xs)" "find P (rev xs) = Some a"
  shows "a \<in> set xs \<and> P a \<and> (\<forall>b \<in> set xs. P b \<longrightarrow> k b \<le> k a)"
  using assms
proof (induction xs rule: rev_induct)
  case (snoc x xs)
  then show ?case
    by (auto simp: sorted_append split: if_splits)
qed simp

text \<open>Whether one sprite has priority over another: the smaller X, then the smaller OAM index.\<close>

definition sprite_before :: "nat \<times> oam_entry \<Rightarrow> nat \<times> oam_entry \<Rightarrow> bool" where
  "sprite_before a b \<longleftrightarrow>
     sp_x (snd a) < sp_x (snd b) \<or> (sp_x (snd a) = sp_x (snd b) \<and> fst a \<le> fst b)"

text \<open>
  C15. After the sprites of a line are composed, each of its pixels shows the sprite that comes
  first by X and then by OAM index among those with an opaque pixel there that the background
  does not hide, or what was there before when there is none; other lines, the background
  planes and the registers are untouched.
\<close>

theorem sprite_priority:
  assumes "planes_ok p" "y < 144" "x < SCREEN_WIDTH"
  shows "let q = overlay_sprite_list_on_scanline_with_vram_mode vram0 vram1 m sprites y cgb p;
      pix = (\<lambda>e. sprite_pixel p vram0 vram1 m cgb y x (snd e)) in
    (if \<forall>e \<in> set sprites. pix e = None
     then shown q (y * SCREEN_WIDTH + x) = shown p (y * SCREEN_WIDTH + x)
     else \<exists>e \<in> set sprites. pix e = Some (shown q (y * SCREEN_WIDTH + x)) \<and>
       (\<forall>e' \<in> set sprites. pix e' \<noteq> None \<longrightarrow> sprite_before e e')) \<and>
    (\<forall>i < FRAMEBUFFER_LEN. i div SCREEN_WIDTH \<noteq> y \<longrightarrow> shown q i = shown p i) \<and> same_scene p q"
proof -
  let ?k = "\<lambda>(i, s). (- int (unat (sp_x s)), - int i)"
  let ?P = "\<lambda>(_, s). sprite_pixel p vram0 vram1 m cgb y x s \<noteq> None"
  define q where "q = overlay_sprite_list_on_scanline_with_vram_mode vram0 vram1 m sprites y cgb p"
  have q: "q = fold (\<lambda>(_, s). draw_sprite vram0 vram1 m y cgb s) (draw_order sprites) p"
    by (simp add: q_def overlay_sprite_list_on_scanline_with_vram_mode_def)
  have sorted: "sorted (map ?k (draw_order sprites))" and set: "set (draw_order sprites) = set sprites"
    by (simp_all add: draw_order_def)
  note shown = draw_list_shown [OF assms, of vram0 vram1 m cgb "draw_order sprites", folded q]
  have "if \<forall>e \<in> set sprites. sprite_pixel p vram0 vram1 m cgb y x (snd e) = None
     then shown q (y * SCREEN_WIDTH + x) = shown p (y * SCREEN_WIDTH + x)
     else \<exists>e \<in> set sprites. sprite_pixel p vram0 vram1 m cgb y x (snd e) = Some (shown q (y * SCREEN_WIDTH + x)) \<and>
       (\<forall>e' \<in> set sprites. sprite_pixel p vram0 vram1 m cgb y x (snd e') \<noteq> None \<longrightarrow> sprite_before e e')"
  proof (cases "find ?P (rev (draw_order sprites))")
    case None
    then have "\<forall>e \<in> set sprites. sprite_pixel p vram0 vram1 m cgb y x (snd e) = None"
      using set unfolding find_None_iff by (auto simp del: not_None_eq)
    then show ?thesis
      using shown unfolding None by simp
  next
    case (Some e)
    have before: "sprite_before e e'" if "?k e' \<le> ?k e" for e'
      using that by (auto simp: sprite_before_def less_eq_prod_def word_less_nat_alt word_unat_eq_iff
          split: prod.splits simp del: of_nat_unat)
    have P: "?P a \<longleftrightarrow> sprite_pixel p vram0 vram1 m cgb y x (snd a) \<noteq> None" for a
      by (simp add: case_prod_unfold)
    note first = find_sorted_last [OF sorted Some, unfolded P set]
    then obtain g where g: "sprite_pixel p vram0 vram1 m cgb y x (snd e) = Some g"
      by blast
    then have "shown q (y * SCREEN_WIDTH + x) = g"
      using shown unfolding Some by (simp add: case_prod_unfold)
    with g first before show ?thesis
      by (metis option.distinct(1))
  qed
  moreover have "shown q i = shown p i" if "i < FRAMEBUFFER_LEN" "i div SCREEN_WIDTH \<noteq> y" for i
    unfolding q by (rule draw_list_other_line [OF assms(1) that])
  moreover have "same_scene p q"
    unfolding q by (rule fold_scene) (auto split: prod.split)
  ultimately show ?thesis
    unfolding Let_def q_def [symmetric] by blast
qed

theorem sprite_priority_witness:
  "shown (overlay_sprite_list_on_scanline_with_vram_mode (\<lambda>_. 0) (\<lambda>_. 0) memory_default
     [(3, \<lparr>sp_y = 16, sp_x = 8, sp_tile = 0, sp_attr = 0\<rparr>)] 0 False ppu_default) 5 = shown ppu_default 5"
proof -
  have ok: "planes_ok ppu_default"
    by (simp add: planes_ok_def ppu_default_def)
  have "sprite_pixel ppu_default (\<lambda>_. 0) (\<lambda>_. 0) memory_default False 0 5 s = None" for s
    by (simp add: sprite_pixel_def column_pixel_def sprite_row_bytes_def vram_get_def tile_color_def Let_def)
  then show ?thesis
    using sprite_priority [OF ok, of 0 5 "\<lambda>_. 0" "\<lambda>_. 0" memory_default
        "[(3, \<lparr>sp_y = 16, sp_x = 8, sp_tile = 0, sp_attr = 0\<rparr>)]" False]
    by (simp add: SCREEN_WIDTH_def Let_def)
qed

theorem background_line_witness:
  "pixel_at (render_scanline_from_vram_with_mode 7 (\<lambda>i. if i = 14 then 4 else 0) (\<lambda>_. 0) memory_default False None
     ppu_default) 1125 = (1, 0, 1, 0x56B5)"
proof -
  have ok: "planes_ok ppu_default"
    by (simp add: planes_ok_def ppu_default_def)
  have regs: "ppu_lcdc ppu_default = 0x91" "ppu_scx ppu_default = 0" "ppu_scy ppu_default = 0" "ppu_bgp ppu_default = 0xE4"
    by (simp_all add: ppu_default_def)
  have point: "map_point ppu_default 7 None 5 = (0x1800, 5, 7)"
    by (simp add: map_point_def regs)
  have row: "tile_start ppu_default 0 = 0" "column_color 4 0 5 = 1" "dmg_shade (ppu_bgp ppu_default) 1 = 1"
    by (simp_all add: tile_start_def column_color_def dmg_shade_def regs)
  have "shown_pixel ppu_default (\<lambda>i. if i = 14 then 4 else 0) (\<lambda>_. 0) memory_default False 7 None 5 = (1, 0, 1, 0x56B5)"
    unfolding shown_pixel_def point by (simp add: row row(3) [simplified])
  moreover have "1125 < FRAMEBUFFER_LEN" "1125 div SCREEN_WIDTH = 7" "1125 mod SCREEN_WIDTH = 5"
    by (simp_all add: SCREEN_WIDTH_def FRAMEBUFFER_LEN_def)
  moreover have "bit (ppu_lcdc ppu_default) 0"
    by (simp add: ppu_default_def)
  ultimately show ?thesis
    using background_line [OF ok, of 7 "\<lambda>i. if i = 14 then 4 else 0" "\<lambda>_. 0" memory_default False None]
    unfolding Let_def by simp
qed

end
