(* ===== verification/Apu_State.thy ===== *)
theory Apu_State
  imports Events "HOL-Library.Signed_Division"
begin

text \<open>
  The audio unit of \<^verbatim>\<open>apu.rs\<close>: four channels with length, envelope and sweep, the frame
  sequencer, the mixer, and the bounded queue of stereo samples. Timers and positions are
  natural numbers with the code's saturation and wrap-around written out; samples are
  integers.

  The output filters compute with \<open>f64\<close>. Their arithmetic is an argument: a record of the
  operations the filters use on 64-bit patterns, so every statement here holds for any of them.
\<close>

type_synonym f64 = u64

record float_ops =
  f_lit :: "nat \<Rightarrow> nat \<Rightarrow> f64"
  f_add :: "f64 \<Rightarrow> f64 \<Rightarrow> f64"
  f_sub :: "f64 \<Rightarrow> f64 \<Rightarrow> f64"
  f_mul :: "f64 \<Rightarrow> f64 \<Rightarrow> f64"
  f_of_int :: "int \<Rightarrow> f64"
  f_round_clamp :: "int \<Rightarrow> int \<Rightarrow> f64 \<Rightarrow> int"

text \<open>\<open>f_lit m e\<close> is the decimal literal with digits \<open>m\<close> and \<open>e\<close> places after the point.\<close>

definition APU_FRAME_SEQUENCER_CYCLES :: nat where "APU_FRAME_SEQUENCER_CYCLES = 8192"
definition APU_MIX_TRACE_CYCLES :: nat where "APU_MIX_TRACE_CYCLES = 1024"
definition APU_PCM_SAMPLE_CYCLES :: nat where "APU_PCM_SAMPLE_CYCLES = 64"
definition APU_PCM_OVERSAMPLE_CYCLES :: nat where "APU_PCM_OVERSAMPLE_CYCLES = 16"
definition APU_OUTPUT_SAMPLE_RATE :: nat where "APU_OUTPUT_SAMPLE_RATE = 65536"
definition DEFAULT_APU_PCM_BUFFER_CAPACITY_FRAMES :: nat where
  "DEFAULT_APU_PCM_BUFFER_CAPACITY_FRAMES = 65536"

lemmas apu_period_defs =
  APU_FRAME_SEQUENCER_CYCLES_def APU_MIX_TRACE_CYCLES_def APU_PCM_SAMPLE_CYCLES_def
  APU_PCM_OVERSAMPLE_CYCLES_def

definition REGISTER_READ_MASKS :: "u8 list" where
  "REGISTER_READ_MASKS =
     [0x80, 0x3F, 0x00, 0xFF, 0xBF, 0xFF, 0x3F, 0x00, 0xFF, 0xBF, 0x7F, 0xFF, 0x9F, 0xFF, 0xBF, 0xFF,
      0xFF, 0x00, 0x00, 0xBF, 0x00, 0x00]"

definition sample_charge_factor :: "float_ops \<Rightarrow> f64 \<Rightarrow> f64" where
  "sample_charge_factor fo per_clock =
     ((\<lambda>factor. f_mul fo factor per_clock) ^^ APU_PCM_SAMPLE_CYCLES) (f_lit fo 1 0)"

definition DUTY_PATTERNS :: "u8 list list" where
  "DUTY_PATTERNS =
     [[0, 0, 0, 0, 0, 0, 0, 1], [1, 0, 0, 0, 0, 0, 0, 1],
      [1, 0, 0, 0, 0, 1, 1, 1], [0, 1, 1, 1, 1, 1, 1, 0]]"

definition NOISE_DIVISORS :: "nat list" where
  "NOISE_DIVISORS = [8, 16, 32, 48, 64, 80, 96, 112]"

section \<open>State\<close>

record channel_state =
  ch_enabled :: bool
  ch_dac_enabled :: bool
  ch_length_counter :: nat
  ch_envelope_volume :: u8
  ch_envelope_period :: u8
  ch_envelope_increase :: bool
  ch_envelope_counter :: u8
  ch_shadow_frequency :: nat
  ch_sweep_period :: u8
  ch_sweep_counter :: u8
  ch_sweep_shift :: u8
  ch_sweep_negate :: bool
  ch_duty_position :: nat
  ch_freq_timer :: nat
  ch_wave_position :: nat
  ch_wave_sample_buffer :: u8
  ch_lfsr :: u16
  ch_force_zero :: bool
  ch_sweep_negate_used :: bool

definition channel_default :: channel_state where
  "channel_default =
     \<lparr>ch_enabled = False, ch_dac_enabled = False, ch_length_counter = 0, ch_envelope_volume = 0,
      ch_envelope_period = 0, ch_envelope_increase = False, ch_envelope_counter = 0,
      ch_shadow_frequency = 0, ch_sweep_period = 0, ch_sweep_counter = 0, ch_sweep_shift = 0,
      ch_sweep_negate = False, ch_duty_position = 0, ch_freq_timer = 0, ch_wave_position = 0,
      ch_wave_sample_buffer = 0, ch_lfsr = 0x7FFF, ch_force_zero = True,
      ch_sweep_negate_used = False\<rparr>"

record apu =
  apu_regs :: "u8 list"
  apu_wave_ram :: "u8 list"
  apu_master_enabled :: bool
  apu_channel_enable :: u8
  apu_frame_seq_cycles :: nat
  apu_frame_seq_step :: nat
  apu_channels :: "channel_state list"
  apu_mix_trace_cycles :: nat
  apu_pcm_sample_cycles :: nat
  apu_pcm_buffer :: "int list"
  apu_pcm_capacity :: nat
  apu_pcm_generated :: nat
  apu_pcm_dropped :: nat
  apu_pcm_hpf_left :: f64
  apu_pcm_hpf_right :: f64
  apu_pcm_lpf_left :: f64
  apu_pcm_lpf_right :: f64
  apu_pcm_accum_left :: int
  apu_pcm_accum_right :: int
  apu_pcm_accum_cycles :: nat
  apu_last_mixed_left :: int
  apu_last_mixed_right :: int
  apu_last_mixed_mask :: u8
  apu_cgb_mode :: bool

definition apu_default :: "float_ops \<Rightarrow> apu" where
  "apu_default fo =
     \<lparr>apu_regs = replicate 0x17 0, apu_wave_ram = replicate 0x10 0, apu_master_enabled = False,
      apu_channel_enable = 0, apu_frame_seq_cycles = 0, apu_frame_seq_step = 0,
      apu_channels = replicate 4 channel_default, apu_mix_trace_cycles = 0,
      apu_pcm_sample_cycles = 0, apu_pcm_buffer = [],
      apu_pcm_capacity = DEFAULT_APU_PCM_BUFFER_CAPACITY_FRAMES, apu_pcm_generated = 0,
      apu_pcm_dropped = 0, apu_pcm_hpf_left = f_lit fo 0 0, apu_pcm_hpf_right = f_lit fo 0 0,
      apu_pcm_lpf_left = f_lit fo 0 0, apu_pcm_lpf_right = f_lit fo 0 0, apu_pcm_accum_left = 0,
      apu_pcm_accum_right = 0, apu_pcm_accum_cycles = 0, apu_last_mixed_left = 0,
      apu_last_mixed_right = 0, apu_last_mixed_mask = 0, apu_cgb_mode = False\<rparr>"

text \<open>The playback state that both the post-boot initialisation and a power-off clear.\<close>

definition clear_playback :: "float_ops \<Rightarrow> apu \<Rightarrow> apu" where
  "clear_playback fo a =
     a\<lparr>apu_mix_trace_cycles := 0, apu_pcm_sample_cycles := 0, apu_pcm_buffer := [],
       apu_pcm_hpf_left := f_lit fo 0 0, apu_pcm_hpf_right := f_lit fo 0 0,
       apu_pcm_lpf_left := f_lit fo 0 0, apu_pcm_lpf_right := f_lit fo 0 0,
       apu_pcm_accum_left := 0, apu_pcm_accum_right := 0, apu_pcm_accum_cycles := 0,
       apu_last_mixed_left := 0, apu_last_mixed_right := 0, apu_last_mixed_mask := 0\<rparr>"

definition upd_ch :: "nat \<Rightarrow> (channel_state \<Rightarrow> channel_state) \<Rightarrow> apu \<Rightarrow> apu" where
  "upd_ch i f a = a\<lparr>apu_channels := (apu_channels a)[i := f (apu_channels a ! i)]\<rparr>"

definition apu_initialize_post_boot_state :: "float_ops \<Rightarrow> hardware_mode \<Rightarrow> apu \<Rightarrow> apu" where
  "apu_initialize_post_boot_state fo mode a =
     (let a = a\<lparr>apu_regs := [0x80, 0xBF, 0xF3, 0xFF, 0xBF, 0x3F, 0x00, 0xFF, 0xBF, 0x7F, 0xFF, 0x9F,
                 0xFF, 0xBF, 0xFF, 0x00, 0x00, 0xBF, 0x77, 0xF3, 0x00, 0x00, 0x00],
               apu_wave_ram := replicate 0x10 0, apu_master_enabled := True,
               apu_channel_enable := (if mode = Cgb then 0x00 else 0x01),
               apu_frame_seq_cycles := 0, apu_frame_seq_step := 0,
               apu_channels := replicate 4 channel_default\<rparr>;
          a = (if apu_channel_enable a AND 0x01 \<noteq> 0
               then upd_ch 0 (\<lambda>st. st\<lparr>ch_enabled := True, ch_dac_enabled := True\<rparr>) a else a)
      in clear_playback fo a)"

section \<open>Frequencies and periods\<close>

definition current_frequency :: "apu \<Rightarrow> nat \<Rightarrow> nat" where
  "current_frequency a channel =
     (let pair = (\<lambda>hi lo. unat (apu_regs a ! hi AND 0x07) * 256 + unat (apu_regs a ! lo)) in
      if channel = 1 then pair 4 3
      else if channel = 2 then pair 9 8
      else if channel = 3 then pair 14 13
      else ch_shadow_frequency (apu_channels a ! 3))"

definition set_current_frequency :: "nat \<Rightarrow> nat \<Rightarrow> apu \<Rightarrow> apu" where
  "set_current_frequency channel frequency a =
     (let low = of_nat (frequency mod 256) :: u8;
          high = of_nat (frequency div 256) AND 0x07 :: u8;
          put = (\<lambda>hi lo a. a\<lparr>apu_regs := (apu_regs a)[lo := low,
                  hi := (apu_regs a ! hi AND NOT 0x07) OR high]\<rparr>);
          a = (if channel = 1 then put 4 3 a
               else if channel = 2 then put 9 8 a
               else if channel = 3 then put 14 13 a
               else a)
      in upd_ch (channel - 1) (\<lambda>st. st\<lparr>ch_shadow_frequency := frequency\<rparr>) a)"

definition period_for_channel :: "apu \<Rightarrow> nat \<Rightarrow> nat" where
  "period_for_channel a channel =
     (if channel = 1 \<or> channel = 2 then
        let freq = min (current_frequency a channel) 2047 in max (2048 - freq) 1 * 4
      else if channel = 3 then
        let freq = min (current_frequency a 3) 2047 in max (2048 - freq) 1 * 2
      else
        let nr43 = apu_regs a ! 0x12;
            shift = unat (drop_bit 4 nr43);
            divisor = NOISE_DIVISORS ! unat (nr43 AND 0x07)
        in max (divisor * 2 ^ shift mod 65536) 8)"

definition length_enabled :: "apu \<Rightarrow> nat \<Rightarrow> bool" where
  "length_enabled a channel \<longleftrightarrow>
     apu_regs a ! (if channel = 1 then 4 else if channel = 2 then 9 else if channel = 3 then 14
                   else 0x13) AND 0x40 \<noteq> 0"

definition decode_length_square :: "u8 \<Rightarrow> nat" where
  "decode_length_square v = (let raw = 64 - unat (v AND 0x3F) in if raw = 0 then 64 else raw)"

definition decode_length_wave :: "u8 \<Rightarrow> nat" where
  "decode_length_wave v = (let raw = 256 - unat v in if raw = 0 then 256 else raw)"

definition max_length :: "nat \<Rightarrow> nat" where
  "max_length channel = (if channel = 3 then 256 else 64)"

definition trigger_channel_of :: "u16 \<Rightarrow> nat option" where
  "trigger_channel_of addr =
     (if addr = 0xFF14 then Some 1 else if addr = 0xFF19 then Some 2
      else if addr = 0xFF1E then Some 3 else if addr = 0xFF23 then Some 4 else None)"

section \<open>Channel outputs and the mixer\<close>

definition square_digital_output :: "u8 \<Rightarrow> channel_state \<Rightarrow> u8" where
  "square_digital_output duty_reg st =
     (if ch_force_zero st then 0
      else
        let duty = unat (drop_bit 6 duty_reg);
            b = DUTY_PATTERNS ! duty ! ch_duty_position st
        in if b \<noteq> 0 then ch_envelope_volume st else 0)"

definition wave_channel_sample :: "channel_state \<Rightarrow> u8" where
  "wave_channel_sample st =
     (if ch_wave_position st AND 1 = 0 then drop_bit 4 (ch_wave_sample_buffer st)
      else ch_wave_sample_buffer st AND 0x0F)"

text \<open>The single-bit mask of channel index \<open>idx\<close> in the enable mask.\<close>

definition ch_bit :: "nat \<Rightarrow> u8" where
  "ch_bit idx = push_bit idx 1"

definition channel_digital_output :: "apu \<Rightarrow> nat \<Rightarrow> u8" where
  "channel_digital_output a channel =
     (let idx = channel - 1; st = apu_channels a ! idx in
      if \<not> ch_enabled st \<or> \<not> ch_dac_enabled st \<or> apu_channel_enable a AND ch_bit idx = 0 then 0
      else if channel = 1 then square_digital_output (apu_regs a ! 1) st
      else if channel = 2 then square_digital_output (apu_regs a ! 6) st
      else if channel = 3 then
        let level = drop_bit 5 (apu_regs a ! 0x0C) AND 0x03 in
        if level = 0 then 0
        else if level = 1 then wave_channel_sample st
        else if level = 2 then drop_bit 1 (wave_channel_sample st)
        else drop_bit 2 (wave_channel_sample st)
      else if ch_lfsr st AND 0x01 = 0 then ch_envelope_volume st else 0)"

definition channel_analog_output :: "apu \<Rightarrow> nat \<Rightarrow> int" where
  "channel_analog_output a channel =
     (let idx = channel - 1; st = apu_channels a ! idx in
      if \<not> ch_dac_enabled st then 0
      else
        let digital = (if ch_enabled st \<and> apu_channel_enable a AND ch_bit idx \<noteq> 0
                       then int (unat (channel_digital_output a channel)) else 0)
        in 15 - digital * 2)"

definition mix_output :: "apu \<Rightarrow> int \<times> int \<times> u8" where
  "mix_output a =
     (if \<not> apu_master_enabled a then (0, 0, 0)
      else
        let nr50 = apu_regs a ! 0x14;
            nr51 = apu_regs a ! 0x15;
            left_vol = int (unat ((drop_bit 4 nr50 AND 0x07) + 1));
            right_vol = int (unat ((nr50 AND 0x07) + 1));
            (left, right, active_mask) =
              fold (\<lambda>channel (left, right, active_mask).
                 let sample = channel_analog_output a channel;
                     idx = channel - 1;
                     active_mask =
                       (if ch_enabled (apu_channels a ! idx) \<and> apu_channel_enable a AND ch_bit idx \<noteq> 0
                        then active_mask OR ch_bit idx else active_mask);
                     right = (if nr51 AND ch_bit idx \<noteq> 0 then right + sample * right_vol else right);
                     left = (if nr51 AND ch_bit (channel + 3) \<noteq> 0 then left + sample * left_vol else left)
                 in (left, right, active_mask))
              [1, 2, 3, 4] (0, 0, 0)
        in (left, right, active_mask AND apu_channel_enable a))"

definition emit_mixed_output_if_changed :: "apu \<times> apu_event list \<Rightarrow> apu \<times> apu_event list" where
  "emit_mixed_output_if_changed = (\<lambda>(a, tr).
     let (left, right, active_mask) = mix_output a in
     if left \<noteq> apu_last_mixed_left a \<or> right \<noteq> apu_last_mixed_right a
        \<or> active_mask \<noteq> apu_last_mixed_mask a
     then (a\<lparr>apu_last_mixed_left := left, apu_last_mixed_right := right,
             apu_last_mixed_mask := active_mask\<rparr>, tr @ [MixedOutput left right active_mask])
     else (a, tr))"

definition any_channel_dac_enabled :: "apu \<Rightarrow> bool" where
  "any_channel_dac_enabled a \<longleftrightarrow> (\<exists>st \<in> set (apu_channels a). ch_dac_enabled st)"

definition pcm12 :: "apu \<Rightarrow> u8" where
  "pcm12 a = channel_digital_output a 1 OR push_bit 4 (channel_digital_output a 2)"

definition pcm34 :: "apu \<Rightarrow> u8" where
  "pcm34 a = channel_digital_output a 3 OR push_bit 4 (channel_digital_output a 4)"

end
