(* ===== verification/Apu_Registers.thy ===== *)
theory Apu_Registers
  imports Apu_State
begin

text \<open>
  Register reads and writes of \<^verbatim>\<open>apu.rs\<close>: the side effects of each register, the channel
  trigger, wave RAM access and the master switch.
\<close>

definition is_ch3_active :: "apu \<Rightarrow> bool" where
  "is_ch3_active a \<longleftrightarrow>
     ch_enabled (apu_channels a ! 2) \<and> ch_dac_enabled (apu_channels a ! 2) \<and>
     apu_channel_enable a AND 0x04 \<noteq> 0"

definition current_wave_ram_byte_index :: "apu \<Rightarrow> nat" where
  "current_wave_ram_byte_index a = min (ch_wave_position (apu_channels a ! 2) div 2) 15"

definition wave_ram_visible_index :: "apu \<Rightarrow> nat \<Rightarrow> nat" where
  "wave_ram_visible_index a requested =
     (if apu_cgb_mode a \<and> is_ch3_active a then current_wave_ram_byte_index a else min requested 15)"

definition apu_read :: "apu \<Rightarrow> u16 \<Rightarrow> u8" where
  "apu_read a addr =
     (if in_range 0xFF10 0xFF25 addr then
        let index = unat (addr - 0xFF10) in apu_regs a ! index OR REGISTER_READ_MASKS ! index
      else if addr = 0xFF26 then
        0x70 OR push_bit 7 (of_bool (apu_master_enabled a)) OR (apu_channel_enable a AND 0x0F)
      else if in_range 0xFF30 0xFF3F addr then
        let requested = unat (addr - 0xFF30) in
        if \<not> apu_cgb_mode a \<and> is_ch3_active a then 0xFF
        else apu_wave_ram a ! wave_ram_visible_index a requested
      else if addr = 0xFF76 then pcm12 a
      else if addr = 0xFF77 then pcm34 a
      else 0xFF)"

text \<open>Turning a channel off: its state and its bit of the enable mask.\<close>

definition disable_channel :: "nat \<Rightarrow> apu \<Rightarrow> apu" where
  "disable_channel idx a =
     (upd_ch idx (\<lambda>st. st\<lparr>ch_enabled := False\<rparr>) a)
       \<lparr>apu_channel_enable := apu_channel_enable a AND NOT (ch_bit idx)\<rparr>"

definition update_dac_state ::
  "nat \<Rightarrow> bool \<Rightarrow> u16 \<Rightarrow> apu \<times> apu_event list \<Rightarrow> apu \<times> apu_event list" where
  "update_dac_state channel dac_enabled reg = (\<lambda>(a, tr).
     let idx = channel - 1;
         old_dac = ch_dac_enabled (apu_channels a ! idx);
         was_active = (ch_enabled (apu_channels a ! idx) \<and> apu_channel_enable a AND ch_bit idx \<noteq> 0);
         a = upd_ch idx (\<lambda>st. st\<lparr>ch_dac_enabled := dac_enabled\<rparr>) a;
         tr = (if old_dac \<noteq> dac_enabled
               then tr @ [DacStateChange (of_nat channel) dac_enabled reg was_active]
                    @ (if apu_master_enabled a then [PopRisk 1 reg] else [])
               else tr)
     in if \<not> dac_enabled
        then (disable_channel idx a, tr @ [ChannelDisabled (of_nat channel) 1 reg])
        else (a, tr))"

definition reload_counter :: "u8 \<Rightarrow> u8" where
  "reload_counter period = (if period = 0 then 8 else period)"

definition update_envelope_from_reg ::
  "nat \<Rightarrow> u8 \<Rightarrow> apu \<times> apu_event list \<Rightarrow> apu \<times> apu_event list" where
  "update_envelope_from_reg channel v = (\<lambda>(a, tr).
     let idx = channel - 1;
         a = upd_ch idx (\<lambda>st.
           let volume = (if ch_enabled st \<and> ch_envelope_period st = 0 \<and> ch_envelope_increase st
                            \<and> v AND 0x0F = 0x08
                         then (ch_envelope_volume st + 1) AND 0x0F
                         else drop_bit 4 v AND 0x0F);
               st = st\<lparr>ch_envelope_volume := volume, ch_envelope_increase := (v AND 0x08 \<noteq> 0),
                       ch_envelope_period := v AND 0x07\<rparr>
           in st\<lparr>ch_envelope_counter := reload_counter (ch_envelope_period st)\<rparr>) a;
         dac_enabled = (v AND 0xF8 \<noteq> 0)
     in update_dac_state channel dac_enabled
          (if channel = 1 then 0xFF12 else if channel = 2 then 0xFF17
           else if channel = 4 then 0xFF21 else 0x0000) (a, tr))"

definition sync_frequency_from_regs :: "nat \<Rightarrow> apu \<Rightarrow> apu" where
  "sync_frequency_from_regs channel a =
     (let idx = channel - 1 in
      if ch_freq_timer (apu_channels a ! idx) = 0
      then upd_ch idx (\<lambda>st. st\<lparr>ch_freq_timer := max (period_for_channel a channel) 1\<rparr>) a
      else a)"

definition write_sweep_register :: "u8 \<Rightarrow> apu \<times> apu_event list \<Rightarrow> apu \<times> apu_event list" where
  "write_sweep_register v = (\<lambda>(a, tr).
     let old_negate = ch_sweep_negate (apu_channels a ! 0);
         used_negate = ch_sweep_negate_used (apu_channels a ! 0);
         was_enabled = ch_enabled (apu_channels a ! 0);
         a = upd_ch 0 (\<lambda>st. st\<lparr>ch_sweep_period := drop_bit 4 v AND 0x07,
                              ch_sweep_negate := (v AND 0x08 \<noteq> 0),
                              ch_sweep_shift := v AND 0x07\<rparr>) a
     in if old_negate \<and> v AND 0x08 = 0 \<and> used_negate \<and> was_enabled
        then (disable_channel 0 a, tr @ [ChannelDisabled 1 4 0xFF10])
        else (a, tr))"

definition set_length :: "nat \<Rightarrow> nat \<Rightarrow> apu \<Rightarrow> apu" where
  "set_length idx n = upd_ch idx (\<lambda>st. st\<lparr>ch_length_counter := n\<rparr>)"

definition apply_register_side_effects ::
  "u16 \<Rightarrow> u8 \<Rightarrow> apu \<times> apu_event list \<Rightarrow> apu \<times> apu_event list" where
  "apply_register_side_effects addr v = (\<lambda>(a, tr).
     if addr = 0xFF10 then write_sweep_register v (a, tr)
     else if addr = 0xFF11 then (set_length 0 (decode_length_square v) a, tr)
     else if addr = 0xFF12 then update_envelope_from_reg 1 v (a, tr)
     else if addr = 0xFF13 \<or> addr = 0xFF14 then (sync_frequency_from_regs 1 a, tr)
     else if addr = 0xFF16 then (set_length 1 (decode_length_square v) a, tr)
     else if addr = 0xFF17 then update_envelope_from_reg 2 v (a, tr)
     else if addr = 0xFF18 \<or> addr = 0xFF19 then (sync_frequency_from_regs 2 a, tr)
     else if addr = 0xFF1A then update_dac_state 3 (v AND 0x80 \<noteq> 0) 0xFF1A (a, tr)
     else if addr = 0xFF1B then (set_length 2 (decode_length_wave v) a, tr)
     else if addr = 0xFF1D \<or> addr = 0xFF1E then (sync_frequency_from_regs 3 a, tr)
     else if addr = 0xFF20 then (set_length 3 (decode_length_square v) a, tr)
     else if addr = 0xFF21 then update_envelope_from_reg 4 v (a, tr)
     else if addr = 0xFF22 then (sync_frequency_from_regs 4 a, tr)
     else (a, tr))"

section \<open>Triggers\<close>

definition trigger_state :: "apu \<Rightarrow> nat \<Rightarrow> channel_state \<Rightarrow> channel_state" where
  "trigger_state a channel st =
     (let freq = current_frequency a channel;
          period = max (period_for_channel a channel) 1;
          env_reg = (if channel = 1 then apu_regs a ! 2 else if channel = 2 then apu_regs a ! 7
                     else if channel = 4 then apu_regs a ! 0x11 else 0);
          st = st\<lparr>ch_enabled := True,
                  ch_length_counter := (if ch_length_counter st = 0 then max_length channel
                                        else ch_length_counter st),
                  ch_shadow_frequency := freq, ch_freq_timer := period, ch_wave_position := 0,
                  ch_lfsr := 0x7FFF\<rparr>;
          st = (if channel = 1 then
                  let sweep_period = drop_bit 4 (apu_regs a ! 0) AND 0x07 in
                  st\<lparr>ch_sweep_period := sweep_period,
                     ch_sweep_negate := (apu_regs a ! 0 AND 0x08 \<noteq> 0),
                     ch_sweep_shift := apu_regs a ! 0 AND 0x07,
                     ch_sweep_counter := reload_counter sweep_period,
                     ch_sweep_negate_used := False\<rparr>
                else st)
      in if channel \<in> {1, 2, 4} then
           st\<lparr>ch_envelope_volume := drop_bit 4 env_reg AND 0x0F,
              ch_envelope_increase := (env_reg AND 0x08 \<noteq> 0),
              ch_envelope_period := env_reg AND 0x07,
              ch_envelope_counter := reload_counter (env_reg AND 0x07)\<rparr>
         else st)"

definition trigger_sweep_check :: "nat \<Rightarrow> apu \<times> apu_event list \<Rightarrow> apu \<times> apu_event list" where
  "trigger_sweep_check freq = (\<lambda>(a, tr).
     let sweep_negate = (apu_regs a ! 0 AND 0x08 \<noteq> 0);
         delta = freq div 2 ^ unat (apu_regs a ! 0 AND 0x07);
         (a, next_freq) =
           (if sweep_negate then (upd_ch 0 (\<lambda>st. st\<lparr>ch_sweep_negate_used := True\<rparr>) a, freq - delta)
            else (a, sat_add u16_max freq delta))
     in if next_freq > 2047
        then (disable_channel 0 a, tr @ [ChannelDisabled 1 3 0xFF10])
        else (a, tr))"

definition trigger_channel ::
  "nat \<Rightarrow> u16 \<Rightarrow> u8 \<Rightarrow> apu \<times> apu_event list \<Rightarrow> apu \<times> apu_event list" where
  "trigger_channel channel reg v = (\<lambda>(a, tr).
     let idx = channel - 1 in
     if \<not> ch_dac_enabled (apu_channels a ! idx)
     then (disable_channel idx a, tr @ [ChannelDisabled (of_nat channel) 1 reg])
     else
       let freq = current_frequency a channel;
           sweep_shift = apu_regs a ! 0 AND 0x07;
           buffered_sample_before = ch_wave_sample_buffer (apu_channels a ! idx);
           a = upd_ch idx (trigger_state a channel) a;
           a = a\<lparr>apu_channel_enable := apu_channel_enable a OR ch_bit idx\<rparr>;
           tr = tr @ [ChannelTrigger (of_nat channel) reg v];
           tr = (if channel = 3 then tr @ [Ch3TriggerRetainsSample buffered_sample_before 1] else tr);
           (a, tr) = (if channel = 1 \<and> sweep_shift \<noteq> 0 then trigger_sweep_check freq (a, tr) else (a, tr));
           nr43 = apu_regs a ! 0x12;
           shift = drop_bit 4 nr43
       in if channel = 4 \<and> shift \<ge> 14
          then (a, tr @ [NoiseClockFrozen shift (nr43 AND 0x07)])
          else (a, tr))"

section \<open>Writes\<close>

text \<open>While the master switch is off, only DMG length loads reach a channel.\<close>

definition write_while_off :: "u16 \<Rightarrow> u8 \<Rightarrow> apu \<Rightarrow> apu" where
  "write_while_off addr v a =
     (if \<not> apu_cgb_mode a then
        if addr = 0xFF11 then set_length 0 (64 - unat (v AND 0x3F)) a
        else if addr = 0xFF16 then set_length 1 (64 - unat (v AND 0x3F)) a
        else if addr = 0xFF1B then set_length 2 (256 - unat v) a
        else if addr = 0xFF20 then set_length 3 (64 - unat (v AND 0x3F)) a
        else a
      else a)"

definition mixer_control_event :: "apu \<Rightarrow> apu_event" where
  "mixer_control_event a = MixerControlWrite (apu_regs a ! 0x14) (apu_regs a ! 0x15) (apu_read a 0xFF26)"

definition apu_write_register :: "u16 \<Rightarrow> u8 \<Rightarrow> apu \<Rightarrow> apu \<times> apu_event list" where
  "apu_write_register addr v a =
     (if \<not> apu_master_enabled a then (write_while_off addr v a, [])
      else
        let reg_index = unat (addr - 0xFF10);
            old_value = apu_regs a ! reg_index;
            a = a\<lparr>apu_regs := (apu_regs a)[reg_index := v]\<rparr>;
            (a, tr) = apply_register_side_effects addr v (a, []);
            tr = (if addr = 0xFF24 \<or> addr = 0xFF25 then
                    tr @ (if apu_master_enabled a \<and> old_value \<noteq> v
                          then [PopRisk (if addr = 0xFF24 then 2 else 3) addr] else [])
                       @ [mixer_control_event a]
                  else tr)
        in case trigger_channel_of addr of
             Some channel \<Rightarrow> if v AND 0x80 \<noteq> 0 \<and> apu_master_enabled a
                             then trigger_channel channel addr v (a, tr) else (a, tr)
           | None \<Rightarrow> (a, tr))"

definition apu_write_master :: "float_ops \<Rightarrow> u8 \<Rightarrow> apu \<Rightarrow> apu \<times> apu_event list" where
  "apu_write_master fo v a =
     (let enabled = (v AND 0x80 \<noteq> 0) in
      if enabled \<noteq> apu_master_enabled a then
        let a = a\<lparr>apu_master_enabled := enabled\<rparr>;
            a = (if \<not> enabled then
                   clear_playback fo
                     (a\<lparr>apu_regs := replicate 0x17 0, apu_channel_enable := 0,
                        apu_frame_seq_cycles := 0, apu_frame_seq_step := 0,
                        apu_channels := replicate 4 channel_default\<rparr>)
                 else a)
        in (a, [MasterToggle enabled (apu_read a 0xFF26), mixer_control_event a])
      else (a, []))"

definition apu_write_wave_ram :: "u16 \<Rightarrow> u8 \<Rightarrow> apu \<Rightarrow> apu \<times> apu_event list" where
  "apu_write_wave_ram addr v a =
     (let requested_index = unat (addr - 0xFF30) in
      if \<not> apu_cgb_mode a \<and> is_ch3_active a
      then (a, [WaveRamAccessAliased (of_nat requested_index) 0xFF True])
      else
        let actual_index = wave_ram_visible_index a requested_index;
            a = a\<lparr>apu_wave_ram := (apu_wave_ram a)[actual_index := v]\<rparr>
        in (a, [WaveRamWrite (of_nat actual_index) v] @
               (if requested_index \<noteq> actual_index
                then [WaveRamAccessAliased (of_nat requested_index) (of_nat actual_index) True] else [])))"

definition apu_write :: "float_ops \<Rightarrow> u16 \<Rightarrow> u8 \<Rightarrow> apu \<Rightarrow> apu \<times> apu_event list" where
  "apu_write fo addr v a =
     (if in_range 0xFF10 0xFF25 addr then apu_write_register addr v a
      else if addr = 0xFF26 then apu_write_master fo v a
      else if in_range 0xFF30 0xFF3F addr then apu_write_wave_ram addr v a
      else (a, []))"

definition set_cgb_mode :: "bool \<Rightarrow> apu \<Rightarrow> apu" where
  "set_cgb_mode cgb_mode a = a\<lparr>apu_cgb_mode := cgb_mode\<rparr>"

end
