(* ===== verification/Apu_Clock.thy ===== *)
theory Apu_Clock
  imports Apu_Registers
begin

text \<open>
  The clocked half of \<^verbatim>\<open>apu.rs\<close>: the phase advance of the four channels, the length, sweep and
  envelope units, the sample queue, and the two tick functions that drive them in chunks of
  at most sixteen cycles.
\<close>

section \<open>Channel phases\<close>

text \<open>
  The deadline loop shared by the three kinds of channel: while cycles remain, run the timer
  down or consume it whole, reload the period and perform the channel's own step.
\<close>

function phase_loop :: "nat \<Rightarrow> (channel_state \<Rightarrow> channel_state) \<Rightarrow> nat \<Rightarrow> channel_state \<Rightarrow> channel_state"
where
  "phase_loop period f remaining st =
     (if remaining > 0 then
        let st = (if ch_freq_timer st = 0 then st\<lparr>ch_freq_timer := period\<rparr> else st);
            deadline = max (ch_freq_timer st) 1 in
        if remaining < deadline then st\<lparr>ch_freq_timer := ch_freq_timer st - remaining\<rparr>
        else phase_loop period f (remaining - deadline) (f (st\<lparr>ch_freq_timer := period\<rparr>))
      else st)"
  by pat_completeness auto
termination
  by (relation "measure (\<lambda>(_, _, remaining, _). remaining)") auto

declare phase_loop.simps [simp del]

definition square_step :: "channel_state \<Rightarrow> channel_state" where
  "square_step st = st\<lparr>ch_duty_position := (ch_duty_position st + 1) AND 0x07, ch_force_zero := False\<rparr>"

definition advance_square :: "nat \<Rightarrow> nat \<Rightarrow> apu \<Rightarrow> apu" where
  "advance_square channel cycles a =
     (let idx = channel - 1 in
      if \<not> ch_enabled (apu_channels a ! idx) then a
      else
        let period = max (period_for_channel a channel) 1
        in upd_ch idx (phase_loop period square_step cycles) a)"

definition wave_step :: "u8 list \<Rightarrow> channel_state \<Rightarrow> channel_state" where
  "wave_step wave_ram st =
     (let st = st\<lparr>ch_wave_position := (ch_wave_position st + 1) AND 0x1F\<rparr>;
          sample_index = ch_wave_position st
      in st\<lparr>ch_wave_sample_buffer := wave_ram ! (sample_index div 2)\<rparr>)"

definition advance_wave :: "nat \<Rightarrow> apu \<Rightarrow> apu" where
  "advance_wave cycles a =
     (if \<not> ch_enabled (apu_channels a ! 2) then a
      else
        let period = max (period_for_channel a 3) 1
        in upd_ch 2 (phase_loop period (wave_step (apu_wave_ram a)) cycles) a)"

definition noise_step :: "u8 \<Rightarrow> channel_state \<Rightarrow> channel_state" where
  "noise_step nr43 st =
     (let lfsr = ch_lfsr st;
          xor_bit = (lfsr XOR drop_bit 1 lfsr) AND 0x01;
          lfsr = drop_bit 1 lfsr OR push_bit 14 xor_bit;
          lfsr = (if nr43 AND 0x08 \<noteq> 0 then (lfsr AND NOT (push_bit 6 1)) OR push_bit 6 xor_bit
                  else lfsr)
      in st\<lparr>ch_lfsr := lfsr\<rparr>)"

definition advance_noise :: "nat \<Rightarrow> apu \<Rightarrow> apu" where
  "advance_noise cycles a =
     (if \<not> ch_enabled (apu_channels a ! 3) then a
      else
        let nr43 = apu_regs a ! 0x12 in
        if drop_bit 4 nr43 \<ge> 14 then a
        else
          let period = max (period_for_channel a 4) 1
          in upd_ch 3 (phase_loop period (noise_step nr43) cycles) a)"

definition advance_channels :: "nat \<Rightarrow> apu \<Rightarrow> apu" where
  "advance_channels cycles a =
     (let a = advance_square 1 cycles a;
          a = advance_square 2 cycles a;
          a = advance_wave cycles a
      in advance_noise cycles a)"

section \<open>Length, envelope and sweep\<close>

definition clock_length_channel :: "nat \<Rightarrow> apu \<times> apu_event list \<Rightarrow> apu \<times> apu_event list" where
  "clock_length_channel channel = (\<lambda>(a, tr).
     let idx = channel - 1 in
     if \<not> ch_enabled (apu_channels a ! idx) \<or> \<not> length_enabled a channel then (a, tr)
     else if ch_length_counter (apu_channels a ! idx) > 0 then
       let a = upd_ch idx (\<lambda>st. st\<lparr>ch_length_counter := ch_length_counter st - 1\<rparr>) a in
       if ch_length_counter (apu_channels a ! idx) = 0
       then (disable_channel idx a, tr @ [ChannelLengthExpired (of_nat channel)])
       else (a, tr)
     else (a, tr))"

definition clock_length :: "apu \<times> apu_event list \<Rightarrow> apu \<times> apu_event list" where
  "clock_length s = fold clock_length_channel [1, 2, 3, 4] s"

definition clock_envelope_channel :: "nat \<Rightarrow> apu \<times> apu_event list \<Rightarrow> apu \<times> apu_event list" where
  "clock_envelope_channel channel = (\<lambda>(a, tr).
     let idx = channel - 1; st = apu_channels a ! idx in
     if \<not> ch_enabled st \<or> \<not> ch_dac_enabled st \<or> ch_envelope_period st = 0 then (a, tr)
     else
       let st = (if ch_envelope_counter st > 0
                 then st\<lparr>ch_envelope_counter := ch_envelope_counter st - 1\<rparr> else st) in
       if ch_envelope_counter st = 0 then
         let st = st\<lparr>ch_envelope_counter := reload_counter (ch_envelope_period st)\<rparr>;
             old = ch_envelope_volume st;
             st = (if ch_envelope_increase st
                   then st\<lparr>ch_envelope_volume := of_nat (min (sat_add u8_max (unat old) 1) 15)\<rparr>
                   else st\<lparr>ch_envelope_volume := of_nat (unat old - 1)\<rparr>)
         in (upd_ch idx (\<lambda>_. st) a,
             if ch_envelope_volume st \<noteq> old
             then tr @ [ChannelEnvelopeStep (of_nat channel) (ch_envelope_volume st) (ch_envelope_increase st)]
             else tr)
       else (upd_ch idx (\<lambda>_. st) a, tr))"

definition clock_envelopes :: "apu \<times> apu_event list \<Rightarrow> apu \<times> apu_event list" where
  "clock_envelopes s = fold clock_envelope_channel [1, 2, 4] s"

definition clock_sweep :: "apu \<times> apu_event list \<Rightarrow> apu \<times> apu_event list" where
  "clock_sweep = (\<lambda>(a, tr).
     let st = apu_channels a ! 0 in
     if \<not> ch_enabled st \<or> \<not> ch_dac_enabled st then (a, tr)
     else if ch_sweep_period st = 0 \<and> ch_sweep_shift st = 0 then (a, tr)
     else
       let a = (if ch_sweep_counter st > 0
                then upd_ch 0 (\<lambda>st. st\<lparr>ch_sweep_counter := ch_sweep_counter st - 1\<rparr>) a else a) in
       if ch_sweep_counter (apu_channels a ! 0) > 0 then (a, tr)
       else
         let a = upd_ch 0 (\<lambda>st. st\<lparr>ch_sweep_counter := reload_counter (ch_sweep_period st)\<rparr>) a in
         if ch_sweep_period (apu_channels a ! 0) = 0 then (a, tr)
         else
           let old = ch_shadow_frequency (apu_channels a ! 0);
               shift = ch_sweep_shift (apu_channels a ! 0);
               negate = ch_sweep_negate (apu_channels a ! 0);
               delta = old div 2 ^ unat shift;
               (a, next_freq) =
                 (if negate then (upd_ch 0 (\<lambda>st. st\<lparr>ch_sweep_negate_used := True\<rparr>) a, old - delta)
                  else (a, sat_add u16_max old delta)) in
           if next_freq > 2047
           then (disable_channel 0 a, tr @ [ChannelDisabled 1 3 0xFF10])
           else if shift = 0 then (a, tr)
           else
             let delta2 = next_freq div 2 ^ unat shift;
                 second = (if negate then next_freq - delta2 else sat_add u16_max next_freq delta2);
                 a = set_current_frequency 1 next_freq a;
                 (a, tr) = (if second > 2047
                            then (disable_channel 0 a, tr @ [ChannelDisabled 1 3 0xFF10])
                            else (a, tr));
                 a = upd_ch 0 (\<lambda>st. st\<lparr>ch_shadow_frequency := next_freq\<rparr>) a
             in (a, tr @ [ChannelSweepStep (of_nat old) (of_nat next_freq) negate shift]))"

section \<open>Samples\<close>

definition hpf_charge_factor :: "float_ops \<Rightarrow> apu \<Rightarrow> f64" where
  "hpf_charge_factor fo a =
     sample_charge_factor fo (if apu_cgb_mode a then f_lit fo 998943 6 else f_lit fo 999958 6)"

definition output_lpf_alpha :: "float_ops \<Rightarrow> apu \<Rightarrow> f64" where
  "output_lpf_alpha fo a = (if apu_cgb_mode a then f_lit fo 78 2 else f_lit fo 68 2)"

definition apply_output_low_pass :: "float_ops \<Rightarrow> f64 \<Rightarrow> f64 \<Rightarrow> apu \<Rightarrow> apu \<times> f64 \<times> f64" where
  "apply_output_low_pass fo left right a =
     (let alpha = output_lpf_alpha fo a;
          a = a\<lparr>apu_pcm_lpf_left := f_add fo (apu_pcm_lpf_left a)
                 (f_mul fo (f_sub fo left (apu_pcm_lpf_left a)) alpha)\<rparr>;
          a = a\<lparr>apu_pcm_lpf_right := f_add fo (apu_pcm_lpf_right a)
                 (f_mul fo (f_sub fo right (apu_pcm_lpf_right a)) alpha)\<rparr>
      in (a, apu_pcm_lpf_left a, apu_pcm_lpf_right a))"

definition clamp_pcm_i16 :: "float_ops \<Rightarrow> f64 \<Rightarrow> int" where
  "clamp_pcm_i16 fo sample = f_round_clamp fo (-32768) 32767 sample"

text \<open>One stereo sample through the filters.\<close>

definition filter_frame :: "float_ops \<Rightarrow> int \<Rightarrow> int \<Rightarrow> apu \<Rightarrow> apu \<times> int \<times> int" where
  "filter_frame fo averaged_left averaged_right a =
     (let raw_left = f_of_int fo (averaged_left * 64);
          raw_right = f_of_int fo (averaged_right * 64) in
      if any_channel_dac_enabled a then
        let charge = hpf_charge_factor fo a;
            out_left = f_sub fo raw_left (apu_pcm_hpf_left a);
            out_right = f_sub fo raw_right (apu_pcm_hpf_right a);
            a = a\<lparr>apu_pcm_hpf_left := f_sub fo raw_left (f_mul fo out_left charge)\<rparr>;
            a = a\<lparr>apu_pcm_hpf_right := f_sub fo raw_right (f_mul fo out_right charge)\<rparr>;
            (a, out_left, out_right) = apply_output_low_pass fo out_left out_right a
        in (a, clamp_pcm_i16 fo out_left, clamp_pcm_i16 fo out_right)
      else (a\<lparr>apu_pcm_lpf_left := f_lit fo 0 0, apu_pcm_lpf_right := f_lit fo 0 0\<rparr>, 0, 0))"

definition buffered_frames :: "apu \<Rightarrow> nat" where
  "buffered_frames a = length (apu_pcm_buffer a) div 2"

text \<open>
  Eviction of the oldest frames down to below the capacity. A capacity of zero would never end
  in the code; \<open>set_buffer_capacity_frames\<close> refuses it, and the loop here stops at an empty queue.
\<close>

function evict_frames :: "apu \<Rightarrow> nat \<Rightarrow> apu \<times> nat" where
  "evict_frames a dropped =
     (if buffered_frames a \<ge> apu_pcm_capacity a \<and> apu_pcm_buffer a \<noteq> [] then
        evict_frames (a\<lparr>apu_pcm_buffer := drop 2 (apu_pcm_buffer a),
                        apu_pcm_dropped := sat_add usize_max (apu_pcm_dropped a) 1\<rparr>)
          (sat_add u16_max dropped 1)
      else (a, dropped))"
  by pat_completeness auto
termination
  by (relation "measure (\<lambda>(a, _). length (apu_pcm_buffer a))") auto

declare evict_frames.simps [simp del]

definition enqueue_pcm_frame :: "float_ops \<Rightarrow> apu \<Rightarrow> nat \<Rightarrow> apu \<times> nat" where
  "enqueue_pcm_frame fo a dropped =
     (let accum_cycles = int (max (apu_pcm_accum_cycles a) 1);
          averaged_left = apu_pcm_accum_left a sdiv accum_cycles;
          averaged_right = apu_pcm_accum_right a sdiv accum_cycles;
          a = a\<lparr>apu_pcm_accum_left := 0, apu_pcm_accum_right := 0, apu_pcm_accum_cycles := 0\<rparr>;
          (a, filtered_left, filtered_right) = filter_frame fo averaged_left averaged_right a;
          (a, dropped) = evict_frames a dropped;
          a = a\<lparr>apu_pcm_buffer := apu_pcm_buffer a @ [filtered_left, filtered_right]\<rparr>
      in (a\<lparr>apu_pcm_generated := sat_add usize_max (apu_pcm_generated a) 1\<rparr>, dropped))"

section \<open>Timed chunks\<close>

definition sub16 :: "nat \<Rightarrow> nat \<Rightarrow> nat" where
  "sub16 x y = (if y \<le> x then x - y else x + 65536 - y)"

definition next_timed_chunk :: "apu \<Rightarrow> nat \<Rightarrow> nat" where
  "next_timed_chunk a remaining =
     (let chunk = min remaining u16_max;
          chunk = min chunk (max (sub16 APU_PCM_SAMPLE_CYCLES (apu_pcm_sample_cycles a)) 1);
          chunk = min chunk (max (sub16 APU_FRAME_SEQUENCER_CYCLES (apu_frame_seq_cycles a)) 1);
          chunk = min chunk (max (sub16 APU_MIX_TRACE_CYCLES (apu_mix_trace_cycles a)) 1);
          chunk = min chunk APU_PCM_OVERSAMPLE_CYCLES
      in max chunk 1)"

lemma next_timed_chunk_pos: "1 \<le> next_timed_chunk a remaining"
  unfolding next_timed_chunk_def Let_def by (rule max.cobounded2)

lemma next_timed_chunk_less: "0 < remaining \<Longrightarrow> remaining - next_timed_chunk a remaining < remaining"
  using next_timed_chunk_pos [of a remaining] by linarith

definition clamp_i32 :: "int \<Rightarrow> int" where
  "clamp_i32 x = max (- (2 ^ 31)) (min (2 ^ 31 - 1) x)"

definition run_frame_sequencer :: "bool \<Rightarrow> apu \<times> apu_event list \<Rightarrow> apu \<times> apu_event list" where
  "run_frame_sequencer emit_trace = (\<lambda>(a, tr).
     if apu_frame_seq_cycles a \<ge> APU_FRAME_SEQUENCER_CYCLES then
       let a = a\<lparr>apu_frame_seq_cycles := apu_frame_seq_cycles a - APU_FRAME_SEQUENCER_CYCLES,
                 apu_frame_seq_step := (apu_frame_seq_step a + 1) AND 0x07\<rparr>;
           tr = (if emit_trace then tr @ [FrameSequencerStep (of_nat (apu_frame_seq_step a))] else tr);
           step = apu_frame_seq_step a;
           (a, tr) = (if step \<in> {0, 2, 4, 6} then clock_length (a, tr) else (a, tr));
           (a, tr) = (if step \<in> {2, 6} then clock_sweep (a, tr) else (a, tr))
       in if step = 7 then clock_envelopes (a, tr) else (a, tr)
     else (a, tr))"

text \<open>The integration of one chunk: phases, deadlines, weighted mix and the sample it completes.\<close>

definition integrate_chunk :: "float_ops \<Rightarrow> nat \<Rightarrow> apu \<times> nat \<times> nat \<Rightarrow> apu \<times> nat \<times> nat" where
  "integrate_chunk fo chunk = (\<lambda>(a, generated, dropped).
     let a = advance_channels chunk a;
         a = a\<lparr>apu_frame_seq_cycles := sat_add u16_max (apu_frame_seq_cycles a) chunk,
               apu_mix_trace_cycles := sat_add u16_max (apu_mix_trace_cycles a) chunk,
               apu_pcm_sample_cycles := sat_add u16_max (apu_pcm_sample_cycles a) chunk\<rparr>;
         (mixed_left, mixed_right, _) = mix_output a;
         a = a\<lparr>apu_pcm_accum_left := clamp_i32 (apu_pcm_accum_left a + mixed_left * int chunk),
               apu_pcm_accum_right := clamp_i32 (apu_pcm_accum_right a + mixed_right * int chunk),
               apu_pcm_accum_cycles := sat_add u16_max (apu_pcm_accum_cycles a) chunk\<rparr>
     in if apu_pcm_sample_cycles a \<ge> APU_PCM_SAMPLE_CYCLES then
          let a = a\<lparr>apu_pcm_sample_cycles := apu_pcm_sample_cycles a - APU_PCM_SAMPLE_CYCLES\<rparr>;
              (a, dropped) = enqueue_pcm_frame fo a dropped
          in (a, sat_add u16_max generated 1, dropped)
        else (a, generated, dropped))"

definition process_timed_chunk ::
  "float_ops \<Rightarrow> bool \<Rightarrow> nat \<Rightarrow> apu \<times> apu_event list \<times> nat \<times> nat \<Rightarrow> apu \<times> apu_event list \<times> nat \<times> nat" where
  "process_timed_chunk fo emit_trace chunk = (\<lambda>(a, tr, generated, dropped).
     let (a, generated, dropped) = integrate_chunk fo chunk (a, generated, dropped);
         (a, tr) = run_frame_sequencer emit_trace (a, tr);
         (a, tr) =
           (if apu_mix_trace_cycles a \<ge> APU_MIX_TRACE_CYCLES then
              let a = a\<lparr>apu_mix_trace_cycles := apu_mix_trace_cycles a mod APU_MIX_TRACE_CYCLES\<rparr>
              in if emit_trace then emit_mixed_output_if_changed (a, tr) else (a, tr)
            else (a, tr))
     in (a, tr, generated, dropped))"

function apu_tick_loop :: "float_ops \<Rightarrow> nat \<Rightarrow> apu \<times> apu_event list \<times> nat \<times> nat
    \<Rightarrow> apu \<times> apu_event list \<times> nat \<times> nat" where
  "apu_tick_loop fo remaining s =
     (if remaining > 0 then
        let chunk = next_timed_chunk (fst s) remaining
        in apu_tick_loop fo (remaining - chunk) (process_timed_chunk fo True chunk s)
      else s)"
  by pat_completeness auto
termination
  by (relation "measure (\<lambda>(_, remaining, _). remaining)") (simp_all only: wf_measure in_measure prod.case next_timed_chunk_less)

declare apu_tick_loop.simps [simp del]

definition apu_tick :: "float_ops \<Rightarrow> nat \<Rightarrow> apu \<Rightarrow> apu \<times> apu_event list" where
  "apu_tick fo cycles a =
     (if \<not> apu_master_enabled a then (a, [])
      else
        let (a, tr, generated, dropped) = apu_tick_loop fo cycles (a, [], 0, 0);
            tr = (if generated > 0 then tr @ [PcmFramesBuffered generated (buffered_frames a)] else tr);
            tr = (if dropped > 0 then tr @ [PcmBufferWrapped dropped (of_nat (apu_pcm_dropped a))] else tr)
        in emit_mixed_output_if_changed (a, tr))"

function apu_tick_loop_fast :: "float_ops \<Rightarrow> nat \<Rightarrow> apu \<times> nat \<times> nat \<Rightarrow> apu \<times> nat \<times> nat" where
  "apu_tick_loop_fast fo remaining s =
     (if remaining > 0 then
        let (a, generated, dropped) = s;
            chunk = next_timed_chunk a remaining;
            (a, _, generated, dropped) = process_timed_chunk fo False chunk (a, [], generated, dropped)
        in apu_tick_loop_fast fo (remaining - chunk) (a, generated, dropped)
      else s)"
  by pat_completeness auto
termination
  by (relation "measure (\<lambda>(_, remaining, _). remaining)") (simp_all only: wf_measure in_measure prod.case next_timed_chunk_less)

declare apu_tick_loop_fast.simps [simp del]

definition apu_tick_fast :: "float_ops \<Rightarrow> nat \<Rightarrow> apu \<Rightarrow> apu" where
  "apu_tick_fast fo cycles a =
     (if \<not> apu_master_enabled a then a
      else
        let (a, _, _) = apu_tick_loop_fast fo cycles (a, 0, 0)
        in fst (emit_mixed_output_if_changed (a, [])))"

section \<open>The sample queue seen from the host\<close>

definition set_buffer_capacity_frames :: "nat \<Rightarrow> apu \<Rightarrow> (string + unit) \<times> apu" where
  "set_buffer_capacity_frames capacity_frames a =
     (if capacity_frames = 0 then (Inl ''audio buffer capacity must be non-zero'', a)
      else
        let a = a\<lparr>apu_pcm_capacity := capacity_frames\<rparr>;
            target_samples = sat_mul usize_max capacity_frames 2;
            excess = length (apu_pcm_buffer a) - target_samples
        in (Inr (), a\<lparr>apu_pcm_buffer := drop excess (apu_pcm_buffer a)\<rparr>))"

definition drain_interleaved_i16 :: "nat \<Rightarrow> apu \<Rightarrow> int list \<times> apu" where
  "drain_interleaved_i16 max_frames a =
     (let frames = min max_frames (buffered_frames a)
      in (take (frames * 2) (apu_pcm_buffer a),
          a\<lparr>apu_pcm_buffer := drop (frames * 2) (apu_pcm_buffer a)\<rparr>))"

end
