(* ===== verification/Apu_Properties.thy ===== *)
theory Apu_Properties
  imports Apu_Laws
begin

text \<open>
  The properties of the audio unit: gates and ranges in every reachable state, the bound of the
  mixer, the agreement of the traced and the untraced tick, and the exact counting of its timers.
\<close>

section \<open>The traced and the untraced tick\<close>

text \<open>
  The untraced tick leaves the mixed output of intermediate chunks unrecorded. Everything else
  must not look at that record: each step commutes with overwriting it.
\<close>

definition put_mix :: "int \<times> int \<times> u8 \<Rightarrow> apu \<Rightarrow> apu" where
  "put_mix m a = a\<lparr>apu_last_mixed_left := fst m, apu_last_mixed_right := fst (snd m),
     apu_last_mixed_mask := snd (snd m)\<rparr>"

lemma put_mix_sel [simp]:
  "apu_regs (put_mix m a) = apu_regs a" "apu_wave_ram (put_mix m a) = apu_wave_ram a"
  "apu_master_enabled (put_mix m a) = apu_master_enabled a"
  "apu_channel_enable (put_mix m a) = apu_channel_enable a"
  "apu_frame_seq_cycles (put_mix m a) = apu_frame_seq_cycles a"
  "apu_frame_seq_step (put_mix m a) = apu_frame_seq_step a"
  "apu_channels (put_mix m a) = apu_channels a"
  "apu_mix_trace_cycles (put_mix m a) = apu_mix_trace_cycles a"
  "apu_pcm_sample_cycles (put_mix m a) = apu_pcm_sample_cycles a"
  "apu_pcm_buffer (put_mix m a) = apu_pcm_buffer a"
  "apu_pcm_capacity (put_mix m a) = apu_pcm_capacity a"
  "apu_pcm_generated (put_mix m a) = apu_pcm_generated a"
  "apu_pcm_dropped (put_mix m a) = apu_pcm_dropped a"
  "apu_pcm_hpf_left (put_mix m a) = apu_pcm_hpf_left a"
  "apu_pcm_hpf_right (put_mix m a) = apu_pcm_hpf_right a"
  "apu_pcm_lpf_left (put_mix m a) = apu_pcm_lpf_left a"
  "apu_pcm_lpf_right (put_mix m a) = apu_pcm_lpf_right a"
  "apu_pcm_accum_left (put_mix m a) = apu_pcm_accum_left a"
  "apu_pcm_accum_right (put_mix m a) = apu_pcm_accum_right a"
  "apu_pcm_accum_cycles (put_mix m a) = apu_pcm_accum_cycles a"
  "apu_cgb_mode (put_mix m a) = apu_cgb_mode a"
  by (simp_all add: put_mix_def)

lemma put_mix_upd [simp]:
  "(put_mix m a)\<lparr>apu_regs := r\<rparr> = put_mix m (a\<lparr>apu_regs := r\<rparr>)"
  "(put_mix m a)\<lparr>apu_channel_enable := e\<rparr> = put_mix m (a\<lparr>apu_channel_enable := e\<rparr>)"
  "(put_mix m a)\<lparr>apu_channels := c\<rparr> = put_mix m (a\<lparr>apu_channels := c\<rparr>)"
  "(put_mix m a)\<lparr>apu_frame_seq_cycles := n\<rparr> = put_mix m (a\<lparr>apu_frame_seq_cycles := n\<rparr>)"
  "(put_mix m a)\<lparr>apu_frame_seq_step := n\<rparr> = put_mix m (a\<lparr>apu_frame_seq_step := n\<rparr>)"
  "(put_mix m a)\<lparr>apu_mix_trace_cycles := n\<rparr> = put_mix m (a\<lparr>apu_mix_trace_cycles := n\<rparr>)"
  "(put_mix m a)\<lparr>apu_pcm_sample_cycles := n\<rparr> = put_mix m (a\<lparr>apu_pcm_sample_cycles := n\<rparr>)"
  "(put_mix m a)\<lparr>apu_pcm_buffer := b\<rparr> = put_mix m (a\<lparr>apu_pcm_buffer := b\<rparr>)"
  "(put_mix m a)\<lparr>apu_pcm_generated := n\<rparr> = put_mix m (a\<lparr>apu_pcm_generated := n\<rparr>)"
  "(put_mix m a)\<lparr>apu_pcm_dropped := n\<rparr> = put_mix m (a\<lparr>apu_pcm_dropped := n\<rparr>)"
  "(put_mix m a)\<lparr>apu_pcm_hpf_left := f\<rparr> = put_mix m (a\<lparr>apu_pcm_hpf_left := f\<rparr>)"
  "(put_mix m a)\<lparr>apu_pcm_hpf_right := f\<rparr> = put_mix m (a\<lparr>apu_pcm_hpf_right := f\<rparr>)"
  "(put_mix m a)\<lparr>apu_pcm_lpf_left := f\<rparr> = put_mix m (a\<lparr>apu_pcm_lpf_left := f\<rparr>)"
  "(put_mix m a)\<lparr>apu_pcm_lpf_right := f\<rparr> = put_mix m (a\<lparr>apu_pcm_lpf_right := f\<rparr>)"
  "(put_mix m a)\<lparr>apu_pcm_accum_left := i\<rparr> = put_mix m (a\<lparr>apu_pcm_accum_left := i\<rparr>)"
  "(put_mix m a)\<lparr>apu_pcm_accum_right := i\<rparr> = put_mix m (a\<lparr>apu_pcm_accum_right := i\<rparr>)"
  "(put_mix m a)\<lparr>apu_pcm_accum_cycles := n\<rparr> = put_mix m (a\<lparr>apu_pcm_accum_cycles := n\<rparr>)"
  by (rule apu.equality; simp add: put_mix_def)+

lemma put_mix_idem [simp]: "put_mix m (put_mix k a) = put_mix m a"
  by (rule apu.equality) (simp_all add: put_mix_def)

lemma put_mix_channels [simp]:
  "upd_ch i f (put_mix m a) = put_mix m (upd_ch i f a)"
  "disable_channel i (put_mix m a) = put_mix m (disable_channel i a)"
  by (simp_all add: upd_ch_def disable_channel_def)

lemma put_mix_queries [simp]:
  "current_frequency (put_mix m a) c = current_frequency a c"
  "period_for_channel (put_mix m a) c = period_for_channel a c"
  "length_enabled (put_mix m a) c = length_enabled a c"
  "channel_digital_output (put_mix m a) c = channel_digital_output a c"
  "channel_analog_output (put_mix m a) c = channel_analog_output a c"
  "mix_output (put_mix m a) = mix_output a"
  "any_channel_dac_enabled (put_mix m a) = any_channel_dac_enabled a"
  "buffered_frames (put_mix m a) = buffered_frames a"
  "next_timed_chunk (put_mix m a) n = next_timed_chunk a n"
  "hpf_charge_factor fo (put_mix m a) = hpf_charge_factor fo a"
  "output_lpf_alpha fo (put_mix m a) = output_lpf_alpha fo a"
proof -
  show f [simp]: "current_frequency (put_mix m a) c = current_frequency a c" for c
    by (simp only: current_frequency_def put_mix_sel)
  show "period_for_channel (put_mix m a) c = period_for_channel a c"
    by (simp only: period_for_channel_def put_mix_sel f)
  show d [simp]: "channel_digital_output (put_mix m a) c = channel_digital_output a c" for c
    by (simp only: channel_digital_output_def put_mix_sel)
  show g [simp]: "channel_analog_output (put_mix m a) c = channel_analog_output a c" for c
    by (simp only: channel_analog_output_def put_mix_sel d)
  show "mix_output (put_mix m a) = mix_output a"
    by (simp only: mix_output_def put_mix_sel g)
qed (simp_all only: put_mix_sel length_enabled_def any_channel_dac_enabled_def buffered_frames_def
    next_timed_chunk_def hpf_charge_factor_def output_lpf_alpha_def)

lemma put_mix_advance [simp]:
  "advance_channels n (put_mix m a) = put_mix m (advance_channels n a)"
proof -
  have "advance_square c n (put_mix m a) = put_mix m (advance_square c n a)" for c a
    by (simp add: advance_square_def Let_def)
  moreover have "advance_wave n (put_mix m a) = put_mix m (advance_wave n a)" for a
    by (simp add: advance_wave_def)
  moreover have "advance_noise n (put_mix m a) = put_mix m (advance_noise n a)" for a
    by (simp add: advance_noise_def Let_def)
  ultimately show ?thesis
    by (simp only: advance_channels_def Let_def)
qed

lemma put_mix_set_frequency [simp]:
  "set_current_frequency c f (put_mix m a) = put_mix m (set_current_frequency c f a)"
  by (simp add: set_current_frequency_def Let_def)

lemma put_mix_evict:
  "evict_frames (put_mix m a) d = apfst (put_mix m) (evict_frames a d)"
proof (induction a d rule: evict_frames.induct)
  case (1 a d)
  show ?case
    by (subst (1 2) evict_frames.simps) (use 1 in simp)
qed

lemma put_mix_filter:
  "filter_frame fo l r (put_mix m a) = apfst (put_mix m) (filter_frame fo l r a)"
  by (simp add: filter_frame_def apply_output_low_pass_def Let_def)

lemma put_mix_enqueue:
  "enqueue_pcm_frame fo (put_mix m a) d = apfst (put_mix m) (enqueue_pcm_frame fo a d)"
  by (simp add: enqueue_pcm_frame_def put_mix_filter put_mix_evict Let_def apfst_def map_prod_def
      case_prod_unfold)

lemma put_mix_integrate:
  "integrate_chunk fo n (put_mix m a, g, d) = apfst (put_mix m) (integrate_chunk fo n (a, g, d))"
  by (simp add: integrate_chunk_def put_mix_enqueue Let_def apfst_def map_prod_def case_prod_unfold)

text \<open>The sequencer: neither its trace flag nor the trace so far reaches the state.\<close>

lemma put_mix_fold:
  assumes "\<And>c a tr tr'. c \<in> set cs \<Longrightarrow> fst (f c (put_mix m a, tr)) = put_mix m (fst (f c (a, tr')))"
  shows "fst (fold f cs (put_mix m a, tr)) = put_mix m (fst (fold f cs (a, tr')))"
  using assms
proof (induction cs arbitrary: a tr tr')
  case (Cons c cs)
  have "f c (put_mix m a, tr) = (put_mix m (fst (f c (a, tr'))), snd (f c (put_mix m a, tr)))"
    using Cons.prems [of c a tr tr'] by (simp add: prod_eq_iff)
  then show ?case
    using Cons.IH [of "fst (f c (a, tr'))" "snd (f c (put_mix m a, tr))" "snd (f c (a, tr'))"]
      Cons.prems by simp
qed simp

lemma put_mix_length:
  "fst (clock_length (put_mix m a, tr)) = put_mix m (fst (clock_length (a, tr')))"
  unfolding clock_length_def
  by (rule put_mix_fold) (simp add: clock_length_channel_def Let_def)

lemma put_mix_envelopes:
  "fst (clock_envelopes (put_mix m a, tr)) = put_mix m (fst (clock_envelopes (a, tr')))"
  unfolding clock_envelopes_def
  by (rule put_mix_fold) (simp add: clock_envelope_channel_def Let_def)

lemma put_mix_sweep_apply:
  "fst (sweep_apply f (put_mix m a, tr)) = put_mix m (fst (sweep_apply f (a, tr')))"
  by (simp add: sweep_apply_def Let_def)

lemma put_mix_sweep:
  "fst (clock_sweep (put_mix m a, tr)) = put_mix m (fst (clock_sweep (a, tr')))"
proof -
  let ?down = "\<lambda>a. if ch_sweep_counter (apu_channels a ! 0) > 0
    then upd_ch 0 (\<lambda>st. st\<lparr>ch_sweep_counter := ch_sweep_counter st - 1\<rparr>) a else a"
  have "?down (put_mix m a) = put_mix m (?down a)"
    by simp
  then show ?thesis
    unfolding clock_sweep_split by (simp add: Let_def put_mix_sweep_apply [where tr' = tr'])
qed

lemma put_mix_sequencer:
  "fst (run_frame_sequencer e (put_mix m a, tr)) = put_mix m (fst (run_frame_sequencer e' (a, tr')))"
proof -
  have both: "fst (clock_sweep (clock_length (put_mix m a, tr))) =
      put_mix m (fst (clock_sweep (clock_length (a, tr'))))" for a tr tr'
    using put_mix_length [of m a tr tr']
    by (cases "clock_length (put_mix m a, tr)"; cases "clock_length (a, tr')")
      (simp add: put_mix_sweep)
  let ?a = "a\<lparr>apu_frame_seq_cycles := apu_frame_seq_cycles a - APU_FRAME_SEQUENCER_CYCLES,
    apu_frame_seq_step := (apu_frame_seq_step a + 1) AND 0x07\<rparr>"
  consider "apu_frame_seq_step ?a \<in> {2, 6}" | "apu_frame_seq_step ?a \<in> {0, 4}"
    | "apu_frame_seq_step ?a = 7" | "apu_frame_seq_step ?a \<notin> {0, 2, 4, 6, 7}"
    by blast
  then show ?thesis
    by cases (auto simp: run_frame_sequencer_def Let_def case_prod_unfold
        intro!: both put_mix_length put_mix_envelopes)
qed

lemma emit_mix: "fst (emit_mixed_output_if_changed (a, tr)) = put_mix (mix_output a) a"
  by (rule apu.equality)
    (auto simp: emit_mixed_output_if_changed_def put_mix_def case_prod_unfold Let_def)

lemma put_mix_process:
  "put_mix k (fst (process_timed_chunk fo True n (a, tr, g, d))) =
     fst (process_timed_chunk fo False n (put_mix k a, tr', g, d))"
  "snd (snd (process_timed_chunk fo True n (a, tr, g, d))) =
     snd (snd (process_timed_chunk fo False n (put_mix k a, tr', g, d)))"
proof -
  obtain b g' d' where i: "integrate_chunk fo n (a, g, d) = (b, g', d')"
    by (metis prod_cases3)
  have s: "fst (run_frame_sequencer False (put_mix k b, tr')) =
      put_mix k (fst (run_frame_sequencer True (b, tr)))"
    by (rule put_mix_sequencer)
  show "put_mix k (fst (process_timed_chunk fo True n (a, tr, g, d))) =
     fst (process_timed_chunk fo False n (put_mix k a, tr', g, d))"
    by (simp add: process_timed_chunk_def Let_def case_prod_unfold put_mix_integrate i s emit_mix)
  show "snd (snd (process_timed_chunk fo True n (a, tr, g, d))) =
     snd (snd (process_timed_chunk fo False n (put_mix k a, tr', g, d)))"
    by (simp add: process_timed_chunk_def Let_def case_prod_unfold put_mix_integrate i)
qed

lemma put_mix_tick_loop:
  "put_mix k (fst (apu_tick_loop fo n (a, tr, gd))) = fst (apu_tick_loop_fast fo n (put_mix k a, gd))"
proof (induction n arbitrary: a tr gd rule: less_induct)
  case (less n)
  let ?c = "next_timed_chunk a n"
  let ?p = "process_timed_chunk fo True ?c (a, tr, gd)"
  let ?q = "process_timed_chunk fo False ?c (put_mix k a, [], gd)"
  show ?case
  proof (cases "n = 0")
    case True
    then show ?thesis
      by (simp add: apu_tick_loop.simps apu_tick_loop_fast.simps)
  next
    case False
    then have c: "n - ?c < n"
      using next_timed_chunk_less by simp
    obtain g d where gd: "gd = (g, d)"
      by (cases gd)
    note pq = put_mix_process [where k = k and fo = fo and n = ?c and a = a and tr = tr and g = g and d = d and tr' = "[]", folded gd]
    have "fst (apu_tick_loop fo n (a, tr, gd)) =
        fst (apu_tick_loop fo (n - ?c) (fst ?p, fst (snd ?p), snd (snd ?p)))"
      using False by (subst apu_tick_loop.simps) (simp add: Let_def)
    moreover have "fst (apu_tick_loop_fast fo n (put_mix k a, gd)) =
        fst (apu_tick_loop_fast fo (n - ?c) (fst ?q, snd (snd ?q)))"
      using False by (subst apu_tick_loop_fast.simps) (simp add: Let_def case_prod_unfold gd)
    ultimately show ?thesis
      using less [OF c] by (simp add: pq)
  qed
qed

lemma apu_tick_agree: "apu_tick_fast fo n a = fst (apu_tick fo n a)"
proof (cases "apu_master_enabled a")
  case True
  obtain b tr g d where l: "apu_tick_loop fo n (a, [], 0, 0) = (b, tr, g, d)"
    by (metis prod_cases4)
  define old where "old = (apu_last_mixed_left a, apu_last_mixed_right a, apu_last_mixed_mask a)"
  have "put_mix old a = a"
    by (rule apu.equality) (simp_all add: put_mix_def old_def)
  then have f: "fst (apu_tick_loop_fast fo n (a, 0, 0)) = put_mix old b"
    using put_mix_tick_loop [of old fo n a "[]" "(0, 0)"] l by simp
  show ?thesis
    using True by (simp add: apu_tick_fast_def apu_tick_def l f Let_def emit_mix case_prod_unfold)
qed (simp add: apu_tick_fast_def apu_tick_def)

text \<open>
  C11. The untraced tick of the audio unit (\<^verbatim>\<open>tick_fast\<close>) leaves the unit in exactly the state the
  traced tick leaves it in, for every state and number of cycles.
\<close>

theorem apu_tick_fast_eq_tick: "apu_tick_fast fo n a = fst (apu_tick fo n a)"
  by (rule apu_tick_agree)

section \<open>Timers and the sample queue\<close>

text \<open>The deadline counters and the sample queue: the channel units leave them alone.\<close>

definition clockwork :: "apu \<Rightarrow> (nat \<times> nat \<times> nat \<times> nat) \<times> int list \<times> nat \<times> nat \<times> nat \<times> bool" where
  "clockwork a = ((apu_frame_seq_cycles a, apu_frame_seq_step a, apu_mix_trace_cycles a,
     apu_pcm_sample_cycles a), apu_pcm_buffer a, apu_pcm_capacity a, apu_pcm_generated a,
     apu_pcm_dropped a, apu_master_enabled a)"

definition queue_ok :: "apu \<Rightarrow> bool" where
  "queue_ok a \<longleftrightarrow>
     0 < apu_pcm_capacity a \<and> even (length (apu_pcm_buffer a)) \<and>
     buffered_frames a \<le> apu_pcm_capacity a \<and> apu_pcm_dropped a \<le> usize_max \<and>
     apu_pcm_generated a \<le> usize_max"

lemma clockwork_eqD:
  assumes "clockwork b = clockwork a"
  shows "timers_ok b = timers_ok a" "queue_ok b = queue_ok a" "buffered_frames b = buffered_frames a"
    "apu_frame_seq_cycles b = apu_frame_seq_cycles a" "apu_frame_seq_step b = apu_frame_seq_step a"
    "apu_mix_trace_cycles b = apu_mix_trace_cycles a" "apu_pcm_sample_cycles b = apu_pcm_sample_cycles a"
    "apu_pcm_buffer b = apu_pcm_buffer a" "apu_pcm_capacity b = apu_pcm_capacity a"
    "apu_pcm_generated b = apu_pcm_generated a" "apu_pcm_dropped b = apu_pcm_dropped a"
    "apu_master_enabled b = apu_master_enabled a"
  using assms by (simp_all add: clockwork_def timers_ok_def queue_ok_def buffered_frames_def)

lemma clockwork_upd [simp]:
  "clockwork (upd_ch i f a) = clockwork a" "clockwork (disable_channel i a) = clockwork a"
  "clockwork (a\<lparr>apu_regs := r\<rparr>) = clockwork a" "clockwork (a\<lparr>apu_channel_enable := e\<rparr>) = clockwork a"
  "clockwork (a\<lparr>apu_wave_ram := w\<rparr>) = clockwork a" "clockwork (put_mix m a) = clockwork a"
  "clockwork (a\<lparr>apu_cgb_mode := c\<rparr>) = clockwork a"
  "clockwork (a\<lparr>apu_pcm_hpf_left := h\<rparr>) = clockwork a" "clockwork (a\<lparr>apu_pcm_hpf_right := h\<rparr>) = clockwork a"
  "clockwork (a\<lparr>apu_pcm_lpf_left := h\<rparr>) = clockwork a" "clockwork (a\<lparr>apu_pcm_lpf_right := h\<rparr>) = clockwork a"
  "clockwork (a\<lparr>apu_pcm_accum_left := v\<rparr>) = clockwork a" "clockwork (a\<lparr>apu_pcm_accum_right := v\<rparr>) = clockwork a"
  "clockwork (a\<lparr>apu_pcm_accum_cycles := n\<rparr>) = clockwork a"
  by (simp_all add: clockwork_def upd_ch_def disable_channel_def)

lemma clockwork_fold:
  assumes "\<And>c s. c \<in> set cs \<Longrightarrow> clockwork (fst (f c s)) = clockwork (fst s)"
  shows "clockwork (fst (fold f cs s)) = clockwork (fst s)"
  using assms by (induction cs arbitrary: s) auto

lemma clockwork_advance [simp]: "clockwork (advance_channels n a) = clockwork a"
  by (simp add: advance_channels_def advance_square_def advance_wave_def advance_noise_def Let_def)

lemma clockwork_length [simp]: "clockwork (fst (clock_length s)) = clockwork (fst s)"
  unfolding clock_length_def
  by (rule clockwork_fold) (simp add: clock_length_channel_def Let_def split: prod.split)

lemma clockwork_envelopes [simp]: "clockwork (fst (clock_envelopes s)) = clockwork (fst s)"
  unfolding clock_envelopes_def
  by (rule clockwork_fold) (simp add: clock_envelope_channel_def Let_def split: prod.split)

lemma clockwork_set_frequency [simp]: "clockwork (set_current_frequency c f a) = clockwork a"
  by (simp add: set_current_frequency_def Let_def)

lemma clockwork_sweep_apply [simp]: "clockwork (fst (sweep_apply f s)) = clockwork (fst s)"
  by (cases s) (simp add: sweep_apply_def Let_def)

lemma clockwork_sweep [simp]: "clockwork (fst (clock_sweep s)) = clockwork (fst s)"
  by (cases s) (simp add: clock_sweep_split Let_def)

lemma clockwork_filter [simp]: "clockwork (fst (filter_frame fo l r a)) = clockwork a"
  by (simp add: filter_frame_def apply_output_low_pass_def Let_def)

text \<open>
  What \<open>n\<close> cycles do to the timers and the queue: each deadline counter is taken modulo its
  period, the sequencer and the sample count move by the periods completed, and every sample is
  either still queued or counted as dropped.
\<close>

definition advanced :: "nat \<Rightarrow> apu \<Rightarrow> apu \<Rightarrow> bool" where
  "advanced n a b \<longleftrightarrow>
     (let samples = (apu_pcm_sample_cycles a + n) div APU_PCM_SAMPLE_CYCLES in
      apu_pcm_sample_cycles b = (apu_pcm_sample_cycles a + n) mod APU_PCM_SAMPLE_CYCLES \<and>
      apu_mix_trace_cycles b = (apu_mix_trace_cycles a + n) mod APU_MIX_TRACE_CYCLES \<and>
      apu_frame_seq_cycles b = (apu_frame_seq_cycles a + n) mod APU_FRAME_SEQUENCER_CYCLES \<and>
      apu_frame_seq_step b =
        (apu_frame_seq_step a + (apu_frame_seq_cycles a + n) div APU_FRAME_SEQUENCER_CYCLES) mod 8 \<and>
      apu_pcm_generated b = min usize_max (apu_pcm_generated a + samples) \<and>
      apu_pcm_capacity b = apu_pcm_capacity a \<and> apu_master_enabled b = apu_master_enabled a \<and>
      queue_ok b \<and> apu_pcm_dropped b \<le> apu_pcm_dropped a + samples \<and>
      (apu_pcm_dropped a + samples \<le> usize_max \<longrightarrow>
         buffered_frames b + apu_pcm_dropped b = buffered_frames a + apu_pcm_dropped a + samples))"

lemma chunk_div_mod:
  "((p + c) mod m + k) mod m = (p + (c + k)) mod (m :: nat)"
  "(p + (c + k)) div m = (p + c) div m + ((p + c) mod m + k) div m"
proof -
  have "p + (c + k) = ((p + c) mod m + k) + m * ((p + c) div m)"
    by (simp add: add.assoc [symmetric])
  then show "(p + (c + k)) div m = (p + c) div m + ((p + c) mod m + k) div m"
    by (cases "m = 0") (simp, metis div_mult_self2)
qed (simp add: mod_simps add.assoc)

lemma advanced_trans:
  assumes "advanced c a b" "advanced k b d"
  shows "advanced (c + k) a d"
proof -
  have step: "((s + x) mod 8 + y) mod 8 = (s + (x + y)) mod (8 :: nat)" for s x y
    by (simp add: mod_simps add.assoc)
  show ?thesis
    using assms unfolding advanced_def Let_def chunk_div_mod(2) [where c = c]
    by (auto simp: chunk_div_mod(1) step)
qed

lemma advanced_frame:
  assumes "clockwork a' = clockwork a" "clockwork b' = clockwork b"
  shows "advanced n a' b' = advanced n a b"
  using clockwork_eqD [OF assms(1)] clockwork_eqD [OF assms(2)] by (simp add: advanced_def)

lemma enqueue_counts:
  assumes "queue_ok a" and b_def: "b = fst (enqueue_pcm_frame fo a d)"
  shows "queue_ok b" "apu_pcm_generated b = min usize_max (apu_pcm_generated a + 1)"
    "apu_pcm_capacity b = apu_pcm_capacity a" "apu_master_enabled b = apu_master_enabled a"
    "apu_frame_seq_cycles b = apu_frame_seq_cycles a" "apu_frame_seq_step b = apu_frame_seq_step a"
    "apu_mix_trace_cycles b = apu_mix_trace_cycles a" "apu_pcm_sample_cycles b = apu_pcm_sample_cycles a"
    "apu_pcm_dropped b \<le> apu_pcm_dropped a + 1"
    "apu_pcm_dropped a + 1 \<le> usize_max \<Longrightarrow>
       buffered_frames b + apu_pcm_dropped b = buffered_frames a + apu_pcm_dropped a + 1"
proof -
  let ?r = "a\<lparr>apu_pcm_accum_left := 0, apu_pcm_accum_right := 0, apu_pcm_accum_cycles := 0\<rparr>"
  obtain f l r where f: "filter_frame fo
      (apu_pcm_accum_left a sdiv int (max (apu_pcm_accum_cycles a) 1))
      (apu_pcm_accum_right a sdiv int (max (apu_pcm_accum_cycles a) 1)) ?r = (f, l, r)"
    by (metis prod_cases3)
  have "clockwork f = clockwork a"
    using clockwork_filter [of fo _ _ ?r, unfolded clockwork_upd] f by (metis fst_conv)
  note fa = clockwork_eqD [OF this]
  let ?k = "buffered_frames f + 1 - apu_pcm_capacity f"
  have q: "0 < apu_pcm_capacity f" "apu_pcm_dropped f \<le> usize_max" "even (length (apu_pcm_buffer f))"
    "buffered_frames f \<le> apu_pcm_capacity f" "apu_pcm_generated f \<le> usize_max"
    using assms(1) fa by (simp_all add: queue_ok_def)
  have b: "b = f\<lparr>apu_pcm_buffer := drop (2 * ?k) (apu_pcm_buffer f) @ [l, r],
      apu_pcm_dropped := min usize_max (apu_pcm_dropped f + ?k),
      apu_pcm_generated := sat_add usize_max (apu_pcm_generated f) 1\<rparr>"
    unfolding b_def enqueue_pcm_frame_def Let_def
    by (simp add: f [unfolded One_nat_def] case_prod_unfold evict_frames_queue q Let_def)
  have k: "?k \<le> 1"
    using q(4) by linarith
  obtain w where w: "length (apu_pcm_buffer f) = 2 * w"
    using q(3) by (rule evenE)
  have wk: "buffered_frames f = w" "buffered_frames b = w - ?k + 1" "?k \<le> w"
    using w q(1) by (simp_all add: b buffered_frames_def)
  show "queue_ok b"
    using q w wk by (simp add: queue_ok_def b sat_add_def)
  show "apu_pcm_dropped b \<le> apu_pcm_dropped a + 1"
    using k fa(11) by (simp add: b)
  show "apu_pcm_dropped a + 1 \<le> usize_max \<Longrightarrow>
       buffered_frames b + apu_pcm_dropped b = buffered_frames a + apu_pcm_dropped a + 1"
    using k wk fa(3,11) by (simp add: b)
  show "apu_pcm_generated b = min usize_max (apu_pcm_generated a + 1)"
    "apu_pcm_capacity b = apu_pcm_capacity a" "apu_master_enabled b = apu_master_enabled a"
    "apu_frame_seq_cycles b = apu_frame_seq_cycles a" "apu_frame_seq_step b = apu_frame_seq_step a"
    "apu_mix_trace_cycles b = apu_mix_trace_cycles a" "apu_pcm_sample_cycles b = apu_pcm_sample_cycles a"
    by (simp_all add: b fa sat_add_def)
qed

lemma sequencer_counts:
  assumes "apu_frame_seq_step a < 8"
  shows "clockwork (fst (run_frame_sequencer e (a, tr))) =
    (if APU_FRAME_SEQUENCER_CYCLES \<le> apu_frame_seq_cycles a
     then clockwork (a\<lparr>apu_frame_seq_cycles := apu_frame_seq_cycles a - APU_FRAME_SEQUENCER_CYCLES,
       apu_frame_seq_step := (apu_frame_seq_step a + 1) mod 8\<rparr>)
     else clockwork a)"
proof -
  have "(n AND 7 :: nat) = n mod 8" for n
    using take_bit_eq_mask [of 3 n] by (simp add: take_bit_eq_mod mask_eq_exp_minus_1)
  then show ?thesis
    by (auto simp: run_frame_sequencer_def Let_def case_prod_unfold)
qed

text \<open>A chunk that stops at the next deadline advances the timers and the queue by its length.\<close>

definition at_deadline :: "nat \<Rightarrow> apu \<Rightarrow> bool" where
  "at_deadline c a \<longleftrightarrow> 1 \<le> c \<and> c \<le> 16 \<and> c + apu_pcm_sample_cycles a \<le> 64 \<and>
     c + apu_frame_seq_cycles a \<le> 8192 \<and> c + apu_mix_trace_cycles a \<le> 1024"

lemma integrate_counts:
  assumes "queue_ok a" "at_deadline c a" and i: "i = fst (integrate_chunk fo c (a, g, d))"
  defines "samples \<equiv> (apu_pcm_sample_cycles a + c) div APU_PCM_SAMPLE_CYCLES"
  shows "queue_ok i" "apu_pcm_generated i = min usize_max (apu_pcm_generated a + samples)"
    "apu_pcm_capacity i = apu_pcm_capacity a" "apu_master_enabled i = apu_master_enabled a"
    "apu_frame_seq_cycles i = apu_frame_seq_cycles a + c" "apu_frame_seq_step i = apu_frame_seq_step a"
    "apu_mix_trace_cycles i = apu_mix_trace_cycles a + c"
    "apu_pcm_sample_cycles i = (apu_pcm_sample_cycles a + c) mod APU_PCM_SAMPLE_CYCLES"
    "apu_pcm_dropped i \<le> apu_pcm_dropped a + samples"
    "apu_pcm_dropped a + samples \<le> usize_max \<Longrightarrow>
       buffered_frames i + apu_pcm_dropped i = buffered_frames a + apu_pcm_dropped a + samples"
proof -
  define x where "x = a\<lparr>apu_frame_seq_cycles := apu_frame_seq_cycles a + c,
    apu_mix_trace_cycles := apu_mix_trace_cycles a + c,
    apu_pcm_sample_cycles := apu_pcm_sample_cycles a + c\<rparr>"
  define y where "y = x\<lparr>apu_pcm_sample_cycles := 0\<rparr>"
  have adv: "clockwork (advance_channels c a) = clockwork a"
    by simp
  note cw = clockwork_eqD [OF adv]
  have small: "apu_frame_seq_cycles a + c \<le> u16_max" "apu_mix_trace_cycles a + c \<le> u16_max"
    "apu_pcm_sample_cycles a + c \<le> u16_max"
    using assms(2) by (simp_all add: at_deadline_def u16_max_def)
  have q: "queue_ok x" "queue_ok y" "buffered_frames x = buffered_frames a"
    "buffered_frames y = buffered_frames a"
    using assms(1) by (simp_all add: queue_ok_def x_def y_def buffered_frames_def)
  let ?full = "apu_pcm_sample_cycles a + c = 64"
  have samples: "samples = (if ?full then 1 else 0)"
    using assms(2) by (auto simp: samples_def at_deadline_def APU_PCM_SAMPLE_CYCLES_def)
  define b where "b = (advance_channels c a)\<lparr>apu_frame_seq_cycles := apu_frame_seq_cycles a + c,
    apu_mix_trace_cycles := apu_mix_trace_cycles a + c,
    apu_pcm_sample_cycles := apu_pcm_sample_cycles a + c\<rparr>"
  define z where "z = b\<lparr>apu_pcm_accum_left :=
      clamp_i32 (apu_pcm_accum_left b + fst (mix_output b) * int c),
    apu_pcm_accum_right := clamp_i32 (apu_pcm_accum_right b + fst (snd (mix_output b)) * int c),
    apu_pcm_accum_cycles := sat_add u16_max (apu_pcm_accum_cycles b) c\<rparr>"
  define w where "w = z\<lparr>apu_pcm_sample_cycles := apu_pcm_sample_cycles z - APU_PCM_SAMPLE_CYCLES\<rparr>"
  have "clockwork b = clockwork x"
    by (simp add: clockwork_def b_def x_def cw)
  then have z: "clockwork z = clockwork x"
    by (simp add: z_def)
  note zx = clockwork_eqD [OF z]
  have full: "APU_PCM_SAMPLE_CYCLES \<le> apu_pcm_sample_cycles z \<longleftrightarrow> ?full"
    using assms(2) by (auto simp: zx x_def at_deadline_def APU_PCM_SAMPLE_CYCLES_def)
  have b: "b = (advance_channels c a)\<lparr>
      apu_frame_seq_cycles := sat_add u16_max (apu_frame_seq_cycles (advance_channels c a)) c,
      apu_mix_trace_cycles := sat_add u16_max (apu_mix_trace_cycles (advance_channels c a)) c,
      apu_pcm_sample_cycles := sat_add u16_max (apu_pcm_sample_cycles (advance_channels c a)) c\<rparr>"
    by (simp add: b_def cw small)
  have iz: "i = (if ?full then fst (enqueue_pcm_frame fo w d) else z)"
    unfolding i integrate_chunk_def full [symmetric] w_def z_def b
    by (simp add: Let_def case_prod_unfold)
  have wy: "apu_pcm_sample_cycles w = 0" if ?full
    using that by (simp add: w_def zx x_def APU_PCM_SAMPLE_CYCLES_def)
  have w: "clockwork w = clockwork y" if ?full
    using wy [OF that] zx by (simp add: clockwork_def w_def y_def)
  have qw: "queue_ok w" if ?full
    using clockwork_eqD(2) [OF w [OF that]] q(2) by simp
  note e = enqueue_counts [OF qw, of "fst (enqueue_pcm_frame fo w d)" fo d, OF _ refl]
    and wx = clockwork_eqD [OF w]
  have gen: "apu_pcm_generated a \<le> usize_max"
    using assms(1) by (simp add: queue_ok_def)
  show "queue_ok i"
    using e(1) q(1) by (simp add: iz zx(2))
  show "apu_pcm_generated i = min usize_max (apu_pcm_generated a + samples)"
    "apu_pcm_capacity i = apu_pcm_capacity a" "apu_master_enabled i = apu_master_enabled a"
    "apu_frame_seq_cycles i = apu_frame_seq_cycles a + c" "apu_frame_seq_step i = apu_frame_seq_step a"
    "apu_mix_trace_cycles i = apu_mix_trace_cycles a + c"
    using e(2-7) wx gen by (auto simp: iz zx samples x_def y_def)
  show "apu_pcm_sample_cycles i = (apu_pcm_sample_cycles a + c) mod APU_PCM_SAMPLE_CYCLES"
    using e(8) wx(7) assms(2)
    by (auto simp: iz zx x_def y_def APU_PCM_SAMPLE_CYCLES_def at_deadline_def)
  show "apu_pcm_dropped i \<le> apu_pcm_dropped a + samples"
    using e(9) wx(11) by (auto simp: iz zx samples x_def y_def)
  show "apu_pcm_dropped a + samples \<le> usize_max \<Longrightarrow>
       buffered_frames i + apu_pcm_dropped i = buffered_frames a + apu_pcm_dropped a + samples"
    using e(10) wx(3,11) q by (auto simp: iz zx samples x_def y_def)
qed

lemma process_counts:
  assumes "timers_ok a" "queue_ok a" "at_deadline c a"
  shows "advanced c a (fst (process_timed_chunk fo e c (a, tr, g, d)))"
proof -
  define i where "i = fst (integrate_chunk fo c (a, g, d))"
  define s where "s = fst (run_frame_sequencer e (i, tr))"
  define t where "t = s\<lparr>apu_mix_trace_cycles := apu_mix_trace_cycles s mod APU_MIX_TRACE_CYCLES\<rparr>"
  define full where "full \<longleftrightarrow> APU_FRAME_SEQUENCER_CYCLES \<le> apu_frame_seq_cycles i"
  define u where "u = i\<lparr>apu_frame_seq_cycles := (if full then 0 else apu_frame_seq_cycles i),
    apu_frame_seq_step := (if full then (apu_frame_seq_step i + 1) mod 8 else apu_frame_seq_step i),
    apu_mix_trace_cycles := apu_mix_trace_cycles i mod APU_MIX_TRACE_CYCLES\<rparr>"
  note ic = integrate_counts [OF assms(2,3) i_def]
  have lim: "apu_frame_seq_cycles a < 8192" "apu_frame_seq_step a < 8" "apu_mix_trace_cycles a < 1024"
    "c + apu_frame_seq_cycles a \<le> 8192" "c + apu_mix_trace_cycles a \<le> 1024"
    using assms(1,3) by (simp_all add: timers_ok_def apu_period_defs at_deadline_def)
  have step: "apu_frame_seq_step i < 8"
    using lim(2) by (simp add: ic)
  have zero: "full \<Longrightarrow> apu_frame_seq_cycles i - APU_FRAME_SEQUENCER_CYCLES = 0"
    using lim(4) by (simp add: ic APU_FRAME_SEQUENCER_CYCLES_def)
  have s: "clockwork s = clockwork (u\<lparr>apu_mix_trace_cycles := apu_mix_trace_cycles i\<rparr>)"
    unfolding s_def sequencer_counts [OF step] u_def full_def [symmetric]
    using zero by (auto simp: clockwork_def)
  have "apu_mix_trace_cycles s < APU_MIX_TRACE_CYCLES \<Longrightarrow> t = s"
    by (simp add: t_def)
  then have p: "clockwork (fst (process_timed_chunk fo e c (a, tr, g, d))) = clockwork t"
    by (auto simp: process_timed_chunk_def Let_def case_prod_unfold emit_mix i_def [symmetric]
        s_def [symmetric] t_def [symmetric])
  have t: "clockwork t = clockwork u"
    using s clockwork_eqD [OF s] by (simp add: t_def clockwork_def u_def)
  have q: "queue_ok u = queue_ok i" "buffered_frames u = buffered_frames i"
    by (simp_all add: queue_ok_def u_def buffered_frames_def)
  have "full \<longleftrightarrow> apu_frame_seq_cycles a + c = 8192"
    using lim by (auto simp: full_def ic APU_FRAME_SEQUENCER_CYCLES_def)
  then have "(apu_frame_seq_cycles a + c) div 8192 = (if full then 1 else 0)"
    "(apu_frame_seq_cycles a + c) mod 8192 = (if full then 0 else apu_frame_seq_cycles i)"
    using lim by (auto simp: ic)
  then have "advanced c a u"
    using ic lim(2) q by (simp add: advanced_def Let_def u_def APU_FRAME_SEQUENCER_CYCLES_def)
  then show ?thesis
    by (simp only: advanced_frame [OF refl trans [OF p t]])
qed

lemma next_chunk_deadline:
  assumes "timers_ok a" "0 < n"
  shows "at_deadline (next_timed_chunk a n) a" "next_timed_chunk a n \<le> n"
proof -
  have bound: "max (min (min (min (min m (max x 1)) (max y 1)) (max z 1)) 16) 1 = k \<Longrightarrow>
      1 \<le> k \<and> k \<le> 16 \<and> k \<le> x \<and> k \<le> y \<and> k \<le> z \<and> k \<le> m"
    if "1 \<le> x" "1 \<le> y" "1 \<le> z" "1 \<le> m" for m x y z k :: nat
  proof -
    assume "max (min (min (min (min m (max x 1)) (max y 1)) (max z 1)) 16) 1 = k"
    then have "min (min (min (min m x) y) z) 16 = k"
      using that by (simp only: max_absorb1)
    then show "1 \<le> k \<and> k \<le> 16 \<and> k \<le> x \<and> k \<le> y \<and> k \<le> z \<and> k \<le> m"
      using that by auto
  qed
  have lim: "apu_pcm_sample_cycles a < 64" "apu_frame_seq_cycles a < 8192"
    "apu_mix_trace_cycles a < 1024"
    using assms(1) by (simp_all add: timers_ok_def apu_period_defs)
  have "1 \<le> next_timed_chunk a n \<and> next_timed_chunk a n \<le> 16 \<and>
      next_timed_chunk a n \<le> 64 - apu_pcm_sample_cycles a \<and>
      next_timed_chunk a n \<le> 8192 - apu_frame_seq_cycles a \<and>
      next_timed_chunk a n \<le> 1024 - apu_mix_trace_cycles a \<and>
      next_timed_chunk a n \<le> min n u16_max"
  proof (rule bound)
    have "sub16 64 (apu_pcm_sample_cycles a) = 64 - apu_pcm_sample_cycles a"
      "sub16 8192 (apu_frame_seq_cycles a) = 8192 - apu_frame_seq_cycles a"
      "sub16 1024 (apu_mix_trace_cycles a) = 1024 - apu_mix_trace_cycles a"
      using lim by (simp_all add: sub16_def)
    then show "max (min (min (min (min (min n u16_max) (max (64 - apu_pcm_sample_cycles a) 1))
        (max (8192 - apu_frame_seq_cycles a) 1)) (max (1024 - apu_mix_trace_cycles a) 1)) 16) 1 =
        next_timed_chunk a n"
      by (simp only: next_timed_chunk_def Let_def apu_period_defs)
  qed (use lim assms(2) in \<open>simp_all add: u16_max_def Suc_le_eq\<close>)
  then show "at_deadline (next_timed_chunk a n) a" "next_timed_chunk a n \<le> n"
    using lim unfolding at_deadline_def by linarith+
qed

lemma advanced_timers: "advanced n a b \<Longrightarrow> timers_ok b"
  by (simp add: advanced_def timers_ok_def Let_def apu_period_defs)

lemma advanced_0: "timers_ok a \<Longrightarrow> queue_ok a \<Longrightarrow> advanced 0 a a"
  by (simp add: advanced_def timers_ok_def queue_ok_def)

lemma tick_loop_counts:
  assumes "timers_ok a" "queue_ok a"
  shows "advanced n a (fst (apu_tick_loop fo n (a, tr, gd)))"
  using assms
proof (induction n arbitrary: a tr gd rule: less_induct)
  case (less n)
  show ?case
  proof (cases "n = 0")
    case True
    then show ?thesis
      using advanced_0 [OF less.prems] by (simp add: apu_tick_loop.simps)
  next
    case False
    let ?c = "next_timed_chunk a n"
    let ?p = "process_timed_chunk fo True ?c (a, tr, gd)"
    have c: "n - ?c < n" "?c + (n - ?c) = n"
      using False next_timed_chunk_less next_chunk_deadline(2) [OF less.prems(1)] by simp_all
    obtain g d where gd: "gd = (g, d)"
      by (cases gd)
    have p: "advanced ?c a (fst ?p)"
      unfolding gd by (rule process_counts) (use less.prems next_chunk_deadline(1) False in simp_all)
    obtain b tr' gd' where b: "?p = (b, tr', gd')"
      by (metis prod_cases3)
    have "fst (apu_tick_loop fo n (a, tr, gd)) = fst (apu_tick_loop fo (n - ?c) (b, tr', gd'))"
      using False by (subst apu_tick_loop.simps) (simp add: Let_def b)
    moreover have "queue_ok b"
      using p by (simp add: advanced_def Let_def b)
    ultimately show ?thesis
      using advanced_trans [OF p less.IH [OF c(1) advanced_timers [OF p]]] c(2) by (simp add: b)
  qed
qed

lemma tick_counts:
  assumes "timers_ok a" "queue_ok a" "apu_master_enabled a"
  shows "advanced n a (fst (apu_tick fo n a))"
proof -
  obtain b tr g d where l: "apu_tick_loop fo n (a, [], 0, 0) = (b, tr, g, d)"
    by (metis prod_cases4)
  have "clockwork (fst (apu_tick fo n a)) = clockwork b"
    using assms(3) by (simp add: apu_tick_def l Let_def emit_mix)
  from advanced_frame [OF refl this] tick_loop_counts [OF assms(1,2), of n fo "[]" "(0, 0)"] l
  show ?thesis
    by simp
qed

section \<open>Timers and queue in every reachable state\<close>

definition clockwork_ok :: "apu \<Rightarrow> bool" where
  "clockwork_ok a \<longleftrightarrow> timers_ok a \<and> queue_ok a"

lemma clockwork_ok_frame: "clockwork b = clockwork a \<Longrightarrow> clockwork_ok a \<Longrightarrow> clockwork_ok b"
  unfolding clockwork_ok_def using clockwork_eqD(1,2) [of b a] by blast

lemma clockwork_side_effects: "clockwork (fst (apply_register_side_effects addr v s)) = clockwork (fst s)"
proof -
  have dac: "clockwork (fst (update_dac_state c d reg (a, t))) = clockwork a" for c d reg a t
    by (simp add: update_dac_state_def Let_def)
  have env: "clockwork (fst (update_envelope_from_reg c v (a, t))) = clockwork a" for c v a t
    unfolding update_envelope_from_reg_def Let_def by (simp add: dac)
  have swp: "clockwork (fst (write_sweep_register v (a, t))) = clockwork a" for v a t
    by (simp add: write_sweep_register_def Let_def)
  show ?thesis
    by (cases s) (simp add: apply_register_side_effects_def dac env swp sync_frequency_from_regs_def
        set_length_def)
qed

lemma clockwork_sweep_check: "clockwork (fst (trigger_sweep_check f s)) = clockwork (fst s)"
  by (cases s) (simp add: trigger_sweep_check_def Let_def)

lemma clockwork_trigger: "clockwork (fst (trigger_channel c reg v s)) = clockwork (fst s)"
proof -
  obtain a tr where s: "s = (a, tr)"
    by (cases s)
  have "clockwork (fst (trigger_sweep_check f (b\<lparr>apu_channel_enable := e\<rparr>, t))) = clockwork b" for f b t e
    using clockwork_sweep_check [of f "(b\<lparr>apu_channel_enable := e\<rparr>, t)"] by simp
  then show ?thesis
    by (auto simp: s trigger_channel_def Let_def case_prod_unfold)
qed

lemma clockwork_write_register: "clockwork (fst (apu_write_register addr v a)) = clockwork a"
proof -
  have off: "clockwork (write_while_off addr v a) = clockwork a"
    by (simp add: write_while_off_def set_length_def)
  let ?r = "a\<lparr>apu_regs := (apu_regs a)[unat (addr - 0xFF10) := v]\<rparr>"
  obtain b t where b: "apply_register_side_effects addr v (?r, []) = (b, t)"
    by (cases "apply_register_side_effects addr v (?r, [])")
  have "clockwork b = clockwork a"
    using clockwork_side_effects [of addr v "(?r, [])"] by (simp add: b)
  then show ?thesis
    unfolding apu_write_register_def Let_def b case_prod_conv
    by (simp add: off clockwork_trigger split: option.split)
qed

lemma clockwork_ok_cleared:
  "clockwork_ok a \<Longrightarrow> apu_frame_seq_cycles b = 0 \<Longrightarrow> apu_frame_seq_step b = 0 \<Longrightarrow>
     apu_pcm_capacity b = apu_pcm_capacity a \<Longrightarrow> apu_pcm_generated b = apu_pcm_generated a \<Longrightarrow>
     apu_pcm_dropped b = apu_pcm_dropped a \<Longrightarrow> clockwork_ok (clear_playback fo b)"
  by (simp add: clockwork_ok_def timers_ok_def queue_ok_def clear_playback_def buffered_frames_def
      apu_period_defs)

lemma clockwork_ok_write: "clockwork_ok a \<Longrightarrow> clockwork_ok (fst (apu_write fo addr v a))"
proof -
  assume a: "clockwork_ok a"
  have "clockwork_ok (fst (apu_write_master fo v a))"
    using a by (auto simp: apu_write_master_def Let_def intro: clockwork_ok_cleared)
      (simp add: clockwork_ok_def timers_ok_def queue_ok_def buffered_frames_def)
  moreover have "clockwork (fst (apu_write_wave_ram addr v a)) = clockwork a"
    by (simp add: apu_write_wave_ram_def Let_def)
  ultimately show ?thesis
    using a clockwork_ok_frame [OF clockwork_write_register a] clockwork_ok_frame
    by (simp add: apu_write_def)
qed

lemma clockwork_ok_tick: "clockwork_ok a \<Longrightarrow> clockwork_ok (fst (apu_tick fo n a))"
proof (cases "apu_master_enabled a")
  case True
  assume "clockwork_ok a"
  then have "advanced n a (fst (apu_tick fo n a))"
    using tick_counts True by (simp add: clockwork_ok_def)
  then show ?thesis
    using advanced_timers by (simp add: clockwork_ok_def advanced_def Let_def)
qed (simp add: apu_tick_def)

lemma clockwork_ok_reachable: "apu_reachable fo a \<Longrightarrow> clockwork_ok a"
proof (induction rule: apu_reachable.induct)
  case (post_boot mode)
  have "clockwork_ok (apu_default fo)"
    by (simp add: clockwork_ok_def timers_ok_def queue_ok_def apu_default_def buffered_frames_def
        apu_period_defs DEFAULT_APU_PCM_BUFFER_CAPACITY_FRAMES_def)
  then show ?case
    unfolding apu_initialize_post_boot_state_def Let_def
    by (rule clockwork_ok_cleared) (simp_all add: upd_ch_def)
next
  case (cgb_mode a c)
  then show ?case
    by (simp add: set_cgb_mode_def clockwork_ok_frame [of "a\<lparr>apu_cgb_mode := c\<rparr>" a])
next
  case (drain a k)
  then show ?case
    by (auto simp: drain_interleaved_i16_def Let_def clockwork_ok_def timers_ok_def queue_ok_def
        buffered_frames_def)
next
  case (capacity a k)
  then show ?case
    by (auto simp: set_buffer_capacity_frames_def Let_def clockwork_ok_def timers_ok_def queue_ok_def
        buffered_frames_def sat_mul_def)
qed (simp_all add: clockwork_ok_write clockwork_ok_tick)

section \<open>The mixer\<close>

lemma digital_output_bound:
  assumes "channels_ok a" "c \<in> {1, 2, 3, 4}"
  shows "unat (channel_digital_output a c) < 16"
proof -
  have v: "unat (ch_envelope_volume (apu_channels a ! (c - 1))) < 16"
    using assms by (auto simp: channels_ok_def ch_ranges_def)
  have sq: "unat (square_digital_output r st) < 16" if "unat (ch_envelope_volume st) < 16" for r st
    using that by (simp add: square_digital_output_def Let_def)
  have hi: "unat (drop_bit 4 x) < 16" for x :: u8
    using less_mult_imp_div_less [of "unat x" 16 16] unat_u8_less [of x]
    unfolding unat_drop_bit_eq by (simp add: drop_bit_eq_div)
  have w: "unat (wave_channel_sample st) < 16" for st
    using hi by (simp add: wave_channel_sample_def)
  have d: "unat (drop_bit k (wave_channel_sample st)) < 16" for k st
    using le_less_trans [OF div_le_dividend w] unfolding unat_drop_bit_eq
    by (simp add: drop_bit_eq_div)
  show ?thesis
    using assms(2) v by (auto simp: channel_digital_output_def Let_def sq w d)
qed

lemma analog_output_bound:
  assumes "channels_ok a" "c \<in> {1, 2, 3, 4}"
  shows "\<bar>channel_analog_output a c\<bar> \<le> 15"
proof -
  have "unat (channel_digital_output a c) \<le> 15"
    using digital_output_bound [OF assms] by simp
  then show ?thesis
    by (auto simp: channel_analog_output_def Let_def abs_le_iff simp del: of_nat_unat)
qed

lemma volume_bound: "int (unat (v AND 7 :: u8) + 1) \<le> 8"
  using nibble_less(2) [of v] by linarith

text \<open>The two sums of the mixer, and the mask of the channels that sound.\<close>

definition mix_side :: "apu \<Rightarrow> (nat \<Rightarrow> nat) \<Rightarrow> int \<Rightarrow> int" where
  "mix_side a sel vol = (\<Sum>c\<leftarrow>[1, 2, 3, 4].
     if apu_regs a ! 0x15 AND ch_bit (sel c) \<noteq> 0 then channel_analog_output a c * vol else 0)"

lemma mix_side_bound:
  assumes "channels_ok a" "0 \<le> vol" "vol \<le> 8"
  shows "\<bar>mix_side a sel vol\<bar> \<le> 480"
proof -
  define t where "t = (\<lambda>c. if apu_regs a ! 0x15 AND ch_bit (sel c) \<noteq> 0
    then channel_analog_output a c * vol else 0)"
  have c: "\<bar>t c\<bar> \<le> 120" if "c \<in> {1, 2, 3, 4}" for c
    using mult_mono [OF analog_output_bound [OF assms(1) that] assms(3)] assms(2)
    by (simp add: t_def abs_mult)
  have "mix_side a sel vol = t 1 + t 2 + t 3 + t 4"
    by (simp add: mix_side_def t_def)
  then show ?thesis
    using c [of 1] c [of 2] c [of 3] c [of 4] by simp
qed

lemma mix_output_sides:
  assumes "apu_master_enabled a"
  shows "fst (mix_output a) = mix_side a (\<lambda>c. c + 3) (int (unat ((drop_bit 4 (apu_regs a ! 0x14) AND 0x07) + 1)))"
    "fst (snd (mix_output a)) =
       mix_side a (\<lambda>c. c - 1) (int (unat ((apu_regs a ! 0x14 AND 0x07) + 1)))"
  using assms by (simp_all add: mix_output_def mix_side_def Let_def case_prod_unfold)

lemma sounding_mask:
  assumes "apu_master_enabled a"
  shows "bit (snd (snd (mix_output a))) i \<longleftrightarrow>
    i < 4 \<and> ch_enabled (apu_channels a ! i) \<and> bit (apu_channel_enable a) i"
proof -
  have set: "bit (if b then m OR ch_bit k else m) i \<longleftrightarrow> bit m i \<or> (b \<and> i = k)" if "k < 8" for b m k
    using that by (auto simp: bit_or_iff bit_ch_bit)
  have four: "i < 4 \<longleftrightarrow> i = 0 \<or> i = 1 \<or> i = 2 \<or> i = 3"
    by auto
  show ?thesis
    using assms by (auto simp: mix_output_def Let_def case_prod_unfold bit_and_iff set and_ch_bit four)
qed

section \<open>Properties\<close>

text \<open>
  C13. In every state the audio unit can reach, the low bits of the status register NR52 are the
  on-flags of the four channels, no channel is on with its DAC off, and every counter, volume
  and position is in its range: lengths at most 64 (256 for the wave channel), volumes below 16,
  frequencies at most 2047, the sequencer step below 8 and each deadline counter below its period.
\<close>

theorem apu_invariant:
  assumes "apu_reachable fo a" "i < 4"
  shows "bit (apu_read a 0xFF26) i = ch_enabled (apu_channels a ! i) \<and>
    (ch_enabled (apu_channels a ! i) \<longrightarrow> ch_dac_enabled (apu_channels a ! i)) \<and>
    ch_ranges (max_length (i + 1)) (apu_channels a ! i) \<and> timers_ok a \<and> queue_ok a"
proof -
  have ok: "channels_ok a"
    using assms(1) by (rule apu_reachable_ok)
  have "bit (0x70 :: u8) i = False" "bit (0x0F :: u8) i" "i \<noteq> 7"
    using assms(2) by (auto simp: less_Suc_eq numeral_eq_Suc)
  then have "bit (apu_read a 0xFF26) i = ch_enabled (apu_channels a ! i)"
    using ok assms(2) by (auto simp: apu_read_def in_range_def channels_ok_def bit_simps)
  moreover have "(ch_enabled (apu_channels a ! i) \<longrightarrow> ch_dac_enabled (apu_channels a ! i)) \<and>
      ch_ranges (max_length (i + 1)) (apu_channels a ! i)"
    using ok assms(2) by (simp add: channels_ok_def)
  moreover have "timers_ok a \<and> queue_ok a"
    using clockwork_ok_reachable [OF assms(1)] by (simp add: clockwork_ok_def)
  ultimately show ?thesis
    by simp
qed

text \<open>
  C40. The mixer of a reachable, powered unit stays within 480 on either side, so that the scaled
  sample fits a signed 16-bit word, and its activity mask has exactly the channels that are on.
\<close>

theorem apu_mix_bounded:
  assumes "apu_reachable fo a" "apu_master_enabled a" "mix_output a = (left, right, active)"
  shows "\<bar>left\<bar> \<le> 480 \<and> \<bar>right\<bar> \<le> 480 \<and> \<bar>left * 64\<bar> < 2 ^ 15 \<and> \<bar>right * 64\<bar> < 2 ^ 15 \<and>
    (\<forall>i. bit active i \<longleftrightarrow> i < 4 \<and> ch_enabled (apu_channels a ! i))"
proof -
  have ok: "channels_ok a"
    using assms(1) by (rule apu_reachable_ok)
  have "0 \<le> int (unat ((w AND 0x07 :: u8) + 1)) \<and> int (unat ((w AND 0x07 :: u8) + 1)) \<le> 8" for w
    using le_trans [OF mod_less_eq_dividend [of "Suc (unat (w AND 7))" 256], of 8] nibble_less(2) [of w]
    by (simp add: unat_word_ariths Suc_le_eq less_Suc_eq_le del: of_nat_unat nibble_less)
  then have "\<bar>left\<bar> \<le> 480" "\<bar>right\<bar> \<le> 480"
    using mix_side_bound [OF ok] mix_output_sides [OF assms(2)] assms(3) by simp_all
  moreover have "bit active i \<longleftrightarrow> i < 4 \<and> ch_enabled (apu_channels a ! i)" for i
    using sounding_mask [OF assms(2), of i] assms(3) ok by (auto simp: channels_ok_def)
  moreover have "\<bar>x * 64\<bar> < 2 ^ 15" if "\<bar>x\<bar> \<le> 480" for x :: int
    using that by simp
  ultimately show ?thesis
    by blast
qed

text \<open>
  C14. A tick of \<open>n\<close> cycles counts exactly: in any powered state with timers and queue in range,
  each deadline counter moves \<open>n\<close> modulo its period, the frame sequencer takes one step per
  8192 cycles and the sample generator one sample per 64, whatever the sizes of the chunks; the
  queue never exceeds its capacity and every sample generated is queued or counted as dropped.
\<close>

theorem apu_tick_counts:
  assumes "timers_ok a" "queue_ok a" "apu_master_enabled a"
  shows "advanced n a (fst (apu_tick fo n a))"
  using assms by (rule tick_counts)

section \<open>The properties at concrete states\<close>

text \<open>A fixed-point instance of the filter arithmetic, 16 bits after the point.\<close>

definition fixed_ops :: float_ops where
  "fixed_ops = \<lparr>f_lit = (\<lambda>m e. of_nat (m * 65536 div 10 ^ e)), f_add = (+), f_sub = (-),
     f_mul = (\<lambda>x y. of_int (sint x * sint y div 65536)), f_of_int = (\<lambda>i. of_int (i * 65536)),
     f_round_clamp = (\<lambda>lo hi x. max lo (min hi (sint x div 65536)))\<rparr>"

definition booted :: apu where
  "booted = apu_initialize_post_boot_state fixed_ops Dmg (apu_default fixed_ops)"

lemma booted_master [simp]: "apu_master_enabled booted"
  by (simp add: booted_def apu_initialize_post_boot_state_def clear_playback_def upd_ch_def Let_def)

lemma booted_reachable: "apu_reachable fixed_ops booted"
  unfolding booted_def by (rule apu_reachable.post_boot)

lemma booted_ok: "timers_ok booted" "queue_ok booted"
  using clockwork_ok_reachable [OF booted_reachable] by (simp_all add: clockwork_ok_def)

theorem apu_invariant_witness:
  "bit (apu_read (fst (apu_tick fixed_ops 100 booted)) 0xFF26) 2 =
     ch_enabled (apu_channels (fst (apu_tick fixed_ops 100 booted)) ! 2)"
  using apu_invariant [of fixed_ops, OF apu_reachable.apu_tick [OF booted_reachable], of 2 100] by simp

theorem apu_mix_bounded_witness: "\<bar>fst (mix_output booted)\<bar> \<le> 480"
  using apu_mix_bounded [of fixed_ops booted "fst (mix_output booted)" "fst (snd (mix_output booted))"
      "snd (snd (mix_output booted))"] booted_reachable
  by simp

theorem apu_tick_counts_witness: "advanced 8192 booted (fst (apu_tick fixed_ops 8192 booted))"
  by (rule apu_tick_counts) (simp_all add: booted_ok)

end
