(* ===== verification/Diagnostics.thy ===== *)
theory Diagnostics
  imports Events
begin

text \<open>
  The diagnostic emitter of \<^verbatim>\<open>diagnostic_events.rs\<close>: observations are aggregated under a
  formatted summary key, at most 4096 keys are kept, and each aggregate counts its occurrences
  and keeps up to four later samples.
\<close>

section \<open>Formatting\<close>

definition hex_digit :: "nat \<Rightarrow> char" where
  "hex_digit n = (if n < 10 then char_of (48 + n) else char_of (55 + n))"

definition hex2 :: "u8 \<Rightarrow> string" where
  "hex2 v = ''0x'' @ [hex_digit (unat v div 16), hex_digit (unat v mod 16)]"

definition hex4 :: "u16 \<Rightarrow> string" where
  "hex4 v = ''0x'' @ map (\<lambda>k. hex_digit (unat v div 16 ^ k mod 16)) [3, 2, 1, 0]"

fun decimal :: "nat \<Rightarrow> string" where
  "decimal n = (if n < 10 then [char_of (48 + n)] else decimal (n div 10) @ [char_of (48 + n mod 10)])"

declare decimal.simps [simp del]

definition pad_zeros :: "nat \<Rightarrow> string \<Rightarrow> string" where
  "pad_zeros width s = replicate (width - length s) (CHR ''0'') @ s"

section \<open>State\<close>

record diag_sample =
  ds_frame :: u64
  ds_scanline :: "u8 option"
  ds_dot :: "nat option"
  ds_pc :: "string option"
  ds_bank :: "u16 option"
  ds_addr :: "string option"
  ds_value :: "string option"

record diag_event =
  de_schema :: string
  de_schema_version :: nat
  de_event_id :: string
  de_event_type :: string
  de_severity :: string
  de_frame :: u64
  de_scanline :: "u8 option"
  de_dot :: "nat option"
  de_pc :: "string option"
  de_bank :: "u16 option"
  de_addr :: "string option"
  de_value :: "string option"
  de_access_kind :: "string option"
  de_ppu_mode :: "u8 option"
  de_lcdc :: "string option"
  de_stat :: "string option"
  de_dma_state :: "string option"
  de_summary_key :: string
  de_count :: nat
  de_first_seen :: u64
  de_last_seen :: u64
  de_samples :: "diag_sample list"

record emitter =
  em_enabled :: bool
  em_next_id :: nat
  em_max_unique :: nat
  em_events :: "diag_event list"
  em_index :: "string \<rightharpoonup> nat"

definition emitter_default :: emitter where
  "emitter_default = \<lparr>em_enabled = False, em_next_id = 1, em_max_unique = 4096, em_events = [],
     em_index = (\<lambda>_. None)\<rparr>"

definition set_enabled :: "bool \<Rightarrow> emitter \<Rightarrow> emitter" where
  "set_enabled b e = e\<lparr>em_enabled := b\<rparr>"

definition emitter_clear :: "emitter \<Rightarrow> emitter" where
  "emitter_clear e = e\<lparr>em_next_id := 1, em_events := [], em_index := (\<lambda>_. None)\<rparr>"

text \<open>The arguments of one recorded observation.\<close>

record observation =
  ob_event_type :: string
  ob_severity :: string
  ob_frame :: u64
  ob_scanline :: "u8 option"
  ob_dot :: "nat option"
  ob_pc :: "u16 option"
  ob_bank :: "u16 option"
  ob_addr :: "u16 option"
  ob_value :: "u8 option"
  ob_access_kind :: "string option"
  ob_ppu_mode :: "u8 option"
  ob_lcdc :: "u8 option"
  ob_stat :: "u8 option"
  ob_dma_active :: "bool option"

definition or_unknown :: "string option \<Rightarrow> string" where
  "or_unknown s = (case s of Some t \<Rightarrow> t | None \<Rightarrow> ''?'')"

definition summary_key :: "observation \<Rightarrow> string" where
  "summary_key ob =
     ob_event_type ob @ ''+pc='' @ or_unknown (map_option hex4 (ob_pc ob)) @
     ''+bank='' @ or_unknown (map_option (\<lambda>b. decimal (unat b)) (ob_bank ob)) @
     ''+addr='' @ or_unknown (map_option hex4 (ob_addr ob)) @
     ''+access='' @ or_unknown (ob_access_kind ob)"

definition sample_of :: "observation \<Rightarrow> diag_sample" where
  "sample_of ob =
     \<lparr>ds_frame = ob_frame ob, ds_scanline = ob_scanline ob, ds_dot = ob_dot ob,
      ds_pc = map_option hex4 (ob_pc ob), ds_bank = ob_bank ob,
      ds_addr = map_option hex4 (ob_addr ob), ds_value = map_option hex2 (ob_value ob)\<rparr>"

definition bump_event :: "observation \<Rightarrow> diag_event \<Rightarrow> diag_event" where
  "bump_event ob e =
     (let e = e\<lparr>de_count := sat_add usize_max (de_count e) 1, de_last_seen := ob_frame ob\<rparr>
      in if length (de_samples e) < 4 then e\<lparr>de_samples := de_samples e @ [sample_of ob]\<rparr> else e)"

definition fresh_event :: "nat \<Rightarrow> observation \<Rightarrow> diag_event" where
  "fresh_event ident ob =
     \<lparr>de_schema = ''kokura-diagnostic-event'', de_schema_version = 3,
      de_event_id = ''evt_'' @ pad_zeros 6 (decimal ident), de_event_type = ob_event_type ob,
      de_severity = ob_severity ob, de_frame = ob_frame ob, de_scanline = ob_scanline ob,
      de_dot = ob_dot ob, de_pc = map_option hex4 (ob_pc ob), de_bank = ob_bank ob,
      de_addr = map_option hex4 (ob_addr ob), de_value = map_option hex2 (ob_value ob),
      de_access_kind = ob_access_kind ob, de_ppu_mode = ob_ppu_mode ob,
      de_lcdc = map_option hex2 (ob_lcdc ob), de_stat = map_option hex2 (ob_stat ob),
      de_dma_state = map_option (\<lambda>b. if b then ''active'' else ''idle'') (ob_dma_active ob),
      de_summary_key = summary_key ob, de_count = 1, de_first_seen = ob_frame ob,
      de_last_seen = ob_frame ob, de_samples = []\<rparr>"

definition record_gb_event :: "observation \<Rightarrow> emitter \<Rightarrow> emitter" where
  "record_gb_event ob e =
     (if \<not> em_enabled e then e
      else
        case em_index e (summary_key ob) of
          Some idx \<Rightarrow> e\<lparr>em_events := (em_events e)[idx := bump_event ob (em_events e ! idx)]\<rparr>
        | None \<Rightarrow>
            if length (em_events e) \<ge> em_max_unique e then e
            else
              e\<lparr>em_next_id := sat_add usize_max (em_next_id e) 1,
                em_events := em_events e @ [fresh_event (em_next_id e) ob],
                em_index := (em_index e)(summary_key ob \<mapsto> length (em_events e))\<rparr>)"

section \<open>The index and the aggregates agree\<close>

definition emitter_ok :: "emitter \<Rightarrow> bool" where
  "emitter_ok e \<longleftrightarrow>
     length (em_events e) \<le> em_max_unique e \<and>
     (\<forall>k i. em_index e k = Some i \<longleftrightarrow> i < length (em_events e) \<and> de_summary_key (em_events e ! i) = k)"

lemma fresh_key [simp]: "de_summary_key (fresh_event n ob) = summary_key ob" "de_count (fresh_event n ob) = 1"
  by (simp_all add: fresh_event_def)

lemma bump_key [simp]: "de_summary_key (bump_event ob e) = de_summary_key e"
  "de_count (bump_event ob e) = sat_add usize_max (de_count e) 1"
  by (simp_all add: bump_event_def Let_def)

lemma record_cases:
  assumes "em_enabled e"
  shows "em_index e (summary_key ob) = Some j \<Longrightarrow>
      record_gb_event ob e = e\<lparr>em_events := (em_events e)[j := bump_event ob (em_events e ! j)]\<rparr>"
    "em_index e (summary_key ob) = None \<Longrightarrow> em_max_unique e \<le> length (em_events e) \<Longrightarrow>
      record_gb_event ob e = e"
    "em_index e (summary_key ob) = None \<Longrightarrow> length (em_events e) < em_max_unique e \<Longrightarrow>
      record_gb_event ob e = e\<lparr>em_next_id := sat_add usize_max (em_next_id e) 1,
        em_events := em_events e @ [fresh_event (em_next_id e) ob],
        em_index := (em_index e)(summary_key ob \<mapsto> length (em_events e))\<rparr>"
  using assms by (simp_all add: record_gb_event_def)

lemma emitter_okD:
  "emitter_ok e \<Longrightarrow>
     em_index e k = Some i \<longleftrightarrow> i < length (em_events e) \<and> de_summary_key (em_events e ! i) = k"
  unfolding emitter_ok_def by blast

lemma emitter_ok_record:
  assumes ok: "emitter_ok e"
  shows "emitter_ok (record_gb_event ob e)"
proof (cases "em_enabled e")
  case False
  then show ?thesis
    using ok by (simp add: record_gb_event_def)
next
  case True
  note r = record_cases [OF True, of ob]
  show ?thesis
  proof (cases "em_index e (summary_key ob)")
    case (Some j)
    then have "j < length (em_events e)" "de_summary_key (em_events e ! j) = summary_key ob"
      using emitter_okD [OF ok] by auto
    then show ?thesis
      using ok emitter_okD [OF ok] unfolding r(1) [OF Some] emitter_ok_def
      by (auto simp: nth_list_update)
  next
    case None
    then have new: "i < length (em_events e) \<Longrightarrow> de_summary_key (em_events e ! i) \<noteq> summary_key ob" for i
      using emitter_okD [OF ok, of "summary_key ob" i] by auto
    show ?thesis
    proof (cases "length (em_events e) < em_max_unique e")
      case True
      then show ?thesis
        using emitter_okD [OF ok] new unfolding r(3) [OF None True] emitter_ok_def
        by (auto simp: nth_append less_Suc_eq)
    qed (use ok r(2) [OF None] in simp)
  qed
qed

lemma emitter_ok_clear: "emitter_ok (emitter_clear e)"
  by (simp add: emitter_ok_def emitter_clear_def)

section \<open>Counting\<close>

definition key_count :: "string \<Rightarrow> emitter \<Rightarrow> nat" where
  "key_count k e = (case em_index e k of Some i \<Rightarrow> de_count (em_events e ! i) | None \<Rightarrow> 0)"

definition record_all :: "observation list \<Rightarrow> emitter \<Rightarrow> emitter" where
  "record_all obs e = fold record_gb_event obs e"

lemma key_count_record:
  assumes "emitter_ok e" "em_enabled e"
    and "em_index e (summary_key ob) \<noteq> None \<or> length (em_events e) < em_max_unique e"
  shows "key_count k (record_gb_event ob e) =
    (if summary_key ob = k then min usize_max (key_count k e + 1) else key_count k e)"
proof (cases "em_index e (summary_key ob)")
  case (Some j)
  then have j: "j < length (em_events e)" "de_summary_key (em_events e ! j) = summary_key ob"
    using emitter_okD [OF assms(1)] by auto
  have other: "em_index e k = Some i \<Longrightarrow> i = j \<longleftrightarrow> summary_key ob = k" for i
    using emitter_okD [OF assms(1), of k i] Some j by auto
  show ?thesis
  proof (cases "em_index e k")
    case None
    then show ?thesis
      using Some by (auto simp: key_count_def record_cases(1) [OF assms(2) Some])
  next
    case (Some i)
    then show ?thesis
      using other [OF Some] j(1)
      by (cases "i = j") (simp_all add: sat_add_def key_count_def record_cases(1) [OF assms(2) \<open>em_index e (summary_key ob) = Some j\<close>])
  qed
next
  case None
  then have "length (em_events e) < em_max_unique e"
    using assms(3) by simp
  note r = record_cases(3) [OF assms(2) None this]
  have "em_index e k = Some i \<Longrightarrow> i < length (em_events e) \<and> summary_key ob \<noteq> k" for i
    using emitter_okD [OF assms(1), of k i] None by auto
  then show ?thesis
    unfolding r key_count_def using None by (auto simp: nth_append usize_max_def split: option.split)
qed

text \<open>An observation never touches the aggregate of another key, and a key once kept stays kept.\<close>

lemma record_kept:
  assumes "emitter_ok e"
  shows "em_index e k \<noteq> None \<Longrightarrow> em_index (record_gb_event ob e) k \<noteq> None"
    "em_enabled (record_gb_event ob e) = em_enabled e"
    "em_max_unique (record_gb_event ob e) = em_max_unique e"
  by (auto simp: record_gb_event_def split: option.split)

text \<open>The distinct keys of a list of observations in the order of their first occurrence.\<close>

definition distinct_keys :: "observation list \<Rightarrow> string list" where
  "distinct_keys obs =
     fold (\<lambda>ob ks. if summary_key ob \<in> set ks then ks else ks @ [summary_key ob]) obs []"

lemma distinct_keys_snoc:
  "distinct_keys (obs @ [ob]) =
     (if summary_key ob \<in> set (distinct_keys obs) then distinct_keys obs
      else distinct_keys obs @ [summary_key ob])"
  by (simp add: distinct_keys_def)

lemma set_distinct_keys: "set (distinct_keys obs) = summary_key ` set obs"
  by (induction obs rule: rev_induct) (auto simp: distinct_keys_snoc simp: distinct_keys_def [of "[]"])

definition occurrences :: "string \<Rightarrow> observation list \<Rightarrow> nat" where
  "occurrences k obs = length (filter (\<lambda>ob. summary_key ob = k) obs)"

lemma occurrences_snoc: "occurrences k (obs @ [ob]) = occurrences k obs + of_bool (summary_key ob = k)"
  by (simp add: occurrences_def)

lemma occurrences_none: "k \<notin> set (distinct_keys obs) \<Longrightarrow> occurrences k obs = 0"
  by (auto simp: occurrences_def set_distinct_keys filter_empty_conv)

text \<open>The emitter after some observations: which keys it keeps and what they count.\<close>

definition emitter_tells :: "nat \<Rightarrow> observation list \<Rightarrow> emitter \<Rightarrow> bool" where
  "emitter_tells room obs e \<longleftrightarrow>
     emitter_ok e \<and> em_enabled e \<and> em_max_unique e = room \<and>
     map de_summary_key (em_events e) = take room (distinct_keys obs) \<and>
     (\<forall>k. key_count k e = (if k \<in> set (take room (distinct_keys obs)) then min usize_max (occurrences k obs) else 0))"

lemma index_kept:
  assumes "emitter_ok e"
  shows "em_index e k \<noteq> None \<longleftrightarrow> k \<in> set (map de_summary_key (em_events e))"
proof -
  have "(\<exists>i. em_index e k = Some i) \<longleftrightarrow> (\<exists>i. i < length (em_events e) \<and> de_summary_key (em_events e ! i) = k)"
    using emitter_okD [OF assms, of k] by blast
  moreover have "k \<in> set (map de_summary_key (em_events e)) \<longleftrightarrow>
      (\<exists>i. i < length (em_events e) \<and> de_summary_key (em_events e ! i) = k)"
    unfolding in_set_conv_nth by auto
  ultimately show ?thesis
    by simp
qed

lemma emitter_tells_record:
  assumes "emitter_tells room obs e"
  shows "emitter_tells room (obs @ [ob]) (record_gb_event ob e)"
proof -
  let ?k = "summary_key ob"
  have e: "emitter_ok e" "em_enabled e" "em_max_unique e = room"
    "map de_summary_key (em_events e) = take room (distinct_keys obs)"
    "key_count k e = (if k \<in> set (take room (distinct_keys obs)) then min usize_max (occurrences k obs) else 0)" for k
    using assms by (simp_all add: emitter_tells_def)
  have len: "length (em_events e) = min room (length (distinct_keys obs))"
    using arg_cong [OF e(4), of length] by (simp add: min.commute)
  note kept = emitter_ok_record [OF e(1), of ob] record_kept(2,3) [OF e(1), of ob]
  note r = record_cases [OF e(2), of ob]
  show ?thesis
  proof (cases "em_index e ?k")
    case (Some j)
    then have j: "j < length (em_events e)" "?k \<in> set (take room (distinct_keys obs))"
      using emitter_okD [OF e(1), of ?k j] index_kept [OF e(1), of ?k] e(4) by auto
    then have keys: "distinct_keys (obs @ [ob]) = distinct_keys obs"
      using in_set_takeD [OF j(2)] by (simp add: distinct_keys_snoc)
    have "map de_summary_key (em_events (record_gb_event ob e)) = map de_summary_key (em_events e)"
      unfolding r(1) [OF Some] by (simp add: map_update) (metis j(1) list_update_id nth_map)
    then show ?thesis
      using kept e key_count_record [OF e(1,2), of ob] Some j(2)
      by (simp add: emitter_tells_def keys occurrences_snoc)
  next
    case None
    then have new: "?k \<notin> set (take room (distinct_keys obs))"
      using index_kept [OF e(1), of ?k] e(4) by simp
    show ?thesis
    proof (cases "length (em_events e) < em_max_unique e")
      case True
      then have all: "take room (distinct_keys obs) = distinct_keys obs"
        using len e(3) by simp
      with new True len e(3) have keys: "take room (distinct_keys (obs @ [ob])) = distinct_keys obs @ [?k]"
        by (simp add: distinct_keys_snoc)
      have "map de_summary_key (em_events (record_gb_event ob e)) = map de_summary_key (em_events e) @ [?k]"
        unfolding r(3) [OF None True] by simp
      then show ?thesis
        using kept e key_count_record [OF e(1,2), of ob] True new occurrences_none [of ?k obs]
        by (auto simp: emitter_tells_def keys all occurrences_snoc)
    next
      case False
      then have "take room (distinct_keys (obs @ [ob])) = take room (distinct_keys obs)"
        using len e(3) by (simp add: distinct_keys_snoc)
      moreover have "record_gb_event ob e = e"
        using r(2) [OF None] False by simp
      ultimately show ?thesis
        using e new by (auto simp: emitter_tells_def occurrences_snoc)
    qed
  qed
qed

text \<open>
  C28. Recording a list of observations into a cleared, enabled emitter keeps one aggregate for
  each of the first distinct summary keys, in the order they were first seen and at most as many
  as the emitter has room for; each counts exactly the observations with its key, up to the
  saturation of its counter, and the observations of all later keys are discarded.
\<close>

theorem diagnostic_counts:
  fixes e obs
  defines "told \<equiv> record_all obs (emitter_clear (set_enabled True e))"
    and "kept \<equiv> take (em_max_unique e) (distinct_keys obs)"
  shows "map de_summary_key (em_events told) = kept \<and>
    key_count k told =
      (if k \<in> set kept then min usize_max (length (filter (\<lambda>ob. summary_key ob = k) obs)) else 0)"
proof -
  have "emitter_tells (em_max_unique e) obs (record_all obs (emitter_clear (set_enabled True e)))"
  proof (induction obs rule: rev_induct)
    case Nil
    show ?case
      using emitter_ok_clear [of "set_enabled True e"]
      by (simp add: emitter_tells_def record_all_def distinct_keys_def key_count_def)
        (simp add: emitter_clear_def set_enabled_def)
  next
    case (snoc ob obs)
    then show ?case
      using emitter_tells_record by (simp add: record_all_def)
  qed
  then show ?thesis
    by (simp add: emitter_tells_def told_def kept_def occurrences_def)
qed

definition sample_observation :: "u16 \<Rightarrow> observation" where
  "sample_observation pc = \<lparr>ob_event_type = ''DMA_OR_HDMA_CONFLICT'', ob_severity = ''error'',
     ob_frame = 1, ob_scanline = None, ob_dot = None, ob_pc = Some pc, ob_bank = Some 1,
     ob_addr = Some 0x8000, ob_value = None, ob_access_kind = None, ob_ppu_mode = None,
     ob_lcdc = None, ob_stat = None, ob_dma_active = None\<rparr>"

theorem diagnostic_counts_witness:
  "key_count (summary_key (sample_observation 0x100))
     (record_all [sample_observation 0x100, sample_observation 0x100]
       (emitter_clear (set_enabled True emitter_default))) = 2"
  using diagnostic_counts [of "[sample_observation 0x100, sample_observation 0x100]" emitter_default
      "summary_key (sample_observation 0x100)"]
  by (simp add: emitter_default_def usize_max_def distinct_keys_def)

end
