(* ===== verification/Machine_State.thy ===== *)
theory Machine_State
  imports Interrupts Joypad_Port Timer_Unit Serial_Port Cpu_Core Cartridge_Slot Ppu_Render Apu_Clock
    Diagnostics
begin

text \<open>
  The machine of \<^verbatim>\<open>lib.rs\<close>: the record of all devices with the pending observations, the
  clock-domain conversions, interrupt requests, the CGB speed switch and the mirrors of the
  device registers in the memory image. What the code asks the host for, the wall clock and the
  \<open>f64\<close> operations, is the record \<open>host\<close>.
\<close>

record host =
  host_now :: nat
  host_floats :: float_ops

definition CGB_DMA_BLOCK_STALL_CYCLES :: nat where "CGB_DMA_BLOCK_STALL_CYCLES = 32"
definition CGB_SPEED_SWITCH_FREEZE_CYCLES :: nat where "CGB_SPEED_SWITCH_FREEZE_CYCLES = 8200"

text \<open>The transfer engines' registers and counters (\<^verbatim>\<open>dma.rs\<close>).\<close>

record dma_state =
  dma_active :: bool
  dma_source :: u16
  dma_bytes_copied :: nat
  dma_cycle_accum :: nat
  dma_start_delay :: nat
  dma_ff46 :: u8
  hdma1 :: u8
  hdma2 :: u8
  hdma3 :: u8
  hdma4 :: u8
  hdma5 :: u8
  hdma_source :: u16
  hdma_dest :: u16
  hdma_blocks :: u8
  hdma_total :: u8
  hdma_hblank :: bool
  hdma_active :: bool

definition dma_default :: dma_state where
  "dma_default =
     \<lparr>dma_active = False, dma_source = 0, dma_bytes_copied = 0, dma_cycle_accum = 0,
      dma_start_delay = 0, dma_ff46 = 0xFF, hdma1 = 0xFF, hdma2 = 0xFF, hdma3 = 0xFF,
      hdma4 = 0xFF, hdma5 = 0xFF, hdma_source = 0, hdma_dest = 0x8000, hdma_blocks = 0,
      hdma_total = 0, hdma_hblank = False, hdma_active = False\<rparr>"

record machine =
  m_cpu :: cpu
  m_ppu :: ppu
  m_timer :: timer
  m_interrupt :: interrupt_state
  m_joypad :: joypad
  m_dma :: dma_state
  m_serial :: serial
  m_link :: bool
  m_apu :: apu
  m_cart :: cartridge
  m_mem :: memory
  m_clocks :: clock_state
  m_mode :: hardware_mode
  m_vector :: "u16 option"
  m_stall :: nat
  m_double :: bool
  m_armed :: bool
  m_freeze :: nat
  m_dma_trace :: "dma_event list"
  m_mapper_trace :: "mapper_event list"
  m_io_trace :: "io_event list"
  m_apu_trace :: "apu_event list"
  m_cgb_trace :: "cgb_event list"
  m_interrupt_trace :: "interrupt_event list"
  m_diag :: emitter

definition machine_new :: "host \<Rightarrow> machine" where
  "machine_new h =
     \<lparr>m_cpu = cpu_default, m_ppu = ppu_default, m_timer = timer_default,
      m_interrupt = interrupt_default, m_joypad = joypad_default, m_dma = dma_default,
      m_serial = serial_default, m_link = False, m_apu = apu_default (host_floats h),
      m_cart = cart_empty, m_mem = memory_power_on, m_clocks = clock_default, m_mode = Dmg,
      m_vector = None, m_stall = 0, m_double = False, m_armed = False, m_freeze = 0,
      m_dma_trace = [], m_mapper_trace = [], m_io_trace = [], m_apu_trace = [],
      m_cgb_trace = [], m_interrupt_trace = [], m_diag = emitter_default\<rparr>"

text \<open>Writing the memory image without going through the bus.\<close>

definition poke :: "u16 \<Rightarrow> u8 \<Rightarrow> machine \<Rightarrow> machine" where
  "poke a v m = m\<lparr>m_mem := mem_write8 a v (m_mem m)\<rparr>"

section \<open>Clock domains\<close>

definition cgb_fast_domains_enabled :: "machine \<Rightarrow> bool" where
  "cgb_fast_domains_enabled m \<longleftrightarrow> m_mode m = Cgb \<and> m_double m"

definition cpu_cycles_to_ppu_cycles :: "machine \<Rightarrow> nat \<Rightarrow> nat" where
  "cpu_cycles_to_ppu_cycles m n = (if cgb_fast_domains_enabled m then n div 2 else n)"

definition cpu_cycles_to_ppu_cycles_ceil :: "machine \<Rightarrow> nat \<Rightarrow> nat" where
  "cpu_cycles_to_ppu_cycles_ceil m n =
     (if cgb_fast_domains_enabled m then sat_add u32_max n 1 div 2 else n)"

definition ppu_cycles_to_cpu_cycles :: "machine \<Rightarrow> nat \<Rightarrow> nat" where
  "ppu_cycles_to_cpu_cycles m n = (if cgb_fast_domains_enabled m then sat_mul u32_max n 2 else n)"

definition hdma_block_stall_cycles :: "machine \<Rightarrow> nat" where
  "hdma_block_stall_cycles m =
     (if cgb_fast_domains_enabled m then sat_mul u32_max CGB_DMA_BLOCK_STALL_CYCLES 2
      else CGB_DMA_BLOCK_STALL_CYCLES)"

section \<open>Interrupt requests\<close>

definition request_interrupt :: "u8 \<Rightarrow> interrupt_source \<Rightarrow> machine \<Rightarrow> machine" where
  "request_interrupt msk src m =
     (let before = iflag (m_interrupt m);
          m = m\<lparr>m_interrupt := request msk (m_interrupt m)\<rparr>
      in if iflag (m_interrupt m) \<noteq> before
         then m\<lparr>m_interrupt_trace := m_interrupt_trace m @ [Requested src (iflag (m_interrupt m))]\<rparr>
         else m)"

definition interrupt_source_from_mask :: "u8 \<Rightarrow> interrupt_source" where
  "interrupt_source_from_mask msk =
     (if msk = INT_VBLANK then Vblank else if msk = INT_LCD_STAT then LcdStat
      else if msk = INT_TIMER then TimerSource else if msk = INT_SERIAL then SerialSource
      else JoypadSource)"

text \<open>The request one device tick makes, if it asks for one.\<close>

definition request_if :: "bool \<Rightarrow> u8 \<Rightarrow> interrupt_source \<Rightarrow> machine \<Rightarrow> machine" where
  "request_if b msk src m = (if b then request_interrupt msk src m else m)"

definition push_io :: "io_event list \<Rightarrow> machine \<Rightarrow> machine" where
  "push_io tr m = m\<lparr>m_io_trace := m_io_trace m @ tr\<rparr>"

definition capture_joypad_event :: "joypad_event \<Rightarrow> machine \<Rightarrow> machine" where
  "capture_joypad_event e m =
     (let m = (case e of InterruptEdge _ \<Rightarrow> request_interrupt INT_JOYPAD JoypadSource m | _ \<Rightarrow> m)
      in push_io [IoJoypad e] m)"

definition capture_joypad_trace :: "joypad_event list \<Rightarrow> machine \<Rightarrow> machine" where
  "capture_joypad_trace tr m = fold capture_joypad_event tr m"

definition set_joypad_mask :: "u8 \<Rightarrow> machine \<Rightarrow> machine" where
  "set_joypad_mask msk m =
     (let (j, tr) = set_mask msk (m_joypad m) in capture_joypad_trace tr (m\<lparr>m_joypad := j\<rparr>))"

section \<open>CGB registers and the speed switch\<close>

definition cgb_palette_access_blocked :: "machine \<Rightarrow> bool" where
  "cgb_palette_access_blocked m \<longleftrightarrow>
     m_mode m = Cgb \<and> lcd_enabled (m_ppu m) \<and> current_mode (m_ppu m) = Transfer"

definition read_key1 :: "machine \<Rightarrow> u8" where
  "read_key1 m =
     (if m_mode m \<noteq> Cgb then 0xFF
      else push_bit 7 (of_bool (m_double m)) OR of_bool (m_armed m) OR 0x7E)"

text \<open>A CGB register as DMG hardware shows it.\<close>

definition cgb_reg :: "machine \<Rightarrow> u8 \<Rightarrow> u8" where
  "cgb_reg m v = (if m_mode m = Cgb then v else 0xFF)"

definition sync_core_memory :: "machine \<Rightarrow> machine" where
  "sync_core_memory m =
     fold (\<lambda>(a, v). poke a v)
       [(0xFF00, read_p1 (m_joypad m)), (0xFF01, sr_sb (m_serial m)), (0xFF02, read_sc (m_serial m)),
        (0xFF04, ucast (tm_div (m_timer m))), (0xFF05, tm_tima (m_timer m)),
        (0xFF06, tm_tma (m_timer m)), (0xFF07, tm_tac (m_timer m) OR 0xF8),
        (0xFF0F, iflag (m_interrupt m) OR 0xE0), (0xFF40, ppu_lcdc (m_ppu m)),
        (0xFF41, read_stat (m_ppu m)), (0xFF42, ppu_scy (m_ppu m)), (0xFF43, ppu_scx (m_ppu m)),
        (0xFF44, ppu_ly (m_ppu m)), (0xFF45, ppu_lyc (m_ppu m)), (0xFF46, dma_ff46 (m_dma m)),
        (0xFF47, ppu_bgp (m_ppu m)), (0xFF48, ppu_obp0 (m_ppu m)), (0xFF49, ppu_obp1 (m_ppu m)),
        (0xFF4A, ppu_wy (m_ppu m)), (0xFF4B, ppu_wx (m_ppu m)), (0xFFFF, ie (m_interrupt m))] m"

definition sync_apu_memory :: "machine \<Rightarrow> machine" where
  "sync_apu_memory m =
     fold (\<lambda>(a, v). poke a v)
       (map (\<lambda>i. let a = 0xFF10 + of_nat i in (a, apu_read (m_apu m) a)) [0..<0x17] @
        map (\<lambda>i. let a = 0xFF30 + of_nat i in (a, apu_read (m_apu m) a)) [0..<0x10] @
        [(0xFF76, cgb_reg m (apu_read (m_apu m) 0xFF76)),
         (0xFF77, cgb_reg m (apu_read (m_apu m) 0xFF77))]) m"

definition sync_cgb_memory :: "machine \<Rightarrow> machine" where
  "sync_cgb_memory m =
     (let m = poke 0xFF4D (read_key1 m) m;
          m = poke 0xFF4F (cgb_reg m (vbk_register (m_mem m))) m;
          m = poke 0xFF68 (cgb_reg m (bg_palette_index (m_mem m))) m;
          m = poke 0xFF69 (cgb_reg m (read_bg_palette_data (m_mem m) (cgb_palette_access_blocked m))) m;
          m = poke 0xFF6A (cgb_reg m (obj_palette_index (m_mem m))) m;
          m = poke 0xFF6B (cgb_reg m (read_obj_palette_data (m_mem m) (cgb_palette_access_blocked m))) m
      in poke 0xFF70 (cgb_reg m (svbk_register (m_mem m))) m)"

definition push_cgb :: "cgb_event list \<Rightarrow> machine \<Rightarrow> machine" where
  "push_cgb tr m = m\<lparr>m_cgb_trace := m_cgb_trace m @ tr\<rparr>"

definition write_key1 :: "u8 \<Rightarrow> machine \<Rightarrow> machine" where
  "write_key1 v m =
     (if m_mode m \<noteq> Cgb then m
      else
        let m = sync_cgb_memory (m\<lparr>m_armed := (v AND 0x01 \<noteq> 0)\<rparr>)
        in push_cgb [Key1Write (m_armed m) (m_double m) v] m)"

definition perform_speed_switch :: "machine \<Rightarrow> machine" where
  "perform_speed_switch m =
     (if m_mode m \<noteq> Cgb \<or> \<not> m_armed m then m
      else
        let m = m\<lparr>m_armed := False, m_double := \<not> m_double m,
                  m_freeze := sat_add u32_max (m_freeze m) CGB_SPEED_SWITCH_FREEZE_CYCLES,
                  m_stall := sat_add u32_max (m_stall m) CGB_SPEED_SWITCH_FREEZE_CYCLES\<rparr>;
            m = sync_cgb_memory m
        in push_cgb [SpeedSwitch (m_double m) CGB_SPEED_SWITCH_FREEZE_CYCLES,
                     SpeedSwitchFreeze CGB_SPEED_SWITCH_FREEZE_CYCLES
                       (mode_bits (current_mode (m_ppu m)))] m)"

section \<open>Diagnostics\<close>

definition record_diagnostic_event ::
  "string \<Rightarrow> string \<Rightarrow> u16 \<Rightarrow> u8 \<Rightarrow> string \<Rightarrow> machine \<Rightarrow> machine" where
  "record_diagnostic_event event_type severity addr v access m =
     (if \<not> em_enabled (m_diag m) then m
      else m\<lparr>m_diag := record_gb_event
        \<lparr>ob_event_type = event_type, ob_severity = severity, ob_frame = clk_frames (m_clocks m),
         ob_scanline = Some (ppu_ly (m_ppu m)), ob_dot = Some (ppu_mode_cycles (m_ppu m)),
         ob_pc = Some (r_pc (m_cpu m)), ob_bank = Some (mbc_current_rom_bank (cart_mbc (m_cart m))),
         ob_addr = Some addr, ob_value = Some v, ob_access_kind = Some access,
         ob_ppu_mode = Some (mode_bits (current_mode (m_ppu m))),
         ob_lcdc = Some (ppu_lcdc (m_ppu m)), ob_stat = Some (read_stat (m_ppu m)),
         ob_dma_active = Some (dma_active (m_dma m))\<rparr> (m_diag m)\<rparr>)"

end
