(* ===== verification/Dma_Engine.thy ===== *)
theory Dma_Engine
  imports Machine_State
begin

text \<open>
  The two transfer engines of \<^verbatim>\<open>lib.rs\<close>: OAM DMA, which copies 160 bytes at four cycles a byte
  and keeps the CPU off the busy bus, and the CGB block transfers (HDMA and GDMA).
\<close>

definition dma_blocks_cpu_access :: "machine \<Rightarrow> u16 \<Rightarrow> bool" where
  "dma_blocks_cpu_access m addr =
     (if \<not> dma_active (m_dma m) then False
      else case m_mode m of
        Dmg \<Rightarrow> \<not> in_range 0xFF80 0xFFFE addr
      | Cgb \<Rightarrow>
          (let src = dma_source (m_dma m) in
           if in_range 0xFE00 0xFEFF addr then True
           else if in_range 0x0000 0x7FFF src \<or> in_range 0xA000 0xBFFF src
           then in_range 0x0000 0x7FFF addr \<or> in_range 0xA000 0xBFFF addr
           else if in_range 0x8000 0x9FFF src then in_range 0x8000 0x9FFF addr
           else if in_range 0xC000 0xDFFF src then in_range 0xC000 0xFDFF addr
           else False))"

definition read8_for_dma :: "machine \<Rightarrow> u16 \<Rightarrow> u8" where
  "read8_for_dma m addr =
     (if in_range 0x0000 0x7FFF addr then cart_read_rom (m_cart m) addr
      else if in_range 0xA000 0xBFFF addr then cart_read_ram (m_cart m) addr
      else mem_read8 (m_mem m) addr)"

section \<open>OAM DMA\<close>

definition put_dma :: "(dma_state \<Rightarrow> dma_state) \<Rightarrow> machine \<Rightarrow> machine" where
  "put_dma f m = m\<lparr>m_dma := f (m_dma m)\<rparr>"

function oam_dma_copy :: "machine \<Rightarrow> machine" where
  "oam_dma_copy m =
     (if dma_cycle_accum (m_dma m) \<ge> 4 \<and> dma_bytes_copied (m_dma m) < 0xA0 then
        let index = dma_bytes_copied (m_dma m);
            v = read8_for_dma m (dma_source (m_dma m) + of_nat index);
            m = poke (0xFE00 + of_nat index) v m
        in oam_dma_copy (put_dma (\<lambda>d. d\<lparr>dma_bytes_copied := dma_bytes_copied d + 1,
                                        dma_cycle_accum := dma_cycle_accum d - 4\<rparr>) m)
      else m)"
  by pat_completeness auto
termination
  by (relation "measure (\<lambda>m. dma_cycle_accum (m_dma m))") (auto simp: put_dma_def poke_def)

declare oam_dma_copy.simps [simp del]

definition tick_dma :: "nat \<Rightarrow> machine \<times> dma_event list \<Rightarrow> machine \<times> dma_event list" where
  "tick_dma cycles = (\<lambda>(m, tr).
     if \<not> dma_active (m_dma m) then (m, tr)
     else
       let delay = dma_start_delay (m_dma m);
           delay_step = min cycles delay;
           m = put_dma (\<lambda>d. d\<lparr>dma_start_delay := delay - delay_step\<rparr>) m;
           remaining = cycles - delay_step in
       if delay > 0 \<and> remaining = 0 then (m, tr)
       else
         let m = put_dma (\<lambda>d. d\<lparr>dma_cycle_accum :=
                   sat_add u8_max (dma_cycle_accum d) (remaining mod 256)\<rparr>) m;
             m = oam_dma_copy m in
         if dma_bytes_copied (m_dma m) \<ge> 0xA0 then
           (put_dma (\<lambda>d. d\<lparr>dma_active := False, dma_bytes_copied := 0, dma_cycle_accum := 0,
                           dma_start_delay := 0\<rparr>) m,
            tr @ [OamDmaComplete (dma_source (m_dma m)) 0xA0])
         else (m, tr))"

definition cycles_until_next_dma_event :: "machine \<Rightarrow> nat" where
  "cycles_until_next_dma_event m =
     (let d = m_dma m in
      if \<not> dma_active d then u32_max
      else if dma_start_delay d > 0 then dma_start_delay d
      else max (4 - dma_cycle_accum d) 1)"

section \<open>Block transfers\<close>

definition hdma_source_from_regs :: "machine \<Rightarrow> u16" where
  "hdma_source_from_regs m =
     push_bit 8 (ucast (hdma1 (m_dma m))) OR ucast (hdma2 (m_dma m) AND 0xF0)"

definition hdma_dest_from_regs :: "machine \<Rightarrow> u16" where
  "hdma_dest_from_regs m =
     0x8000 OR (push_bit 8 (ucast (hdma3 (m_dma m)) AND 0x1F) OR ucast (hdma4 (m_dma m) AND 0xF0))"

text \<open>\<open>saturating_sub\<close> on a byte.\<close>

definition sat_sub8 :: "u8 \<Rightarrow> u8 \<Rightarrow> u8" where
  "sat_sub8 x y = (if y \<le> x then x - y else 0)"

definition sync_hdma_registers :: "machine \<Rightarrow> machine" where
  "sync_hdma_registers m =
     (let d = m_dma m;
          src = hdma_source d;
          dest_offset = hdma_dest d - 0x8000;
          d = d\<lparr>hdma1 := hi_byte src, hdma2 := lo_byte src AND 0xF0,
                hdma3 := hi_byte dest_offset AND 0x1F, hdma4 := lo_byte dest_offset AND 0xF0,
                hdma5 :=
                  (if hdma_active d then sat_sub8 (hdma_blocks d) 1 AND 0x7F
                   else if hdma_blocks d > 0 then 0x80 OR (sat_sub8 (hdma_blocks d) 1 AND 0x7F)
                   else 0xFF)\<rparr>;
          m = m\<lparr>m_dma := d\<rparr>
      in fold (\<lambda>(a, v). poke a v)
           [(0xFF51, hdma1 d), (0xFF52, hdma2 d), (0xFF53, hdma3 d), (0xFF54, hdma4 d),
            (0xFF55, hdma5 d)] m)"

text \<open>One byte of a block: source address and destination wrap separately.\<close>

definition hdma_copy_byte :: "u16 \<Rightarrow> u16 \<Rightarrow> nat \<Rightarrow> machine \<Rightarrow> machine" where
  "hdma_copy_byte src dest k m =
     poke (0x8000 OR ((dest - 0x8000 + of_nat k) AND 0x1FFF)) (read8_for_dma m (src + of_nat k)) m"

definition transfer_hdma_block ::
  "bool \<Rightarrow> machine \<times> dma_event list \<Rightarrow> machine \<times> dma_event list" where
  "transfer_hdma_block hblank_mode = (\<lambda>(m, tr).
     if \<not> hdma_active (m_dma m) \<or> hdma_blocks (m_dma m) = 0 then (m, tr)
     else
       let src = hdma_source (m_dma m);
           dest = hdma_dest (m_dma m);
           block_index = sat_sub8 (hdma_total (m_dma m)) (hdma_blocks (m_dma m));
           m = fold (hdma_copy_byte src dest) [0..<0x10] m;
           m = put_dma (\<lambda>d. d\<lparr>hdma_source := src + 0x10,
                 hdma_dest := 0x8000 OR ((dest - 0x8000 + 0x10) AND 0x1FF0),
                 hdma_blocks := sat_sub8 (hdma_blocks d) 1\<rparr>) m;
           tr = tr @ [HdmaBlock src dest block_index (hdma_blocks (m_dma m)) hblank_mode
                        (hdma_block_stall_cycles m)];
           (m, tr) =
             (if hdma_blocks (m_dma m) = 0 then
                let blocks = hdma_total (m_dma m);
                    m = put_dma (\<lambda>d. d\<lparr>hdma_active := False, hdma_hblank := False\<rparr>) m
                in (m, tr @ [HdmaComplete (hdma_source (m_dma m)) (hdma_dest (m_dma m)) blocks hblank_mode])
              else (m, tr))
       in (sync_hdma_registers m, tr))"

text \<open>The block an HBlank copies, and the stall in CPU cycles it costs.\<close>

definition tick_hdma_hblank :: "machine \<times> dma_event list \<Rightarrow> (machine \<times> dma_event list) \<times> nat" where
  "tick_hdma_hblank = (\<lambda>(m, tr).
     if hdma_active (m_dma m) \<and> hdma_hblank (m_dma m) then
       if cpu_halted (m_cpu m)
       then ((m, tr @ [HdmaDeferred (hdma_blocks (m_dma m)) (ppu_ly (m_ppu m)) CpuHalted]), 0)
       else
         let (m, tr) = transfer_hdma_block True (m, tr)
         in ((m, tr), hdma_block_stall_cycles m)
     else ((m, tr), 0))"

lemma poke_sel [simp]:
  "m_dma (poke a v m) = m_dma m" "m_cart (poke a v m) = m_cart m" "m_cpu (poke a v m) = m_cpu m"
  "m_ppu (poke a v m) = m_ppu m" "m_mode (poke a v m) = m_mode m" "m_double (poke a v m) = m_double m"
  "m_mem (poke a v m) = mem_write8 a v (m_mem m)"
  by (simp_all add: poke_def)

lemma put_dma_sel [simp]:
  "m_dma (put_dma f m) = f (m_dma m)" "m_cart (put_dma f m) = m_cart m" "m_cpu (put_dma f m) = m_cpu m"
  "m_ppu (put_dma f m) = m_ppu m" "m_mode (put_dma f m) = m_mode m" "m_double (put_dma f m) = m_double m"
  "m_mem (put_dma f m) = m_mem m"
  by (simp_all add: put_dma_def)

lemma hdma_copy_byte_dma [simp]: "m_dma (hdma_copy_byte src dest k m) = m_dma m"
  by (simp add: hdma_copy_byte_def)

lemma hdma_copy_dma [simp]: "m_dma (fold (hdma_copy_byte src dest) ks m) = m_dma m"
  by (induction ks arbitrary: m) simp_all

lemma pokes_dma [simp]: "m_dma (fold (\<lambda>(a, v). poke a v) ps m) = m_dma m"
  by (induction ps arbitrary: m) auto

lemma sync_hdma_progress [simp]:
  "hdma_active (m_dma (sync_hdma_registers m)) = hdma_active (m_dma m)"
  "hdma_blocks (m_dma (sync_hdma_registers m)) = hdma_blocks (m_dma m)"
  "hdma_hblank (m_dma (sync_hdma_registers m)) = hdma_hblank (m_dma m)"
  by (simp_all add: sync_hdma_registers_def Let_def)

lemma one_le_word: "1 \<le> b \<longleftrightarrow> b \<noteq> (0 :: u8)"
  by (simp add: word_le_nat_alt Suc_le_eq unat_gt_0)

lemma transfer_block_count:
  assumes "hdma_active (m_dma m)" "hdma_blocks (m_dma m) \<noteq> 0"
  shows "hdma_blocks (m_dma (fst (transfer_hdma_block b (m, tr)))) = hdma_blocks (m_dma m) - 1"
    "hdma_active (m_dma (fst (transfer_hdma_block b (m, tr)))) = (hdma_blocks (m_dma m) \<noteq> 1)"
  using assms by (simp_all add: transfer_hdma_block_def Let_def sat_sub8_def one_le_word)

text \<open>
  The loop of a general transfer. It runs while the transfer is active; a block count of zero
  while active would never end in the code, and the register write below arms at least one block.
\<close>

function gdma_loop :: "machine \<times> dma_event list \<Rightarrow> machine \<times> dma_event list" where
  "gdma_loop s =
     (if hdma_active (m_dma (fst s)) \<and> hdma_blocks (m_dma (fst s)) \<noteq> 0
      then gdma_loop (transfer_hdma_block False s) else s)"
  by pat_completeness auto
termination
proof (relation "measure (\<lambda>s. unat (hdma_blocks (m_dma (fst s))))")
  fix s :: "machine \<times> dma_event list"
  assume a: "hdma_active (m_dma (fst s)) \<and> hdma_blocks (m_dma (fst s)) \<noteq> 0"
  obtain m tr where "s = (m, tr)"
    by (cases s)
  then show "(transfer_hdma_block False s, s) \<in> measure (\<lambda>s. unat (hdma_blocks (m_dma (fst s))))"
    using a transfer_block_count [of m False tr] by (simp add: unat_minus_one unat_gt_0)
qed simp

declare gdma_loop.simps [simp del]

definition push_dma :: "dma_event list \<Rightarrow> machine \<Rightarrow> machine" where
  "push_dma tr m = m\<lparr>m_dma_trace := m_dma_trace m @ tr\<rparr>"

text \<open>The write of FF55: cancel, ignore, or arm; a general transfer runs at once.\<close>

definition arm_hdma :: "u8 \<Rightarrow> machine \<Rightarrow> machine" where
  "arm_hdma v m =
     (let blocks = (v AND 0x7F) + 1;
          m = put_dma (\<lambda>d. d\<lparr>hdma_source := hdma_source_from_regs m, hdma_dest := hdma_dest_from_regs m,
                hdma_blocks := blocks, hdma_total := blocks, hdma_hblank := (v AND 0x80 \<noteq> 0),
                hdma_active := True\<rparr>) m;
          m = push_dma [HdmaStart (hdma_source (m_dma m)) (hdma_dest (m_dma m)) blocks
                          (hdma_hblank (m_dma m))] m
      in sync_hdma_registers m)"

definition run_gdma :: "machine \<Rightarrow> machine" where
  "run_gdma m =
     (let blocks = hdma_blocks (m_dma m);
          stall = sat_mul u32_max (unat blocks) (hdma_block_stall_cycles m);
          (m, tr) = gdma_loop (m\<lparr>m_dma_trace := []\<rparr>, m_dma_trace m @ [GdmaStallEstimate blocks stall])
      in m\<lparr>m_stall := sat_add u32_max (m_stall m) stall, m_dma_trace := tr\<rparr>)"

definition write_hdma_control :: "u8 \<Rightarrow> machine \<Rightarrow> machine" where
  "write_hdma_control v m =
     (if m_mode m \<noteq> Cgb then poke 0xFF55 0xFF (put_dma (\<lambda>d. d\<lparr>hdma5 := 0xFF\<rparr>) m)
      else if hdma_active (m_dma m) \<and> hdma_hblank (m_dma m) then
        if v AND 0x80 = 0 then
          let remaining_blocks = hdma_blocks (m_dma m);
              m = put_dma (\<lambda>d. d\<lparr>hdma_active := False, hdma_hblank := False\<rparr>) m;
              m = push_dma [HdmaCancel (hdma_source (m_dma m)) (hdma_dest (m_dma m)) remaining_blocks] m
          in sync_hdma_registers m
        else sync_hdma_registers (push_dma [HdmaWriteIgnored v (hdma_blocks (m_dma m))] m)
      else
        let m = arm_hdma v m
        in if \<not> hdma_hblank (m_dma m) then run_gdma m else m)"

end
