(* ===== verification/Machine_Bus.thy ===== *)
theory Machine_Bus
  imports Dma_Engine
begin

text \<open>
  The CPU bus of \<^verbatim>\<open>lib.rs\<close>: reads with their access restrictions (\<open>peek8\<close>, \<open>read8\<close>), the
  predicted reads of the timed PPU registers, and the dispatch of writes to the devices.
\<close>

section \<open>Reads\<close>

text \<open>The CGB registers of a read; every other register is shared with the DMG.\<close>

definition peek_cgb_register :: "machine \<Rightarrow> u16 \<Rightarrow> u8" where
  "peek_cgb_register m addr =
     (if addr = 0xFF4D then read_key1 m
      else if addr = 0xFF4F then cgb_reg m (vbk_register (m_mem m))
      else if addr = 0xFF51 then hdma1 (m_dma m)
      else if addr = 0xFF52 then hdma2 (m_dma m) OR 0x0F
      else if addr = 0xFF53 then hdma3 (m_dma m) OR 0xE0
      else if addr = 0xFF54 then hdma4 (m_dma m) OR 0x0F
      else if addr = 0xFF55 then hdma5 (m_dma m)
      else if addr = 0xFF68 then cgb_reg m (bg_palette_index (m_mem m))
      else if addr = 0xFF69 then
        cgb_reg m (read_bg_palette_data (m_mem m) (cgb_palette_access_blocked m))
      else if addr = 0xFF6A then cgb_reg m (obj_palette_index (m_mem m))
      else if addr = 0xFF6B then
        cgb_reg m (read_obj_palette_data (m_mem m) (cgb_palette_access_blocked m))
      else if addr = 0xFF70 then cgb_reg m (svbk_register (m_mem m))
      else cgb_reg m (apu_read (m_apu m) addr))"

definition cgb_register_addr :: "u16 \<Rightarrow> bool" where
  "cgb_register_addr addr \<longleftrightarrow>
     addr \<in> {0xFF4D, 0xFF4F, 0xFF51, 0xFF52, 0xFF53, 0xFF54, 0xFF55, 0xFF68, 0xFF69, 0xFF6A, 0xFF6B,
              0xFF70, 0xFF76, 0xFF77}"

definition peek_ppu_register :: "machine \<Rightarrow> u16 \<Rightarrow> u8" where
  "peek_ppu_register m addr =
     (let p = m_ppu m in
      if addr = 0xFF40 then ppu_lcdc p
      else if addr = 0xFF41 then read_stat p
      else if addr = 0xFF42 then ppu_scy p
      else if addr = 0xFF43 then ppu_scx p
      else if addr = 0xFF44 then ppu_ly p
      else if addr = 0xFF45 then ppu_lyc p
      else if addr = 0xFF46 then dma_ff46 (m_dma m)
      else if addr = 0xFF47 then ppu_bgp p
      else if addr = 0xFF48 then ppu_obp0 p
      else if addr = 0xFF49 then ppu_obp1 p
      else if addr = 0xFF4A then ppu_wy p
      else ppu_wx p)"

definition peek8 :: "machine \<Rightarrow> u16 \<Rightarrow> u8" where
  "peek8 m addr =
     (if dma_blocks_cpu_access m addr then 0xFF
      else if in_range 0x0000 0x7FFF addr then cart_read_rom (m_cart m) addr
      else if in_range 0x8000 0x9FFF addr then
        if can_cpu_access_vram (m_ppu m) then mem_read8 (m_mem m) addr else 0xFF
      else if in_range 0xA000 0xBFFF addr then cart_read_ram (m_cart m) addr
      else if addr = 0xFF00 then read_p1 (m_joypad m)
      else if addr = 0xFF01 then sr_sb (m_serial m)
      else if addr = 0xFF02 then read_sc (m_serial m)
      else if addr = 0xFF04 then ucast (tm_div (m_timer m))
      else if addr = 0xFF05 then tm_tima (m_timer m)
      else if addr = 0xFF06 then tm_tma (m_timer m)
      else if addr = 0xFF07 then tm_tac (m_timer m) OR 0xF8
      else if in_range 0xFF10 0xFF26 addr \<or> in_range 0xFF30 0xFF3F addr then apu_read (m_apu m) addr
      else if addr = 0xFF0F then iflag (m_interrupt m) OR 0xE0
      else if in_range 0xFF40 0xFF4B addr then peek_ppu_register m addr
      else if cgb_register_addr addr then peek_cgb_register m addr
      else if addr = 0xFFFF then ie (m_interrupt m)
      else if in_range 0xFE00 0xFE9F addr then
        if can_cpu_access_oam (m_ppu m) \<and> \<not> dma_active (m_dma m) then mem_read8 (m_mem m) addr
        else 0xFF
      else mem_read8 (m_mem m) addr)"

definition diagnose_if ::
  "bool \<Rightarrow> string \<Rightarrow> string \<Rightarrow> u16 \<Rightarrow> u8 \<Rightarrow> string \<Rightarrow> machine \<Rightarrow> machine" where
  "diagnose_if b event_type severity addr v access m =
     (if b then record_diagnostic_event event_type severity addr v access m else m)"

definition read8 :: "u16 \<Rightarrow> machine \<Rightarrow> u8 \<times> machine" where
  "read8 addr m =
     (let dma_blocked = dma_blocks_cpu_access m addr;
          v = peek8 m addr;
          m = diagnose_if dma_blocked ''DMA_OR_HDMA_CONFLICT'' ''error'' addr v ''read_blocked_by_dma'' m;
          m = diagnose_if (in_range 0x8000 0x9FFF addr \<and> \<not> can_cpu_access_vram (m_ppu m))
                ''VRAM_READ_DURING_BLOCKED_PERIOD'' ''warn'' addr v ''read'' m;
          m = diagnose_if (in_range 0xFE00 0xFE9F addr \<and>
                  (\<not> can_cpu_access_oam (m_ppu m) \<or> dma_active (m_dma m)))
                ''OAM_ACCESS_DURING_FORBIDDEN_PERIOD'' ''error'' addr v ''read'' m;
          m = (if addr = 0xFF00
               then push_io [IoJoypad (JoypadRead v (jp_p1 (m_joypad m) AND 0x30) (jp_mask (m_joypad m)))] m
               else m)
      in (v, m))"

definition predict_timed_io_read :: "machine \<Rightarrow> u16 \<Rightarrow> nat \<Rightarrow> u8 option" where
  "predict_timed_io_read m addr cpu_cycles =
     (let ppu_cycles = cpu_cycles_to_ppu_cycles m cpu_cycles in
      if addr = 0xFF41 then Some (predict_stat_after_cycles (m_ppu m) ppu_cycles)
      else if addr = 0xFF44 then Some (predict_ly_after_cycles (m_ppu m) ppu_cycles)
      else None)"

definition read8_timed :: "u16 \<Rightarrow> nat \<Rightarrow> machine \<Rightarrow> u8 \<times> machine" where
  "read8_timed addr cpu_cycles m =
     (case predict_timed_io_read m addr cpu_cycles of
        Some v \<Rightarrow> (v, m)
      | None \<Rightarrow> read8 addr m)"

section \<open>Writes\<close>

definition push_mapper :: "mapper_event list \<Rightarrow> machine \<Rightarrow> machine" where
  "push_mapper tr m = m\<lparr>m_mapper_trace := m_mapper_trace m @ tr\<rparr>"

definition write8_mapper :: "host \<Rightarrow> u16 \<Rightarrow> u8 \<Rightarrow> machine \<Rightarrow> machine" where
  "write8_mapper h addr v m =
     (let m = diagnose_if (m_vector m \<noteq> None) ''IRQ_UNSAFE_RUNTIME_STATE_ACCESS'' ''error'' addr v
                ''irq_mapper_write'' m;
          mapper = mbc_kind (cart_mbc (m_cart m));
          before_rom = mbc_current_rom_bank (cart_mbc (m_cart m));
          before_ram = mbc_current_ram_bank (cart_mbc (m_cart m));
          m = m\<lparr>m_cart := cart_write_mbc (host_now h) addr v (m_cart m)\<rparr>;
          after_rom = mbc_current_rom_bank (cart_mbc (m_cart m));
          after_ram = mbc_current_ram_bank (cart_mbc (m_cart m))
      in push_mapper
           ((if is_special mapper then [ControlWrite mapper addr v after_rom after_ram] else []) @
            (if before_rom \<noteq> after_rom then [RomBankChange mapper addr v before_rom after_rom] else []) @
            (if before_ram \<noteq> after_ram then [RamBankChange mapper addr v before_ram after_ram] else []))
           m)"

definition put_ppu :: "(ppu \<Rightarrow> ppu) \<Rightarrow> machine \<Rightarrow> machine" where
  "put_ppu f m = m\<lparr>m_ppu := f (m_ppu m)\<rparr>"

definition put_timer :: "(timer \<Rightarrow> timer) \<Rightarrow> machine \<Rightarrow> machine" where
  "put_timer f m = m\<lparr>m_timer := f (m_timer m)\<rparr>"

definition dmg_stat_write_causes_spurious_interrupt :: "machine \<Rightarrow> bool" where
  "dmg_stat_write_causes_spurious_interrupt m =
     (if m_mode m \<noteq> Dmg \<or> \<not> lcd_enabled (m_ppu m) then False
      else stat_coincidence (m_ppu m) \<or> current_mode (m_ppu m) \<in> {HBlank, VBlank, OamSearch})"

definition write_ff46 :: "u8 \<Rightarrow> machine \<Rightarrow> machine" where
  "write_ff46 v m =
     (let m = put_dma (\<lambda>d. d\<lparr>dma_ff46 := v\<rparr>) m;
          m = poke 0xFF46 v m;
          m = put_dma (\<lambda>d. d\<lparr>dma_active := True, dma_source := push_bit 8 (ucast v),
                dma_bytes_copied := 0, dma_cycle_accum := 0, dma_start_delay := 4\<rparr>) m;
          src = dma_source (m_dma m);
          m = diagnose_if (\<not> in_range 0xC000 0xDFFF src) ''OAM_DMA_SOURCE_UNSAFE'' ''warn'' src v
                ''oam_dma_source'' m
      in push_dma [OamDmaStart src] m)"

text \<open>The registers of the timer, the serial port and the joypad.\<close>

definition write8_port :: "u16 \<Rightarrow> u8 \<Rightarrow> machine \<Rightarrow> machine" where
  "write8_port addr v m =
     (if addr = 0xFF00 then
        let (j, tr) = write_p1 v (m_joypad m) in capture_joypad_trace tr (m\<lparr>m_joypad := j\<rparr>)
      else if addr = 0xFF01 then poke addr v (m\<lparr>m_serial := write_sb v (m_serial m)\<rparr>)
      else if addr = 0xFF02 then
        let (s, tr) = write_sc v (m_serial m);
            m = push_io (map IoSerial tr) (m\<lparr>m_serial := s\<rparr>)
        in poke addr (read_sc (m_serial m)) m
      else if addr = 0xFF04 then
        let (t, tr) = write_div (m_timer m) in push_io (map IoTimer tr) (m\<lparr>m_timer := t\<rparr>)
      else if addr = 0xFF05 then put_timer (write_tima v) m
      else if addr = 0xFF06 then put_timer (write_tma v) m
      else
        let (t, tr) = write_tac v (m_timer m) in push_io (map IoTimer tr) (m\<lparr>m_timer := t\<rparr>))"

text \<open>The registers of the PPU and the OAM DMA start.\<close>

definition write8_ppu :: "u16 \<Rightarrow> u8 \<Rightarrow> machine \<Rightarrow> machine" where
  "write8_ppu addr v m =
     (if addr = 0xFF40 then
        let (p, raised) = write_lcdc v (m_ppu m);
            m = m\<lparr>m_ppu := p, m_clocks := (m_clocks m)
                  \<lparr>clk_frame_phase := unat (ppu_ly p) * 456 + ppu_mode_cycles p\<rparr>\<rparr>
        in request_if raised INT_LCD_STAT LcdStat m
      else if addr = 0xFF41 then
        let spurious = dmg_stat_write_causes_spurious_interrupt m;
            (p, raised) = write_stat v (m_ppu m)
        in request_if (spurious \<or> raised) INT_LCD_STAT LcdStat (m\<lparr>m_ppu := p\<rparr>)
      else if addr = 0xFF42 then put_ppu (\<lambda>p. p\<lparr>ppu_scy := v\<rparr>) m
      else if addr = 0xFF43 then put_ppu (\<lambda>p. p\<lparr>ppu_scx := v\<rparr>) m
      else if addr = 0xFF44 then m
      else if addr = 0xFF45 then
        let (p, raised) = write_lyc v (m_ppu m)
        in request_if raised INT_LCD_STAT LcdStat (m\<lparr>m_ppu := p\<rparr>)
      else if addr = 0xFF46 then write_ff46 v m
      else if addr = 0xFF47 then put_ppu (\<lambda>p. p\<lparr>ppu_bgp := v\<rparr>) m
      else if addr = 0xFF48 then put_ppu (\<lambda>p. p\<lparr>ppu_obp0 := v\<rparr>) m
      else if addr = 0xFF49 then put_ppu (\<lambda>p. p\<lparr>ppu_obp1 := v\<rparr>) m
      else if addr = 0xFF4A then put_ppu (\<lambda>p. p\<lparr>ppu_wy := v\<rparr>) m
      else put_ppu (\<lambda>p. p\<lparr>ppu_wx := v\<rparr>) m)"

text \<open>The block-transfer registers; the control write is diagnosed before it is made.\<close>

definition hdma_start_unsafe :: "u8 \<Rightarrow> machine \<Rightarrow> bool" where
  "hdma_start_unsafe v m \<longleftrightarrow>
     m_mode m = Cgb \<and> lcd_enabled (m_ppu m) \<and> \<not> (hdma_active (m_dma m) \<and> hdma_hblank (m_dma m)) \<and>
     (let mode = mode_bits (current_mode (m_ppu m)) in
      if v AND 0x80 \<noteq> 0 then mode = 0 else mode = 2 \<or> mode = 3)"

definition write8_hdma :: "u16 \<Rightarrow> u8 \<Rightarrow> machine \<Rightarrow> machine" where
  "write8_hdma addr v m =
     (if addr = 0xFF51 then poke addr v (put_dma (\<lambda>d. d\<lparr>hdma1 := v\<rparr>) m)
      else if addr = 0xFF52 then poke addr (v AND 0xF0) (put_dma (\<lambda>d. d\<lparr>hdma2 := v AND 0xF0\<rparr>) m)
      else if addr = 0xFF53 then poke addr (v AND 0x1F) (put_dma (\<lambda>d. d\<lparr>hdma3 := v AND 0x1F\<rparr>) m)
      else if addr = 0xFF54 then poke addr (v AND 0xF0) (put_dma (\<lambda>d. d\<lparr>hdma4 := v AND 0xF0\<rparr>) m)
      else
        write_hdma_control v
          (diagnose_if (hdma_start_unsafe v m) ''HDMA_TRANSFER_DURING_UNSAFE_MODE'' ''warn'' addr v
             ''hdma_control_write'' m))"

text \<open>The bank and palette registers of the CGB; the DMG ignores them.\<close>

definition write8_cgb :: "u16 \<Rightarrow> u8 \<Rightarrow> machine \<Rightarrow> machine" where
  "write8_cgb addr v m =
     (if m_mode m \<noteq> Cgb then m
      else if addr = 0xFF4F then
        let (mem, bank) = set_vbk v (m_mem m)
        in push_cgb [VramBankSwitch bank v] (m\<lparr>m_mem := mem\<rparr>)
      else if addr = 0xFF68 then
        let (mem, reg) = set_bg_palette_index v (m_mem m)
        in push_cgb [BgPaletteIndexWrite (reg AND 0x3F) (reg AND 0x80 \<noteq> 0)] (m\<lparr>m_mem := mem\<rparr>)
      else if addr = 0xFF69 then
        let (mem, r) = write_bg_palette_data v (cgb_palette_access_blocked m) (m_mem m)
        in push_cgb [BgPaletteDataWrite (pa_index r) (pa_value r) (pa_blocked r) (pa_auto_increment r)]
             (m\<lparr>m_mem := mem\<rparr>)
      else if addr = 0xFF6A then
        let (mem, reg) = set_obj_palette_index v (m_mem m)
        in push_cgb [ObjPaletteIndexWrite (reg AND 0x3F) (reg AND 0x80 \<noteq> 0)] (m\<lparr>m_mem := mem\<rparr>)
      else if addr = 0xFF6B then
        let (mem, r) = write_obj_palette_data v (cgb_palette_access_blocked m) (m_mem m)
        in push_cgb [ObjPaletteDataWrite (pa_index r) (pa_value r) (pa_blocked r) (pa_auto_increment r)]
             (m\<lparr>m_mem := mem\<rparr>)
      else
        let (mem, bank) = set_svbk v (m_mem m)
        in push_cgb [WramBankSwitch bank v] (m\<lparr>m_mem := mem\<rparr>))"

definition write8_apu :: "host \<Rightarrow> u16 \<Rightarrow> u8 \<Rightarrow> machine \<Rightarrow> machine" where
  "write8_apu h addr v m =
     (let (a, tr) = apu_write (host_floats h) addr v (m_apu m)
      in sync_apu_memory (m\<lparr>m_apu := a, m_apu_trace := m_apu_trace m @ tr\<rparr>))"

definition write8 :: "host \<Rightarrow> u16 \<Rightarrow> u8 \<Rightarrow> machine \<Rightarrow> machine" where
  "write8 h addr v m =
     (if dma_blocks_cpu_access m addr then
        record_diagnostic_event ''DMA_OR_HDMA_CONFLICT'' ''error'' addr v ''write_blocked_by_dma'' m
      else if in_range 0x0000 0x7FFF addr then write8_mapper h addr v m
      else if in_range 0x8000 0x9FFF addr then
        if can_cpu_access_vram (m_ppu m) then poke addr v m
        else record_diagnostic_event ''VRAM_WRITE_OUTSIDE_SAFE_PERIOD'' ''error'' addr v ''write'' m
      else if in_range 0xA000 0xBFFF addr then
        m\<lparr>m_cart := cart_write_ram (host_now h) addr v (m_cart m)\<rparr>
      else if in_range 0xFF00 0xFF02 addr \<or> in_range 0xFF04 0xFF07 addr then write8_port addr v m
      else if in_range 0xFF10 0xFF26 addr \<or> in_range 0xFF30 0xFF3F addr then write8_apu h addr v m
      else if addr = 0xFF0F then
        m\<lparr>m_interrupt := (m_interrupt m)\<lparr>iflag := v AND 0x1F\<rparr>\<rparr>
      else if in_range 0xFF40 0xFF4B addr then write8_ppu addr v m
      else if addr = 0xFF4D then write_key1 v m
      else if in_range 0xFF51 0xFF55 addr then write8_hdma addr v m
      else if addr = 0xFF4F \<or> in_range 0xFF68 0xFF6B addr \<or> addr = 0xFF70 then write8_cgb addr v m
      else if in_range 0xFF76 0xFF77 addr then m
      else if addr = 0xFFFF then m\<lparr>m_interrupt := (m_interrupt m)\<lparr>ie := v\<rparr>\<rparr>
      else if in_range 0xFE00 0xFE9F addr then
        if can_cpu_access_oam (m_ppu m) \<and> \<not> dma_active (m_dma m) then poke addr v m
        else record_diagnostic_event ''OAM_ACCESS_DURING_FORBIDDEN_PERIOD'' ''error'' addr v ''write'' m
      else poke addr v m)"

end
