(* ===== verification/Observation.thy ===== *)
theory Observation
  imports Machine_Bus
begin

text \<open>
  What the machine only records: the pending observations and the diagnostic aggregates. Two
  machines are the same up to observations when all devices, counters and latches agree; the
  operations of the bus and the transfer engines respect that, so no observation influences
  the machine.
\<close>

definition put_obs :: "machine \<Rightarrow> machine \<Rightarrow> machine" where
  "put_obs k m = m\<lparr>m_dma_trace := m_dma_trace k, m_mapper_trace := m_mapper_trace k, m_io_trace := m_io_trace k,
     m_apu_trace := m_apu_trace k,
     m_cgb_trace := m_cgb_trace k, m_interrupt_trace := m_interrupt_trace k, m_diag := m_diag k\<rparr>"

definition same :: "machine \<Rightarrow> machine \<Rightarrow> bool" where
  "same m n \<longleftrightarrow> put_obs m n = m"

lemma put_obs_sel [simp]:
  "m_cpu (put_obs k m) = m_cpu m"
  "m_ppu (put_obs k m) = m_ppu m"
  "m_timer (put_obs k m) = m_timer m"
  "m_interrupt (put_obs k m) = m_interrupt m"
  "m_joypad (put_obs k m) = m_joypad m"
  "m_dma (put_obs k m) = m_dma m"
  "m_serial (put_obs k m) = m_serial m"
  "m_link (put_obs k m) = m_link m"
  "m_apu (put_obs k m) = m_apu m"
  "m_cart (put_obs k m) = m_cart m"
  "m_mem (put_obs k m) = m_mem m"
  "m_clocks (put_obs k m) = m_clocks m"
  "m_mode (put_obs k m) = m_mode m"
  "m_vector (put_obs k m) = m_vector m"
  "m_stall (put_obs k m) = m_stall m"
  "m_double (put_obs k m) = m_double m"
  "m_armed (put_obs k m) = m_armed m"
  "m_freeze (put_obs k m) = m_freeze m"
  "m_dma_trace (put_obs k m) = m_dma_trace k"
  "m_mapper_trace (put_obs k m) = m_mapper_trace k"
  "m_io_trace (put_obs k m) = m_io_trace k"
  "m_apu_trace (put_obs k m) = m_apu_trace k"
  "m_cgb_trace (put_obs k m) = m_cgb_trace k"
  "m_interrupt_trace (put_obs k m) = m_interrupt_trace k"
  "m_diag (put_obs k m) = m_diag k"
  by (simp_all add: put_obs_def)

lemma put_obs_upd [simp]:
  "(put_obs k m)\<lparr>m_cpu := x0\<rparr> = put_obs k (m\<lparr>m_cpu := x0\<rparr>)"
  "(put_obs k m)\<lparr>m_ppu := x1\<rparr> = put_obs k (m\<lparr>m_ppu := x1\<rparr>)"
  "(put_obs k m)\<lparr>m_timer := x2\<rparr> = put_obs k (m\<lparr>m_timer := x2\<rparr>)"
  "(put_obs k m)\<lparr>m_interrupt := x3\<rparr> = put_obs k (m\<lparr>m_interrupt := x3\<rparr>)"
  "(put_obs k m)\<lparr>m_joypad := x4\<rparr> = put_obs k (m\<lparr>m_joypad := x4\<rparr>)"
  "(put_obs k m)\<lparr>m_dma := x5\<rparr> = put_obs k (m\<lparr>m_dma := x5\<rparr>)"
  "(put_obs k m)\<lparr>m_serial := x6\<rparr> = put_obs k (m\<lparr>m_serial := x6\<rparr>)"
  "(put_obs k m)\<lparr>m_link := x7\<rparr> = put_obs k (m\<lparr>m_link := x7\<rparr>)"
  "(put_obs k m)\<lparr>m_apu := x8\<rparr> = put_obs k (m\<lparr>m_apu := x8\<rparr>)"
  "(put_obs k m)\<lparr>m_cart := x9\<rparr> = put_obs k (m\<lparr>m_cart := x9\<rparr>)"
  "(put_obs k m)\<lparr>m_mem := x10\<rparr> = put_obs k (m\<lparr>m_mem := x10\<rparr>)"
  "(put_obs k m)\<lparr>m_clocks := x11\<rparr> = put_obs k (m\<lparr>m_clocks := x11\<rparr>)"
  "(put_obs k m)\<lparr>m_mode := x12\<rparr> = put_obs k (m\<lparr>m_mode := x12\<rparr>)"
  "(put_obs k m)\<lparr>m_vector := x13\<rparr> = put_obs k (m\<lparr>m_vector := x13\<rparr>)"
  "(put_obs k m)\<lparr>m_stall := x14\<rparr> = put_obs k (m\<lparr>m_stall := x14\<rparr>)"
  "(put_obs k m)\<lparr>m_double := x15\<rparr> = put_obs k (m\<lparr>m_double := x15\<rparr>)"
  "(put_obs k m)\<lparr>m_armed := x16\<rparr> = put_obs k (m\<lparr>m_armed := x16\<rparr>)"
  "(put_obs k m)\<lparr>m_freeze := x17\<rparr> = put_obs k (m\<lparr>m_freeze := x17\<rparr>)"
  "(put_obs k m)\<lparr>m_dma_trace := y0\<rparr> = put_obs (k\<lparr>m_dma_trace := y0\<rparr>) m"
  "(put_obs k m)\<lparr>m_mapper_trace := y1\<rparr> = put_obs (k\<lparr>m_mapper_trace := y1\<rparr>) m"
  "(put_obs k m)\<lparr>m_io_trace := y2\<rparr> = put_obs (k\<lparr>m_io_trace := y2\<rparr>) m"
  "(put_obs k m)\<lparr>m_apu_trace := y3\<rparr> = put_obs (k\<lparr>m_apu_trace := y3\<rparr>) m"
  "(put_obs k m)\<lparr>m_cgb_trace := y4\<rparr> = put_obs (k\<lparr>m_cgb_trace := y4\<rparr>) m"
  "(put_obs k m)\<lparr>m_interrupt_trace := y5\<rparr> = put_obs (k\<lparr>m_interrupt_trace := y5\<rparr>) m"
  "(put_obs k m)\<lparr>m_diag := y6\<rparr> = put_obs (k\<lparr>m_diag := y6\<rparr>) m"
  by (rule machine.equality; simp add: put_obs_def)+

lemma put_obs_put [simp]: "put_obs k (put_obs l m) = put_obs k m" "put_obs m m = m"
  "put_obs (put_obs k m) n = put_obs k n"
  by (rule machine.equality; simp)+

lemma put_obs_irrelevant [simp]:
  "put_obs k (m\<lparr>m_dma_trace := y0\<rparr>) = put_obs k m"
  "put_obs k (m\<lparr>m_mapper_trace := y1\<rparr>) = put_obs k m"
  "put_obs k (m\<lparr>m_io_trace := y2\<rparr>) = put_obs k m"
  "put_obs k (m\<lparr>m_apu_trace := y3\<rparr>) = put_obs k m"
  "put_obs k (m\<lparr>m_cgb_trace := y4\<rparr>) = put_obs k m"
  "put_obs k (m\<lparr>m_interrupt_trace := y5\<rparr>) = put_obs k m"
  "put_obs k (m\<lparr>m_diag := y6\<rparr>) = put_obs k m"
  by (rule machine.equality; simp)+

lemma same_refl [simp]: "same m m"
  by (simp add: same_def)

lemma same_put [simp]: "same (put_obs k m) n \<longleftrightarrow> same m n" "same m (put_obs k n) \<longleftrightarrow> same m n"
proof -
  have "put_obs (put_obs k m) n = put_obs k m \<longleftrightarrow> put_obs m n = m"
    by (metis put_obs_put)
  then show "same (put_obs k m) n \<longleftrightarrow> same m n"
    by (simp add: same_def)
qed (simp add: same_def)

lemma sameE:
  assumes "same m n" obtains k where "m = put_obs k n"
  using assms by (metis same_def)

lemma same_sym: "same m n \<Longrightarrow> same n m"
  by (elim sameE) simp

lemma same_trans [trans]: "same m n \<Longrightarrow> same n p \<Longrightarrow> same m p"
  by (elim sameE) simp

text \<open>Only recording leaves a machine the same.\<close>

lemma same_record [simp]:
  "same (m\<lparr>m_dma_trace := y0\<rparr>) n \<longleftrightarrow> same m n" "same n (m\<lparr>m_dma_trace := y0\<rparr>) \<longleftrightarrow> same n m"
  "same (m\<lparr>m_mapper_trace := y1\<rparr>) n \<longleftrightarrow> same m n" "same n (m\<lparr>m_mapper_trace := y1\<rparr>) \<longleftrightarrow> same n m"
  "same (m\<lparr>m_io_trace := y2\<rparr>) n \<longleftrightarrow> same m n" "same n (m\<lparr>m_io_trace := y2\<rparr>) \<longleftrightarrow> same n m"
  "same (m\<lparr>m_apu_trace := y3\<rparr>) n \<longleftrightarrow> same m n" "same n (m\<lparr>m_apu_trace := y3\<rparr>) \<longleftrightarrow> same n m"
  "same (m\<lparr>m_cgb_trace := y4\<rparr>) n \<longleftrightarrow> same m n" "same n (m\<lparr>m_cgb_trace := y4\<rparr>) \<longleftrightarrow> same n m"
  "same (m\<lparr>m_interrupt_trace := y5\<rparr>) n \<longleftrightarrow> same m n" "same n (m\<lparr>m_interrupt_trace := y5\<rparr>) \<longleftrightarrow> same n m"
  "same (m\<lparr>m_diag := y6\<rparr>) n \<longleftrightarrow> same m n" "same n (m\<lparr>m_diag := y6\<rparr>) \<longleftrightarrow> same n m"
proof -
  have keep: "same (f m) m" if "put_obs (f m) m = f m" for f :: "machine \<Rightarrow> machine"
    using that by (simp add: same_def)
  have "same (m\<lparr>m_dma_trace := y0\<rparr>) m"
    by (rule keep [of "\<lambda>m. m\<lparr>m_dma_trace := y0\<rparr>"]; rule machine.equality; simp)
  then show "same (m\<lparr>m_dma_trace := y0\<rparr>) n \<longleftrightarrow> same m n" "same n (m\<lparr>m_dma_trace := y0\<rparr>) \<longleftrightarrow> same n m"
    using same_sym same_trans by blast+
  have "same (m\<lparr>m_mapper_trace := y1\<rparr>) m"
    by (rule keep [of "\<lambda>m. m\<lparr>m_mapper_trace := y1\<rparr>"]; rule machine.equality; simp)
  then show "same (m\<lparr>m_mapper_trace := y1\<rparr>) n \<longleftrightarrow> same m n" "same n (m\<lparr>m_mapper_trace := y1\<rparr>) \<longleftrightarrow> same n m"
    using same_sym same_trans by blast+
  have "same (m\<lparr>m_io_trace := y2\<rparr>) m"
    by (rule keep [of "\<lambda>m. m\<lparr>m_io_trace := y2\<rparr>"]; rule machine.equality; simp)
  then show "same (m\<lparr>m_io_trace := y2\<rparr>) n \<longleftrightarrow> same m n" "same n (m\<lparr>m_io_trace := y2\<rparr>) \<longleftrightarrow> same n m"
    using same_sym same_trans by blast+
  have "same (m\<lparr>m_apu_trace := y3\<rparr>) m"
    by (rule keep [of "\<lambda>m. m\<lparr>m_apu_trace := y3\<rparr>"]; rule machine.equality; simp)
  then show "same (m\<lparr>m_apu_trace := y3\<rparr>) n \<longleftrightarrow> same m n" "same n (m\<lparr>m_apu_trace := y3\<rparr>) \<longleftrightarrow> same n m"
    using same_sym same_trans by blast+
  have "same (m\<lparr>m_cgb_trace := y4\<rparr>) m"
    by (rule keep [of "\<lambda>m. m\<lparr>m_cgb_trace := y4\<rparr>"]; rule machine.equality; simp)
  then show "same (m\<lparr>m_cgb_trace := y4\<rparr>) n \<longleftrightarrow> same m n" "same n (m\<lparr>m_cgb_trace := y4\<rparr>) \<longleftrightarrow> same n m"
    using same_sym same_trans by blast+
  have "same (m\<lparr>m_interrupt_trace := y5\<rparr>) m"
    by (rule keep [of "\<lambda>m. m\<lparr>m_interrupt_trace := y5\<rparr>"]; rule machine.equality; simp)
  then show "same (m\<lparr>m_interrupt_trace := y5\<rparr>) n \<longleftrightarrow> same m n" "same n (m\<lparr>m_interrupt_trace := y5\<rparr>) \<longleftrightarrow> same n m"
    using same_sym same_trans by blast+
  have "same (m\<lparr>m_diag := y6\<rparr>) m"
    by (rule keep [of "\<lambda>m. m\<lparr>m_diag := y6\<rparr>"]; rule machine.equality; simp)
  then show "same (m\<lparr>m_diag := y6\<rparr>) n \<longleftrightarrow> same m n" "same n (m\<lparr>m_diag := y6\<rparr>) \<longleftrightarrow> same n m"
    using same_sym same_trans by blast+
qed

text \<open>The devices of two machines that are the same.\<close>

lemma same_sel:
  assumes "same m n"
  shows
    "m_cpu m = m_cpu n"
    "m_ppu m = m_ppu n"
    "m_timer m = m_timer n"
    "m_interrupt m = m_interrupt n"
    "m_joypad m = m_joypad n"
    "m_dma m = m_dma n"
    "m_serial m = m_serial n"
    "m_link m = m_link n"
    "m_apu m = m_apu n"
    "m_cart m = m_cart n"
    "m_mem m = m_mem n"
    "m_clocks m = m_clocks n"
    "m_mode m = m_mode n"
    "m_vector m = m_vector n"
    "m_stall m = m_stall n"
    "m_double m = m_double n"
    "m_armed m = m_armed n"
    "m_freeze m = m_freeze n"
  using assms by (elim sameE; simp)+

section \<open>Operations that do not look\<close>

lemma put_obs_queries [simp]:
  "cgb_fast_domains_enabled (put_obs k m) = cgb_fast_domains_enabled m"
  "cpu_cycles_to_ppu_cycles (put_obs k m) i = cpu_cycles_to_ppu_cycles m i"
  "cpu_cycles_to_ppu_cycles_ceil (put_obs k m) i = cpu_cycles_to_ppu_cycles_ceil m i"
  "ppu_cycles_to_cpu_cycles (put_obs k m) i = ppu_cycles_to_cpu_cycles m i"
  "hdma_block_stall_cycles (put_obs k m) = hdma_block_stall_cycles m"
  "cgb_palette_access_blocked (put_obs k m) = cgb_palette_access_blocked m"
  "read_key1 (put_obs k m) = read_key1 m" "cgb_reg (put_obs k m) v = cgb_reg m v"
  "dma_blocks_cpu_access (put_obs k m) a = dma_blocks_cpu_access m a"
  "read8_for_dma (put_obs k m) a = read8_for_dma m a"
  "cycles_until_next_dma_event (put_obs k m) = cycles_until_next_dma_event m"
  "hdma_source_from_regs (put_obs k m) = hdma_source_from_regs m"
  "hdma_dest_from_regs (put_obs k m) = hdma_dest_from_regs m"
  "dmg_stat_write_causes_spurious_interrupt (put_obs k m) = dmg_stat_write_causes_spurious_interrupt m"
  "hdma_start_unsafe v (put_obs k m) = hdma_start_unsafe v m"
proof -
  show f [simp]: "cgb_fast_domains_enabled (put_obs k m) = cgb_fast_domains_enabled m"
    by (simp add: cgb_fast_domains_enabled_def)
  show "cpu_cycles_to_ppu_cycles (put_obs k m) i = cpu_cycles_to_ppu_cycles m i"
    "cpu_cycles_to_ppu_cycles_ceil (put_obs k m) i = cpu_cycles_to_ppu_cycles_ceil m i"
    "ppu_cycles_to_cpu_cycles (put_obs k m) i = ppu_cycles_to_cpu_cycles m i"
    "hdma_block_stall_cycles (put_obs k m) = hdma_block_stall_cycles m"
    by (simp_all add: cpu_cycles_to_ppu_cycles_def cpu_cycles_to_ppu_cycles_ceil_def
        ppu_cycles_to_cpu_cycles_def hdma_block_stall_cycles_def)
qed (simp_all add: cgb_palette_access_blocked_def read_key1_def cgb_reg_def dma_blocks_cpu_access_def
    read8_for_dma_def cycles_until_next_dma_event_def hdma_source_from_regs_def hdma_dest_from_regs_def
    dmg_stat_write_causes_spurious_interrupt_def hdma_start_unsafe_def cong: hardware_mode.case_cong)

lemma peek8_put_obs [simp]: "peek8 (put_obs k m) a = peek8 m a"
proof -
  have "peek_ppu_register (put_obs k m) a = peek_ppu_register m a"
    by (simp only: peek_ppu_register_def put_obs_sel)
  moreover have "peek_cgb_register (put_obs k m) a = peek_cgb_register m a"
    by (simp only: peek_cgb_register_def put_obs_sel put_obs_queries)
  ultimately show ?thesis
    by (simp only: peek8_def put_obs_sel put_obs_queries)
qed

lemma predict_put_obs [simp]: "predict_timed_io_read (put_obs k m) a i = predict_timed_io_read m a i"
  by (simp add: predict_timed_io_read_def Let_def)

text \<open>Operations that record nothing commute with replacing the observations.\<close>

lemma put_obs_steps [simp]:
  "poke a v (put_obs k m) = put_obs k (poke a v m)"
  "put_dma f (put_obs k m) = put_obs k (put_dma f m)"
  "put_ppu g (put_obs k m) = put_obs k (put_ppu g m)"
  "put_timer u (put_obs k m) = put_obs k (put_timer u m)"
  "hdma_copy_byte src dest i (put_obs k m) = put_obs k (hdma_copy_byte src dest i m)"
  by (simp_all add: poke_def put_dma_def put_ppu_def put_timer_def hdma_copy_byte_def)

lemma put_obs_fold:
  assumes "\<And>x m. f x (put_obs k m) = put_obs k (f x m)"
  shows "fold f xs (put_obs k m) = put_obs k (fold f xs m)"
  using assms by (induction xs arbitrary: m) simp_all

lemma put_obs_pokes [simp]:
  "fold (\<lambda>(a, v). poke a v) ps (put_obs k m) = put_obs k (fold (\<lambda>(a, v). poke a v) ps m)"
  by (rule put_obs_fold) auto

lemma put_obs_copies [simp]:
  "fold (hdma_copy_byte src dest) ks (put_obs k m) = put_obs k (fold (hdma_copy_byte src dest) ks m)"
  by (rule put_obs_fold) simp

lemma put_obs_syncs [simp]:
  "sync_core_memory (put_obs k m) = put_obs k (sync_core_memory m)"
  "sync_apu_memory (put_obs k m) = put_obs k (sync_apu_memory m)"
  "sync_cgb_memory (put_obs k m) = put_obs k (sync_cgb_memory m)"
  "sync_hdma_registers (put_obs k m) = put_obs k (sync_hdma_registers m)"
  unfolding sync_core_memory_def sync_apu_memory_def sync_cgb_memory_def sync_hdma_registers_def Let_def
  by (simp_all only: put_obs_pokes put_obs_sel put_obs_queries put_obs_upd put_obs_steps)

lemma put_obs_oam_copy [simp]: "oam_dma_copy (put_obs k m) = put_obs k (oam_dma_copy m)"
proof (induction m rule: oam_dma_copy.induct)
  case (1 m)
  then show ?case
    by (subst (1 2) oam_dma_copy.simps) (simp add: Let_def)
qed

lemma put_obs_transfer [simp]:
  "transfer_hdma_block b (put_obs k m, tr) = apfst (put_obs k) (transfer_hdma_block b (m, tr))"
  by (simp add: transfer_hdma_block_def Let_def case_prod_unfold)

lemma put_obs_tick_dma [simp]:
  "tick_dma n (put_obs k m, tr) = apfst (put_obs k) (tick_dma n (m, tr))"
  by (simp add: tick_dma_def Let_def case_prod_unfold)

lemma put_obs_hblank [simp]:
  "tick_hdma_hblank (put_obs k m, tr) = apfst (apfst (put_obs k)) (tick_hdma_hblank (m, tr))"
  by (simp add: tick_hdma_hblank_def Let_def case_prod_unfold)

lemma put_obs_gdma [simp]:
  "gdma_loop (put_obs k m, tr) = apfst (put_obs k) (gdma_loop (m, tr))"
proof (induction "(m, tr)" arbitrary: m tr rule: gdma_loop.induct)
  case 1
  obtain m' tr' where t: "transfer_hdma_block False (m, tr) = (m', tr')"
    by (cases "transfer_hdma_block False (m, tr)")
  show ?case
    using 1 by (subst (1 2) gdma_loop.simps) (simp add: t)
qed

section \<open>Operations that record\<close>

named_theorems same_intros \<open>operations respect sameness\<close>

lemma same_request [same_intros]:
  "same m n \<Longrightarrow> same (request_interrupt msk src m) (request_interrupt msk src n)"
  by (elim sameE) (simp add: request_interrupt_def Let_def)

lemma same_request_if [same_intros]:
  "same m n \<Longrightarrow> b = c \<Longrightarrow> same (request_if b msk src m) (request_if c msk src n)"
  by (simp add: request_if_def same_request)

lemma same_push [simp]:
  "same (push_io tr m) n = same m n" "same n (push_io tr m) = same n m"
  "same (push_cgb tr' m) n = same m n" "same n (push_cgb tr' m) = same n m"
  "same (push_dma tr'' m) n = same m n" "same n (push_dma tr'' m) = same n m"
  "same (push_mapper tr3 m) n = same m n" "same n (push_mapper tr3 m) = same n m"
  by (simp_all add: push_io_def push_cgb_def push_dma_def push_mapper_def)

lemma same_diagnose [simp]:
  "same (record_diagnostic_event t s a v acc m) n = same m n"
  "same n (record_diagnostic_event t s a v acc m) = same n m"
  "same (diagnose_if b t s a v acc m) n = same m n"
  "same n (diagnose_if b t s a v acc m) = same n m"
  by (simp_all add: record_diagnostic_event_def diagnose_if_def)

lemma same_fold:
  assumes "\<And>x m n. same m n \<Longrightarrow> same (f x m) (f x n)" "same m n"
  shows "same (fold f xs m) (fold f xs n)"
  using assms by (induction xs arbitrary: m n) simp_all

lemma same_capture [same_intros]:
  "same m n \<Longrightarrow> same (capture_joypad_trace tr m) (capture_joypad_trace tr n)"
  unfolding capture_joypad_trace_def
  by (rule same_fold) (auto simp: capture_joypad_event_def Let_def intro: same_intros split: joypad_event.split)

lemma same_poke [same_intros]: "same m n \<Longrightarrow> v = w \<Longrightarrow> same (poke a v m) (poke a w n)"
  by (elim sameE) simp_all

lemma push_io_serial [simp]: "m_serial (push_io tr m) = m_serial m"
  by (simp add: push_io_def)

lemma same_speed_switch [same_intros]:
  "same m n \<Longrightarrow> same (perform_speed_switch m) (perform_speed_switch n)"
  by (elim sameE) (simp_all add: perform_speed_switch_def Let_def)

lemma same_read8:
  "same m n \<Longrightarrow> fst (read8 a m) = fst (read8 a n) \<and> same (snd (read8 a m)) (snd (read8 a n))"
  by (elim sameE) (simp add: read8_def Let_def)

lemma same_read8_timed:
  "same m n \<Longrightarrow> fst (read8_timed a i m) = fst (read8_timed a i n) \<and>
     same (snd (read8_timed a i m)) (snd (read8_timed a i n))"
  using same_read8 by (auto simp: read8_timed_def same_sel elim!: sameE split: option.split)

section \<open>Writes\<close>

lemma diagnose_sel [simp]:
  "m_cart (diagnose_if b t s a v acc m) = m_cart m"
  "m_mapper_trace (diagnose_if b t s a v acc m) = m_mapper_trace m"
  by (simp_all add: diagnose_if_def record_diagnostic_event_def)

lemma same_put_core: "same m n \<Longrightarrow> same (m\<lparr>m_cart := c\<rparr>) (n\<lparr>m_cart := c\<rparr>)"
  by (elim sameE) simp

lemma same_write_mapper [same_intros]:
  "same m n \<Longrightarrow> same (write8_mapper h a v m) (write8_mapper h a v n)"
  unfolding write8_mapper_def Let_def
  by (simp add: same_sel same_put_core)

lemma same_write_ff46 [same_intros]: "same m n \<Longrightarrow> same (write_ff46 v m) (write_ff46 v n)"
  by (elim sameE) (simp_all add: write_ff46_def Let_def)

lemma same_write_port [same_intros]: "same m n \<Longrightarrow> same (write8_port a v m) (write8_port a v n)"
  by (elim sameE) (auto simp: write8_port_def Let_def case_prod_unfold intro!: same_capture same_poke)

lemma same_write_ppu [same_intros]: "same m n \<Longrightarrow> same (write8_ppu a v m) (write8_ppu a v n)"
  by (elim sameE)
    (simp_all add: write8_ppu_def Let_def case_prod_unfold same_request_if same_write_ff46)

text \<open>The trace so far never reaches the state of a transfer.\<close>

lemma transfer_trace: "fst (transfer_hdma_block b (m, tr)) = fst (transfer_hdma_block b (m, tr'))"
  by (simp add: transfer_hdma_block_def Let_def case_prod_unfold)

lemma gdma_trace: "fst (gdma_loop s) = fst (gdma_loop (fst s, tr))"
proof (induction s arbitrary: tr rule: gdma_loop.induct)
  case (1 s)
  obtain m t where s: "s = (m, t)"
    by (cases s)
  have "transfer_hdma_block False (m, tr) =
      (fst (transfer_hdma_block False (m, t)), snd (transfer_hdma_block False (m, tr)))"
    by (simp add: prod_eq_iff transfer_trace [of False m tr t])
  then show ?case
    using 1 [of "snd (transfer_hdma_block False (m, tr))"]
    by (subst (1 2) gdma_loop.simps) (simp add: s)
qed

lemma same_gdma: "same x y \<Longrightarrow> same (fst (gdma_loop (x, tr))) (fst (gdma_loop (y, tr')))"
  using gdma_trace [of "(y, tr)" tr'] by (elim sameE) simp

lemma same_add_stall:
  "same x y \<Longrightarrow> same (x\<lparr>m_stall := sat_add k (m_stall x) s, m_dma_trace := t\<rparr>)
     (y\<lparr>m_stall := sat_add k (m_stall y) s, m_dma_trace := u\<rparr>)"
  by (elim sameE) simp

lemma same_run_gdma [same_intros]:
  assumes "same m n"
  shows "same (run_gdma m) (run_gdma n)"
proof -
  have r: "run_gdma x = (let stall = sat_mul u32_max (unat (hdma_blocks (m_dma x))) (hdma_block_stall_cycles x);
      g = gdma_loop (x\<lparr>m_dma_trace := []\<rparr>, m_dma_trace x @ [GdmaStallEstimate (hdma_blocks (m_dma x)) stall])
      in (fst g)\<lparr>m_stall := sat_add u32_max (m_stall (fst g)) stall, m_dma_trace := snd g\<rparr>)" for x
    by (simp add: run_gdma_def Let_def case_prod_unfold)
  have stall: "hdma_block_stall_cycles m = hdma_block_stall_cycles n" "m_dma m = m_dma n"
    using assms by (elim sameE; simp)+
  have g: "same (fst (gdma_loop (m\<lparr>m_dma_trace := []\<rparr>, tr))) (fst (gdma_loop (n\<lparr>m_dma_trace := []\<rparr>, tr')))"
    for tr tr' by (rule same_gdma) (simp add: assms)
  show ?thesis
    unfolding r Let_def stall by (rule same_add_stall [OF g])
qed

lemma push_dma_put [simp]: "push_dma tr (put_obs k m) = put_obs (push_dma tr k) m"
  by (simp add: push_dma_def)

lemma same_push_dma: "same m n \<Longrightarrow> same (push_dma tr m) (push_dma tr' n)"
  by simp

lemma same_sync_hdma [same_intros]:
  "same m n \<Longrightarrow> same (sync_hdma_registers m) (sync_hdma_registers n)"
  by (elim sameE) simp

lemma same_put_dma [same_intros]: "same m n \<Longrightarrow> f = g \<Longrightarrow> same (put_dma f m) (put_dma g n)"
  by (elim sameE) simp

lemma same_arm [same_intros]: "same m n \<Longrightarrow> same (arm_hdma v m) (arm_hdma v n)"
  unfolding arm_hdma_def Let_def
  by (intro same_intros same_push_dma) (simp_all add: same_sel, elim sameE, simp)

lemma same_hdma_control [same_intros]:
  "same m n \<Longrightarrow> same (write_hdma_control v m) (write_hdma_control v n)"
  using same_sel(13) [of m n] same_sel(6) [of m n] same_sel(6) [OF same_arm [of m n v]]
  by (auto simp: write_hdma_control_def Let_def intro!: same_intros)

lemma same_write_hdma [same_intros]: "same m n \<Longrightarrow> same (write8_hdma a v m) (write8_hdma a v n)"
  by (auto simp: write8_hdma_def intro!: same_intros)

lemma same_write_cgb [same_intros]: "same m n \<Longrightarrow> same (write8_cgb a v m) (write8_cgb a v n)"
  by (elim sameE) (simp add: write8_cgb_def Let_def case_prod_unfold)

lemma same_write_key1 [same_intros]: "same m n \<Longrightarrow> same (write_key1 v m) (write_key1 v n)"
  by (elim sameE) (simp add: write_key1_def Let_def)

lemma same_write_apu [same_intros]: "same m n \<Longrightarrow> same (write8_apu h a v m) (write8_apu h a v n)"
proof -
  have sync: "same x y \<Longrightarrow> same (sync_apu_memory x) (sync_apu_memory y)" for x y
    by (elim sameE) simp
  have upd: "same m n \<Longrightarrow> same (m\<lparr>m_apu := b\<rparr>) (n\<lparr>m_apu := b\<rparr>)" for b
    by (elim sameE) simp
  assume "same m n"
  then show ?thesis
    unfolding write8_apu_def Let_def case_prod_unfold same_sel(9) [OF \<open>same m n\<close>]
    by (intro sync) (simp add: upd)
qed

lemma same_if:
  "(b \<Longrightarrow> same x x') \<Longrightarrow> (\<not> b \<Longrightarrow> same y y') \<Longrightarrow> same (if b then x else y) (if b then x' else y')"
  by simp

lemma same_write8 [same_intros]:
  assumes "same m n"
  shows "same (write8 h a v m) (write8 h a v n)"
proof -
  have q: "dma_blocks_cpu_access m a = dma_blocks_cpu_access n a"
    using assms by (elim sameE) simp
  have upd: "same (m\<lparr>m_cart := c\<rparr>) (n\<lparr>m_cart := c\<rparr>)" "same (m\<lparr>m_interrupt := i\<rparr>) (n\<lparr>m_interrupt := i\<rparr>)"
    for c i using assms by (elim sameE; simp)+
  show ?thesis
    unfolding write8_def q same_sel [OF assms]
    by (intro same_if same_write_mapper same_poke same_write_port same_write_apu same_write_ppu
        same_write_key1 same_write_hdma same_write_cgb upd assms refl)
      (simp_all add: assms)
qed

end
