(* ===== verification/Machine_Clocks.thy ===== *)
theory Machine_Clocks
  imports Observation
begin

text \<open>
  The clock of \<^verbatim>\<open>lib.rs\<close>: after each instruction the devices advance by its cycles, in chunks
  that end at the next display or transfer event. The traced and the fast scheduler are two
  loops of the code; both may extend their work by the stalls of HBlank transfers, so they are
  partial functions into \<open>option\<close>, \<open>None\<close> standing for a loop that does not end.
\<close>

record clock_result =
  cr_frame_completed :: bool
  cr_ppu :: "ppu_event list"
  cr_dma :: "dma_event list"
  cr_mapper :: "mapper_event list"
  cr_io :: "io_event list"
  cr_apu :: "apu_event list"

definition clock_result_none :: clock_result where
  "clock_result_none =
     \<lparr>cr_frame_completed = False, cr_ppu = [], cr_dma = [], cr_mapper = [], cr_io = [], cr_apu = []\<rparr>"

section \<open>The devices of one chunk\<close>

text \<open>The timer and, with no cable attached, the serial port run at the CPU rate.\<close>

definition tick_ports :: "nat \<Rightarrow> machine \<Rightarrow> machine \<times> io_event list" where
  "tick_ports n m =
     (let (t, irq, tr) = timer_tick n (m_timer m);
          m = request_if irq INT_TIMER TimerSource (m\<lparr>m_timer := t\<rparr>)
      in if m_link m then (m, map IoTimer tr)
         else
           let (s, irq, str) = serial_tick n (m_serial m)
           in (request_if irq INT_SERIAL SerialSource (m\<lparr>m_serial := s\<rparr>), map IoTimer tr @ map IoSerial str))"

definition tick_ports_fast :: "nat \<Rightarrow> machine \<Rightarrow> machine" where
  "tick_ports_fast n m =
     (let (t, irq) = timer_tick_fast n (m_timer m);
          m = request_if irq INT_TIMER TimerSource (m\<lparr>m_timer := t\<rparr>)
      in if m_link m then m
         else
           let (s, irq) = serial_tick_fast n (m_serial m)
           in request_if irq INT_SERIAL SerialSource (m\<lparr>m_serial := s\<rparr>))"

definition count_cycles :: "nat \<Rightarrow> machine \<Rightarrow> machine" where
  "count_cycles n m = m\<lparr>m_clocks := (m_clocks m)\<lparr>clk_cycles := clk_cycles (m_clocks m) + of_nat n\<rparr>\<rparr>"

text \<open>The nominal frame counter.\<close>

function frame_phase_loop :: "clock_state \<times> bool \<Rightarrow> clock_state \<times> bool" where
  "frame_phase_loop (c, completed) =
     (if clk_frame_phase c \<ge> FRAME_CYCLES
      then frame_phase_loop
             (c\<lparr>clk_frame_phase := clk_frame_phase c - FRAME_CYCLES, clk_frames := clk_frames c + 1\<rparr>, True)
      else (c, completed))"
  by pat_completeness auto
termination
  by (relation "measure (\<lambda>(c, _). clk_frame_phase c)")
    (auto simp: FRAME_CYCLES_def CYCLES_PER_SCANLINE_def TOTAL_SCANLINES_def)

declare frame_phase_loop.simps [simp del]

definition advance_frame_phase :: "nat \<Rightarrow> machine \<Rightarrow> machine \<times> bool" where
  "advance_frame_phase step_ppu m =
     (let c = (m_clocks m)\<lparr>clk_frame_phase := sat_add u32_max (clk_frame_phase (m_clocks m)) step_ppu\<rparr>;
          (c, completed) = frame_phase_loop (c, False)
      in (m\<lparr>m_clocks := c\<rparr>, completed))"

definition tick_dma_if :: "nat \<Rightarrow> machine \<times> dma_event list \<Rightarrow> machine \<times> dma_event list" where
  "tick_dma_if n s = (if dma_active (m_dma (fst s)) then tick_dma n s else s)"

definition latch_if_due :: "machine \<Rightarrow> machine" where
  "latch_if_due m =
     (if current_mode (m_ppu m) = OamSearch \<and> ppu_mode_cycles (m_ppu m) = 0
      then m\<lparr>m_ppu := latch_scanline_state (mem_oam (m_mem m)) (m_ppu m)\<rparr> else m)"

text \<open>The PPU cycles of the next chunk.\<close>

definition next_step_ppu :: "machine \<Rightarrow> nat \<Rightarrow> nat" where
  "next_step_ppu m remaining_ppu =
     (let step = min remaining_ppu (ppu_cycles_until_next_event (m_ppu m));
          step = (if dma_active (m_dma m)
                  then min step (cpu_cycles_to_ppu_cycles_ceil m (cycles_until_next_dma_event m)) else step)
      in max step 1)"

definition draw_if :: "bool \<Rightarrow> machine \<Rightarrow> machine" where
  "draw_if b m =
     (if b then m\<lparr>m_ppu := render_current_scanline_from_memory_with_mode (m_mem m) (m_mode m = Cgb) (m_ppu m)\<rparr>
      else m)"

text \<open>An HBlank transfer lengthens the remaining work by its stall.\<close>

type_synonym budget = "nat \<times> nat"

definition charge_hdma :: "(machine \<times> dma_event list) \<times> budget \<Rightarrow> (machine \<times> dma_event list) \<times> budget" where
  "charge_hdma = (\<lambda>(s, rc, rp).
     let ((m, tr), stall) = tick_hdma_hblank s
     in ((m, tr), sat_add u32_max rc stall, sat_add u32_max rp (cpu_cycles_to_ppu_cycles m stall)))"

fun charge_hdma_event ::
  "ppu_event \<Rightarrow> (machine \<times> dma_event list) \<times> budget \<Rightarrow> (machine \<times> dma_event list) \<times> budget" where
  "charge_hdma_event (PpuModeChange _ to_mode _) s =
     (if to_mode = mode_bits HBlank then charge_hdma s else s)"
| "charge_hdma_event _ s = s"

section \<open>The traced scheduler\<close>

type_synonym clock_loop = "machine \<times> clock_result \<times> budget"

definition freeze_pass :: "machine \<times> budget \<Rightarrow> machine \<times> budget" where
  "freeze_pass = (\<lambda>(m, rc, rp).
     let freeze_step = min rc (m_freeze m);
         m = count_cycles freeze_step (m\<lparr>m_freeze := m_freeze m - freeze_step\<rparr>)
     in (m, rc - freeze_step, rp - cpu_cycles_to_ppu_cycles m freeze_step))"

text \<open>A residue of the CPU clock alone reaches the timer, the serial port and OAM DMA.\<close>

definition cpu_only_pass :: "nat \<Rightarrow> machine \<times> clock_result \<Rightarrow> machine \<times> clock_result" where
  "cpu_only_pass n = (\<lambda>(m, r).
     let (m, io) = tick_ports n (count_cycles n m);
         (m, dma) = tick_dma_if n (m, cr_dma r)
     in (m, r\<lparr>cr_io := cr_io r @ io, cr_dma := dma\<rparr>))"

text \<open>The devices of a display chunk: ports, audio, mapper and PPU, and the frame counter.\<close>

definition display_chunk ::
  "host \<Rightarrow> nat \<Rightarrow> nat \<Rightarrow> machine \<Rightarrow>
     machine \<times> ppu_result \<times> bool \<times> io_event list \<times> apu_event list \<times> ppu_event list" where
  "display_chunk h step_cpu step_ppu m =
     (let (m, io) = tick_ports step_cpu (count_cycles step_cpu m);
          (a, atr) = apu_tick (host_floats h) step_ppu (m_apu m);
          m = m\<lparr>m_apu := a, m_cart := cart_tick (host_now h) step_ppu (m_cart m)\<rparr>;
          (p, pr, ptr) = ppu_tick step_ppu (m_ppu m);
          m = request_if (pr_stat_interrupt pr) INT_LCD_STAT LcdStat (m\<lparr>m_ppu := p\<rparr>);
          (m, completed) = advance_frame_phase step_ppu m
      in (m, pr, completed, io, atr, ptr))"

text \<open>Drawing the line that ended and the VBlank request close a chunk.\<close>

definition finish_chunk :: "ppu_result \<Rightarrow> machine \<Rightarrow> machine" where
  "finish_chunk pr m =
     request_if (pr_vblank_enter pr) INT_VBLANK Vblank (draw_if (pr_render_scanline pr \<noteq> None) m)"

definition display_pass :: "host \<Rightarrow> clock_loop \<Rightarrow> clock_loop" where
  "display_pass h = (\<lambda>(m, r, rc, rp).
     let m = latch_if_due m;
         step_ppu = next_step_ppu m rp;
         step_cpu = min (ppu_cycles_to_cpu_cycles m step_ppu) rc;
         (m, pr, completed, io, atr, ptr) = display_chunk h step_cpu step_ppu m;
         s = tick_dma_if step_cpu (m, cr_dma r);
         ((m, dma), rc, rp) = fold charge_hdma_event ptr (s, rc, rp)
     in (finish_chunk pr m,
         r\<lparr>cr_frame_completed := cr_frame_completed r \<or> completed, cr_ppu := cr_ppu r @ ptr,
           cr_dma := dma, cr_io := cr_io r @ io, cr_apu := cr_apu r @ atr\<rparr>,
         rc - step_cpu, rp - step_ppu))"

partial_function (option) clock_loop :: "host \<Rightarrow> clock_loop \<Rightarrow> (machine \<times> clock_result) option" where
  "clock_loop h s =
     (case s of (m, r, rc, rp) \<Rightarrow>
        if rc = 0 then Some (m, r)
        else if m_freeze m > 0 then
          (case freeze_pass (m, rc, rp) of (m, rc, rp) \<Rightarrow> clock_loop h (m, r, rc, rp))
        else if rp = 0 then Some (cpu_only_pass rc (m, r))
        else clock_loop h (display_pass h (m, r, rc, rp)))"

definition advance_clocks :: "host \<Rightarrow> nat \<Rightarrow> nat \<Rightarrow> machine \<Rightarrow> (machine \<times> clock_result) option" where
  "advance_clocks h cpu_cycles ppu_cycles m = clock_loop h (m, clock_result_none, cpu_cycles, ppu_cycles)"

section \<open>The fast scheduler\<close>

text \<open>The transfer trace is a local vector that is dropped when the loop ends.\<close>

type_synonym fast_loop = "machine \<times> bool \<times> dma_event list \<times> budget"

definition cpu_only_pass_fast :: "nat \<Rightarrow> machine \<times> dma_event list \<Rightarrow> machine \<times> dma_event list" where
  "cpu_only_pass_fast n = (\<lambda>(m, dma). tick_dma_if n (tick_ports_fast n (count_cycles n m), dma))"

definition display_chunk_fast :: "host \<Rightarrow> nat \<Rightarrow> nat \<Rightarrow> machine \<Rightarrow> machine \<times> ppu_result \<times> bool" where
  "display_chunk_fast h step_cpu step_ppu m =
     (let m = tick_ports_fast step_cpu (count_cycles step_cpu m);
          m = m\<lparr>m_apu := apu_tick_fast (host_floats h) step_ppu (m_apu m),
                m_cart := cart_tick (host_now h) step_ppu (m_cart m)\<rparr>;
          (p, pr) = ppu_tick_fast step_ppu (m_ppu m);
          m = request_if (pr_stat_interrupt pr) INT_LCD_STAT LcdStat (m\<lparr>m_ppu := p\<rparr>);
          (m, completed) = advance_frame_phase step_ppu m
      in (m, pr, completed))"

definition display_pass_fast :: "host \<Rightarrow> fast_loop \<Rightarrow> fast_loop" where
  "display_pass_fast h = (\<lambda>(m, before, dma, rc, rp).
     let m = latch_if_due m;
         step_ppu = next_step_ppu m rp;
         step_cpu = min (ppu_cycles_to_cpu_cycles m step_ppu) rc;
         (m, pr, completed) = display_chunk_fast h step_cpu step_ppu m;
         s = tick_dma_if step_cpu (m, dma);
         ((m, dma), rc, rp) =
           (if current_mode (m_ppu (fst s)) = HBlank \<and> pr_render_scanline pr \<noteq> None
            then charge_hdma (s, rc, rp) else (s, rc, rp))
     in (finish_chunk pr m, before \<or> completed, dma, rc - step_cpu, rp - step_ppu))"

partial_function (option) clock_loop_fast :: "host \<Rightarrow> fast_loop \<Rightarrow> (machine \<times> bool) option" where
  "clock_loop_fast h s =
     (case s of (m, completed, dma, rc, rp) \<Rightarrow>
        if rc = 0 then Some (m, completed)
        else if m_freeze m > 0 then
          (case freeze_pass (m, rc, rp) of (m, rc, rp) \<Rightarrow> clock_loop_fast h (m, completed, dma, rc, rp))
        else if rp = 0 then Some (fst (cpu_only_pass_fast rc (m, dma)), completed)
        else clock_loop_fast h (display_pass_fast h (m, completed, dma, rc, rp)))"

definition advance_clocks_fast :: "host \<Rightarrow> nat \<Rightarrow> nat \<Rightarrow> machine \<Rightarrow> (machine \<times> bool) option" where
  "advance_clocks_fast h cpu_cycles ppu_cycles m = clock_loop_fast h (m, False, [], cpu_cycles, ppu_cycles)"

section \<open>Finishing a step\<close>

record step_result =
  st_cycles :: nat
  st_frame_completed :: bool
  st_ppu :: "ppu_event list"
  st_dma :: "dma_event list"
  st_mapper :: "mapper_event list"
  st_io :: "io_event list"
  st_apu :: "apu_event list"
  st_cgb :: "cgb_event list"
  st_interrupt :: "interrupt_event list"

definition commit_ime_enable_delay :: "machine \<Rightarrow> machine" where
  "commit_ime_enable_delay m =
     (let c = m_cpu m in
      if cpu_ime_delay c > 0 then
        let c = c\<lparr>cpu_ime_delay := cpu_ime_delay c - 1\<rparr>
        in m\<lparr>m_cpu := (if cpu_ime_delay c = 0 then c\<lparr>cpu_ime := True\<rparr> else c)\<rparr>
      else m)"

definition clear_pending_traces :: "machine \<Rightarrow> machine" where
  "clear_pending_traces m =
     m\<lparr>m_dma_trace := [], m_mapper_trace := [], m_io_trace := [], m_apu_trace := [], m_cgb_trace := [],
       m_interrupt_trace := [], m_diag := emitter_clear (m_diag m)\<rparr>"

definition take_traces :: "machine \<Rightarrow> machine" where
  "take_traces m =
     m\<lparr>m_dma_trace := [], m_mapper_trace := [], m_io_trace := [], m_apu_trace := [], m_cgb_trace := [],
       m_interrupt_trace := []\<rparr>"

definition finish_step :: "host \<Rightarrow> nat \<Rightarrow> machine \<Rightarrow> (step_result \<times> machine) option" where
  "finish_step h cycles m =
     (let total = sat_add u32_max cycles (m_stall m);
          m = m\<lparr>m_stall := 0\<rparr>
      in case advance_clocks h total (cpu_cycles_to_ppu_cycles m total) m of
           None \<Rightarrow> None
         | Some (m, r) \<Rightarrow>
             Some (\<lparr>st_cycles = total, st_frame_completed = cr_frame_completed r, st_ppu = cr_ppu r,
                     st_dma = m_dma_trace m @ cr_dma r, st_mapper = m_mapper_trace m @ cr_mapper r,
                     st_io = m_io_trace m @ cr_io r, st_apu = m_apu_trace m @ cr_apu r,
                     st_cgb = m_cgb_trace m, st_interrupt = m_interrupt_trace m\<rparr>,
                   commit_ime_enable_delay (take_traces m)))"

definition finish_step_fast :: "host \<Rightarrow> nat \<Rightarrow> machine \<Rightarrow> machine option" where
  "finish_step_fast h cycles m =
     (let total = sat_add u32_max cycles (m_stall m);
          m = m\<lparr>m_stall := 0\<rparr>
      in map_option (\<lambda>(m, _). commit_ime_enable_delay (clear_pending_traces m))
           (advance_clocks_fast h total (cpu_cycles_to_ppu_cycles m total) m))"

end
