(* ===== verification/Machine_Fields.thy ===== *)
theory Machine_Fields
  imports Machine_Clocks
begin

text \<open>
  Which fields of the machine each operation leaves alone. With these equations as rewrite
  rules a property of one device is untouched by the operations of the others.
\<close>

section \<open>Recording, requests and mirrors\<close>

lemma request_fields [simp]:
  "m_cpu (request_interrupt k src m) = m_cpu m" "m_ppu (request_interrupt k src m) = m_ppu m"
  "m_timer (request_interrupt k src m) = m_timer m" "m_joypad (request_interrupt k src m) = m_joypad m"
  "m_dma (request_interrupt k src m) = m_dma m" "m_serial (request_interrupt k src m) = m_serial m"
  "m_link (request_interrupt k src m) = m_link m" "m_apu (request_interrupt k src m) = m_apu m"
  "m_cart (request_interrupt k src m) = m_cart m" "m_mem (request_interrupt k src m) = m_mem m"
  "m_clocks (request_interrupt k src m) = m_clocks m" "m_mode (request_interrupt k src m) = m_mode m"
  "m_vector (request_interrupt k src m) = m_vector m" "m_stall (request_interrupt k src m) = m_stall m"
  "m_double (request_interrupt k src m) = m_double m" "m_armed (request_interrupt k src m) = m_armed m"
  "m_freeze (request_interrupt k src m) = m_freeze m"
  "m_dma_trace (request_interrupt k src m) = m_dma_trace m"
  "m_mapper_trace (request_interrupt k src m) = m_mapper_trace m"
  "m_io_trace (request_interrupt k src m) = m_io_trace m"
  "m_apu_trace (request_interrupt k src m) = m_apu_trace m"
  "m_cgb_trace (request_interrupt k src m) = m_cgb_trace m"
  "m_diag (request_interrupt k src m) = m_diag m"
  by (simp_all add: request_interrupt_def Let_def case_prod_unfold)

lemma request_if_fields [simp]:
  "m_cpu (request_if b k src m) = m_cpu m" "m_ppu (request_if b k src m) = m_ppu m"
  "m_timer (request_if b k src m) = m_timer m" "m_joypad (request_if b k src m) = m_joypad m"
  "m_dma (request_if b k src m) = m_dma m" "m_serial (request_if b k src m) = m_serial m"
  "m_link (request_if b k src m) = m_link m" "m_apu (request_if b k src m) = m_apu m"
  "m_cart (request_if b k src m) = m_cart m" "m_mem (request_if b k src m) = m_mem m"
  "m_clocks (request_if b k src m) = m_clocks m" "m_mode (request_if b k src m) = m_mode m"
  "m_vector (request_if b k src m) = m_vector m" "m_stall (request_if b k src m) = m_stall m"
  "m_double (request_if b k src m) = m_double m" "m_armed (request_if b k src m) = m_armed m"
  "m_freeze (request_if b k src m) = m_freeze m" "m_dma_trace (request_if b k src m) = m_dma_trace m"
  "m_mapper_trace (request_if b k src m) = m_mapper_trace m"
  "m_io_trace (request_if b k src m) = m_io_trace m"
  "m_apu_trace (request_if b k src m) = m_apu_trace m"
  "m_cgb_trace (request_if b k src m) = m_cgb_trace m" "m_diag (request_if b k src m) = m_diag m"
  by (simp_all add: request_if_def Let_def case_prod_unfold)

lemma push_io_fields [simp]:
  "m_cpu (push_io tr m) = m_cpu m" "m_ppu (push_io tr m) = m_ppu m"
  "m_timer (push_io tr m) = m_timer m" "m_interrupt (push_io tr m) = m_interrupt m"
  "m_joypad (push_io tr m) = m_joypad m" "m_dma (push_io tr m) = m_dma m"
  "m_serial (push_io tr m) = m_serial m" "m_link (push_io tr m) = m_link m"
  "m_apu (push_io tr m) = m_apu m" "m_cart (push_io tr m) = m_cart m" "m_mem (push_io tr m) = m_mem m"
  "m_clocks (push_io tr m) = m_clocks m" "m_mode (push_io tr m) = m_mode m"
  "m_vector (push_io tr m) = m_vector m" "m_stall (push_io tr m) = m_stall m"
  "m_double (push_io tr m) = m_double m" "m_armed (push_io tr m) = m_armed m"
  "m_freeze (push_io tr m) = m_freeze m" "m_dma_trace (push_io tr m) = m_dma_trace m"
  "m_mapper_trace (push_io tr m) = m_mapper_trace m" "m_apu_trace (push_io tr m) = m_apu_trace m"
  "m_cgb_trace (push_io tr m) = m_cgb_trace m" "m_interrupt_trace (push_io tr m) = m_interrupt_trace m"
  "m_diag (push_io tr m) = m_diag m"
  by (simp_all add: push_io_def Let_def case_prod_unfold)

lemma push_cgb_fields [simp]:
  "m_cpu (push_cgb tr m) = m_cpu m" "m_ppu (push_cgb tr m) = m_ppu m"
  "m_timer (push_cgb tr m) = m_timer m" "m_interrupt (push_cgb tr m) = m_interrupt m"
  "m_joypad (push_cgb tr m) = m_joypad m" "m_dma (push_cgb tr m) = m_dma m"
  "m_serial (push_cgb tr m) = m_serial m" "m_link (push_cgb tr m) = m_link m"
  "m_apu (push_cgb tr m) = m_apu m" "m_cart (push_cgb tr m) = m_cart m"
  "m_mem (push_cgb tr m) = m_mem m" "m_clocks (push_cgb tr m) = m_clocks m"
  "m_mode (push_cgb tr m) = m_mode m" "m_vector (push_cgb tr m) = m_vector m"
  "m_stall (push_cgb tr m) = m_stall m" "m_double (push_cgb tr m) = m_double m"
  "m_armed (push_cgb tr m) = m_armed m" "m_freeze (push_cgb tr m) = m_freeze m"
  "m_dma_trace (push_cgb tr m) = m_dma_trace m" "m_mapper_trace (push_cgb tr m) = m_mapper_trace m"
  "m_io_trace (push_cgb tr m) = m_io_trace m" "m_apu_trace (push_cgb tr m) = m_apu_trace m"
  "m_interrupt_trace (push_cgb tr m) = m_interrupt_trace m" "m_diag (push_cgb tr m) = m_diag m"
  by (simp_all add: push_cgb_def Let_def case_prod_unfold)

lemma push_dma_fields [simp]:
  "m_cpu (push_dma tr m) = m_cpu m" "m_ppu (push_dma tr m) = m_ppu m"
  "m_timer (push_dma tr m) = m_timer m" "m_interrupt (push_dma tr m) = m_interrupt m"
  "m_joypad (push_dma tr m) = m_joypad m" "m_dma (push_dma tr m) = m_dma m"
  "m_serial (push_dma tr m) = m_serial m" "m_link (push_dma tr m) = m_link m"
  "m_apu (push_dma tr m) = m_apu m" "m_cart (push_dma tr m) = m_cart m"
  "m_mem (push_dma tr m) = m_mem m" "m_clocks (push_dma tr m) = m_clocks m"
  "m_mode (push_dma tr m) = m_mode m" "m_vector (push_dma tr m) = m_vector m"
  "m_stall (push_dma tr m) = m_stall m" "m_double (push_dma tr m) = m_double m"
  "m_armed (push_dma tr m) = m_armed m" "m_freeze (push_dma tr m) = m_freeze m"
  "m_mapper_trace (push_dma tr m) = m_mapper_trace m" "m_io_trace (push_dma tr m) = m_io_trace m"
  "m_apu_trace (push_dma tr m) = m_apu_trace m" "m_cgb_trace (push_dma tr m) = m_cgb_trace m"
  "m_interrupt_trace (push_dma tr m) = m_interrupt_trace m" "m_diag (push_dma tr m) = m_diag m"
  by (simp_all add: push_dma_def Let_def case_prod_unfold)

lemma push_mapper_fields [simp]:
  "m_cpu (push_mapper tr m) = m_cpu m" "m_ppu (push_mapper tr m) = m_ppu m"
  "m_timer (push_mapper tr m) = m_timer m" "m_interrupt (push_mapper tr m) = m_interrupt m"
  "m_joypad (push_mapper tr m) = m_joypad m" "m_dma (push_mapper tr m) = m_dma m"
  "m_serial (push_mapper tr m) = m_serial m" "m_link (push_mapper tr m) = m_link m"
  "m_apu (push_mapper tr m) = m_apu m" "m_cart (push_mapper tr m) = m_cart m"
  "m_mem (push_mapper tr m) = m_mem m" "m_clocks (push_mapper tr m) = m_clocks m"
  "m_mode (push_mapper tr m) = m_mode m" "m_vector (push_mapper tr m) = m_vector m"
  "m_stall (push_mapper tr m) = m_stall m" "m_double (push_mapper tr m) = m_double m"
  "m_armed (push_mapper tr m) = m_armed m" "m_freeze (push_mapper tr m) = m_freeze m"
  "m_dma_trace (push_mapper tr m) = m_dma_trace m" "m_io_trace (push_mapper tr m) = m_io_trace m"
  "m_apu_trace (push_mapper tr m) = m_apu_trace m" "m_cgb_trace (push_mapper tr m) = m_cgb_trace m"
  "m_interrupt_trace (push_mapper tr m) = m_interrupt_trace m" "m_diag (push_mapper tr m) = m_diag m"
  by (simp_all add: push_mapper_def Let_def case_prod_unfold)

lemma capture_event_fields [simp]:
  "m_cpu (capture_joypad_event e m) = m_cpu m" "m_ppu (capture_joypad_event e m) = m_ppu m"
  "m_timer (capture_joypad_event e m) = m_timer m" "m_joypad (capture_joypad_event e m) = m_joypad m"
  "m_dma (capture_joypad_event e m) = m_dma m" "m_serial (capture_joypad_event e m) = m_serial m"
  "m_link (capture_joypad_event e m) = m_link m" "m_apu (capture_joypad_event e m) = m_apu m"
  "m_cart (capture_joypad_event e m) = m_cart m" "m_mem (capture_joypad_event e m) = m_mem m"
  "m_clocks (capture_joypad_event e m) = m_clocks m" "m_mode (capture_joypad_event e m) = m_mode m"
  "m_vector (capture_joypad_event e m) = m_vector m" "m_stall (capture_joypad_event e m) = m_stall m"
  "m_double (capture_joypad_event e m) = m_double m" "m_armed (capture_joypad_event e m) = m_armed m"
  "m_freeze (capture_joypad_event e m) = m_freeze m"
  "m_dma_trace (capture_joypad_event e m) = m_dma_trace m"
  "m_mapper_trace (capture_joypad_event e m) = m_mapper_trace m"
  "m_apu_trace (capture_joypad_event e m) = m_apu_trace m"
  "m_cgb_trace (capture_joypad_event e m) = m_cgb_trace m"
  "m_diag (capture_joypad_event e m) = m_diag m"
  by (simp_all add: capture_joypad_event_def Let_def split: joypad_event.split)

lemma capture_shape:
  "capture_joypad_trace es m =
     m\<lparr>m_interrupt := m_interrupt (capture_joypad_trace es m),
       m_interrupt_trace := m_interrupt_trace (capture_joypad_trace es m),
       m_io_trace := m_io_trace (capture_joypad_trace es m)\<rparr>"
  by (rule machine.equality; simp) (unfold capture_joypad_trace_def, (induction es arbitrary: m; simp)+)

lemma capture_fields [simp]:
  "m_cpu (capture_joypad_trace es m) = m_cpu m" "m_ppu (capture_joypad_trace es m) = m_ppu m"
  "m_timer (capture_joypad_trace es m) = m_timer m" "m_joypad (capture_joypad_trace es m) = m_joypad m"
  "m_dma (capture_joypad_trace es m) = m_dma m" "m_serial (capture_joypad_trace es m) = m_serial m"
  "m_link (capture_joypad_trace es m) = m_link m" "m_apu (capture_joypad_trace es m) = m_apu m"
  "m_cart (capture_joypad_trace es m) = m_cart m" "m_mem (capture_joypad_trace es m) = m_mem m"
  "m_clocks (capture_joypad_trace es m) = m_clocks m" "m_mode (capture_joypad_trace es m) = m_mode m"
  "m_vector (capture_joypad_trace es m) = m_vector m" "m_stall (capture_joypad_trace es m) = m_stall m"
  "m_double (capture_joypad_trace es m) = m_double m" "m_armed (capture_joypad_trace es m) = m_armed m"
  "m_freeze (capture_joypad_trace es m) = m_freeze m"
  "m_dma_trace (capture_joypad_trace es m) = m_dma_trace m"
  "m_mapper_trace (capture_joypad_trace es m) = m_mapper_trace m"
  "m_apu_trace (capture_joypad_trace es m) = m_apu_trace m"
  "m_cgb_trace (capture_joypad_trace es m) = m_cgb_trace m"
  "m_diag (capture_joypad_trace es m) = m_diag m"
  by (subst capture_shape, simp)+

lemma diagnostic_fields [simp]:
  "m_cpu (record_diagnostic_event t s a v acc m) = m_cpu m"
  "m_ppu (record_diagnostic_event t s a v acc m) = m_ppu m"
  "m_timer (record_diagnostic_event t s a v acc m) = m_timer m"
  "m_interrupt (record_diagnostic_event t s a v acc m) = m_interrupt m"
  "m_joypad (record_diagnostic_event t s a v acc m) = m_joypad m"
  "m_dma (record_diagnostic_event t s a v acc m) = m_dma m"
  "m_serial (record_diagnostic_event t s a v acc m) = m_serial m"
  "m_link (record_diagnostic_event t s a v acc m) = m_link m"
  "m_apu (record_diagnostic_event t s a v acc m) = m_apu m"
  "m_cart (record_diagnostic_event t s a v acc m) = m_cart m"
  "m_mem (record_diagnostic_event t s a v acc m) = m_mem m"
  "m_clocks (record_diagnostic_event t s a v acc m) = m_clocks m"
  "m_mode (record_diagnostic_event t s a v acc m) = m_mode m"
  "m_vector (record_diagnostic_event t s a v acc m) = m_vector m"
  "m_stall (record_diagnostic_event t s a v acc m) = m_stall m"
  "m_double (record_diagnostic_event t s a v acc m) = m_double m"
  "m_armed (record_diagnostic_event t s a v acc m) = m_armed m"
  "m_freeze (record_diagnostic_event t s a v acc m) = m_freeze m"
  "m_dma_trace (record_diagnostic_event t s a v acc m) = m_dma_trace m"
  "m_mapper_trace (record_diagnostic_event t s a v acc m) = m_mapper_trace m"
  "m_io_trace (record_diagnostic_event t s a v acc m) = m_io_trace m"
  "m_apu_trace (record_diagnostic_event t s a v acc m) = m_apu_trace m"
  "m_cgb_trace (record_diagnostic_event t s a v acc m) = m_cgb_trace m"
  "m_interrupt_trace (record_diagnostic_event t s a v acc m) = m_interrupt_trace m"
  by (simp_all add: record_diagnostic_event_def Let_def case_prod_unfold)

lemma diagnose_if_fields [simp]:
  "m_cpu (diagnose_if b t s a v acc m) = m_cpu m" "m_ppu (diagnose_if b t s a v acc m) = m_ppu m"
  "m_timer (diagnose_if b t s a v acc m) = m_timer m"
  "m_interrupt (diagnose_if b t s a v acc m) = m_interrupt m"
  "m_joypad (diagnose_if b t s a v acc m) = m_joypad m" "m_dma (diagnose_if b t s a v acc m) = m_dma m"
  "m_serial (diagnose_if b t s a v acc m) = m_serial m"
  "m_link (diagnose_if b t s a v acc m) = m_link m" "m_apu (diagnose_if b t s a v acc m) = m_apu m"
  "m_cart (diagnose_if b t s a v acc m) = m_cart m" "m_mem (diagnose_if b t s a v acc m) = m_mem m"
  "m_clocks (diagnose_if b t s a v acc m) = m_clocks m"
  "m_mode (diagnose_if b t s a v acc m) = m_mode m"
  "m_vector (diagnose_if b t s a v acc m) = m_vector m"
  "m_stall (diagnose_if b t s a v acc m) = m_stall m"
  "m_double (diagnose_if b t s a v acc m) = m_double m"
  "m_armed (diagnose_if b t s a v acc m) = m_armed m"
  "m_freeze (diagnose_if b t s a v acc m) = m_freeze m"
  "m_dma_trace (diagnose_if b t s a v acc m) = m_dma_trace m"
  "m_mapper_trace (diagnose_if b t s a v acc m) = m_mapper_trace m"
  "m_io_trace (diagnose_if b t s a v acc m) = m_io_trace m"
  "m_apu_trace (diagnose_if b t s a v acc m) = m_apu_trace m"
  "m_cgb_trace (diagnose_if b t s a v acc m) = m_cgb_trace m"
  "m_interrupt_trace (diagnose_if b t s a v acc m) = m_interrupt_trace m"
  by (simp_all add: diagnose_if_def Let_def case_prod_unfold)

lemma poke_fields [simp]:
  "m_cpu (poke a v m) = m_cpu m" "m_ppu (poke a v m) = m_ppu m" "m_timer (poke a v m) = m_timer m"
  "m_interrupt (poke a v m) = m_interrupt m" "m_joypad (poke a v m) = m_joypad m"
  "m_dma (poke a v m) = m_dma m" "m_serial (poke a v m) = m_serial m" "m_link (poke a v m) = m_link m"
  "m_apu (poke a v m) = m_apu m" "m_cart (poke a v m) = m_cart m" "m_clocks (poke a v m) = m_clocks m"
  "m_mode (poke a v m) = m_mode m" "m_vector (poke a v m) = m_vector m"
  "m_stall (poke a v m) = m_stall m" "m_double (poke a v m) = m_double m"
  "m_armed (poke a v m) = m_armed m" "m_freeze (poke a v m) = m_freeze m"
  "m_dma_trace (poke a v m) = m_dma_trace m" "m_mapper_trace (poke a v m) = m_mapper_trace m"
  "m_io_trace (poke a v m) = m_io_trace m" "m_apu_trace (poke a v m) = m_apu_trace m"
  "m_cgb_trace (poke a v m) = m_cgb_trace m" "m_interrupt_trace (poke a v m) = m_interrupt_trace m"
  "m_diag (poke a v m) = m_diag m"
  by (simp_all add: poke_def Let_def case_prod_unfold)

lemma pokes_shape:
  "fold (\<lambda>(a, v). poke a v) ps m = m\<lparr>m_mem := fold (\<lambda>(a, v). mem_write8 a v) ps (m_mem m)\<rparr>"
  by (induction ps arbitrary: m) (auto simp: poke_def)

lemma pokes_fields [simp]:
  "m_cpu (fold (\<lambda>(a, v). poke a v) ps m) = m_cpu m"
  "m_ppu (fold (\<lambda>(a, v). poke a v) ps m) = m_ppu m"
  "m_timer (fold (\<lambda>(a, v). poke a v) ps m) = m_timer m"
  "m_interrupt (fold (\<lambda>(a, v). poke a v) ps m) = m_interrupt m"
  "m_joypad (fold (\<lambda>(a, v). poke a v) ps m) = m_joypad m"
  "m_dma (fold (\<lambda>(a, v). poke a v) ps m) = m_dma m"
  "m_serial (fold (\<lambda>(a, v). poke a v) ps m) = m_serial m"
  "m_link (fold (\<lambda>(a, v). poke a v) ps m) = m_link m"
  "m_apu (fold (\<lambda>(a, v). poke a v) ps m) = m_apu m"
  "m_cart (fold (\<lambda>(a, v). poke a v) ps m) = m_cart m"
  "m_clocks (fold (\<lambda>(a, v). poke a v) ps m) = m_clocks m"
  "m_mode (fold (\<lambda>(a, v). poke a v) ps m) = m_mode m"
  "m_vector (fold (\<lambda>(a, v). poke a v) ps m) = m_vector m"
  "m_stall (fold (\<lambda>(a, v). poke a v) ps m) = m_stall m"
  "m_double (fold (\<lambda>(a, v). poke a v) ps m) = m_double m"
  "m_armed (fold (\<lambda>(a, v). poke a v) ps m) = m_armed m"
  "m_freeze (fold (\<lambda>(a, v). poke a v) ps m) = m_freeze m"
  "m_dma_trace (fold (\<lambda>(a, v). poke a v) ps m) = m_dma_trace m"
  "m_mapper_trace (fold (\<lambda>(a, v). poke a v) ps m) = m_mapper_trace m"
  "m_io_trace (fold (\<lambda>(a, v). poke a v) ps m) = m_io_trace m"
  "m_apu_trace (fold (\<lambda>(a, v). poke a v) ps m) = m_apu_trace m"
  "m_cgb_trace (fold (\<lambda>(a, v). poke a v) ps m) = m_cgb_trace m"
  "m_interrupt_trace (fold (\<lambda>(a, v). poke a v) ps m) = m_interrupt_trace m"
  "m_diag (fold (\<lambda>(a, v). poke a v) ps m) = m_diag m"
  by (simp_all add: pokes_shape)

lemma put_dma_fields [simp]:
  "m_cpu (put_dma f m) = m_cpu m" "m_ppu (put_dma f m) = m_ppu m" "m_timer (put_dma f m) = m_timer m"
  "m_interrupt (put_dma f m) = m_interrupt m" "m_joypad (put_dma f m) = m_joypad m"
  "m_serial (put_dma f m) = m_serial m" "m_link (put_dma f m) = m_link m"
  "m_apu (put_dma f m) = m_apu m" "m_cart (put_dma f m) = m_cart m" "m_mem (put_dma f m) = m_mem m"
  "m_clocks (put_dma f m) = m_clocks m" "m_mode (put_dma f m) = m_mode m"
  "m_vector (put_dma f m) = m_vector m" "m_stall (put_dma f m) = m_stall m"
  "m_double (put_dma f m) = m_double m" "m_armed (put_dma f m) = m_armed m"
  "m_freeze (put_dma f m) = m_freeze m" "m_dma_trace (put_dma f m) = m_dma_trace m"
  "m_mapper_trace (put_dma f m) = m_mapper_trace m" "m_io_trace (put_dma f m) = m_io_trace m"
  "m_apu_trace (put_dma f m) = m_apu_trace m" "m_cgb_trace (put_dma f m) = m_cgb_trace m"
  "m_interrupt_trace (put_dma f m) = m_interrupt_trace m" "m_diag (put_dma f m) = m_diag m"
  by (simp_all add: put_dma_def Let_def case_prod_unfold)

lemma put_ppu_fields [simp]:
  "m_cpu (put_ppu g m) = m_cpu m" "m_timer (put_ppu g m) = m_timer m"
  "m_interrupt (put_ppu g m) = m_interrupt m" "m_joypad (put_ppu g m) = m_joypad m"
  "m_dma (put_ppu g m) = m_dma m" "m_serial (put_ppu g m) = m_serial m"
  "m_link (put_ppu g m) = m_link m" "m_apu (put_ppu g m) = m_apu m" "m_cart (put_ppu g m) = m_cart m"
  "m_mem (put_ppu g m) = m_mem m" "m_clocks (put_ppu g m) = m_clocks m"
  "m_mode (put_ppu g m) = m_mode m" "m_vector (put_ppu g m) = m_vector m"
  "m_stall (put_ppu g m) = m_stall m" "m_double (put_ppu g m) = m_double m"
  "m_armed (put_ppu g m) = m_armed m" "m_freeze (put_ppu g m) = m_freeze m"
  "m_dma_trace (put_ppu g m) = m_dma_trace m" "m_mapper_trace (put_ppu g m) = m_mapper_trace m"
  "m_io_trace (put_ppu g m) = m_io_trace m" "m_apu_trace (put_ppu g m) = m_apu_trace m"
  "m_cgb_trace (put_ppu g m) = m_cgb_trace m" "m_interrupt_trace (put_ppu g m) = m_interrupt_trace m"
  "m_diag (put_ppu g m) = m_diag m"
  by (simp_all add: put_ppu_def Let_def case_prod_unfold)

lemma put_timer_fields [simp]:
  "m_cpu (put_timer u m) = m_cpu m" "m_ppu (put_timer u m) = m_ppu m"
  "m_interrupt (put_timer u m) = m_interrupt m" "m_joypad (put_timer u m) = m_joypad m"
  "m_dma (put_timer u m) = m_dma m" "m_serial (put_timer u m) = m_serial m"
  "m_link (put_timer u m) = m_link m" "m_apu (put_timer u m) = m_apu m"
  "m_cart (put_timer u m) = m_cart m" "m_mem (put_timer u m) = m_mem m"
  "m_clocks (put_timer u m) = m_clocks m" "m_mode (put_timer u m) = m_mode m"
  "m_vector (put_timer u m) = m_vector m" "m_stall (put_timer u m) = m_stall m"
  "m_double (put_timer u m) = m_double m" "m_armed (put_timer u m) = m_armed m"
  "m_freeze (put_timer u m) = m_freeze m" "m_dma_trace (put_timer u m) = m_dma_trace m"
  "m_mapper_trace (put_timer u m) = m_mapper_trace m" "m_io_trace (put_timer u m) = m_io_trace m"
  "m_apu_trace (put_timer u m) = m_apu_trace m" "m_cgb_trace (put_timer u m) = m_cgb_trace m"
  "m_interrupt_trace (put_timer u m) = m_interrupt_trace m" "m_diag (put_timer u m) = m_diag m"
  by (simp_all add: put_timer_def Let_def case_prod_unfold)

lemma sync_core_fields [simp]:
  "m_cpu (sync_core_memory m) = m_cpu m" "m_ppu (sync_core_memory m) = m_ppu m"
  "m_timer (sync_core_memory m) = m_timer m" "m_interrupt (sync_core_memory m) = m_interrupt m"
  "m_joypad (sync_core_memory m) = m_joypad m" "m_dma (sync_core_memory m) = m_dma m"
  "m_serial (sync_core_memory m) = m_serial m" "m_link (sync_core_memory m) = m_link m"
  "m_apu (sync_core_memory m) = m_apu m" "m_cart (sync_core_memory m) = m_cart m"
  "m_clocks (sync_core_memory m) = m_clocks m" "m_mode (sync_core_memory m) = m_mode m"
  "m_vector (sync_core_memory m) = m_vector m" "m_stall (sync_core_memory m) = m_stall m"
  "m_double (sync_core_memory m) = m_double m" "m_armed (sync_core_memory m) = m_armed m"
  "m_freeze (sync_core_memory m) = m_freeze m" "m_dma_trace (sync_core_memory m) = m_dma_trace m"
  "m_mapper_trace (sync_core_memory m) = m_mapper_trace m"
  "m_io_trace (sync_core_memory m) = m_io_trace m" "m_apu_trace (sync_core_memory m) = m_apu_trace m"
  "m_cgb_trace (sync_core_memory m) = m_cgb_trace m"
  "m_interrupt_trace (sync_core_memory m) = m_interrupt_trace m"
  "m_diag (sync_core_memory m) = m_diag m"
  unfolding sync_core_memory_def by (simp_all only: pokes_fields)

lemma sync_apu_fields [simp]:
  "m_cpu (sync_apu_memory m) = m_cpu m" "m_ppu (sync_apu_memory m) = m_ppu m"
  "m_timer (sync_apu_memory m) = m_timer m" "m_interrupt (sync_apu_memory m) = m_interrupt m"
  "m_joypad (sync_apu_memory m) = m_joypad m" "m_dma (sync_apu_memory m) = m_dma m"
  "m_serial (sync_apu_memory m) = m_serial m" "m_link (sync_apu_memory m) = m_link m"
  "m_apu (sync_apu_memory m) = m_apu m" "m_cart (sync_apu_memory m) = m_cart m"
  "m_clocks (sync_apu_memory m) = m_clocks m" "m_mode (sync_apu_memory m) = m_mode m"
  "m_vector (sync_apu_memory m) = m_vector m" "m_stall (sync_apu_memory m) = m_stall m"
  "m_double (sync_apu_memory m) = m_double m" "m_armed (sync_apu_memory m) = m_armed m"
  "m_freeze (sync_apu_memory m) = m_freeze m" "m_dma_trace (sync_apu_memory m) = m_dma_trace m"
  "m_mapper_trace (sync_apu_memory m) = m_mapper_trace m"
  "m_io_trace (sync_apu_memory m) = m_io_trace m" "m_apu_trace (sync_apu_memory m) = m_apu_trace m"
  "m_cgb_trace (sync_apu_memory m) = m_cgb_trace m"
  "m_interrupt_trace (sync_apu_memory m) = m_interrupt_trace m" "m_diag (sync_apu_memory m) = m_diag m"
  unfolding sync_apu_memory_def by (simp_all only: pokes_fields)

lemma sync_cgb_fields [simp]:
  "m_cpu (sync_cgb_memory m) = m_cpu m" "m_ppu (sync_cgb_memory m) = m_ppu m"
  "m_timer (sync_cgb_memory m) = m_timer m" "m_interrupt (sync_cgb_memory m) = m_interrupt m"
  "m_joypad (sync_cgb_memory m) = m_joypad m" "m_dma (sync_cgb_memory m) = m_dma m"
  "m_serial (sync_cgb_memory m) = m_serial m" "m_link (sync_cgb_memory m) = m_link m"
  "m_apu (sync_cgb_memory m) = m_apu m" "m_cart (sync_cgb_memory m) = m_cart m"
  "m_clocks (sync_cgb_memory m) = m_clocks m" "m_mode (sync_cgb_memory m) = m_mode m"
  "m_vector (sync_cgb_memory m) = m_vector m" "m_stall (sync_cgb_memory m) = m_stall m"
  "m_double (sync_cgb_memory m) = m_double m" "m_armed (sync_cgb_memory m) = m_armed m"
  "m_freeze (sync_cgb_memory m) = m_freeze m" "m_dma_trace (sync_cgb_memory m) = m_dma_trace m"
  "m_mapper_trace (sync_cgb_memory m) = m_mapper_trace m"
  "m_io_trace (sync_cgb_memory m) = m_io_trace m" "m_apu_trace (sync_cgb_memory m) = m_apu_trace m"
  "m_cgb_trace (sync_cgb_memory m) = m_cgb_trace m"
  "m_interrupt_trace (sync_cgb_memory m) = m_interrupt_trace m" "m_diag (sync_cgb_memory m) = m_diag m"
  by (simp_all add: sync_cgb_memory_def Let_def case_prod_unfold)

lemma sync_hdma_fields [simp]:
  "m_cpu (sync_hdma_registers m) = m_cpu m" "m_ppu (sync_hdma_registers m) = m_ppu m"
  "m_timer (sync_hdma_registers m) = m_timer m" "m_interrupt (sync_hdma_registers m) = m_interrupt m"
  "m_joypad (sync_hdma_registers m) = m_joypad m" "m_serial (sync_hdma_registers m) = m_serial m"
  "m_link (sync_hdma_registers m) = m_link m" "m_apu (sync_hdma_registers m) = m_apu m"
  "m_cart (sync_hdma_registers m) = m_cart m" "m_clocks (sync_hdma_registers m) = m_clocks m"
  "m_mode (sync_hdma_registers m) = m_mode m" "m_vector (sync_hdma_registers m) = m_vector m"
  "m_stall (sync_hdma_registers m) = m_stall m" "m_double (sync_hdma_registers m) = m_double m"
  "m_armed (sync_hdma_registers m) = m_armed m" "m_freeze (sync_hdma_registers m) = m_freeze m"
  "m_dma_trace (sync_hdma_registers m) = m_dma_trace m"
  "m_mapper_trace (sync_hdma_registers m) = m_mapper_trace m"
  "m_io_trace (sync_hdma_registers m) = m_io_trace m"
  "m_apu_trace (sync_hdma_registers m) = m_apu_trace m"
  "m_cgb_trace (sync_hdma_registers m) = m_cgb_trace m"
  "m_interrupt_trace (sync_hdma_registers m) = m_interrupt_trace m"
  "m_diag (sync_hdma_registers m) = m_diag m"
  unfolding sync_hdma_registers_def Let_def by (simp_all only: pokes_fields) simp_all

lemma write_key1_fields [simp]:
  "m_cpu (write_key1 v m) = m_cpu m" "m_ppu (write_key1 v m) = m_ppu m"
  "m_timer (write_key1 v m) = m_timer m" "m_interrupt (write_key1 v m) = m_interrupt m"
  "m_joypad (write_key1 v m) = m_joypad m" "m_dma (write_key1 v m) = m_dma m"
  "m_serial (write_key1 v m) = m_serial m" "m_link (write_key1 v m) = m_link m"
  "m_apu (write_key1 v m) = m_apu m" "m_cart (write_key1 v m) = m_cart m"
  "m_clocks (write_key1 v m) = m_clocks m" "m_mode (write_key1 v m) = m_mode m"
  "m_vector (write_key1 v m) = m_vector m" "m_stall (write_key1 v m) = m_stall m"
  "m_double (write_key1 v m) = m_double m" "m_freeze (write_key1 v m) = m_freeze m"
  "m_dma_trace (write_key1 v m) = m_dma_trace m" "m_mapper_trace (write_key1 v m) = m_mapper_trace m"
  "m_io_trace (write_key1 v m) = m_io_trace m" "m_apu_trace (write_key1 v m) = m_apu_trace m"
  "m_interrupt_trace (write_key1 v m) = m_interrupt_trace m" "m_diag (write_key1 v m) = m_diag m"
  by (simp_all add: write_key1_def Let_def case_prod_unfold)

lemma speed_switch_fields [simp]:
  "m_cpu (perform_speed_switch m) = m_cpu m" "m_ppu (perform_speed_switch m) = m_ppu m"
  "m_timer (perform_speed_switch m) = m_timer m" "m_interrupt (perform_speed_switch m) = m_interrupt m"
  "m_joypad (perform_speed_switch m) = m_joypad m" "m_dma (perform_speed_switch m) = m_dma m"
  "m_serial (perform_speed_switch m) = m_serial m" "m_link (perform_speed_switch m) = m_link m"
  "m_apu (perform_speed_switch m) = m_apu m" "m_cart (perform_speed_switch m) = m_cart m"
  "m_clocks (perform_speed_switch m) = m_clocks m" "m_mode (perform_speed_switch m) = m_mode m"
  "m_vector (perform_speed_switch m) = m_vector m"
  "m_dma_trace (perform_speed_switch m) = m_dma_trace m"
  "m_mapper_trace (perform_speed_switch m) = m_mapper_trace m"
  "m_io_trace (perform_speed_switch m) = m_io_trace m"
  "m_apu_trace (perform_speed_switch m) = m_apu_trace m"
  "m_interrupt_trace (perform_speed_switch m) = m_interrupt_trace m"
  "m_diag (perform_speed_switch m) = m_diag m"
  by (simp_all add: perform_speed_switch_def Let_def case_prod_unfold)

lemma oam_copy_shape:
  "oam_dma_copy m = m\<lparr>m_dma := m_dma (oam_dma_copy m), m_mem := m_mem (oam_dma_copy m)\<rparr>"
proof (induction m rule: oam_dma_copy.induct)
  case (1 m)
  show ?case
  proof (cases "dma_cycle_accum (m_dma m) \<ge> 4 \<and> dma_bytes_copied (m_dma m) < 0xA0")
    case True
    define n where "n = put_dma (\<lambda>d. d\<lparr>dma_bytes_copied := dma_bytes_copied d + 1,
        dma_cycle_accum := dma_cycle_accum d - 4\<rparr>)
      (poke (0xFE00 + of_nat (dma_bytes_copied (m_dma m)))
        (read8_for_dma m (dma_source (m_dma m) + of_nat (dma_bytes_copied (m_dma m)))) m)"
    have step: "oam_dma_copy m = oam_dma_copy n"
      by (subst oam_dma_copy.simps) (simp add: True n_def Let_def)
    have "oam_dma_copy n = n\<lparr>m_dma := m_dma (oam_dma_copy n), m_mem := m_mem (oam_dma_copy n)\<rparr>"
      using 1 [OF True refl refl refl] by (simp add: n_def)
    also have "\<dots> = m\<lparr>m_dma := m_dma (oam_dma_copy n), m_mem := m_mem (oam_dma_copy n)\<rparr>"
      by (rule machine.equality) (simp_all add: n_def)
    finally show ?thesis
      unfolding step .
  next
    case False
    then have "oam_dma_copy m = m"
      by (subst oam_dma_copy.simps) auto
    then show ?thesis
      by simp
  qed
qed

lemma oam_copy_fields [simp]:
  "m_cpu (oam_dma_copy m) = m_cpu m" "m_ppu (oam_dma_copy m) = m_ppu m"
  "m_timer (oam_dma_copy m) = m_timer m" "m_interrupt (oam_dma_copy m) = m_interrupt m"
  "m_joypad (oam_dma_copy m) = m_joypad m" "m_serial (oam_dma_copy m) = m_serial m"
  "m_link (oam_dma_copy m) = m_link m" "m_apu (oam_dma_copy m) = m_apu m"
  "m_cart (oam_dma_copy m) = m_cart m" "m_clocks (oam_dma_copy m) = m_clocks m"
  "m_mode (oam_dma_copy m) = m_mode m" "m_vector (oam_dma_copy m) = m_vector m"
  "m_stall (oam_dma_copy m) = m_stall m" "m_double (oam_dma_copy m) = m_double m"
  "m_armed (oam_dma_copy m) = m_armed m" "m_freeze (oam_dma_copy m) = m_freeze m"
  "m_dma_trace (oam_dma_copy m) = m_dma_trace m" "m_mapper_trace (oam_dma_copy m) = m_mapper_trace m"
  "m_io_trace (oam_dma_copy m) = m_io_trace m" "m_apu_trace (oam_dma_copy m) = m_apu_trace m"
  "m_cgb_trace (oam_dma_copy m) = m_cgb_trace m"
  "m_interrupt_trace (oam_dma_copy m) = m_interrupt_trace m" "m_diag (oam_dma_copy m) = m_diag m"
  by (subst oam_copy_shape, simp)+

lemma tick_dma_fields [simp]:
  "m_cpu (fst (tick_dma n (m, tr))) = m_cpu m" "m_ppu (fst (tick_dma n (m, tr))) = m_ppu m"
  "m_timer (fst (tick_dma n (m, tr))) = m_timer m"
  "m_interrupt (fst (tick_dma n (m, tr))) = m_interrupt m"
  "m_joypad (fst (tick_dma n (m, tr))) = m_joypad m" "m_serial (fst (tick_dma n (m, tr))) = m_serial m"
  "m_link (fst (tick_dma n (m, tr))) = m_link m" "m_apu (fst (tick_dma n (m, tr))) = m_apu m"
  "m_cart (fst (tick_dma n (m, tr))) = m_cart m" "m_clocks (fst (tick_dma n (m, tr))) = m_clocks m"
  "m_mode (fst (tick_dma n (m, tr))) = m_mode m" "m_vector (fst (tick_dma n (m, tr))) = m_vector m"
  "m_stall (fst (tick_dma n (m, tr))) = m_stall m" "m_double (fst (tick_dma n (m, tr))) = m_double m"
  "m_armed (fst (tick_dma n (m, tr))) = m_armed m" "m_freeze (fst (tick_dma n (m, tr))) = m_freeze m"
  "m_dma_trace (fst (tick_dma n (m, tr))) = m_dma_trace m"
  "m_mapper_trace (fst (tick_dma n (m, tr))) = m_mapper_trace m"
  "m_io_trace (fst (tick_dma n (m, tr))) = m_io_trace m"
  "m_apu_trace (fst (tick_dma n (m, tr))) = m_apu_trace m"
  "m_cgb_trace (fst (tick_dma n (m, tr))) = m_cgb_trace m"
  "m_interrupt_trace (fst (tick_dma n (m, tr))) = m_interrupt_trace m"
  "m_diag (fst (tick_dma n (m, tr))) = m_diag m"
  by (simp_all add: tick_dma_def Let_def case_prod_unfold)

lemma hdma_copy_fields [simp]:
  "m_cpu (hdma_copy_byte src dest k m) = m_cpu m" "m_ppu (hdma_copy_byte src dest k m) = m_ppu m"
  "m_timer (hdma_copy_byte src dest k m) = m_timer m"
  "m_interrupt (hdma_copy_byte src dest k m) = m_interrupt m"
  "m_joypad (hdma_copy_byte src dest k m) = m_joypad m" "m_dma (hdma_copy_byte src dest k m) = m_dma m"
  "m_serial (hdma_copy_byte src dest k m) = m_serial m"
  "m_link (hdma_copy_byte src dest k m) = m_link m" "m_apu (hdma_copy_byte src dest k m) = m_apu m"
  "m_cart (hdma_copy_byte src dest k m) = m_cart m"
  "m_clocks (hdma_copy_byte src dest k m) = m_clocks m"
  "m_mode (hdma_copy_byte src dest k m) = m_mode m"
  "m_vector (hdma_copy_byte src dest k m) = m_vector m"
  "m_stall (hdma_copy_byte src dest k m) = m_stall m"
  "m_double (hdma_copy_byte src dest k m) = m_double m"
  "m_armed (hdma_copy_byte src dest k m) = m_armed m"
  "m_freeze (hdma_copy_byte src dest k m) = m_freeze m"
  "m_dma_trace (hdma_copy_byte src dest k m) = m_dma_trace m"
  "m_mapper_trace (hdma_copy_byte src dest k m) = m_mapper_trace m"
  "m_io_trace (hdma_copy_byte src dest k m) = m_io_trace m"
  "m_apu_trace (hdma_copy_byte src dest k m) = m_apu_trace m"
  "m_cgb_trace (hdma_copy_byte src dest k m) = m_cgb_trace m"
  "m_interrupt_trace (hdma_copy_byte src dest k m) = m_interrupt_trace m"
  "m_diag (hdma_copy_byte src dest k m) = m_diag m"
  by (simp_all add: hdma_copy_byte_def Let_def case_prod_unfold)

lemma hdma_copies_shape:
  "fold (hdma_copy_byte src dest) ks m = m\<lparr>m_mem := m_mem (fold (hdma_copy_byte src dest) ks m)\<rparr>"
proof (induction ks arbitrary: m)
  case (Cons k ks)
  show ?case
    by (simp, subst Cons) (simp add: hdma_copy_byte_def poke_def)
qed simp

lemma hdma_copies_fields [simp]:
  "m_cpu (fold (hdma_copy_byte src dest) ks m) = m_cpu m"
  "m_ppu (fold (hdma_copy_byte src dest) ks m) = m_ppu m"
  "m_timer (fold (hdma_copy_byte src dest) ks m) = m_timer m"
  "m_interrupt (fold (hdma_copy_byte src dest) ks m) = m_interrupt m"
  "m_joypad (fold (hdma_copy_byte src dest) ks m) = m_joypad m"
  "m_dma (fold (hdma_copy_byte src dest) ks m) = m_dma m"
  "m_serial (fold (hdma_copy_byte src dest) ks m) = m_serial m"
  "m_link (fold (hdma_copy_byte src dest) ks m) = m_link m"
  "m_apu (fold (hdma_copy_byte src dest) ks m) = m_apu m"
  "m_cart (fold (hdma_copy_byte src dest) ks m) = m_cart m"
  "m_clocks (fold (hdma_copy_byte src dest) ks m) = m_clocks m"
  "m_mode (fold (hdma_copy_byte src dest) ks m) = m_mode m"
  "m_vector (fold (hdma_copy_byte src dest) ks m) = m_vector m"
  "m_stall (fold (hdma_copy_byte src dest) ks m) = m_stall m"
  "m_double (fold (hdma_copy_byte src dest) ks m) = m_double m"
  "m_armed (fold (hdma_copy_byte src dest) ks m) = m_armed m"
  "m_freeze (fold (hdma_copy_byte src dest) ks m) = m_freeze m"
  "m_dma_trace (fold (hdma_copy_byte src dest) ks m) = m_dma_trace m"
  "m_mapper_trace (fold (hdma_copy_byte src dest) ks m) = m_mapper_trace m"
  "m_io_trace (fold (hdma_copy_byte src dest) ks m) = m_io_trace m"
  "m_apu_trace (fold (hdma_copy_byte src dest) ks m) = m_apu_trace m"
  "m_cgb_trace (fold (hdma_copy_byte src dest) ks m) = m_cgb_trace m"
  "m_interrupt_trace (fold (hdma_copy_byte src dest) ks m) = m_interrupt_trace m"
  "m_diag (fold (hdma_copy_byte src dest) ks m) = m_diag m"
  by (subst hdma_copies_shape, simp)+

lemma transfer_fields [simp]:
  "m_cpu (fst (transfer_hdma_block b (m, tr))) = m_cpu m"
  "m_ppu (fst (transfer_hdma_block b (m, tr))) = m_ppu m"
  "m_timer (fst (transfer_hdma_block b (m, tr))) = m_timer m"
  "m_interrupt (fst (transfer_hdma_block b (m, tr))) = m_interrupt m"
  "m_joypad (fst (transfer_hdma_block b (m, tr))) = m_joypad m"
  "m_serial (fst (transfer_hdma_block b (m, tr))) = m_serial m"
  "m_link (fst (transfer_hdma_block b (m, tr))) = m_link m"
  "m_apu (fst (transfer_hdma_block b (m, tr))) = m_apu m"
  "m_cart (fst (transfer_hdma_block b (m, tr))) = m_cart m"
  "m_clocks (fst (transfer_hdma_block b (m, tr))) = m_clocks m"
  "m_mode (fst (transfer_hdma_block b (m, tr))) = m_mode m"
  "m_vector (fst (transfer_hdma_block b (m, tr))) = m_vector m"
  "m_stall (fst (transfer_hdma_block b (m, tr))) = m_stall m"
  "m_double (fst (transfer_hdma_block b (m, tr))) = m_double m"
  "m_armed (fst (transfer_hdma_block b (m, tr))) = m_armed m"
  "m_freeze (fst (transfer_hdma_block b (m, tr))) = m_freeze m"
  "m_dma_trace (fst (transfer_hdma_block b (m, tr))) = m_dma_trace m"
  "m_mapper_trace (fst (transfer_hdma_block b (m, tr))) = m_mapper_trace m"
  "m_io_trace (fst (transfer_hdma_block b (m, tr))) = m_io_trace m"
  "m_apu_trace (fst (transfer_hdma_block b (m, tr))) = m_apu_trace m"
  "m_cgb_trace (fst (transfer_hdma_block b (m, tr))) = m_cgb_trace m"
  "m_interrupt_trace (fst (transfer_hdma_block b (m, tr))) = m_interrupt_trace m"
  "m_diag (fst (transfer_hdma_block b (m, tr))) = m_diag m"
  by (simp_all add: transfer_hdma_block_def Let_def case_prod_unfold)

lemma hblank_fields [simp]:
  "m_cpu (fst (fst (tick_hdma_hblank (m, tr)))) = m_cpu m"
  "m_ppu (fst (fst (tick_hdma_hblank (m, tr)))) = m_ppu m"
  "m_timer (fst (fst (tick_hdma_hblank (m, tr)))) = m_timer m"
  "m_interrupt (fst (fst (tick_hdma_hblank (m, tr)))) = m_interrupt m"
  "m_joypad (fst (fst (tick_hdma_hblank (m, tr)))) = m_joypad m"
  "m_serial (fst (fst (tick_hdma_hblank (m, tr)))) = m_serial m"
  "m_link (fst (fst (tick_hdma_hblank (m, tr)))) = m_link m"
  "m_apu (fst (fst (tick_hdma_hblank (m, tr)))) = m_apu m"
  "m_cart (fst (fst (tick_hdma_hblank (m, tr)))) = m_cart m"
  "m_clocks (fst (fst (tick_hdma_hblank (m, tr)))) = m_clocks m"
  "m_mode (fst (fst (tick_hdma_hblank (m, tr)))) = m_mode m"
  "m_vector (fst (fst (tick_hdma_hblank (m, tr)))) = m_vector m"
  "m_stall (fst (fst (tick_hdma_hblank (m, tr)))) = m_stall m"
  "m_double (fst (fst (tick_hdma_hblank (m, tr)))) = m_double m"
  "m_armed (fst (fst (tick_hdma_hblank (m, tr)))) = m_armed m"
  "m_freeze (fst (fst (tick_hdma_hblank (m, tr)))) = m_freeze m"
  "m_dma_trace (fst (fst (tick_hdma_hblank (m, tr)))) = m_dma_trace m"
  "m_mapper_trace (fst (fst (tick_hdma_hblank (m, tr)))) = m_mapper_trace m"
  "m_io_trace (fst (fst (tick_hdma_hblank (m, tr)))) = m_io_trace m"
  "m_apu_trace (fst (fst (tick_hdma_hblank (m, tr)))) = m_apu_trace m"
  "m_cgb_trace (fst (fst (tick_hdma_hblank (m, tr)))) = m_cgb_trace m"
  "m_interrupt_trace (fst (fst (tick_hdma_hblank (m, tr)))) = m_interrupt_trace m"
  "m_diag (fst (fst (tick_hdma_hblank (m, tr)))) = m_diag m"
  by (simp_all add: tick_hdma_hblank_def Let_def case_prod_unfold)

lemma arm_hdma_fields [simp]:
  "m_cpu (arm_hdma v m) = m_cpu m" "m_ppu (arm_hdma v m) = m_ppu m"
  "m_timer (arm_hdma v m) = m_timer m" "m_interrupt (arm_hdma v m) = m_interrupt m"
  "m_joypad (arm_hdma v m) = m_joypad m" "m_serial (arm_hdma v m) = m_serial m"
  "m_link (arm_hdma v m) = m_link m" "m_apu (arm_hdma v m) = m_apu m"
  "m_cart (arm_hdma v m) = m_cart m" "m_clocks (arm_hdma v m) = m_clocks m"
  "m_mode (arm_hdma v m) = m_mode m" "m_vector (arm_hdma v m) = m_vector m"
  "m_stall (arm_hdma v m) = m_stall m" "m_double (arm_hdma v m) = m_double m"
  "m_armed (arm_hdma v m) = m_armed m" "m_freeze (arm_hdma v m) = m_freeze m"
  "m_mapper_trace (arm_hdma v m) = m_mapper_trace m" "m_io_trace (arm_hdma v m) = m_io_trace m"
  "m_apu_trace (arm_hdma v m) = m_apu_trace m" "m_cgb_trace (arm_hdma v m) = m_cgb_trace m"
  "m_interrupt_trace (arm_hdma v m) = m_interrupt_trace m" "m_diag (arm_hdma v m) = m_diag m"
  by (simp_all add: arm_hdma_def Let_def case_prod_unfold)

lemma count_cycles_fields [simp]:
  "m_cpu (count_cycles n m) = m_cpu m" "m_ppu (count_cycles n m) = m_ppu m"
  "m_timer (count_cycles n m) = m_timer m" "m_interrupt (count_cycles n m) = m_interrupt m"
  "m_joypad (count_cycles n m) = m_joypad m" "m_dma (count_cycles n m) = m_dma m"
  "m_serial (count_cycles n m) = m_serial m" "m_link (count_cycles n m) = m_link m"
  "m_apu (count_cycles n m) = m_apu m" "m_cart (count_cycles n m) = m_cart m"
  "m_mem (count_cycles n m) = m_mem m" "m_mode (count_cycles n m) = m_mode m"
  "m_vector (count_cycles n m) = m_vector m" "m_stall (count_cycles n m) = m_stall m"
  "m_double (count_cycles n m) = m_double m" "m_armed (count_cycles n m) = m_armed m"
  "m_freeze (count_cycles n m) = m_freeze m" "m_dma_trace (count_cycles n m) = m_dma_trace m"
  "m_mapper_trace (count_cycles n m) = m_mapper_trace m" "m_io_trace (count_cycles n m) = m_io_trace m"
  "m_apu_trace (count_cycles n m) = m_apu_trace m" "m_cgb_trace (count_cycles n m) = m_cgb_trace m"
  "m_interrupt_trace (count_cycles n m) = m_interrupt_trace m" "m_diag (count_cycles n m) = m_diag m"
  by (simp_all add: count_cycles_def Let_def case_prod_unfold)

lemma tick_ports_fields [simp]:
  "m_cpu (fst (tick_ports n m)) = m_cpu m" "m_ppu (fst (tick_ports n m)) = m_ppu m"
  "m_joypad (fst (tick_ports n m)) = m_joypad m" "m_dma (fst (tick_ports n m)) = m_dma m"
  "m_link (fst (tick_ports n m)) = m_link m" "m_apu (fst (tick_ports n m)) = m_apu m"
  "m_cart (fst (tick_ports n m)) = m_cart m" "m_mem (fst (tick_ports n m)) = m_mem m"
  "m_clocks (fst (tick_ports n m)) = m_clocks m" "m_mode (fst (tick_ports n m)) = m_mode m"
  "m_vector (fst (tick_ports n m)) = m_vector m" "m_stall (fst (tick_ports n m)) = m_stall m"
  "m_double (fst (tick_ports n m)) = m_double m" "m_armed (fst (tick_ports n m)) = m_armed m"
  "m_freeze (fst (tick_ports n m)) = m_freeze m" "m_dma_trace (fst (tick_ports n m)) = m_dma_trace m"
  "m_mapper_trace (fst (tick_ports n m)) = m_mapper_trace m"
  "m_io_trace (fst (tick_ports n m)) = m_io_trace m"
  "m_apu_trace (fst (tick_ports n m)) = m_apu_trace m"
  "m_cgb_trace (fst (tick_ports n m)) = m_cgb_trace m" "m_diag (fst (tick_ports n m)) = m_diag m"
  by (simp_all add: tick_ports_def Let_def case_prod_unfold)

lemma tick_ports_fast_fields [simp]:
  "m_cpu (tick_ports_fast n m) = m_cpu m" "m_ppu (tick_ports_fast n m) = m_ppu m"
  "m_joypad (tick_ports_fast n m) = m_joypad m" "m_dma (tick_ports_fast n m) = m_dma m"
  "m_link (tick_ports_fast n m) = m_link m" "m_apu (tick_ports_fast n m) = m_apu m"
  "m_cart (tick_ports_fast n m) = m_cart m" "m_mem (tick_ports_fast n m) = m_mem m"
  "m_clocks (tick_ports_fast n m) = m_clocks m" "m_mode (tick_ports_fast n m) = m_mode m"
  "m_vector (tick_ports_fast n m) = m_vector m" "m_stall (tick_ports_fast n m) = m_stall m"
  "m_double (tick_ports_fast n m) = m_double m" "m_armed (tick_ports_fast n m) = m_armed m"
  "m_freeze (tick_ports_fast n m) = m_freeze m" "m_dma_trace (tick_ports_fast n m) = m_dma_trace m"
  "m_mapper_trace (tick_ports_fast n m) = m_mapper_trace m"
  "m_io_trace (tick_ports_fast n m) = m_io_trace m" "m_apu_trace (tick_ports_fast n m) = m_apu_trace m"
  "m_cgb_trace (tick_ports_fast n m) = m_cgb_trace m" "m_diag (tick_ports_fast n m) = m_diag m"
  by (simp_all add: tick_ports_fast_def Let_def case_prod_unfold)

lemma latch_fields [simp]:
  "m_cpu (latch_if_due m) = m_cpu m" "m_timer (latch_if_due m) = m_timer m"
  "m_interrupt (latch_if_due m) = m_interrupt m" "m_joypad (latch_if_due m) = m_joypad m"
  "m_dma (latch_if_due m) = m_dma m" "m_serial (latch_if_due m) = m_serial m"
  "m_link (latch_if_due m) = m_link m" "m_apu (latch_if_due m) = m_apu m"
  "m_cart (latch_if_due m) = m_cart m" "m_mem (latch_if_due m) = m_mem m"
  "m_clocks (latch_if_due m) = m_clocks m" "m_mode (latch_if_due m) = m_mode m"
  "m_vector (latch_if_due m) = m_vector m" "m_stall (latch_if_due m) = m_stall m"
  "m_double (latch_if_due m) = m_double m" "m_armed (latch_if_due m) = m_armed m"
  "m_freeze (latch_if_due m) = m_freeze m" "m_dma_trace (latch_if_due m) = m_dma_trace m"
  "m_mapper_trace (latch_if_due m) = m_mapper_trace m" "m_io_trace (latch_if_due m) = m_io_trace m"
  "m_apu_trace (latch_if_due m) = m_apu_trace m" "m_cgb_trace (latch_if_due m) = m_cgb_trace m"
  "m_interrupt_trace (latch_if_due m) = m_interrupt_trace m" "m_diag (latch_if_due m) = m_diag m"
  by (simp_all add: latch_if_due_def Let_def case_prod_unfold)

lemma draw_fields [simp]:
  "m_cpu (draw_if b m) = m_cpu m" "m_timer (draw_if b m) = m_timer m"
  "m_interrupt (draw_if b m) = m_interrupt m" "m_joypad (draw_if b m) = m_joypad m"
  "m_dma (draw_if b m) = m_dma m" "m_serial (draw_if b m) = m_serial m"
  "m_link (draw_if b m) = m_link m" "m_apu (draw_if b m) = m_apu m" "m_cart (draw_if b m) = m_cart m"
  "m_mem (draw_if b m) = m_mem m" "m_clocks (draw_if b m) = m_clocks m"
  "m_mode (draw_if b m) = m_mode m" "m_vector (draw_if b m) = m_vector m"
  "m_stall (draw_if b m) = m_stall m" "m_double (draw_if b m) = m_double m"
  "m_armed (draw_if b m) = m_armed m" "m_freeze (draw_if b m) = m_freeze m"
  "m_dma_trace (draw_if b m) = m_dma_trace m" "m_mapper_trace (draw_if b m) = m_mapper_trace m"
  "m_io_trace (draw_if b m) = m_io_trace m" "m_apu_trace (draw_if b m) = m_apu_trace m"
  "m_cgb_trace (draw_if b m) = m_cgb_trace m" "m_interrupt_trace (draw_if b m) = m_interrupt_trace m"
  "m_diag (draw_if b m) = m_diag m"
  by (simp_all add: draw_if_def Let_def case_prod_unfold)

lemma frame_phase_fields [simp]:
  "m_cpu (fst (advance_frame_phase n m)) = m_cpu m" "m_ppu (fst (advance_frame_phase n m)) = m_ppu m"
  "m_timer (fst (advance_frame_phase n m)) = m_timer m"
  "m_interrupt (fst (advance_frame_phase n m)) = m_interrupt m"
  "m_joypad (fst (advance_frame_phase n m)) = m_joypad m"
  "m_dma (fst (advance_frame_phase n m)) = m_dma m"
  "m_serial (fst (advance_frame_phase n m)) = m_serial m"
  "m_link (fst (advance_frame_phase n m)) = m_link m" "m_apu (fst (advance_frame_phase n m)) = m_apu m"
  "m_cart (fst (advance_frame_phase n m)) = m_cart m" "m_mem (fst (advance_frame_phase n m)) = m_mem m"
  "m_mode (fst (advance_frame_phase n m)) = m_mode m"
  "m_vector (fst (advance_frame_phase n m)) = m_vector m"
  "m_stall (fst (advance_frame_phase n m)) = m_stall m"
  "m_double (fst (advance_frame_phase n m)) = m_double m"
  "m_armed (fst (advance_frame_phase n m)) = m_armed m"
  "m_freeze (fst (advance_frame_phase n m)) = m_freeze m"
  "m_dma_trace (fst (advance_frame_phase n m)) = m_dma_trace m"
  "m_mapper_trace (fst (advance_frame_phase n m)) = m_mapper_trace m"
  "m_io_trace (fst (advance_frame_phase n m)) = m_io_trace m"
  "m_apu_trace (fst (advance_frame_phase n m)) = m_apu_trace m"
  "m_cgb_trace (fst (advance_frame_phase n m)) = m_cgb_trace m"
  "m_interrupt_trace (fst (advance_frame_phase n m)) = m_interrupt_trace m"
  "m_diag (fst (advance_frame_phase n m)) = m_diag m"
  by (simp_all add: advance_frame_phase_def Let_def case_prod_unfold)

lemma tick_dma_if_fields [simp]:
  "m_cpu (fst (tick_dma_if n (m, tr))) = m_cpu m" "m_ppu (fst (tick_dma_if n (m, tr))) = m_ppu m"
  "m_timer (fst (tick_dma_if n (m, tr))) = m_timer m"
  "m_interrupt (fst (tick_dma_if n (m, tr))) = m_interrupt m"
  "m_joypad (fst (tick_dma_if n (m, tr))) = m_joypad m"
  "m_serial (fst (tick_dma_if n (m, tr))) = m_serial m"
  "m_link (fst (tick_dma_if n (m, tr))) = m_link m" "m_apu (fst (tick_dma_if n (m, tr))) = m_apu m"
  "m_cart (fst (tick_dma_if n (m, tr))) = m_cart m"
  "m_clocks (fst (tick_dma_if n (m, tr))) = m_clocks m"
  "m_mode (fst (tick_dma_if n (m, tr))) = m_mode m"
  "m_vector (fst (tick_dma_if n (m, tr))) = m_vector m"
  "m_stall (fst (tick_dma_if n (m, tr))) = m_stall m"
  "m_double (fst (tick_dma_if n (m, tr))) = m_double m"
  "m_armed (fst (tick_dma_if n (m, tr))) = m_armed m"
  "m_freeze (fst (tick_dma_if n (m, tr))) = m_freeze m"
  "m_dma_trace (fst (tick_dma_if n (m, tr))) = m_dma_trace m"
  "m_mapper_trace (fst (tick_dma_if n (m, tr))) = m_mapper_trace m"
  "m_io_trace (fst (tick_dma_if n (m, tr))) = m_io_trace m"
  "m_apu_trace (fst (tick_dma_if n (m, tr))) = m_apu_trace m"
  "m_cgb_trace (fst (tick_dma_if n (m, tr))) = m_cgb_trace m"
  "m_interrupt_trace (fst (tick_dma_if n (m, tr))) = m_interrupt_trace m"
  "m_diag (fst (tick_dma_if n (m, tr))) = m_diag m"
  by (simp_all add: tick_dma_if_def Let_def case_prod_unfold)

end
