(* ===== verification/Cpu_Exec.thy ===== *)
theory Cpu_Exec
  imports Machine_Bus "HOL-Library.State_Monad"
begin

text \<open>
  Instruction execution of \<^verbatim>\<open>lib.rs\<close> in the state monad of the machine: operand fetches, the
  stack, the CB page and the opcode table, each arm with the cycles it returns. An opcode that
  is not an instruction is the error value of the sum.
\<close>

type_synonym 'a exec = "(machine, 'a) state"

section \<open>Machine accesses\<close>

definition ex_read :: "u16 \<Rightarrow> u8 exec" where
  "ex_read addr = State (read8 addr)"

definition ex_read_timed :: "u16 \<Rightarrow> nat \<Rightarrow> u8 exec" where
  "ex_read_timed addr n = State (read8_timed addr n)"

definition ex_write :: "host \<Rightarrow> u16 \<Rightarrow> u8 \<Rightarrow> unit exec" where
  "ex_write h addr v = State (\<lambda>m. ((), write8 h addr v m))"

definition get_cpu :: "cpu exec" where
  "get_cpu = State (\<lambda>m. (m_cpu m, m))"

definition put_cpu :: "(cpu \<Rightarrow> cpu) \<Rightarrow> unit exec" where
  "put_cpu f = State (\<lambda>m. ((), m\<lparr>m_cpu := f (m_cpu m)\<rparr>))"

text \<open>An arithmetic helper that returns a value and sets flags.\<close>

definition alu :: "(cpu \<Rightarrow> u8 \<times> cpu) \<Rightarrow> u8 exec" where
  "alu f = State (\<lambda>m. let (v, c) = f (m_cpu m) in (v, m\<lparr>m_cpu := c\<rparr>))"

definition alu16 :: "(cpu \<Rightarrow> u16 \<times> cpu) \<Rightarrow> u16 exec" where
  "alu16 f = State (\<lambda>m. let (v, c) = f (m_cpu m) in (v, m\<lparr>m_cpu := c\<rparr>))"

definition took :: "nat \<Rightarrow> (core_error + nat) exec" where
  "took n = State_Monad.return (Inr n)"

definition unsupported :: "u8 \<Rightarrow> (core_error + nat) exec" where
  "unsupported op = State (\<lambda>m. (Inl (UnsupportedOpcode op (r_pc (m_cpu m) - 1)), m))"

section \<open>Operands and the stack\<close>

definition fetch :: "u8 exec" where
  "fetch = do {
     c \<leftarrow> get_cpu;
     v \<leftarrow> ex_read (r_pc c);
     put_cpu (\<lambda>c. c\<lparr>r_pc := r_pc c + 1\<rparr>);
     State_Monad.return v }"

definition read16_imm :: "u16 exec" where
  "read16_imm = do {
     lo \<leftarrow> fetch;
     hi \<leftarrow> fetch;
     State_Monad.return (push_bit 8 (ucast hi) OR ucast lo) }"

definition push16 :: "host \<Rightarrow> u16 \<Rightarrow> unit exec" where
  "push16 h v = do {
     put_cpu (\<lambda>c. c\<lparr>r_sp := r_sp c - 1\<rparr>);
     c \<leftarrow> get_cpu;
     ex_write h (r_sp c) (hi_byte v);
     put_cpu (\<lambda>c. c\<lparr>r_sp := r_sp c - 1\<rparr>);
     c \<leftarrow> get_cpu;
     ex_write h (r_sp c) (lo_byte v) }"

definition pop_byte :: "u8 exec" where
  "pop_byte = do {
     c \<leftarrow> get_cpu;
     v \<leftarrow> ex_read (r_sp c);
     put_cpu (\<lambda>c. c\<lparr>r_sp := r_sp c + 1\<rparr>);
     State_Monad.return v }"

definition pop16 :: "u16 exec" where
  "pop16 = do {
     lo \<leftarrow> pop_byte;
     hi \<leftarrow> pop_byte;
     State_Monad.return (push_bit 8 (ucast hi) OR ucast lo) }"

definition read_r8 :: "u8 \<Rightarrow> u8 exec" where
  "read_r8 index = do {
     c \<leftarrow> get_cpu;
     (let i = index AND 0x07 in
      if i = 0 then State_Monad.return (r_b c)
      else if i = 1 then State_Monad.return (r_c c)
      else if i = 2 then State_Monad.return (r_d c)
      else if i = 3 then State_Monad.return (r_e c)
      else if i = 4 then State_Monad.return (r_h c)
      else if i = 5 then State_Monad.return (r_l c)
      else if i = 6 then ex_read (cpu_hl c)
      else State_Monad.return (r_a c)) }"

definition write_r8 :: "host \<Rightarrow> u8 \<Rightarrow> u8 \<Rightarrow> unit exec" where
  "write_r8 h index v =
     (let i = index AND 0x07 in
      if i = 0 then put_cpu (\<lambda>c. c\<lparr>r_b := v\<rparr>)
      else if i = 1 then put_cpu (\<lambda>c. c\<lparr>r_c := v\<rparr>)
      else if i = 2 then put_cpu (\<lambda>c. c\<lparr>r_d := v\<rparr>)
      else if i = 3 then put_cpu (\<lambda>c. c\<lparr>r_e := v\<rparr>)
      else if i = 4 then put_cpu (\<lambda>c. c\<lparr>r_h := v\<rparr>)
      else if i = 5 then put_cpu (\<lambda>c. c\<lparr>r_l := v\<rparr>)
      else if i = 6 then do { c \<leftarrow> get_cpu; ex_write h (cpu_hl c) v }
      else put_cpu (\<lambda>c. c\<lparr>r_a := v\<rparr>))"

section \<open>The CB page\<close>

definition cb_shift :: "u8 \<Rightarrow> u8 \<Rightarrow> cpu \<Rightarrow> u8 \<times> cpu" where
  "cb_shift y v =
     (if y = 0 then cb_rlc v else if y = 1 then cb_rrc v else if y = 2 then cb_rl v
      else if y = 3 then cb_rr v else if y = 4 then cb_sla v else if y = 5 then cb_sra v
      else if y = 6 then cb_swap v else cb_srl v)"

definition execute_cb_opcode :: "host \<Rightarrow> u8 \<Rightarrow> nat exec" where
  "execute_cb_opcode h op =
     (let target = op AND 0x07;
          group = drop_bit 6 op;
          y = drop_bit 3 op AND 0x07;
          cycles = (if target = 6 then 16 else 8) in
      if group = 0 then do {
        v \<leftarrow> read_r8 target;
        r \<leftarrow> alu (cb_shift y v);
        write_r8 h target r;
        State_Monad.return cycles }
      else if group = 1 then do {
        v \<leftarrow> read_r8 target;
        put_cpu (\<lambda>c. put_h True (put_n False (put_z (drop_bit (unat y) v AND 1 = 0) c)));
        State_Monad.return (if target = 6 then 12 else 8) }
      else if group = 2 then do {
        v \<leftarrow> read_r8 target;
        write_r8 h target (v AND NOT (push_bit (unat y) 1));
        State_Monad.return cycles }
      else do {
        v \<leftarrow> read_r8 target;
        write_r8 h target (v OR push_bit (unat y) 1);
        State_Monad.return cycles })"

section \<open>Loads, arithmetic families and HALT\<close>

definition exec_ld_r_r :: "host \<Rightarrow> u8 \<Rightarrow> (core_error + nat) exec" where
  "exec_ld_r_r h op =
     (let dst = drop_bit 3 op AND 0x07; src = op AND 0x07 in do {
        v \<leftarrow> read_r8 src;
        write_r8 h dst v;
        took (if dst = 6 \<or> src = 6 then 8 else 4) })"

definition alu_family :: "u8 \<Rightarrow> u8 \<Rightarrow> cpu \<Rightarrow> cpu" where
  "alu_family op =
     (if op \<le> 0x87 then add_a else if op \<le> 0x8F then adc_a else if op \<le> 0x97 then sub_a
      else if op \<le> 0x9F then sbc_a else if op \<le> 0xA7 then and_a else if op \<le> 0xAF then xor_a
      else if op \<le> 0xB7 then or_a else cp_a)"

definition exec_alu :: "u8 \<Rightarrow> (core_error + nat) exec" where
  "exec_alu op = do {
     v \<leftarrow> read_r8 (op AND 0x07);
     put_cpu (alu_family op v);
     took (if op AND 0x07 = 6 then 8 else 4) }"

text \<open>HALT with interrupts off and one pending sets the fetch bug instead of sleeping.\<close>

definition halt_cpu :: "bool \<Rightarrow> cpu \<Rightarrow> cpu" where
  "halt_cpu pending c =
     (if \<not> cpu_ime c \<and> pending then c\<lparr>cpu_halt_bug := True, cpu_halted := False\<rparr>
      else c\<lparr>cpu_halted := True\<rparr>)"

definition exec_halt :: "(core_error + nat) exec" where
  "exec_halt = do {
     pending \<leftarrow> State (\<lambda>m. (has_pending (m_interrupt m), m));
     put_cpu (halt_cpu pending);
     took 4 }"

text \<open>STOP after its padding byte: the armed speed switch, or else a halt.\<close>

definition stop_machine :: "machine \<Rightarrow> machine" where
  "stop_machine m =
     (if m_mode m = Cgb \<and> m_armed m then perform_speed_switch m
      else m\<lparr>m_cpu := (m_cpu m)\<lparr>cpu_halted := True\<rparr>\<rparr>)"

definition exec_stop :: "(core_error + nat) exec" where
  "exec_stop = do {
     State (\<lambda>m. ((), stop_machine m));
     took 4 }"

section \<open>Shared shapes of arms\<close>

definition rra :: "cpu \<Rightarrow> cpu" where
  "rra c =
     (let carry = (if cpu_carry c then 0x80 else 0); new_carry = (r_a c AND 0x01 \<noteq> 0);
          c = c\<lparr>r_a := drop_bit 1 (r_a c) OR carry\<rparr>
      in put_znhc False False False new_carry c)"

definition jr_if :: "(cpu \<Rightarrow> bool) \<Rightarrow> (core_error + nat) exec" where
  "jr_if cond = do {
     off \<leftarrow> fetch;
     c \<leftarrow> get_cpu;
     if cond c then do { put_cpu (jr off); took 12 } else took 8 }"

definition ret_if :: "(cpu \<Rightarrow> bool) \<Rightarrow> (core_error + nat) exec" where
  "ret_if cond = do {
     c \<leftarrow> get_cpu;
     if cond c then do { v \<leftarrow> pop16; put_cpu (\<lambda>c. c\<lparr>r_pc := v\<rparr>); took 20 } else took 8 }"

definition jp_if :: "(cpu \<Rightarrow> bool) \<Rightarrow> (core_error + nat) exec" where
  "jp_if cond = do {
     addr \<leftarrow> read16_imm;
     c \<leftarrow> get_cpu;
     if cond c then do { put_cpu (\<lambda>c. c\<lparr>r_pc := addr\<rparr>); took 16 } else took 12 }"

definition call_if :: "host \<Rightarrow> (cpu \<Rightarrow> bool) \<Rightarrow> (core_error + nat) exec" where
  "call_if h cond = do {
     addr \<leftarrow> read16_imm;
     c \<leftarrow> get_cpu;
     if cond c then do { push16 h (r_pc c); put_cpu (\<lambda>c. c\<lparr>r_pc := addr\<rparr>); took 24 }
     else took 12 }"

definition rst :: "host \<Rightarrow> u16 \<Rightarrow> (core_error + nat) exec" where
  "rst h addr = do {
     c \<leftarrow> get_cpu;
     push16 h (r_pc c);
     put_cpu (\<lambda>c. c\<lparr>r_pc := addr\<rparr>);
     took 16 }"

definition exec_modify_hl :: "host \<Rightarrow> (u8 \<Rightarrow> cpu \<Rightarrow> u8 \<times> cpu) \<Rightarrow> (core_error + nat) exec" where
  "exec_modify_hl h f = do {
     c \<leftarrow> get_cpu;
     v \<leftarrow> ex_read (cpu_hl c);
     r \<leftarrow> alu (f v);
     ex_write h (cpu_hl c) r;
     took 12 }"

definition clear_vector :: "unit exec" where
  "clear_vector = State (\<lambda>m. ((), m\<lparr>m_vector := None\<rparr>))"

section \<open>The opcode table\<close>

text \<open>Opcodes 00 to 0F.\<close>

definition exec_00 :: "host \<Rightarrow> u8 \<Rightarrow> (core_error + nat) exec" where
  "exec_00 h op =
     (if op = 0x00 then took 4
      else if op = 0x01 then do { v \<leftarrow> read16_imm; put_cpu (set_bc v); took 12 }
      else if op = 0x02 then do { c \<leftarrow> get_cpu; ex_write h (ld_bc c) (r_a c); took 8 }
      else if op = 0x03 then do { put_cpu (\<lambda>c. set_bc (inc16 (ld_bc c)) c); took 8 }
      else if op = 0x04 then do { v \<leftarrow> alu (\<lambda>c. inc8 (r_b c) c); put_cpu (\<lambda>c. c\<lparr>r_b := v\<rparr>); took 4 }
      else if op = 0x05 then do { v \<leftarrow> alu (\<lambda>c. dec8 (r_b c) c); put_cpu (\<lambda>c. c\<lparr>r_b := v\<rparr>); took 4 }
      else if op = 0x06 then do { v \<leftarrow> fetch; put_cpu (\<lambda>c. c\<lparr>r_b := v\<rparr>); took 8 }
      else if op = 0x07 then do { put_cpu (\<lambda>c. rlca c); took 4 }
      else if op = 0x08 then do { addr \<leftarrow> read16_imm; c \<leftarrow> get_cpu; ex_write h addr (lo_byte (r_sp c));
             ex_write h (addr + 1) (hi_byte (r_sp c)); took 20 }
      else if op = 0x09 then do { put_cpu (\<lambda>c. add_hl (ld_bc c) c); took 8 }
      else if op = 0x0A then do { c \<leftarrow> get_cpu; v \<leftarrow> ex_read_timed (ld_bc c) 4; put_cpu (\<lambda>c. c\<lparr>r_a := v\<rparr>); took 8 }
      else if op = 0x0B then do { put_cpu (\<lambda>c. set_bc (dec16 (ld_bc c)) c); took 8 }
      else if op = 0x0C then do { v \<leftarrow> alu (\<lambda>c. inc8 (r_c c) c); put_cpu (\<lambda>c. c\<lparr>r_c := v\<rparr>); took 4 }
      else if op = 0x0D then do { v \<leftarrow> alu (\<lambda>c. dec8 (r_c c) c); put_cpu (\<lambda>c. c\<lparr>r_c := v\<rparr>); took 4 }
      else if op = 0x0E then do { v \<leftarrow> fetch; put_cpu (\<lambda>c. c\<lparr>r_c := v\<rparr>); took 8 }
      else if op = 0x0F then do { put_cpu (\<lambda>c. rrca c); took 4 }
      else unsupported op)"

text \<open>Opcodes 10 to 1F.\<close>

definition exec_10 :: "host \<Rightarrow> u8 \<Rightarrow> (core_error + nat) exec" where
  "exec_10 h op =
     (if op = 0x10 then do { _ \<leftarrow> fetch; exec_stop }
      else if op = 0x11 then do { v \<leftarrow> read16_imm; put_cpu (set_de v); took 12 }
      else if op = 0x12 then do { c \<leftarrow> get_cpu; ex_write h (ld_de c) (r_a c); took 8 }
      else if op = 0x13 then do { put_cpu (\<lambda>c. set_de (inc16 (ld_de c)) c); took 8 }
      else if op = 0x14 then do { v \<leftarrow> alu (\<lambda>c. inc8 (r_d c) c); put_cpu (\<lambda>c. c\<lparr>r_d := v\<rparr>); took 4 }
      else if op = 0x15 then do { v \<leftarrow> alu (\<lambda>c. dec8 (r_d c) c); put_cpu (\<lambda>c. c\<lparr>r_d := v\<rparr>); took 4 }
      else if op = 0x16 then do { v \<leftarrow> fetch; put_cpu (\<lambda>c. c\<lparr>r_d := v\<rparr>); took 8 }
      else if op = 0x17 then do { put_cpu (\<lambda>c. rla c); took 4 }
      else if op = 0x18 then do { off \<leftarrow> fetch; put_cpu (jr off); took 12 }
      else if op = 0x19 then do { put_cpu (\<lambda>c. add_hl (ld_de c) c); took 8 }
      else if op = 0x1A then do { c \<leftarrow> get_cpu; v \<leftarrow> ex_read_timed (ld_de c) 4; put_cpu (\<lambda>c. c\<lparr>r_a := v\<rparr>); took 8 }
      else if op = 0x1B then do { put_cpu (\<lambda>c. set_de (dec16 (ld_de c)) c); took 8 }
      else if op = 0x1C then do { v \<leftarrow> alu (\<lambda>c. inc8 (r_e c) c); put_cpu (\<lambda>c. c\<lparr>r_e := v\<rparr>); took 4 }
      else if op = 0x1D then do { v \<leftarrow> alu (\<lambda>c. dec8 (r_e c) c); put_cpu (\<lambda>c. c\<lparr>r_e := v\<rparr>); took 4 }
      else if op = 0x1E then do { v \<leftarrow> fetch; put_cpu (\<lambda>c. c\<lparr>r_e := v\<rparr>); took 8 }
      else if op = 0x1F then do { put_cpu (\<lambda>c. rra c); took 4 }
      else unsupported op)"

text \<open>Opcodes 20 to 2F.\<close>

definition exec_20 :: "host \<Rightarrow> u8 \<Rightarrow> (core_error + nat) exec" where
  "exec_20 h op =
     (if op = 0x20 then jr_if (\<lambda>c. \<not> flag_z (r_f c))
      else if op = 0x21 then do { v \<leftarrow> read16_imm; put_cpu (set_hl v); took 12 }
      else if op = 0x22 then do { c \<leftarrow> get_cpu; ex_write h (cpu_hl c) (r_a c); put_cpu (set_hl (cpu_hl c + 1)); took 8 }
      else if op = 0x23 then do { put_cpu (\<lambda>c. set_hl (inc16 (cpu_hl c)) c); took 8 }
      else if op = 0x24 then do { v \<leftarrow> alu (\<lambda>c. inc8 (r_h c) c); put_cpu (\<lambda>c. c\<lparr>r_h := v\<rparr>); took 4 }
      else if op = 0x25 then do { v \<leftarrow> alu (\<lambda>c. dec8 (r_h c) c); put_cpu (\<lambda>c. c\<lparr>r_h := v\<rparr>); took 4 }
      else if op = 0x26 then do { v \<leftarrow> fetch; put_cpu (\<lambda>c. c\<lparr>r_h := v\<rparr>); took 8 }
      else if op = 0x27 then do { put_cpu (\<lambda>c. daa c); took 4 }
      else if op = 0x28 then jr_if (\<lambda>c. flag_z (r_f c))
      else if op = 0x29 then do { put_cpu (\<lambda>c. add_hl (cpu_hl c) c); took 8 }
      else if op = 0x2A then do { c \<leftarrow> get_cpu; v \<leftarrow> ex_read_timed (cpu_hl c) 4; put_cpu (\<lambda>c. c\<lparr>r_a := v\<rparr>);
             put_cpu (set_hl (cpu_hl c + 1)); took 8 }
      else if op = 0x2B then do { put_cpu (\<lambda>c. set_hl (dec16 (cpu_hl c)) c); took 8 }
      else if op = 0x2C then do { v \<leftarrow> alu (\<lambda>c. inc8 (r_l c) c); put_cpu (\<lambda>c. c\<lparr>r_l := v\<rparr>); took 4 }
      else if op = 0x2D then do { v \<leftarrow> alu (\<lambda>c. dec8 (r_l c) c); put_cpu (\<lambda>c. c\<lparr>r_l := v\<rparr>); took 4 }
      else if op = 0x2E then do { v \<leftarrow> fetch; put_cpu (\<lambda>c. c\<lparr>r_l := v\<rparr>); took 8 }
      else if op = 0x2F then do { put_cpu (\<lambda>c. put_h True (put_n True (c\<lparr>r_a := r_a c XOR 0xFF\<rparr>))); took 4 }
      else unsupported op)"

text \<open>Opcodes 30 to 3F.\<close>

definition exec_30 :: "host \<Rightarrow> u8 \<Rightarrow> (core_error + nat) exec" where
  "exec_30 h op =
     (if op = 0x30 then jr_if (\<lambda>c. \<not> flag_c (r_f c))
      else if op = 0x31 then do { v \<leftarrow> read16_imm; put_cpu (\<lambda>c. c\<lparr>r_sp := v\<rparr>); took 12 }
      else if op = 0x32 then do { c \<leftarrow> get_cpu; ex_write h (cpu_hl c) (r_a c); put_cpu (set_hl (cpu_hl c - 1)); took 8 }
      else if op = 0x33 then do { put_cpu (\<lambda>c. c\<lparr>r_sp := inc16 (r_sp c)\<rparr>); took 8 }
      else if op = 0x34 then exec_modify_hl h inc8
      else if op = 0x35 then exec_modify_hl h dec8
      else if op = 0x36 then do { v \<leftarrow> fetch; c \<leftarrow> get_cpu; ex_write h (cpu_hl c) v; took 12 }
      else if op = 0x37 then do { put_cpu (\<lambda>c. put_c True (put_h False (put_n False c))); took 4 }
      else if op = 0x38 then jr_if (\<lambda>c. flag_c (r_f c))
      else if op = 0x39 then do { put_cpu (\<lambda>c. add_hl (r_sp c) c); took 8 }
      else if op = 0x3A then do { c \<leftarrow> get_cpu; v \<leftarrow> ex_read_timed (cpu_hl c) 4; put_cpu (\<lambda>c. c\<lparr>r_a := v\<rparr>);
             put_cpu (set_hl (cpu_hl c - 1)); took 8 }
      else if op = 0x3B then do { put_cpu (\<lambda>c. c\<lparr>r_sp := dec16 (r_sp c)\<rparr>); took 8 }
      else if op = 0x3C then do { v \<leftarrow> alu (\<lambda>c. inc8 (r_a c) c); put_cpu (\<lambda>c. c\<lparr>r_a := v\<rparr>); took 4 }
      else if op = 0x3D then do { v \<leftarrow> alu (\<lambda>c. dec8 (r_a c) c); put_cpu (\<lambda>c. c\<lparr>r_a := v\<rparr>); took 4 }
      else if op = 0x3E then do { v \<leftarrow> fetch; put_cpu (\<lambda>c. c\<lparr>r_a := v\<rparr>); took 8 }
      else if op = 0x3F then do { put_cpu (\<lambda>c. put_c (\<not> cpu_carry c) (put_h False (put_n False c))); took 4 }
      else unsupported op)"

text \<open>Opcodes C0 to CF.\<close>

definition exec_C0 :: "host \<Rightarrow> u8 \<Rightarrow> (core_error + nat) exec" where
  "exec_C0 h op =
     (if op = 0xC0 then ret_if (\<lambda>c. \<not> flag_z (r_f c))
      else if op = 0xC1 then do { v \<leftarrow> pop16; put_cpu (set_bc v); took 12 }
      else if op = 0xC2 then jp_if (\<lambda>c. \<not> flag_z (r_f c))
      else if op = 0xC3 then do { addr \<leftarrow> read16_imm; put_cpu (\<lambda>c. c\<lparr>r_pc := addr\<rparr>); took 16 }
      else if op = 0xC4 then call_if h (\<lambda>c. \<not> flag_z (r_f c))
      else if op = 0xC5 then do { c \<leftarrow> get_cpu; push16 h (ld_bc c); took 16 }
      else if op = 0xC6 then do { v \<leftarrow> fetch; put_cpu (add_a v); took 8 }
      else if op = 0xC7 then rst h 0x00
      else if op = 0xC8 then ret_if (\<lambda>c. flag_z (r_f c))
      else if op = 0xC9 then do { v \<leftarrow> pop16; put_cpu (\<lambda>c. c\<lparr>r_pc := v\<rparr>); took 16 }
      else if op = 0xCA then jp_if (\<lambda>c. flag_z (r_f c))
      else if op = 0xCB then do { cb \<leftarrow> fetch; n \<leftarrow> execute_cb_opcode h cb; took n }
      else if op = 0xCC then call_if h (\<lambda>c. flag_z (r_f c))
      else if op = 0xCD then do { addr \<leftarrow> read16_imm; c \<leftarrow> get_cpu; push16 h (r_pc c); put_cpu (\<lambda>c. c\<lparr>r_pc := addr\<rparr>); took 24 }
      else if op = 0xCE then do { v \<leftarrow> fetch; put_cpu (adc_a v); took 8 }
      else if op = 0xCF then rst h 0x08
      else unsupported op)"

text \<open>Opcodes D0 to DF; D3, DB and DD are not instructions.\<close>

definition exec_D0 :: "host \<Rightarrow> u8 \<Rightarrow> (core_error + nat) exec" where
  "exec_D0 h op =
     (if op = 0xD0 then ret_if (\<lambda>c. \<not> flag_c (r_f c))
      else if op = 0xD1 then do { v \<leftarrow> pop16; put_cpu (set_de v); took 12 }
      else if op = 0xD2 then jp_if (\<lambda>c. \<not> flag_c (r_f c))
      else if op = 0xD4 then call_if h (\<lambda>c. \<not> flag_c (r_f c))
      else if op = 0xD5 then do { c \<leftarrow> get_cpu; push16 h (ld_de c); took 16 }
      else if op = 0xD6 then do { v \<leftarrow> fetch; put_cpu (sub_a v); took 8 }
      else if op = 0xD7 then rst h 0x10
      else if op = 0xD8 then ret_if (\<lambda>c. flag_c (r_f c))
      else if op = 0xD9 then do { v \<leftarrow> pop16; put_cpu (\<lambda>c. c\<lparr>r_pc := v\<rparr>); put_cpu (\<lambda>c. c\<lparr>cpu_ime := True\<rparr>);
             clear_vector; took 16 }
      else if op = 0xDA then jp_if (\<lambda>c. flag_c (r_f c))
      else if op = 0xDC then call_if h (\<lambda>c. flag_c (r_f c))
      else if op = 0xDE then do { v \<leftarrow> fetch; put_cpu (sbc_a v); took 8 }
      else if op = 0xDF then rst h 0x18
      else unsupported op)"

text \<open>Opcodes E0 to EF; E3, E4, EB, EC and ED are not instructions.\<close>

definition exec_E0 :: "host \<Rightarrow> u8 \<Rightarrow> (core_error + nat) exec" where
  "exec_E0 h op =
     (if op = 0xE0 then do { off \<leftarrow> fetch; c \<leftarrow> get_cpu; ex_write h (0xFF00 OR ucast off) (r_a c); took 12 }
      else if op = 0xE1 then do { v \<leftarrow> pop16; put_cpu (set_hl v); took 12 }
      else if op = 0xE2 then do { c \<leftarrow> get_cpu; ex_write h (0xFF00 OR ucast (r_c c)) (r_a c); took 8 }
      else if op = 0xE5 then do { c \<leftarrow> get_cpu; push16 h (cpu_hl c); took 16 }
      else if op = 0xE6 then do { v \<leftarrow> fetch; put_cpu (and_a v); took 8 }
      else if op = 0xE7 then rst h 0x20
      else if op = 0xE8 then do { off \<leftarrow> fetch; v \<leftarrow> alu16 (\<lambda>c. add_signed_to_sp_like_flags (r_sp c) off c);
             put_cpu (\<lambda>c. c\<lparr>r_sp := v\<rparr>); took 16 }
      else if op = 0xE9 then do { put_cpu (\<lambda>c. c\<lparr>r_pc := cpu_hl c\<rparr>); took 4 }
      else if op = 0xEA then do { addr \<leftarrow> read16_imm; c \<leftarrow> get_cpu; ex_write h addr (r_a c); took 16 }
      else if op = 0xEE then do { v \<leftarrow> fetch; put_cpu (xor_a v); took 8 }
      else if op = 0xEF then rst h 0x28
      else unsupported op)"

text \<open>Opcodes F0 to FF; the code takes F4 for a call when carry is clear, FC and FD are not instructions.\<close>

definition exec_F0 :: "host \<Rightarrow> u8 \<Rightarrow> (core_error + nat) exec" where
  "exec_F0 h op =
     (if op = 0xF0 then do { off \<leftarrow> fetch; v \<leftarrow> ex_read_timed (0xFF00 OR ucast off) 8; put_cpu (\<lambda>c. c\<lparr>r_a := v\<rparr>); took 12 }
      else if op = 0xF1 then do { v \<leftarrow> pop16; put_cpu (\<lambda>c. c\<lparr>r_a := hi_byte v, r_f := lo_byte v AND 0xF0\<rparr>); took 12 }
      else if op = 0xF2 then do { c \<leftarrow> get_cpu; v \<leftarrow> ex_read_timed (0xFF00 OR ucast (r_c c)) 4; put_cpu (\<lambda>c. c\<lparr>r_a := v\<rparr>); took 8 }
      else if op = 0xF3 then do { put_cpu (\<lambda>c. c\<lparr>cpu_ime := False, cpu_ime_delay := 0\<rparr>); took 4 }
      else if op = 0xF4 then call_if h (\<lambda>c. \<not> flag_c (r_f c))
      else if op = 0xF5 then do { c \<leftarrow> get_cpu; push16 h (push_bit 8 (ucast (r_a c)) OR (ucast (r_f c) AND 0xF0)); took 16 }
      else if op = 0xF6 then do { v \<leftarrow> fetch; put_cpu (or_a v); took 8 }
      else if op = 0xF7 then rst h 0x30
      else if op = 0xF8 then do { off \<leftarrow> fetch; v \<leftarrow> alu16 (\<lambda>c. add_signed_to_sp_like_flags (r_sp c) off c);
             put_cpu (set_hl v); took 12 }
      else if op = 0xF9 then do { put_cpu (\<lambda>c. c\<lparr>r_sp := cpu_hl c\<rparr>); took 8 }
      else if op = 0xFA then do { addr \<leftarrow> read16_imm; v \<leftarrow> ex_read_timed addr 12; put_cpu (\<lambda>c. c\<lparr>r_a := v\<rparr>); took 16 }
      else if op = 0xFB then do { put_cpu (\<lambda>c. c\<lparr>cpu_ime_delay := 2\<rparr>); took 4 }
      else if op = 0xFE then do { v \<leftarrow> fetch; put_cpu (cp_a v); took 8 }
      else if op = 0xFF then rst h 0x38
      else unsupported op)"

text \<open>
  The dispatch: the load matrix and the arithmetic families first, as the code has them, then
  the table by rows.
\<close>

definition execute_opcode :: "host \<Rightarrow> u8 \<Rightarrow> (core_error + nat) exec" where
  "execute_opcode h op =
     (if 0x40 \<le> op \<and> op \<le> 0x7F \<and> op \<noteq> 0x76 then exec_ld_r_r h op
      else if 0x80 \<le> op \<and> op \<le> 0xBF then exec_alu op
      else if op \<le> 0x0F then exec_00 h op
      else if op \<le> 0x1F then exec_10 h op
      else if op \<le> 0x2F then exec_20 h op
      else if op \<le> 0x3F then exec_30 h op
      else if op = 0x76 then exec_halt
      else if op \<le> 0xCF then exec_C0 h op
      else if op \<le> 0xDF then exec_D0 h op
      else if op \<le> 0xEF then exec_E0 h op
      else exec_F0 h op)"

end
