(* ===== verification/Exec_Relation.thy ===== *)
theory Exec_Relation
  imports Observation Cpu_Exec Cpu_Arith
begin

text \<open>
  What instruction execution needs of a relation between two machines to respect it: the bus,
  the stack and the register updates do. The walk over the opcode table is done once, in the
  locale; its instances are the relation that forgets observations and the invariants of the
  machine.
\<close>

section \<open>Register updates that keep the register file well-formed\<close>

text \<open>No flag bit below the four exists, and the delay of EI counts down from two.\<close>

definition cpu_ok :: "cpu \<Rightarrow> bool" where
  "cpu_ok c \<longleftrightarrow> flags_clean (r_f c) \<and> cpu_ime_delay c \<le> 2"

definition keeps_clean :: "(cpu \<Rightarrow> cpu) \<Rightarrow> bool" where
  "keeps_clean f \<longleftrightarrow> (\<forall>c. cpu_ok c \<longrightarrow> cpu_ok (f c))"

definition keeps_clean_out :: "(cpu \<Rightarrow> 'a \<times> cpu) \<Rightarrow> bool" where
  "keeps_clean_out f \<longleftrightarrow> keeps_clean (\<lambda>c. snd (f c))"

lemma flags_of_put [simp]:
  "r_f (put_z v c) = set_flag FLAG_Z v (r_f c)" "r_f (put_n v c) = set_flag FLAG_N v (r_f c)"
  "r_f (put_h v c) = set_flag FLAG_H v (r_f c)" "r_f (put_c v c) = set_flag FLAG_C v (r_f c)"
  "cpu_ime_delay (put_z v c) = cpu_ime_delay c" "cpu_ime_delay (put_n v c) = cpu_ime_delay c"
  "cpu_ime_delay (put_h v c) = cpu_ime_delay c" "cpu_ime_delay (put_c v c) = cpu_ime_delay c"
  by (simp_all add: put_z_def put_n_def put_h_def put_c_def)

lemma flags_clean_put [simp]:
  "flags_clean (r_f (put_znhc z n h k c)) = flags_clean (r_f c)"
  "cpu_ime_delay (put_znhc z n h k c) = cpu_ime_delay c"
  by (simp_all add: put_znhc_def flags_clean_set)

lemmas clean_simps = cpu_ok_def keeps_clean_def keeps_clean_out_def flags_clean_set Let_def case_prod_unfold

lemma keeps_clean_regs [simp]:
  "keeps_clean (set_bc v)" "keeps_clean (set_de v)" "keeps_clean (set_hl v)" "keeps_clean (jr off)"
  by (simp_all add: clean_simps set_bc_def set_de_def set_hl_def jr_def)

lemma keeps_clean_alu [simp]:
  "keeps_clean (add_a v)" "keeps_clean (adc_a v)" "keeps_clean (sub_a v)" "keeps_clean (sbc_a v)"
  "keeps_clean (and_a v)" "keeps_clean (or_a v)" "keeps_clean (xor_a v)" "keeps_clean (cp_a v)"
  "keeps_clean rlca" "keeps_clean rrca" "keeps_clean rla" "keeps_clean rra" "keeps_clean daa"
  by (simp_all add: clean_simps add_a_def adc_a_def sub_a_def sbc_a_def and_a_def or_a_def xor_a_def
      cp_a_def rlca_def rrca_def rla_def rra_def daa_def)

lemma keeps_clean_wide [simp]:
  "keeps_clean (\<lambda>c. add_hl (f c) c)" "keeps_clean (\<lambda>c. set_bc (f c) c)"
  "keeps_clean (\<lambda>c. set_de (f c) c)" "keeps_clean (\<lambda>c. set_hl (f c) c)"
  by (simp_all add: clean_simps add_hl_def set_bc_def set_de_def set_hl_def)

lemma keeps_clean_outs [simp]:
  "keeps_clean_out (\<lambda>c. inc8 (r c) c)" "keeps_clean_out (\<lambda>c. dec8 (r c) c)"
  "keeps_clean_out (inc8 v)" "keeps_clean_out (dec8 v)"
  "keeps_clean_out (\<lambda>c. add_signed_to_sp_like_flags (s c) off c)" "keeps_clean_out (cb_shift y v)"
  by (simp_all add: clean_simps inc8_def dec8_def add_signed_to_sp_like_flags_def cb_shift_def
      cb_rlc_def cb_rrc_def cb_rl_def cb_rr_def cb_sla_def cb_sra_def cb_swap_def cb_srl_def)

lemma keeps_clean_family [simp]: "keeps_clean (alu_family op v)"
  by (simp add: alu_family_def)

lemma keeps_clean_flags [simp]:
  "keeps_clean (\<lambda>c. put_h b1 (put_n b2 (put_z b3 c)))"
  "keeps_clean (\<lambda>c. put_c (f c) (put_h b1 (put_n b2 c)))"
  "keeps_clean (\<lambda>c. put_h b1 (put_n b2 (c\<lparr>r_a := g c\<rparr>)))"
  "keeps_clean (halt_cpu p)"
  by (simp_all add: clean_simps halt_cpu_def)

lemma keeps_clean_fields [simp]:
  "keeps_clean (\<lambda>c. c\<lparr>r_a := a c\<rparr>)" "keeps_clean (\<lambda>c. c\<lparr>r_b := a c\<rparr>)" "keeps_clean (\<lambda>c. c\<lparr>r_c := a c\<rparr>)"
  "keeps_clean (\<lambda>c. c\<lparr>r_d := a c\<rparr>)" "keeps_clean (\<lambda>c. c\<lparr>r_e := a c\<rparr>)" "keeps_clean (\<lambda>c. c\<lparr>r_h := a c\<rparr>)"
  "keeps_clean (\<lambda>c. c\<lparr>r_l := a c\<rparr>)" "keeps_clean (\<lambda>c. c\<lparr>r_sp := w c\<rparr>)" "keeps_clean (\<lambda>c. c\<lparr>r_pc := w c\<rparr>)"
  "keeps_clean (\<lambda>c. c\<lparr>cpu_ime := b c\<rparr>)" "keeps_clean (\<lambda>c. c\<lparr>cpu_ime_delay := 2\<rparr>)"
  "keeps_clean (\<lambda>c. c\<lparr>cpu_ime := b c, cpu_ime_delay := 0\<rparr>)"
  "keeps_clean (\<lambda>c. c\<lparr>cpu_halted := b c\<rparr>)"
  by (simp_all add: clean_simps)

lemma keeps_clean_pop_af [simp]: "keeps_clean (\<lambda>c. c\<lparr>r_a := a, r_f := v AND 0xF0\<rparr>)"
proof -
  have "flags_clean (v AND 0xF0)"
    by (auto simp: flags_clean_bits bit_simps)
  then show ?thesis
    by (simp add: clean_simps)
qed

section \<open>The walk over the opcode table\<close>

definition obeys :: "(machine \<Rightarrow> machine \<Rightarrow> bool) \<Rightarrow> 'a exec \<Rightarrow> bool" where
  "obeys R f \<longleftrightarrow> (\<forall>m n. R m n \<longrightarrow>
     fst (run_state f m) = fst (run_state f n) \<and> R (snd (run_state f m)) (snd (run_state f n)))"

named_theorems obeys \<open>actions that respect the relation\<close>

lemma obeys_return [simp]: "obeys R (State_Monad.return x)"
  by (simp add: obeys_def)

lemma obeys_bind:
  assumes "obeys R f" "\<And>x. obeys R (g x)"
  shows "obeys R (State_Monad.bind f g)"
  using assms unfolding obeys_def by (simp add: case_prod_unfold)

lemma obeys_took [simp]: "obeys R (took n)"
  by (simp add: took_def)

lemma obeys_if: "obeys R f \<Longrightarrow> obeys R g \<Longrightarrow> obeys R (if b then f else g)"
  by simp

locale exec_relation =
  fixes h :: host and R :: "machine \<Rightarrow> machine \<Rightarrow> bool"
  assumes cpu: "R m n \<Longrightarrow> m_cpu m = m_cpu n"
    and pending: "R m n \<Longrightarrow> m_interrupt m = m_interrupt n"
    and put: "R m n \<Longrightarrow> keeps_clean f \<Longrightarrow>
      R (m\<lparr>m_cpu := f (m_cpu m)\<rparr>) (n\<lparr>m_cpu := f (m_cpu n)\<rparr>)"
    and read: "R m n \<Longrightarrow> fst (read8 a m) = fst (read8 a n) \<and> R (snd (read8 a m)) (snd (read8 a n))"
    and timed: "R m n \<Longrightarrow> fst (read8_timed a i m) = fst (read8_timed a i n) \<and>
      R (snd (read8_timed a i m)) (snd (read8_timed a i n))"
    and wr: "R m n \<Longrightarrow> R (write8 h a v m) (write8 h a v n)"
    and stop: "R m n \<Longrightarrow> R (stop_machine m) (stop_machine n)"
    and vector: "R m n \<Longrightarrow> R (m\<lparr>m_vector := x\<rparr>) (n\<lparr>m_vector := x\<rparr>)"
begin

lemma obeys_prims [simp]:
  "obeys R (ex_read a)" "obeys R (ex_read_timed a i)" "obeys R (ex_write h a v)"
  "obeys R get_cpu" "obeys R clear_vector" "obeys R (unsupported op)"
  "obeys R (State (\<lambda>m. (has_pending (m_interrupt m), m)))"
  "obeys R (State (\<lambda>m. ((), stop_machine m)))"
  unfolding obeys_def ex_read_def ex_read_timed_def ex_write_def get_cpu_def clear_vector_def
    unsupported_def
  using cpu pending read timed wr stop vector by simp_all

lemma obeys_put [simp]: "keeps_clean f \<Longrightarrow> obeys R (put_cpu f)"
  unfolding obeys_def put_cpu_def using put by simp

lemma obeys_alu [simp]:
  assumes "keeps_clean_out f"
  shows "obeys R (alu f)"
proof -
  have "R (m\<lparr>m_cpu := snd (f (m_cpu m))\<rparr>) (n\<lparr>m_cpu := snd (f (m_cpu n))\<rparr>)" if "R m n" for m n
    using put [OF that assms [unfolded keeps_clean_out_def]] .
  then show ?thesis
    by (auto simp: obeys_def alu_def Let_def case_prod_unfold dest: cpu)
qed

lemma obeys_alu16 [simp]:
  assumes "keeps_clean_out f"
  shows "obeys R (alu16 f)"
proof -
  have "R (m\<lparr>m_cpu := snd (f (m_cpu m))\<rparr>) (n\<lparr>m_cpu := snd (f (m_cpu n))\<rparr>)" if "R m n" for m n
    using put [OF that assms [unfolded keeps_clean_out_def]] .
  then show ?thesis
    by (auto simp: obeys_def alu16_def Let_def case_prod_unfold dest: cpu)
qed

lemma obeys_operands [simp]:
  "obeys R fetch" "obeys R read16_imm" "obeys R pop16" "obeys R (push16 h w)"
  "obeys R (read_r8 i)" "obeys R (write_r8 h i v)"
proof -
  show f [simp]: "obeys R fetch"
    unfolding fetch_def by (intro obeys_bind) simp_all
  have b [simp]: "obeys R pop_byte"
    unfolding pop_byte_def by (intro obeys_bind) simp_all
  show "obeys R read16_imm"
    unfolding read16_imm_def by (intro obeys_bind) simp_all
  show "obeys R pop16"
    unfolding pop16_def by (intro obeys_bind) simp_all
  show "obeys R (push16 h w)"
    unfolding push16_def by (intro obeys_bind) simp_all
  show "obeys R (read_r8 i)"
    unfolding read_r8_def Let_def by (intro obeys_bind obeys_if) simp_all
  show "obeys R (write_r8 h i v)"
    unfolding write_r8_def Let_def by (intro obeys_bind obeys_if) simp_all
qed

lemma obeys_cb [simp]: "obeys R (execute_cb_opcode h op)"
  unfolding execute_cb_opcode_def Let_def by (intro obeys_bind obeys_if) simp_all

lemma obeys_shapes [simp]:
  "obeys R (exec_ld_r_r h op)" "obeys R (exec_alu op)" "obeys R exec_halt" "obeys R exec_stop"
  "obeys R (jr_if c)" "obeys R (ret_if c)" "obeys R (jp_if c)" "obeys R (call_if h c)"
  "obeys R (rst h a)"
  unfolding exec_ld_r_r_def exec_alu_def exec_halt_def exec_stop_def jr_if_def ret_if_def jp_if_def
    call_if_def rst_def Let_def
  by (intro obeys_bind obeys_if; simp)+

lemma obeys_modify [simp]:
  "(\<And>v. keeps_clean_out (f v)) \<Longrightarrow> obeys R (exec_modify_hl h f)"
  unfolding exec_modify_hl_def by (intro obeys_bind) simp_all

lemma obeys_rows:
  "obeys R (exec_00 h op)" "obeys R (exec_10 h op)" "obeys R (exec_20 h op)"
  "obeys R (exec_30 h op)" "obeys R (exec_C0 h op)" "obeys R (exec_D0 h op)"
  "obeys R (exec_E0 h op)" "obeys R (exec_F0 h op)"
  unfolding exec_00_def exec_10_def exec_20_def exec_30_def exec_C0_def exec_D0_def exec_E0_def
    exec_F0_def
  by (intro obeys_bind obeys_if; simp)+

lemma obeys_execute: "obeys R (execute_opcode h op)"
  unfolding execute_opcode_def by (intro obeys_if obeys_rows) simp_all

end

section \<open>Execution does not look at observations\<close>

interpretation unseen: exec_relation h same for h
proof unfold_locales
  fix m n :: machine and f
  assume s: "same m n"
  then show "m_cpu m = m_cpu n" "m_interrupt m = m_interrupt n"
    by (simp_all add: same_sel)
  from s show "same (m\<lparr>m_cpu := f (m_cpu m)\<rparr>) (n\<lparr>m_cpu := f (m_cpu n)\<rparr>)"
    "same (m\<lparr>m_vector := x\<rparr>) (n\<lparr>m_vector := x\<rparr>)" for x
    by (elim sameE; simp)+
  from s show "same (stop_machine m) (stop_machine n)"
    by (elim sameE) (simp add: stop_machine_def Let_def same_speed_switch)
qed (simp_all add: same_read8 same_read8_timed same_write8)

end
