(* ===== verification/Machine_Ok.thy ===== *)
theory Machine_Ok
  imports Machine_Fields Exec_Relation Memory_Laws Ppu_Laws Ppu_Render_Laws Apu_Properties
begin

text \<open>
  The invariant of the machine: the flag register has no low bits, the display position is a
  point of the frame, an active block transfer has blocks left, the counters are in range, and
  the memory image and the audio unit satisfy their own invariants. The operations of the bus
  and of the transfer engines keep it.
\<close>

section \<open>The invariant\<close>

definition ppu_ok :: "ppu \<Rightarrow> bool" where
  "ppu_ok p \<longleftrightarrow>
     ppu_ly p < TOTAL_SCANLINES \<and> ppu_mode_cycles p < CYCLES_PER_SCANLINE \<and> ppu_sprite_penalty p \<le> 110 \<and>
     planes_ok p"

definition dma_ok :: "dma_state \<Rightarrow> bool" where
  "dma_ok d \<longleftrightarrow>
     (hdma_active d \<longrightarrow> hdma_blocks d \<noteq> 0) \<and> dma_bytes_copied d \<le> 0xA0 \<and> dma_cycle_accum d \<le> u8_max \<and>
     dma_start_delay d \<le> 4"

definition apu_ok :: "apu \<Rightarrow> bool" where
  "apu_ok a \<longleftrightarrow> channels_ok a \<and> clockwork_ok a"

definition clocks_ok :: "clock_state \<Rightarrow> bool" where
  "clocks_ok c \<longleftrightarrow> clk_frame_phase c < FRAME_CYCLES"

definition machine_ok :: "machine \<Rightarrow> bool" where
  "machine_ok m \<longleftrightarrow>
     cpu_ok (m_cpu m) \<and> ppu_ok (m_ppu m) \<and> dma_ok (m_dma m) \<and> apu_ok (m_apu m) \<and> memory_ok (m_mem m) \<and>
     clocks_ok (m_clocks m) \<and> m_stall m \<le> u32_max \<and> m_freeze m \<le> u32_max"

named_theorems ok_intros \<open>operations that keep the invariant\<close>

section \<open>Devices\<close>

lemma ppu_ok_timed: "ppu_ok p \<Longrightarrow> lcd_enabled p \<Longrightarrow> ppu_timed p"
  by (simp add: ppu_ok_def ppu_timed_def)

lemma planes_ok_lengths:
  "length (ppu_framebuffer q) = length (ppu_framebuffer p) \<Longrightarrow>
   length (ppu_color_framebuffer q) = length (ppu_color_framebuffer p) \<Longrightarrow>
   length (ppu_bg_color_ids q) = length (ppu_bg_color_ids p) \<Longrightarrow>
   length (ppu_bg_priority_flags q) = length (ppu_bg_priority_flags p) \<Longrightarrow> planes_ok q = planes_ok p"
  by (simp add: planes_ok_def)

text \<open>What drawing keeps: the position, the penalty and the sizes of the planes.\<close>

definition drawn_from :: "ppu \<Rightarrow> ppu \<Rightarrow> bool" where
  "drawn_from p q \<longleftrightarrow>
     ppu_ly q = ppu_ly p \<and> ppu_mode_cycles q = ppu_mode_cycles p \<and> ppu_sprite_penalty q = ppu_sprite_penalty p \<and>
     ppu_lcdc q = ppu_lcdc p \<and> (planes_ok p \<longrightarrow> planes_ok q)"

lemma drawn_refl [simp]: "drawn_from p p"
  by (simp add: drawn_from_def)

lemma drawn_trans: "drawn_from p q \<Longrightarrow> drawn_from q r \<Longrightarrow> drawn_from p r"
  by (simp add: drawn_from_def)

lemma drawn_ok: "drawn_from p q \<Longrightarrow> ppu_ok p \<Longrightarrow> ppu_ok q"
  by (simp add: drawn_from_def ppu_ok_def)

lemma drawn_fold: "(\<And>x p. drawn_from p (f x p)) \<Longrightarrow> drawn_from p (fold f xs p)"
  by (induction xs arbitrary: p) (auto intro: drawn_trans)

lemma drawn_put_bg: "drawn_from p (put_bg i v p)"
  by (cases v) (auto simp: put_bg_def drawn_from_def planes_ok_def)

lemma drawn_column: "drawn_from p (draw_sprite_column m cgb y s row px p)"
  by (auto simp: draw_sprite_column_def drawn_from_def planes_ok_def Let_def)

lemma drawn_sprite: "drawn_from p (draw_sprite v0 v1 m y cgb s p)"
  unfolding draw_sprite_def Let_def by (auto intro: drawn_fold drawn_column)

lemma drawn_overlay: "drawn_from p (overlay_sprite_list_on_scanline_with_vram_mode v0 v1 m ss y cgb p)"
  unfolding overlay_sprite_list_on_scanline_with_vram_mode_def
  by (rule drawn_fold) (auto intro: drawn_sprite)

lemma drawn_background: "drawn_from p (render_scanline_from_vram_with_mode y v0 v1 m cgb w p)"
  unfolding render_scanline_from_vram_with_mode_def Let_def by (auto intro: drawn_fold drawn_put_bg)

lemma drawn_line: "drawn_from p (render_scanline_from_memory_with_mode m y cgb p)"
  unfolding render_scanline_from_memory_with_mode_def overlay_sprites_on_scanline_with_vram_mode_def Let_def
  using drawn_trans [OF drawn_background drawn_overlay] drawn_background by auto

lemma drawn_visible: "drawn_from p (render_visible_area_from_memory_with_mode m cgb p)"
  unfolding render_visible_area_from_memory_with_mode_def by (rule drawn_fold) (rule drawn_line)

lemma drawn_counter: "drawn_from p q \<Longrightarrow> drawn_from p (q\<lparr>ppu_window_line_counter := w\<rparr>)"
  by (simp add: drawn_from_def planes_ok_def)

lemma drawn_current: "drawn_from p (render_current_scanline_from_memory_with_mode m cgb p)"
  unfolding render_current_scanline_from_memory_with_mode_def
    overlay_latched_sprites_on_scanline_with_vram_mode_def Let_def
  using drawn_trans [OF drawn_background drawn_overlay] drawn_background
  by (auto intro: drawn_counter)

text \<open>Latching a line and ticking.\<close>

lemma sprite_penalty_le:
  "snd (sprite_penalty_from_selected p l (take 10 xs)) \<le> 110"
proof -
  let ?sorted = "sort_key (\<lambda>(i, s). (unat (sp_x s), i)) (take 10 xs)"
  have "11 * length ?sorted \<le> 11 * 10"
    by (intro mult_le_mono2) simp
  then have "sprite_stalls p (unat l) ?sorted [] 0 \<le> 110"
    using sprite_stalls_le [of p "unat l" ?sorted "[]" 0] by linarith
  then show ?thesis
    by (simp add: sprite_penalty_from_selected_def Let_def)
qed

lemma ppu_ok_latch: "ppu_ok p \<Longrightarrow> ppu_ok (latch_scanline_state oam p)"
  using sprite_penalty_le [of p "ppu_ly p" "filter (meets_line (sprite_height p) (unat (ppu_ly p))) (oam_entries oam)"]
  by (auto simp: latch_scanline_state_def ppu_ok_def planes_ok_def Let_def selected_sprites_take
      split: prod.split)

lemma planes_ok_pass: "planes_ok p \<Longrightarrow> planes_ok (refreshed (ppu_moved k p))"
  by (simp add: planes_ok_def refreshed_def update_stat_def ppu_moved_cases Let_def)

lemma planes_ok_loop: "planes_ok p \<Longrightarrow> planes_ok (fst (ppu_tick_loop_fast n (p, r)))"
proof (induction n arbitrary: p r rule: less_induct)
  case (less n)
  show ?case
  proof (cases "n > 0")
    case True
    define k where "k = min n (mode_boundary p)"
    have "n - k < n"
      using True by (auto simp: k_def mode_boundary_def)
    moreover obtain q s where pass: "ppu_pass_fast k (p, r) = (q, s)"
      by fastforce
    moreover have "planes_ok q"
      using planes_ok_pass [OF less.prems, of k] fst_pass_fast [of k p r] pass by simp
    ultimately show ?thesis
      using less.IH True by (simp add: ppu_tick_loop_fast.simps [of n] flip: k_def)
  qed (simp add: ppu_tick_loop_fast.simps less.prems)
qed

lemma ppu_ok_refreshed: "ppu_ok (refreshed p) = ppu_ok p"
  by (simp add: ppu_ok_def) (simp add: planes_ok_def refreshed_def update_stat_def Let_def)

lemma ppu_ok_tick_fast: "ppu_ok p \<Longrightarrow> ppu_ok (fst (ppu_tick_fast n p))"
proof (cases "lcd_enabled p")
  case True
  assume ok: "ppu_ok p"
  obtain q r where q: "ppu_tick_loop_fast n (p, ppu_result_none) = (q, r)"
    by fastforce
  then have "ppu_timed q"
    using ppu_loop_timed [OF ppu_ok_timed [OF ok True]] by blast
  moreover have "planes_ok q"
    using planes_ok_loop [of p n ppu_result_none] ok q by (simp add: ppu_ok_def)
  ultimately show ?thesis
    using True q by (simp add: ppu_tick_fast_def lcd_enabled_def ppu_ok_def ppu_timed_def)
next
  case False
  assume "ppu_ok p"
  then have "ppu_ok (p\<lparr>ppu_ly := 0, ppu_mode_cycles := 0\<rparr>)"
    by (simp add: ppu_ok_def planes_ok_def scan_defs)
  then show ?thesis
    using False by (simp add: ppu_tick_fast_def lcd_enabled_def refresh_eq ppu_ok_refreshed Let_def)
qed

lemma ppu_tick_state: "ppu_tick n p = (q, r, tr) \<Longrightarrow> ppu_tick_fast n p = (q, r)"
  by (auto simp: ppu_tick_def ppu_tick_fast_def ppu_tick_loop_fast_eq [where tr = "[]"] Let_def
      split: prod.splits if_splits)

lemma ppu_ok_tick: "ppu_ok p \<Longrightarrow> ppu_ok (fst (ppu_tick n p))"
  using ppu_ok_tick_fast [of p n] ppu_tick_state [of n p] by (metis fst_conv prod_cases3)

lemma ppu_ok_writes:
  assumes "ppu_ok p"
  shows "ppu_ok (fst (write_lcdc v p))" "ppu_ok (fst (write_stat v p))" "ppu_ok (fst (write_lyc v p))"
  using assms
  by (simp_all add: write_lcdc_def write_stat_def write_lyc_def refresh_eq ppu_ok_refreshed Let_def)
    (simp_all add: ppu_ok_def planes_ok_def scan_defs)

lemma ppu_ok_restore:
  assumes "ppu_ok p"
  shows "ppu_ok (restore_runtime_state m p)"
proof -
  have refresh: "ppu_ok q \<Longrightarrow> ppu_ok (refresh_mode3_penalty oam q)" for oam q
    by (simp add: refresh_mode3_penalty_def ppu_ok_latch) (simp add: ppu_ok_def planes_ok_def)
  have line: "ppu_ok (q\<lparr>ppu_stat_line := b\<rparr>) = ppu_ok q" for q b
    by (simp add: ppu_ok_def planes_ok_def)
  have stat: "ppu_ok (update_stat q) = ppu_ok q" for q
    using ppu_ok_refreshed [of q] by (simp add: refreshed_def line)
  with assms show ?thesis
    by (simp add: restore_runtime_state_def refresh_eq refresh ppu_ok_refreshed line stat ppu_ok_def [of p]
        planes_ok_def [of p] Let_def)
qed

section \<open>Updates of the record\<close>

lemma machine_okD:
  assumes "machine_ok m"
  shows "cpu_ok (m_cpu m)" "ppu_ok (m_ppu m)" "dma_ok (m_dma m)" "apu_ok (m_apu m)" "memory_ok (m_mem m)"
    "clocks_ok (m_clocks m)" "m_stall m \<le> u32_max" "m_freeze m \<le> u32_max"
  using assms by (simp_all add: machine_ok_def)

lemma machine_ok_free [simp]:
  "machine_ok (m\<lparr>m_timer := t\<rparr>) = machine_ok m" "machine_ok (m\<lparr>m_interrupt := i\<rparr>) = machine_ok m"
  "machine_ok (m\<lparr>m_joypad := j\<rparr>) = machine_ok m" "machine_ok (m\<lparr>m_serial := s\<rparr>) = machine_ok m"
  "machine_ok (m\<lparr>m_link := b\<rparr>) = machine_ok m" "machine_ok (m\<lparr>m_cart := c\<rparr>) = machine_ok m"
  "machine_ok (m\<lparr>m_vector := v\<rparr>) = machine_ok m" "machine_ok (m\<lparr>m_armed := b\<rparr>) = machine_ok m"
  "machine_ok (m\<lparr>m_dma_trace := t1\<rparr>) = machine_ok m" "machine_ok (m\<lparr>m_mapper_trace := t2\<rparr>) = machine_ok m"
  "machine_ok (m\<lparr>m_io_trace := t3\<rparr>) = machine_ok m" "machine_ok (m\<lparr>m_apu_trace := t4\<rparr>) = machine_ok m"
  "machine_ok (m\<lparr>m_cgb_trace := t5\<rparr>) = machine_ok m" "machine_ok (m\<lparr>m_interrupt_trace := t6\<rparr>) = machine_ok m"
  "machine_ok (m\<lparr>m_diag := e\<rparr>) = machine_ok m"
  by (simp_all add: machine_ok_def)

lemma machine_ok_put [ok_intros]:
  assumes "machine_ok m"
  shows "cpu_ok c \<Longrightarrow> machine_ok (m\<lparr>m_cpu := c\<rparr>)" "ppu_ok p \<Longrightarrow> machine_ok (m\<lparr>m_ppu := p\<rparr>)"
    "dma_ok d \<Longrightarrow> machine_ok (m\<lparr>m_dma := d\<rparr>)" "apu_ok a \<Longrightarrow> machine_ok (m\<lparr>m_apu := a\<rparr>)"
    "memory_ok x \<Longrightarrow> machine_ok (m\<lparr>m_mem := x\<rparr>)" "clocks_ok k \<Longrightarrow> machine_ok (m\<lparr>m_clocks := k\<rparr>)"
    "n \<le> u32_max \<Longrightarrow> machine_ok (m\<lparr>m_stall := n\<rparr>)" "n \<le> u32_max \<Longrightarrow> machine_ok (m\<lparr>m_freeze := n\<rparr>)"
  using assms by (simp_all add: machine_ok_def)

lemma machine_ok_recording [simp]:
  "machine_ok (request_interrupt k src m) = machine_ok m" "machine_ok (request_if b k src m) = machine_ok m"
  "machine_ok (push_io tr1 m) = machine_ok m" "machine_ok (push_cgb tr2 m) = machine_ok m"
  "machine_ok (push_dma tr3 m) = machine_ok m" "machine_ok (push_mapper tr4 m) = machine_ok m"
  "machine_ok (capture_joypad_trace es m) = machine_ok m"
  "machine_ok (record_diagnostic_event t s a v acc m) = machine_ok m"
  "machine_ok (diagnose_if b t s a v acc m) = machine_ok m"
  by (simp_all add: machine_ok_def)

section \<open>Memory and transfers\<close>

lemma machine_ok_poke [ok_intros]: "machine_ok m \<Longrightarrow> machine_ok (poke a v m)"
  by (simp add: machine_ok_def memory_ok_write8 poke_def)

lemma machine_ok_pokes [ok_intros]: "machine_ok m \<Longrightarrow> machine_ok (fold (\<lambda>(a, v). poke a v) ps m)"
  by (induction ps arbitrary: m) (auto intro: ok_intros)

lemma machine_ok_copies [ok_intros]: "machine_ok m \<Longrightarrow> machine_ok (fold (hdma_copy_byte src dest) ks m)"
  by (induction ks arbitrary: m) (auto simp: hdma_copy_byte_def intro: ok_intros)

lemma machine_ok_syncs [ok_intros]:
  assumes "machine_ok m"
  shows "machine_ok (sync_core_memory m)" "machine_ok (sync_apu_memory m)" "machine_ok (sync_cgb_memory m)"
    "machine_ok (sync_hdma_registers m)"
  unfolding sync_core_memory_def sync_apu_memory_def sync_cgb_memory_def sync_hdma_registers_def Let_def
  using machine_okD(3) [OF assms]
  by (intro ok_intros assms; simp add: dma_ok_def)+

lemma machine_ok_put_dma: "machine_ok m \<Longrightarrow> dma_ok (f (m_dma m)) \<Longrightarrow> machine_ok (put_dma f m)"
  by (simp add: put_dma_def machine_ok_put)

lemma put_dma_put: "put_dma f (put_dma g m) = put_dma (\<lambda>d. f (g d)) m"
  by (simp add: put_dma_def)

lemma machine_ok_oam_copy [ok_intros]: "machine_ok m \<Longrightarrow> machine_ok (oam_dma_copy m)"
proof (induction m rule: oam_dma_copy.induct)
  case (1 m)
  show ?case
  proof (cases "dma_cycle_accum (m_dma m) \<ge> 4 \<and> dma_bytes_copied (m_dma m) < 0xA0")
    case True
    let ?i = "dma_bytes_copied (m_dma m)"
    let ?n = "put_dma (\<lambda>d. d\<lparr>dma_bytes_copied := dma_bytes_copied d + 1, dma_cycle_accum := dma_cycle_accum d - 4\<rparr>)
      (poke (0xFE00 + of_nat ?i) (read8_for_dma m (dma_source (m_dma m) + of_nat ?i)) m)"
    have "machine_ok ?n"
      using True machine_okD(3) [OF 1(2)]
      by (intro machine_ok_put_dma ok_intros 1(2)) (auto simp: dma_ok_def)
    then have "machine_ok (oam_dma_copy ?n)"
      using 1(1) [OF True refl refl refl] by simp
    moreover have "oam_dma_copy m = oam_dma_copy ?n"
      by (subst oam_dma_copy.simps) (simp add: True Let_def)
    ultimately show ?thesis
      by simp
  next
    case False
    then have "oam_dma_copy m = m"
      by (subst oam_dma_copy.simps) auto
    then show ?thesis
      using 1(2) by simp
  qed
qed

lemma machine_ok_tick_dma: "machine_ok m \<Longrightarrow> machine_ok (fst (tick_dma n (m, tr)))"
proof -
  assume m: "machine_ok m"
  note d = machine_okD(3) [OF m]
  have delay: "machine_ok (put_dma (\<lambda>d. d\<lparr>dma_start_delay := dma_start_delay (m_dma m) - k\<rparr>) m)" for k
    using d by (intro machine_ok_put_dma m) (auto simp: dma_ok_def)
  have accum: "machine_ok (put_dma (\<lambda>d. d\<lparr>dma_cycle_accum := sat_add u8_max (dma_cycle_accum d) k\<rparr>) x)"
    if "machine_ok x" for x k
    using machine_okD(3) [OF that] by (intro machine_ok_put_dma that) (simp add: dma_ok_def sat_add_def)
  have stop: "machine_ok (put_dma (\<lambda>d. d\<lparr>dma_active := False, dma_bytes_copied := 0, dma_cycle_accum := 0,
      dma_start_delay := 0\<rparr>) x)" if "machine_ok x" for x
    using machine_okD(3) [OF that] by (intro machine_ok_put_dma that) (simp add: dma_ok_def)
  let ?d = "min n (dma_start_delay (m_dma m))"
  define x where "x = put_dma (\<lambda>d. d\<lparr>dma_start_delay := dma_start_delay (m_dma m) - ?d\<rparr>) m"
  define y where "y = oam_dma_copy (put_dma (\<lambda>d. d\<lparr>dma_cycle_accum :=
      sat_add u8_max (dma_cycle_accum d) ((n - ?d) mod 256)\<rparr>) x)"
  have ok: "machine_ok x" "machine_ok y"
    unfolding y_def x_def by (intro machine_ok_oam_copy accum delay)+
  have "fst (tick_dma n (m, tr)) =
      (if \<not> dma_active (m_dma m) then m
       else if dma_start_delay (m_dma m) > 0 \<and> n - ?d = 0 then x
       else if dma_bytes_copied (m_dma y) \<ge> 0xA0
       then put_dma (\<lambda>d. d\<lparr>dma_active := False, dma_bytes_copied := 0, dma_cycle_accum := 0,
              dma_start_delay := 0\<rparr>) y
       else y)"
    unfolding tick_dma_def Let_def y_def x_def by (simp only: prod.case if_distrib [of fst] fst_conv)
  then show ?thesis
    using m ok stop [OF ok(2)] by simp
qed

lemma machine_ok_transfer: "machine_ok m \<Longrightarrow> machine_ok (fst (transfer_hdma_block b (m, tr)))"
proof -
  assume m: "machine_ok m"
  let ?x = "fold (hdma_copy_byte (hdma_source (m_dma m)) (hdma_dest (m_dma m))) [0..<16] m"
  have x: "machine_ok ?x" "dma_ok (m_dma ?x)"
    using m machine_okD(3) [OF m] by (auto intro: ok_intros)
  show ?thesis
    unfolding transfer_hdma_block_def Let_def
    using m x machine_okD(3) [OF m]
    by (auto intro!: ok_intros machine_ok_put_dma simp: dma_ok_def put_dma_put)
qed

lemma machine_ok_gdma: "machine_ok (fst s) \<Longrightarrow> machine_ok (fst (gdma_loop s))"
proof (induction s rule: gdma_loop.induct)
  case (1 s)
  then show ?case
    using machine_ok_transfer [of "fst s" False "snd s"]
    by (subst gdma_loop.simps) (simp add: prod.collapse)
qed

lemma machine_ok_arm [ok_intros]: "machine_ok m \<Longrightarrow> machine_ok (arm_hdma v m)"
proof -
  have "unat ((v AND 0x7F) + 1) = unat (v AND 0x7F) + 1"
    by (simp add: unat_word_ariths unat_and_low)
  then have "(v AND 0x7F) + 1 \<noteq> 0"
    by auto
  then show "machine_ok m \<Longrightarrow> machine_ok (arm_hdma v m)"
    unfolding arm_hdma_def Let_def using machine_okD(3) [of m]
    by (auto intro!: ok_intros machine_ok_put_dma simp: dma_ok_def)
qed

lemma machine_ok_run_gdma [ok_intros]: "machine_ok m \<Longrightarrow> machine_ok (run_gdma m)"
  unfolding run_gdma_def Let_def case_prod_unfold
  by (simp, intro ok_intros machine_ok_gdma) (simp_all add: sat_add_le)

lemma machine_ok_hdma_control [ok_intros]:
  assumes "machine_ok m"
  shows "machine_ok (write_hdma_control v m)"
proof -
  have "machine_ok (put_dma (\<lambda>d. d\<lparr>hdma5 := w\<rparr>) m)"
    "machine_ok (put_dma (\<lambda>d. d\<lparr>hdma_active := False, hdma_hblank := False\<rparr>) m)" for w
    using machine_okD(3) [OF assms] by (auto intro!: machine_ok_put_dma assms simp: dma_ok_def)
  with assms show ?thesis
    unfolding write_hdma_control_def Let_def by (auto intro!: ok_intros)
qed

section \<open>The bus\<close>

lemma machine_ok_read8 [ok_intros]: "machine_ok m \<Longrightarrow> machine_ok (snd (read8 a m))"
  by (simp add: read8_def Let_def)

lemma machine_ok_read8_timed [ok_intros]: "machine_ok m \<Longrightarrow> machine_ok (snd (read8_timed a n m))"
  by (auto simp: read8_timed_def intro: ok_intros split: option.split)

lemma machine_ok_write_mapper [ok_intros]: "machine_ok m \<Longrightarrow> machine_ok (write8_mapper h a v m)"
  by (simp add: write8_mapper_def Let_def)

lemma machine_ok_put_ppu: "machine_ok m \<Longrightarrow> ppu_ok (f (m_ppu m)) \<Longrightarrow> machine_ok (put_ppu f m)"
  by (simp add: put_ppu_def machine_ok_put)

lemma machine_ok_put_timer [simp]: "machine_ok (put_timer f m) = machine_ok m"
  by (simp add: put_timer_def)

lemma machine_ok_write_port [ok_intros]: "machine_ok m \<Longrightarrow> machine_ok (write8_port a v m)"
  by (auto simp: write8_port_def Let_def case_prod_unfold intro!: ok_intros)

lemma machine_ok_write_ff46 [ok_intros]:
  assumes "machine_ok m"
  shows "machine_ok (write_ff46 v m)"
proof -
  have ff46: "machine_ok (poke 0xFF46 v (put_dma (\<lambda>d. d\<lparr>dma_ff46 := v\<rparr>) m))" (is "machine_ok ?x")
    using machine_okD(3) [OF assms] by (intro ok_intros machine_ok_put_dma assms) (simp add: dma_ok_def)
  have "machine_ok (put_dma (\<lambda>d. d\<lparr>dma_active := True, dma_source := push_bit 8 (ucast v),
      dma_bytes_copied := 0, dma_cycle_accum := 0, dma_start_delay := 4\<rparr>) ?x)"
    using machine_okD(3) [OF ff46] by (intro machine_ok_put_dma ff46) (simp add: dma_ok_def)
  then show ?thesis
    by (simp add: write_ff46_def Let_def)
qed

lemma clocks_ok_phase: "ppu_ok p \<Longrightarrow> clocks_ok (k\<lparr>clk_frame_phase := unat (ppu_ly p) * 456 + ppu_mode_cycles p\<rparr>)"
  by (simp add: clocks_ok_def ppu_ok_def scan_defs FRAME_CYCLES_def word_less_nat_alt)

lemma ppu_ok_fields [simp]:
  "ppu_ok (p\<lparr>ppu_scy := v\<rparr>) = ppu_ok p" "ppu_ok (p\<lparr>ppu_scx := v\<rparr>) = ppu_ok p"
  "ppu_ok (p\<lparr>ppu_bgp := v\<rparr>) = ppu_ok p" "ppu_ok (p\<lparr>ppu_obp0 := v\<rparr>) = ppu_ok p"
  "ppu_ok (p\<lparr>ppu_obp1 := v\<rparr>) = ppu_ok p" "ppu_ok (p\<lparr>ppu_wy := v\<rparr>) = ppu_ok p"
  "ppu_ok (p\<lparr>ppu_wx := v\<rparr>) = ppu_ok p"
  by (simp_all add: ppu_ok_def planes_ok_def)

lemma machine_ok_write_ppu [ok_intros]:
  assumes "machine_ok m"
  shows "machine_ok (write8_ppu a v m)"
proof -
  note p = machine_okD(2) [OF assms]
  have lcdc: "machine_ok (m\<lparr>m_ppu := fst (write_lcdc v (m_ppu m)), m_clocks := (m_clocks m)
      \<lparr>clk_frame_phase := unat (ppu_ly (fst (write_lcdc v (m_ppu m)))) * 456 +
        ppu_mode_cycles (fst (write_lcdc v (m_ppu m)))\<rparr>\<rparr>)"
    using ppu_ok_writes(1) [OF p, of v] by (intro machine_ok_put assms clocks_ok_phase)
  show ?thesis
    unfolding write8_ppu_def Let_def case_prod_unfold
    using p lcdc by (auto intro!: machine_ok_put machine_ok_put_ppu ppu_ok_writes ok_intros assms)
qed

lemma machine_ok_write_hdma [ok_intros]:
  assumes "machine_ok m"
  shows "machine_ok (write8_hdma a v m)"
proof -
  have "machine_ok (put_dma (\<lambda>d. d\<lparr>hdma1 := w\<rparr>) m)" "machine_ok (put_dma (\<lambda>d. d\<lparr>hdma2 := w\<rparr>) m)"
    "machine_ok (put_dma (\<lambda>d. d\<lparr>hdma3 := w\<rparr>) m)" "machine_ok (put_dma (\<lambda>d. d\<lparr>hdma4 := w\<rparr>) m)" for w
    using machine_okD(3) [OF assms] by (auto intro!: machine_ok_put_dma assms simp: dma_ok_def)
  then show ?thesis
    using assms unfolding write8_hdma_def by (auto intro!: ok_intros)
qed

lemma machine_ok_write_cgb [ok_intros]:
  assumes "machine_ok m"
  shows "machine_ok (write8_cgb a v m)"
  using machine_okD(5) [OF assms] unfolding write8_cgb_def Let_def case_prod_unfold
  by (auto intro!: machine_ok_put memory_ok_palette_ops memory_ok_set_vbk memory_ok_set_svbk assms)

lemma machine_ok_write_key1 [ok_intros]: "machine_ok m \<Longrightarrow> machine_ok (write_key1 v m)"
  by (auto simp: write_key1_def Let_def intro!: ok_intros)

lemma apu_ok_write: "apu_ok a \<Longrightarrow> apu_ok (fst (apu_write fo addr v a))"
  by (simp add: apu_ok_def apu_write_ok clockwork_ok_write)

lemma machine_ok_write_apu [ok_intros]: "machine_ok m \<Longrightarrow> machine_ok (write8_apu h a v m)"
  unfolding write8_apu_def Let_def case_prod_unfold
  by (rule ok_intros) (simp add: apu_ok_write machine_ok_put machine_okD)

lemma machine_ok_if: "machine_ok x \<Longrightarrow> machine_ok y \<Longrightarrow> machine_ok (if b then x else y)"
  by simp

lemma machine_ok_write8 [ok_intros]: "machine_ok m \<Longrightarrow> machine_ok (write8 h a v m)"
  unfolding write8_def by (intro machine_ok_if) (simp_all add: ok_intros)

lemma machine_ok_speed_switch [ok_intros]: "machine_ok m \<Longrightarrow> machine_ok (perform_speed_switch m)"
  unfolding perform_speed_switch_def Let_def
  by (auto intro!: ok_intros simp: sat_add_le) (simp add: machine_ok_def sat_add_le)

section \<open>Execution\<close>

text \<open>The invariant as a relation that execution respects.\<close>

definition both_ok :: "machine \<Rightarrow> machine \<Rightarrow> bool" where
  "both_ok m n \<longleftrightarrow> m = n \<and> machine_ok m"

interpretation sound: exec_relation h both_ok for h
proof unfold_locales
  fix m n :: machine and f
  assume s: "both_ok m n"
  then have eq: "m = n" and ok: "machine_ok n"
    by (auto simp: both_ok_def)
  show "m_cpu m = m_cpu n" "m_interrupt m = m_interrupt n"
    using eq by simp_all
  show "both_ok (m\<lparr>m_cpu := f (m_cpu m)\<rparr>) (n\<lparr>m_cpu := f (m_cpu n)\<rparr>)" if "keeps_clean f"
    using that machine_okD(1) [OF ok] unfolding both_ok_def eq keeps_clean_def
    by (auto intro: machine_ok_put ok)
  have "machine_ok (stop_machine n)"
  proof -
    have "cpu_ok ((m_cpu n)\<lparr>cpu_halted := True\<rparr>)"
      using machine_okD(1) [OF ok] by (simp add: cpu_ok_def)
    then show ?thesis
      unfolding stop_machine_def by (intro machine_ok_if machine_ok_put ok ok_intros)
  qed
  then show "both_ok (stop_machine m) (stop_machine n)"
    by (simp add: both_ok_def eq)
qed (auto simp: both_ok_def intro: ok_intros)

lemma machine_ok_exec: "obeys both_ok f \<Longrightarrow> machine_ok m \<Longrightarrow> machine_ok (snd (run_state f m))"
  by (simp add: obeys_def both_ok_def)

lemma machine_ok_execute: "machine_ok m \<Longrightarrow> machine_ok (snd (run_state (execute_opcode h op) m))"
  by (rule machine_ok_exec [OF sound.obeys_execute])

end
