(* ===== verification/Clock_Laws.thy ===== *)
theory Clock_Laws
  imports Machine_Ok
begin

text \<open>
  The two schedulers of \<open>Machine_Clocks\<close>: each chunk keeps the invariant and makes progress,
  so both loops end; they leave the same machine; and the clock total grows by the cycles of
  the step plus the stalls of the HBlank transfers in it.
\<close>

section \<open>Chunks keep the invariant\<close>

lemma machine_ok_count [simp]: "machine_ok (count_cycles n m) = machine_ok m"
  by (simp add: machine_ok_def) (simp add: count_cycles_def clocks_ok_def)

lemma machine_ok_ports [simp]:
  "machine_ok (fst (tick_ports n m)) = machine_ok m" "machine_ok (tick_ports_fast n m) = machine_ok m"
  by (simp_all add: machine_ok_def)

lemma machine_ok_latch [ok_intros]: "machine_ok m \<Longrightarrow> machine_ok (latch_if_due m)"
  by (simp add: latch_if_due_def machine_ok_put ppu_ok_latch machine_okD)

lemma machine_ok_draw [ok_intros]: "machine_ok m \<Longrightarrow> machine_ok (draw_if b m)"
  using drawn_ok [OF drawn_current] by (simp add: draw_if_def machine_ok_put machine_okD)

lemma frame_phase_bound: "clocks_ok (fst (frame_phase_loop (c, b)))"
proof (induction "(c, b)" arbitrary: c b rule: frame_phase_loop.induct)
  case (1 c b)
  then show ?case
    by (subst frame_phase_loop.simps) (simp add: clocks_ok_def)
qed

lemma machine_ok_phase [ok_intros]: "machine_ok m \<Longrightarrow> machine_ok (fst (advance_frame_phase n m))"
  using frame_phase_bound by (simp add: advance_frame_phase_def Let_def case_prod_unfold machine_ok_put)

lemma machine_ok_tick_if [ok_intros]: "machine_ok (fst s) \<Longrightarrow> machine_ok (fst (tick_dma_if n s))"
  using machine_ok_tick_dma [of "fst s" n "snd s"] by (simp add: tick_dma_if_def)

lemma machine_ok_hblank: "machine_ok (fst s) \<Longrightarrow> machine_ok (fst (fst (tick_hdma_hblank s)))"
  using machine_ok_transfer [of "fst s" True "snd s"]
  by (cases s) (auto simp: tick_hdma_hblank_def Let_def case_prod_unfold)

lemma machine_ok_charge: "machine_ok (fst (fst x)) \<Longrightarrow> machine_ok (fst (fst (charge_hdma x)))"
  using machine_ok_hblank [of "fst x"] by (simp add: charge_hdma_def Let_def case_prod_unfold)

lemma machine_ok_charges: "machine_ok (fst (fst x)) \<Longrightarrow> machine_ok (fst (fst (fold charge_hdma_event es x)))"
proof (induction es arbitrary: x)
  case (Cons e es)
  have "machine_ok (fst (fst (charge_hdma_event e x)))"
    using Cons.prems machine_ok_charge by (cases e) auto
  then show ?case
    using Cons.IH by simp
qed simp

section \<open>Chunks make progress\<close>

definition hdma_left :: "dma_state \<Rightarrow> nat" where
  "hdma_left d = (if hdma_active d \<and> hdma_hblank d then unat (hdma_blocks d) else 0)"

text \<open>Either the cycles run down with the transfer as it was, or the transfer has fewer blocks.\<close>

definition closer :: "(machine \<times> nat) \<Rightarrow> (machine \<times> nat) \<Rightarrow> bool" where
  "closer x y \<longleftrightarrow>
     hdma_left (m_dma (fst x)) < hdma_left (m_dma (fst y)) \<or>
     hdma_left (m_dma (fst x)) = hdma_left (m_dma (fst y)) \<and> snd x \<le> snd y"

lemma closer_refl [simp]: "closer x x"
  by (simp add: closer_def)

lemma closer_trans: "closer x y \<Longrightarrow> closer y z \<Longrightarrow> closer x z"
  by (auto simp: closer_def)

lemma hdma_left_oam [simp]:
  "hdma_left (d\<lparr>dma_active := b\<rparr>) = hdma_left d" "hdma_left (d\<lparr>dma_bytes_copied := i\<rparr>) = hdma_left d"
  "hdma_left (d\<lparr>dma_cycle_accum := j\<rparr>) = hdma_left d" "hdma_left (d\<lparr>dma_start_delay := k\<rparr>) = hdma_left d"
  by (simp_all add: hdma_left_def)

lemma oam_copy_left [simp]: "hdma_left (m_dma (oam_dma_copy m)) = hdma_left (m_dma m)"
proof (induction m rule: oam_dma_copy.induct)
  case (1 m)
  then show ?case
    by (subst oam_dma_copy.simps) (simp add: Let_def)
qed

lemma tick_dma_left [simp]: "hdma_left (m_dma (fst (tick_dma n (m, tr)))) = hdma_left (m_dma m)"
  by (simp add: tick_dma_def Let_def)

lemma tick_if_left [simp]: "hdma_left (m_dma (fst (tick_dma_if n (m, tr)))) = hdma_left (m_dma m)"
  by (simp add: tick_dma_if_def)

text \<open>The stall of a transfer comes with one block less.\<close>

lemma hblank_closer:
  assumes "machine_ok m" "tick_hdma_hblank (m, tr) = ((m', tr'), stall)"
  shows "hdma_left (m_dma m') < hdma_left (m_dma m) \<or> stall = 0 \<and> m' = m"
proof (cases "hdma_active (m_dma m) \<and> hdma_hblank (m_dma m) \<and> \<not> cpu_halted (m_cpu m)")
  case True
  then have b: "hdma_blocks (m_dma m) \<noteq> 0"
    using machine_okD(3) [OF assms(1)] by (simp add: dma_ok_def)
  have m': "m' = fst (transfer_hdma_block True (m, tr))"
    using True assms(2) by (auto simp: tick_hdma_hblank_def split: prod.splits)
  have "unat (hdma_blocks (m_dma m) - 1) < unat (hdma_blocks (m_dma m))"
    using b by (simp add: unat_minus_one unat_gt_0)
  then show ?thesis
    using transfer_block_count [of m True tr] True b by (simp add: hdma_left_def m' unat_gt_0)
next
  case False
  with assms(2) show ?thesis
    by (auto simp: tick_hdma_hblank_def split: if_splits)
qed

lemma charge_closer:
  assumes "machine_ok (fst (fst x))"
  shows "closer (fst (fst (charge_hdma x)), fst (snd (charge_hdma x))) (fst (fst x), fst (snd x))"
proof -
  obtain m tr rc rp where x: "x = ((m, tr), rc, rp)"
    by (metis prod.collapse)
  obtain m' tr' stall where t: "tick_hdma_hblank (m, tr) = ((m', tr'), stall)"
    by (metis prod.collapse)
  show ?thesis
    using hblank_closer [OF _ t] assms
    by (auto simp: x t charge_hdma_def closer_def sat_add_def)
qed

lemma charges_closer:
  "machine_ok (fst (fst x)) \<Longrightarrow>
     closer (fst (fst (fold charge_hdma_event es x)), fst (snd (fold charge_hdma_event es x)))
       (fst (fst x), fst (snd x))"
proof (induction es arbitrary: x)
  case (Cons e es)
  let ?y = "charge_hdma_event e x"
  have "machine_ok (fst (fst ?y)) \<and> closer (fst (fst ?y), fst (snd ?y)) (fst (fst x), fst (snd x))"
    using Cons.prems machine_ok_charge charge_closer by (cases e) auto
  then show ?case
    using Cons.IH [of ?y] closer_trans by auto
qed simp

section \<open>The fast chunk\<close>

lemma ports_fast_eq: "tick_ports_fast n m = fst (tick_ports n m)"
proof -
  have timer: "timer_tick_fast n t = (case timer_tick n t of (t', irq, _) \<Rightarrow> (t', irq))" for t
    by (simp add: timer_tick_fast_next timer_tick_def timer_tick_loop_next)
  have serial: "serial_tick_fast n s = (case serial_tick n s of (s', irq, _) \<Rightarrow> (s', irq))" for s
    by (simp add: serial_tick_fast_def serial_tick_def serial_shift_fast_eq [where tr = "[]"])
  show ?thesis
    by (simp add: tick_ports_fast_def tick_ports_def timer serial Let_def split: prod.split)
qed

lemma chunk_fast_eq:
  "display_chunk_fast h sc sp m = (case display_chunk h sc sp m of (m', pr, completed, _) \<Rightarrow> (m', pr, completed))"
proof -
  obtain m1 io where ports: "tick_ports sc (count_cycles sc m) = (m1, io)"
    by fastforce
  obtain a tr where apu: "apu_tick (host_floats h) sp (m_apu m1) = (a, tr)"
    by fastforce
  obtain p pr ptr where ppu: "ppu_tick sp (m_ppu m1) = (p, pr, ptr)"
    by (metis prod_cases3)
  show ?thesis
    using ppu_tick_state [OF ppu]
    by (simp add: display_chunk_def display_chunk_fast_def ports_fast_eq ports apu_tick_agree apu ppu Let_def
        split: prod.split)
qed

text \<open>What a chunk does to the display, and what it leaves alone.\<close>

lemma chunk_fields:
  assumes "display_chunk h sc sp m = (m', pr, completed, io, atr, ptr)"
  shows "ppu_tick sp (m_ppu m) = (m_ppu m', pr, ptr)" "m_dma m' = m_dma m" "m_freeze m' = m_freeze m"
    "m_mode m' = m_mode m" "m_double m' = m_double m" "m_cpu m' = m_cpu m" "m_mem m' = m_mem m"
    "clk_cycles (m_clocks m') = clk_cycles (m_clocks m) + of_nat sc" "m_dma_trace m' = m_dma_trace m"
proof -
  obtain m1 io' where ports: "tick_ports sc (count_cycles sc m) = (m1, io')"
    by fastforce
  then have m1: "m1 = fst (tick_ports sc (count_cycles sc m))"
    by simp
  obtain a atr' where apu: "apu_tick (host_floats h) sp (m_apu m1) = (a, atr')"
    by fastforce
  obtain p pr' ptr' where ppu: "ppu_tick sp (m_ppu m1) = (p, pr', ptr')"
    by (metis prod_cases3)
  have cycles: "clk_cycles (fst (frame_phase_loop (c, b))) = clk_cycles c" for c b
  proof (induction "(c, b)" arbitrary: c b rule: frame_phase_loop.induct)
    case (1 c b)
    then show ?case
      by (subst frame_phase_loop.simps) simp
  qed
  show "ppu_tick sp (m_ppu m) = (m_ppu m', pr, ptr)" "m_dma m' = m_dma m" "m_freeze m' = m_freeze m"
    "m_mode m' = m_mode m" "m_double m' = m_double m" "m_cpu m' = m_cpu m" "m_mem m' = m_mem m"
    "m_dma_trace m' = m_dma_trace m"
    using assms ppu unfolding display_chunk_def ports apu ppu Let_def prod.case
    by (auto simp: m1 advance_frame_phase_def Let_def case_prod_unfold prod_eq_iff)
  show "clk_cycles (m_clocks m') = clk_cycles (m_clocks m) + of_nat sc"
    using assms unfolding display_chunk_def ports apu ppu Let_def prod.case
    by (auto simp: m1 advance_frame_phase_def Let_def case_prod_unfold cycles count_cycles_def)
qed

section \<open>When an HBlank transfer is charged\<close>

lemma tick_loop_one_pass:
  assumes "0 < k" "k \<le> mode_boundary p"
  shows "ppu_tick_loop k (p, r, tr) = ppu_pass k (p, r, tr)"
  using assms by (subst ppu_tick_loop.simps) (simp add: min_absorb1, subst ppu_tick_loop.simps, simp)

text \<open>Events other than a mode change charge nothing.\<close>

lemma line_end_charges:
  obtains es where "snd (snd (ppu_line_end (p, r, tr))) = tr @ es" "\<And>s. fold charge_hdma_event es s = s"
proof -
  let ?l = "ppu_ly p" and ?l' = "ppu_ly p + 1" and ?n = "ppu_frame_serial p + 1"
  have "snd (snd (ppu_line_end (p, r, tr))) \<in>
      {tr, tr @ [ScanlineAdvance ?l ?l'], tr @ [ScanlineAdvance ?l ?l', VblankEnter ?l'],
       tr @ [ScanlineAdvance ?l ?l', FrameComplete ?n]}"
    by (simp add: ppu_line_end_def Let_def)
  then show ?thesis
    using that [of "[]"] that [of "[ScanlineAdvance ?l ?l']"]
      that [of "[ScanlineAdvance ?l ?l', VblankEnter ?l']"] that [of "[ScanlineAdvance ?l ?l', FrameComplete ?n]"]
    by auto
qed

lemma mode_bits_hblank: "mode_bits x = mode_bits HBlank \<longleftrightarrow> x = HBlank"
  by (cases x) simp_all

lemma pass_charges:
  assumes "ppu_pass k (p, r, []) = (q, r', tr)"
  shows "fold charge_hdma_event tr s =
      (if current_mode q = HBlank \<and> current_mode p \<noteq> HBlank then charge_hdma s else s)"
    "pr_render_scanline r = None \<Longrightarrow> pr_render_scanline r' \<noteq> None \<longleftrightarrow>
       ppu_line_ready (current_mode p) (p\<lparr>ppu_mode_cycles := ppu_mode_cycles p + k\<rparr>)"
proof -
  let ?p = "p\<lparr>ppu_mode_cycles := ppu_mode_cycles p + k\<rparr>"
  let ?ready = "ppu_line_ready (current_mode p) ?p"
  define r1 where "r1 = (if ?ready then r\<lparr>pr_render_scanline := Some (ppu_ly p)\<rparr> else r)"
  define tr1 where "tr1 = (if ?ready then [ScanlineRender (ppu_ly p)] else [])"
  obtain p2 r2 tr2 where le: "ppu_line_end (?p, r1, tr1) = (p2, r2, tr2)"
    by (metis prod_cases3)
  obtain es where es: "tr2 = tr1 @ es" "\<And>s. fold charge_hdma_event es s = s"
    using line_end_charges [of ?p r1 tr1] le by (metis snd_conv)
  have tr1: "fold charge_hdma_event tr1 s = s" for s
    by (simp add: tr1_def)
  have refreshed_mode: "current_mode (refreshed x) = current_mode x" for x
    by (simp add: current_mode_state same_view_fns(3) [OF refreshed_sel(9)])
  have q: "q = refreshed p2" and tr: "tr = tr2
      @ (if current_mode p2 \<noteq> current_mode p
         then [PpuModeChange (mode_bits (current_mode p)) (mode_bits (current_mode p2)) (ppu_ly p2)] else [])
      @ (if stat_coincidence p2 \<noteq> stat_coincidence p
         then [StatSignal (stat_coincidence p2) (ppu_ly p2) (ppu_lyc p2)] else [])"
    and r': "pr_render_scanline r' = pr_render_scanline r2"
    using assms le unfolding r1_def tr1_def
    by (cases ?ready; auto simp: ppu_pass_def refresh_eq Let_def split: if_splits)+
  show "fold charge_hdma_event tr s =
      (if current_mode q = HBlank \<and> current_mode p \<noteq> HBlank then charge_hdma s else s)"
    unfolding tr es(1) q refreshed_mode
    by (auto simp: es(2) tr1 mode_bits_hblank simp del: mode_bits.simps)
  have "pr_render_scanline r2 = pr_render_scanline r1"
    using le by (auto simp: ppu_line_end_def Let_def split: if_splits)
  then show "pr_render_scanline r = None \<Longrightarrow> pr_render_scanline r' \<noteq> None \<longleftrightarrow> ?ready"
    by (simp add: r' r1_def)
qed

text \<open>Within a scheduled chunk the display enters HBlank exactly when a transfer to it ends.\<close>

lemma hblank_entry:
  assumes "ppu_timed p" "0 < k" "k \<le> mode_boundary p"
  shows "current_mode (ppu_moved k p) = HBlank \<and> current_mode p \<noteq> HBlank \<longleftrightarrow>
    current_mode (ppu_moved k p) = HBlank \<and>
    ppu_line_ready (current_mode p) (p\<lparr>ppu_mode_cycles := ppu_mode_cycles p + k\<rparr>)"
proof -
  note p = assms(1) [unfolded ppu_timed_def]
  have sum: "ppu_mode_cycles p + k \<le> 456"
    using mode_boundary_le [OF assms(1)] assms(3) by (simp add: scan_defs)
  have view: "mode3_end_cycles (p\<lparr>ppu_mode_cycles := c\<rparr>) l = mode3_end_cycles p l"
    "lcd_enabled (p\<lparr>ppu_mode_cycles := c\<rparr>) = lcd_enabled p" for c l
    by (simp_all add: mode3_end_cycles_def mode3_penalty_dots_def lcd_enabled_def window_visible_on_line_def
        bg_enabled_def window_enabled_def Let_def)
  show ?thesis
  proof (cases "ppu_mode_cycles p + k < 456")
    case True
    then show ?thesis
      using assms(2,3) p
      by (auto simp: ppu_moved_within current_mode_def ppu_line_ready_def view mode_boundary_def mode3_end_cycles_def
          scan_defs not_le split: if_splits)
  next
    case False
    then have "current_mode (ppu_moved k p) \<noteq> HBlank"
      using sum p
      by (auto simp: ppu_moved_cases current_mode_def lcd_enabled_def scan_defs Let_def)
    then show ?thesis
      by simp
  qed
qed

lemma tick_charges:
  assumes "ppu_ok p" "0 < k" "k \<le> ppu_cycles_until_next_event p" "ppu_tick k p = (q, r, tr)"
  shows "fold charge_hdma_event tr s =
    (if current_mode q = HBlank \<and> pr_render_scanline r \<noteq> None then charge_hdma s else s)"
proof (cases "lcd_enabled p")
  case True
  note timed = ppu_ok_timed [OF assms(1) True]
  have k: "k \<le> mode_boundary p"
    using assms(3) True by (simp add: ppu_cycles_until_next_event_def mode_boundary_def split: ppu_mode.splits)
  then have pass: "ppu_pass k (p, ppu_result_none, []) = (q, r, tr)"
    using assms(2,4) True by (simp add: ppu_tick_def lcd_enabled_def tick_loop_one_pass)
  have "q = refreshed (ppu_moved k p)"
    using fst_ppu_pass [of k p ppu_result_none "[]"] pass by simp
  then have "current_mode q = current_mode (ppu_moved k p)"
    by (simp add: current_mode_state same_view_fns(3) [OF refreshed_sel(9)])
  then show ?thesis
    using pass_charges [OF pass] hblank_entry [OF timed assms(2) k] by (auto simp: ppu_result_none_def)
next
  case False
  then show ?thesis
    using assms(4) by (auto simp: ppu_tick_def lcd_enabled_def ppu_result_none_def refresh_eq Let_def)
qed

section \<open>One pass of each loop\<close>

lemma next_step_bounds:
  "0 < next_step_ppu m rp" "next_step_ppu m rp \<le> ppu_cycles_until_next_event (m_ppu m)"
proof -
  have "1 \<le> ppu_cycles_until_next_event (m_ppu m)"
    by (auto simp: ppu_cycles_until_next_event_def u32_max_def split: ppu_mode.split)
  then show "0 < next_step_ppu m rp" "next_step_ppu m rp \<le> ppu_cycles_until_next_event (m_ppu m)"
    by (auto simp: next_step_ppu_def Let_def)
qed

lemma cpu_step_pos: "0 < n \<Longrightarrow> 0 < ppu_cycles_to_cpu_cycles m n"
  by (simp add: ppu_cycles_to_cpu_cycles_def sat_mul_def u32_max_def)

lemma machine_ok_chunk: "machine_ok m \<Longrightarrow> machine_ok (fst (display_chunk h sc sp m))"
proof -
  assume m: "machine_ok m"
  let ?n = "fst (tick_ports sc (count_cycles sc m))"
  have "apu_ok (fst (apu_tick (host_floats h) sp (m_apu m)))"
    using machine_okD(4) [OF m] by (simp add: apu_ok_def apu_tick_ok clockwork_ok_tick)
  moreover have "ppu_ok (fst (ppu_tick sp (m_ppu m)))"
    using machine_okD(2) [OF m] by (rule ppu_ok_tick)
  ultimately show ?thesis
    unfolding display_chunk_def Let_def case_prod_unfold fst_conv
    by (intro machine_ok_phase machine_ok_recording [THEN iffD2] machine_ok_put machine_ok_free [THEN iffD2])
      (simp_all add: m)
qed

lemma machine_ok_finish: "machine_ok m \<Longrightarrow> machine_ok (finish_chunk pr m)"
  by (simp add: finish_chunk_def machine_ok_draw)

lemma finish_chunk_fields [simp]:
  "m_dma (finish_chunk pr m) = m_dma m" "m_freeze (finish_chunk pr m) = m_freeze m"
  "m_clocks (finish_chunk pr m) = m_clocks m" "m_dma_trace (finish_chunk pr m) = m_dma_trace m"
  by (simp_all add: finish_chunk_def)

definition progress :: "((nat \<times> nat) \<times> (nat \<times> nat)) set" where
  "progress = less_than <*lex*> less_than"

definition loop_measure :: "machine \<Rightarrow> nat \<Rightarrow> nat \<times> nat" where
  "loop_measure m rc = (hdma_left (m_dma m), rc)"

lemma wf_progress: "wf (inv_image progress f)"
  by (simp add: progress_def wf_inv_image wf_lex_prod)

text \<open>The pieces of one pass.\<close>

lemma display_passE:
  assumes "display_pass h (m, r, rc, rp) = (m', r', rc', rp')"
  obtains n sp sc c pr completed io atr ptr d dtr e etr rc2 rp2
  where "n = latch_if_due m" "sp = next_step_ppu n rp" "sc = min (ppu_cycles_to_cpu_cycles n sp) rc"
    "display_chunk h sc sp n = (c, pr, completed, io, atr, ptr)" "tick_dma_if sc (c, cr_dma r) = (d, dtr)"
    "fold charge_hdma_event ptr ((d, dtr), rc, rp) = ((e, etr), rc2, rp2)"
    "m' = finish_chunk pr e" "rc' = rc2 - sc" "rp' = rp2 - sp" "cr_dma r' = etr"
    "cr_frame_completed r' = (cr_frame_completed r \<or> completed)"
proof -
  define n where "n = latch_if_due m"
  define sp where "sp = next_step_ppu n rp"
  define sc where "sc = min (ppu_cycles_to_cpu_cycles n sp) rc"
  obtain c pr completed io atr ptr where chunk: "display_chunk h sc sp n = (c, pr, completed, io, atr, ptr)"
    by (metis prod.collapse)
  obtain d dtr where dma: "tick_dma_if sc (c, cr_dma r) = (d, dtr)"
    by fastforce
  obtain e etr rc2 rp2 where charged: "fold charge_hdma_event ptr ((d, dtr), rc, rp) = ((e, etr), rc2, rp2)"
    by (metis prod.collapse)
  have res: "m' = finish_chunk pr e" "rc' = rc2 - sc" "rp' = rp2 - sp" "cr_dma r' = etr"
    "cr_frame_completed r' = (cr_frame_completed r \<or> completed)"
    using assms chunk dma charged
    by (auto simp: display_pass_def Let_def simp flip: n_def sp_def sc_def)
  show ?thesis
    by (rule that [OF n_def sp_def sc_def chunk dma charged res])
qed

text \<open>A pass keeps the invariant, makes progress, and is what the fast loop does.\<close>

lemma display_pass_facts:
  assumes ok: "machine_ok m" and rc: "0 < rc" and pass: "display_pass h (m, r, rc, rp) = (m', r', rc', rp')"
  shows "machine_ok m'" "(loop_measure m' rc', loop_measure m rc) \<in> progress"
    "display_pass_fast h (m, cr_frame_completed r, cr_dma r, rc, rp) =
       (m', cr_frame_completed r', cr_dma r', rc', rp')"
proof -
  obtain n sp sc c pr completed io atr ptr d dtr e etr rc2 rp2
    where n_def: "n = latch_if_due m" and sp_def: "sp = next_step_ppu n rp"
      and sc_def: "sc = min (ppu_cycles_to_cpu_cycles n sp) rc"
      and chunk: "display_chunk h sc sp n = (c, pr, completed, io, atr, ptr)"
      and dma: "tick_dma_if sc (c, cr_dma r) = (d, dtr)"
      and charged: "fold charge_hdma_event ptr ((d, dtr), rc, rp) = ((e, etr), rc2, rp2)"
      and res: "m' = finish_chunk pr e" "rc' = rc2 - sc" "rp' = rp2 - sp" "cr_dma r' = etr"
        "cr_frame_completed r' = (cr_frame_completed r \<or> completed)"
    using pass by (rule display_passE)
  have n: "machine_ok n"
    unfolding n_def using ok by (rule machine_ok_latch)
  have c: "machine_ok c"
    using machine_ok_chunk [OF n, of h sc sp] chunk by simp
  have d: "machine_ok d" "m_ppu d = m_ppu c" "hdma_left (m_dma d) = hdma_left (m_dma m)"
    using machine_ok_tick_if [of "(c, cr_dma r)" sc] c dma tick_dma_if_fields(2) [of sc c "cr_dma r"]
      tick_if_left [of sc c "cr_dma r"] chunk_fields(2) [OF chunk] by (simp_all add: n_def)
  have e: "machine_ok e" "closer (e, rc2) (d, rc)"
    using machine_ok_charges [of "((d, dtr), rc, rp)" ptr] charges_closer [of "((d, dtr), rc, rp)" ptr] d(1) charged
    by simp_all
  then show "machine_ok m'"
    by (simp add: res machine_ok_finish)
  have "0 < sc"
    using rc cpu_step_pos [OF next_step_bounds(1)] by (simp add: sc_def sp_def)
  then show "(loop_measure m' rc', loop_measure m rc) \<in> progress"
    using e(2) rc unfolding closer_def res
    by (auto simp: progress_def loop_measure_def d(3))
  let ?due = "current_mode (m_ppu c) = HBlank \<and> pr_render_scanline pr \<noteq> None"
  have due: "(if ?due then charge_hdma ((d, dtr), rc, rp) else ((d, dtr), rc, rp)) = ((e, etr), rc2, rp2)"
    unfolding charged [symmetric]
    by (rule tick_charges [OF machine_okD(2) [OF n] _ _ chunk_fields(1) [OF chunk], symmetric])
      (simp_all add: sp_def next_step_bounds)
  have fast: "display_pass_fast h (m, cr_frame_completed r, cr_dma r, rc, rp) =
      (let ((m, dma), rc, rp) = (if ?due then charge_hdma ((d, dtr), rc, rp) else ((d, dtr), rc, rp))
       in (finish_chunk pr m, cr_frame_completed r \<or> completed, dma, rc - sc, rp - sp))"
    using chunk_fast_eq [of h sc sp n] chunk dma
    by (simp only: display_pass_fast_def Let_def prod.case d(2) fst_conv flip: n_def sp_def sc_def)
  show "display_pass_fast h (m, cr_frame_completed r, cr_dma r, rc, rp) =
      (m', cr_frame_completed r', cr_dma r', rc', rp')"
    unfolding fast due by (simp add: res)
qed

lemma freeze_pass_facts:
  assumes "machine_ok m" "0 < rc" "0 < m_freeze m" "freeze_pass (m, rc, rp) = (m', rc', rp')"
  shows "machine_ok m'" "(loop_measure m' rc', loop_measure m rc) \<in> progress"
proof -
  have m': "m' = count_cycles (min rc (m_freeze m)) (m\<lparr>m_freeze := m_freeze m - min rc (m_freeze m)\<rparr>)"
    "rc' = rc - min rc (m_freeze m)"
    using assms(4) by (auto simp: freeze_pass_def Let_def)
  show "machine_ok m'"
    using machine_okD(8) [OF assms(1)] by (simp add: m' machine_ok_put assms(1))
  show "(loop_measure m' rc', loop_measure m rc) \<in> progress"
    using assms(2,3) by (simp add: m' progress_def loop_measure_def)
qed

lemma cpu_only_facts:
  assumes "machine_ok m"
  shows "machine_ok (fst (cpu_only_pass n (m, r)))"
    "fst (cpu_only_pass_fast n (m, cr_dma r)) = fst (cpu_only_pass n (m, r))"
    "cr_frame_completed (snd (cpu_only_pass n (m, r))) = cr_frame_completed r"
  using assms machine_ok_tick_if [of "(fst (tick_ports n (count_cycles n m)), cr_dma r)" n]
  by (simp_all add: cpu_only_pass_def cpu_only_pass_fast_def ports_fast_eq Let_def case_prod_unfold)

section \<open>Both loops end, in the same machine\<close>

lemma clock_loops:
  "machine_ok m \<Longrightarrow>
     \<exists>m' r'. clock_loop h (m, r, rc, rp) = Some (m', r') \<and> machine_ok m' \<and>
       clock_loop_fast h (m, cr_frame_completed r, cr_dma r, rc, rp) = Some (m', cr_frame_completed r')"
proof (induction "(m, rc)" arbitrary: m r rc rp rule: wf_induct_rule [OF wf_progress [of "\<lambda>(m, rc). loop_measure m rc"]])
  case 1
  note ok = 1(2)
  have ih: "\<exists>m2 r2. clock_loop h (m', r', rc', rp') = Some (m2, r2) \<and> machine_ok m2 \<and>
      clock_loop_fast h (m', cr_frame_completed r', cr_dma r', rc', rp') = Some (m2, cr_frame_completed r2)"
    if "(loop_measure m' rc', loop_measure m rc) \<in> progress" "machine_ok m'" for m' r' rc' rp'
    using that 1(1) by (simp add: in_inv_image)
  consider "rc = 0" | "0 < rc" "0 < m_freeze m" | "0 < rc" "m_freeze m = 0" "rp = 0" | "0 < rc" "m_freeze m = 0" "0 < rp"
    by blast
  then show ?case
  proof cases
    case 1
    then show ?thesis
      using ok by (simp add: clock_loop.simps [of h] clock_loop_fast.simps [of h])
  next
    case 2
    obtain m' rc' rp' where f: "freeze_pass (m, rc, rp) = (m', rc', rp')"
      by (metis prod_cases3)
    show ?thesis
      using 2 ih [OF freeze_pass_facts(2,1) [OF ok 2 f], of r rp']
      by (simp add: clock_loop.simps [of h "(m, _)"] clock_loop_fast.simps [of h "(m, _)"] f)
  next
    case 3
    then show ?thesis
      using cpu_only_facts [OF ok, of rc r]
      by (auto simp: clock_loop.simps [of h "(m, _)"] clock_loop_fast.simps [of h "(m, _)"] prod_eq_iff)
  next
    case 4
    obtain m' r' rc' rp' where p: "display_pass h (m, r, rc, rp) = (m', r', rc', rp')"
      by (metis prod_cases4)
    show ?thesis
      using 4 ih [OF display_pass_facts(2,1) [OF ok 4(1) p], of r' rp'] display_pass_facts(3) [OF ok 4(1) p]
      by (simp add: clock_loop.simps [of h "(m, _)"] clock_loop_fast.simps [of h "(m, _)"] p)
  qed
qed

section \<open>What a step costs\<close>

text \<open>The stalls that the HBlank transfers in a trace report.\<close>

fun event_stall :: "dma_event \<Rightarrow> nat" where
  "event_stall (HdmaBlock _ _ _ _ hblank stall) = (if hblank then stall else 0)"
| "event_stall _ = 0"

definition stalls :: "dma_event list \<Rightarrow> nat" where
  "stalls tr = sum_list (map event_stall tr)"

lemma stalls_append [simp]: "stalls (xs @ ys) = stalls xs + stalls ys" "stalls [] = 0"
  by (simp_all add: stalls_def)

lemma tick_if_stalls: "stalls (snd (tick_dma_if n (m, tr))) = stalls tr"
  by (simp add: tick_dma_if_def tick_dma_def Let_def) (simp add: stalls_def)

lemma block_stall_le: "hdma_block_stall_cycles m \<le> 64"
  by (simp add: hdma_block_stall_cycles_def CGB_DMA_BLOCK_STALL_CYCLES_def sat_mul_def)

lemma transfer_stalls:
  "hdma_active (m_dma m) \<Longrightarrow> hdma_blocks (m_dma m) \<noteq> 0 \<Longrightarrow>
     stalls (snd (transfer_hdma_block True (m, tr))) = stalls tr + hdma_block_stall_cycles m"
  "stalls (snd (transfer_hdma_block False (m, tr))) = stalls tr"
  by (simp_all add: transfer_hdma_block_def Let_def hdma_block_stall_cycles_def cgb_fast_domains_enabled_def)
    (simp_all add: stalls_def)

lemma hblank_stalls:
  assumes "machine_ok m" "tick_hdma_hblank (m, tr) = ((m', tr'), stall)"
  shows "stalls tr' = stalls tr + stall" "stall + 64 * hdma_left (m_dma m') \<le> 64 * hdma_left (m_dma m)"
    "m_clocks m' = m_clocks m" "m_dma_trace m' = m_dma_trace m"
proof -
  show "m_clocks m' = m_clocks m" "m_dma_trace m' = m_dma_trace m"
    using hblank_fields [of m tr] assms(2) by simp_all
  consider (go) "hdma_active (m_dma m)" "hdma_hblank (m_dma m)" "\<not> cpu_halted (m_cpu m)"
    | (stay) "m' = m" "stall = 0" "stalls tr' = stalls tr"
    using assms(2) by (auto simp: tick_hdma_hblank_def stalls_def split: if_splits)
  then have "stalls tr' = stalls tr + stall \<and> stall + 64 * hdma_left (m_dma m') \<le> 64 * hdma_left (m_dma m)"
  proof cases
    case go
    then have b: "hdma_blocks (m_dma m) \<noteq> 0"
      using machine_okD(3) [OF assms(1)] by (simp add: dma_ok_def)
    have t: "transfer_hdma_block True (m, tr) = (m', tr')" and "stall = hdma_block_stall_cycles m'"
      using go assms(2) by (auto simp: tick_hdma_hblank_def split: prod.splits)
    moreover have "hdma_block_stall_cycles m' = hdma_block_stall_cycles m"
      using transfer_fields [of True m tr] t by (simp add: hdma_block_stall_cycles_def cgb_fast_domains_enabled_def)
    moreover have "hdma_left (m_dma m') < hdma_left (m_dma m) \<or> stall = 0 \<and> m' = m"
      by (rule hblank_closer [OF assms])
    ultimately show ?thesis
      using transfer_stalls(1) [of m tr] go(1) b block_stall_le [of m] by auto
  qed simp
  then show "stalls tr' = stalls tr + stall" "stall + 64 * hdma_left (m_dma m') \<le> 64 * hdma_left (m_dma m)"
    by blast+
qed

lemma hblank_stalls_le: "stalls tr \<le> stalls (snd (fst (tick_hdma_hblank (m, tr))))"
proof -
  have "stalls tr \<le> stalls (snd (transfer_hdma_block True (m, tr)))"
    by (simp add: transfer_hdma_block_def Let_def)
  then show ?thesis
    by (auto simp: tick_hdma_hblank_def stalls_def split: prod.split)
qed

lemma stalls_grow:
  "fold charge_hdma_event es ((m, tr), rc, rp) = ((m', tr'), rc', rp') \<Longrightarrow> stalls tr \<le> stalls tr'"
proof (induction es arbitrary: m tr rc rp)
  case (Cons e es)
  obtain m1 tr1 rc1 rp1 where c: "charge_hdma_event e ((m, tr), rc, rp) = ((m1, tr1), rc1, rp1)"
    by (metis prod.collapse)
  have "stalls tr \<le> stalls tr1"
    using c hblank_stalls_le [of tr m] by (cases e) (auto simp: charge_hdma_def Let_def case_prod_unfold split: if_splits)
  then show ?case
    using Cons.IH [of m1 tr1 rc1 rp1] Cons.prems c by simp
qed simp

text \<open>The room the remaining blocks still need below the saturation of the cycle budget.\<close>

definition room :: "machine \<Rightarrow> nat \<Rightarrow> bool" where
  "room m rc \<longleftrightarrow> rc + 64 * hdma_left (m_dma m) \<le> u32_max"

lemma charges_time:
  "machine_ok m \<Longrightarrow> room m rc \<Longrightarrow>
     fold charge_hdma_event es ((m, tr), rc, rp) = ((m', tr'), rc', rp') \<Longrightarrow>
     rc' + stalls tr = rc + stalls tr' \<and> room m' rc' \<and> m_clocks m' = m_clocks m \<and>
     m_dma_trace m' = m_dma_trace m"
proof (induction es arbitrary: m tr rc rp)
  case (Cons e es)
  obtain m1 tr1 rc1 rp1 where c: "charge_hdma_event e ((m, tr), rc, rp) = ((m1, tr1), rc1, rp1)"
    by (metis prod.collapse)
  have "machine_ok m1 \<and> room m1 rc1 \<and> rc1 + stalls tr = rc + stalls tr1 \<and> m_clocks m1 = m_clocks m \<and>
      m_dma_trace m1 = m_dma_trace m"
  proof (cases "charge_hdma_event e ((m, tr), rc, rp) = charge_hdma ((m, tr), rc, rp)")
    case True
    obtain m2 tr2 stall where t: "tick_hdma_hblank (m, tr) = ((m2, tr2), stall)"
      by (metis prod.collapse)
    have "m1 = m2" "tr1 = tr2" "rc1 = sat_add u32_max rc stall"
      using c True t by (auto simp: charge_hdma_def)
    then show ?thesis
      using hblank_stalls [OF Cons.prems(1) t] Cons.prems(1,2) machine_ok_hblank [of "(m, tr)"] t
      by (simp add: room_def)
  next
    case False
    then have "((m1, tr1), rc1, rp1) = ((m, tr), rc, rp)"
      using c by (cases e) (auto split: if_splits)
    then show ?thesis
      using Cons.prems by simp
  qed
  then show ?case
    using Cons.IH [of m1 rc1 tr1 rp1] Cons.prems(3) c by simp
qed simp

text \<open>A pass adds to the clock total what it takes from the budget, up to the stalls it reports.\<close>

lemma display_time:
  assumes ok: "machine_ok m" and fits: "room m rc" and pass: "display_pass h (m, r, rc, rp) = (m', r', rc', rp')"
  shows "room m' rc'"
    "clk_cycles (m_clocks m') + of_nat rc' + of_nat (stalls (cr_dma r)) =
       clk_cycles (m_clocks m) + of_nat rc + of_nat (stalls (cr_dma r'))"
    "m_dma_trace m' = m_dma_trace m"
proof -
  obtain n sp sc c pr completed io atr ptr d dtr e etr rc2 rp2
    where n_def: "n = latch_if_due m" and sp_def: "sp = next_step_ppu n rp"
      and sc_def: "sc = min (ppu_cycles_to_cpu_cycles n sp) rc"
      and chunk: "display_chunk h sc sp n = (c, pr, completed, io, atr, ptr)"
      and dma: "tick_dma_if sc (c, cr_dma r) = (d, dtr)"
      and charged: "fold charge_hdma_event ptr ((d, dtr), rc, rp) = ((e, etr), rc2, rp2)"
      and res: "m' = finish_chunk pr e" "rc' = rc2 - sc" "rp' = rp2 - sp" "cr_dma r' = etr"
        "cr_frame_completed r' = (cr_frame_completed r \<or> completed)"
    using pass by (rule display_passE)
  have "machine_ok c"
    using machine_ok_chunk [OF machine_ok_latch [OF ok], of h sc sp] chunk by (simp add: n_def)
  then have "machine_ok d"
    using machine_ok_tick_if [of "(c, cr_dma r)" sc] dma by simp
  moreover have d: "stalls dtr = stalls (cr_dma r)" "m_clocks d = m_clocks c" "m_dma_trace d = m_dma_trace m" "hdma_left (m_dma d) = hdma_left (m_dma m)"
    using tick_if_stalls [of sc c "cr_dma r"] tick_dma_if_fields [of sc c "cr_dma r"]
      tick_if_left [of sc c "cr_dma r"] chunk_fields(2,9) [OF chunk] dma by (simp_all add: n_def)
  moreover have "room d rc"
    using fits by (simp add: room_def d(4))
  ultimately have e: "rc2 + stalls (cr_dma r) = rc + stalls etr" "room e rc2" "m_clocks e = m_clocks c"
    "m_dma_trace e = m_dma_trace m"
    using charges_time [OF _ _ charged] by simp_all
  then show "room m' rc'" "m_dma_trace m' = m_dma_trace m"
    by (simp_all add: room_def res)
  have "rc \<le> rc2"
    using stalls_grow [OF charged] e(1) d(1) by simp
  then have "rc' + sc + stalls (cr_dma r) = rc + stalls etr"
    using e(1) by (simp add: res sc_def)
  then have "(of_nat rc' + of_nat sc + of_nat (stalls (cr_dma r)) :: u64) = of_nat rc + of_nat (stalls etr)"
    by (metis of_nat_add)
  moreover have "clk_cycles (m_clocks m') = clk_cycles (m_clocks m) + of_nat sc"
    using chunk_fields(8) [OF chunk] by (simp add: res e(3) n_def)
  ultimately show "clk_cycles (m_clocks m') + of_nat rc' + of_nat (stalls (cr_dma r)) =
      clk_cycles (m_clocks m) + of_nat rc + of_nat (stalls (cr_dma r'))"
    by (simp add: res(4) ac_simps)
qed

lemma chain_sums: "a + x = b + y \<Longrightarrow> b + z = c + x \<Longrightarrow> a + z = c + (y :: 'a :: ab_group_add)"
proof -
  assume "a + x = b + y" "b + z = c + x"
  then have "(a + x) + (b + z) = (b + y) + (c + x)"
    by simp
  then have "(a + z) + (b + x) = (c + y) + (b + x)"
    by (simp only: ac_simps)
  then show ?thesis
    by (rule add_right_imp_eq)
qed

lemma clock_loop_time:
  "machine_ok m \<Longrightarrow> room m rc \<Longrightarrow> clock_loop h (m, r, rc, rp) = Some (m', r') \<Longrightarrow>
     clk_cycles (m_clocks m') + of_nat (stalls (cr_dma r)) =
       clk_cycles (m_clocks m) + of_nat rc + of_nat (stalls (cr_dma r')) \<and>
     m_dma_trace m' = m_dma_trace m"
proof (induction "(m, rc)" arbitrary: m r rc rp rule: wf_induct_rule [OF wf_progress [of "\<lambda>(m, rc). loop_measure m rc"]])
  case 1
  note ok = 1(2) and fits = 1(3) and res = 1(4)
  have ih: "clk_cycles (m_clocks m') + of_nat (stalls (cr_dma r1)) =
      clk_cycles (m_clocks m1) + of_nat rc1 + of_nat (stalls (cr_dma r')) \<and> m_dma_trace m' = m_dma_trace m1"
    if "(loop_measure m1 rc1, loop_measure m rc) \<in> progress" "machine_ok m1" "room m1 rc1"
      "clock_loop h (m1, r1, rc1, rp1) = Some (m', r')" for m1 r1 rc1 rp1
    using that 1(1) by (simp add: in_inv_image)
  consider "rc = 0" | "0 < rc" "0 < m_freeze m" | "0 < rc" "m_freeze m = 0" "rp = 0" | "0 < rc" "m_freeze m = 0" "0 < rp"
    by blast
  then show ?case
  proof cases
    case 1
    then show ?thesis
      using res by (simp add: clock_loop.simps [of h])
  next
    case 2
    obtain m1 rc1 rp1 where f: "freeze_pass (m, rc, rp) = (m1, rc1, rp1)"
      by (metis prod_cases3)
    let ?k = "min rc (m_freeze m)"
    have m1: "rc = rc1 + ?k" "clk_cycles (m_clocks m1) = clk_cycles (m_clocks m) + of_nat ?k" "m_dma m1 = m_dma m"
      "m_dma_trace m1 = m_dma_trace m"
      using f by (auto simp: freeze_pass_def count_cycles_def Let_def)
    then have "room m1 rc1"
      using fits by (simp add: room_def)
    moreover have "clock_loop h (m1, r, rc1, rp1) = Some (m', r')"
      using 2 res by (simp add: clock_loop.simps [of h "(m, _)"] f)
    ultimately have "clk_cycles (m_clocks m') + of_nat (stalls (cr_dma r)) =
        clk_cycles (m_clocks m1) + of_nat rc1 + of_nat (stalls (cr_dma r')) \<and> m_dma_trace m' = m_dma_trace m1"
      by (rule ih [OF freeze_pass_facts(2,1) [OF ok 2 f]])
    moreover have "(of_nat rc :: u64) = of_nat rc1 + of_nat ?k"
      by (subst m1(1)) (rule of_nat_add)
    ultimately show ?thesis
      by (simp add: m1(2,4) algebra_simps)
  next
    case 3
    then have "cpu_only_pass rc (m, r) = (m', r')"
      using res by (simp add: clock_loop.simps [of h])
    then have "m_clocks m' = m_clocks (count_cycles rc m)" "m_dma_trace m' = m_dma_trace m" "stalls (cr_dma r') = stalls (cr_dma r)"
      using tick_if_stalls by (auto simp: cpu_only_pass_def Let_def case_prod_unfold)
    then show ?thesis
      by (simp add: count_cycles_def)
  next
    case 4
    obtain m1 r1 rc1 rp1 where p: "display_pass h (m, r, rc, rp) = (m1, r1, rc1, rp1)"
      by (metis prod_cases4)
    note t = display_time [OF ok fits p]
    have "clock_loop h (m1, r1, rc1, rp1) = Some (m', r')"
      using 4 res by (simp add: clock_loop.simps [of h "(m, _)"] p)
    from ih [OF display_pass_facts(2,1) [OF ok 4(1) p] t(1) this] chain_sums [OF _ t(2)] t(3) show ?thesis
      by auto
  qed
qed

end
