(* ===== verification/Machine_Step.thy ===== *)
theory Machine_Step
  imports Machine_Clocks Exec_Relation
begin

text \<open>
  The machine from the outside (\<^verbatim>\<open>lib.rs\<close>): loading a ROM, the serial link, interrupt service,
  one instruction step traced and fast, and the run loops over steps. Errors are values of the
  sum; a loop that does not return is \<open>None\<close>. The run loops take the host of each step from a
  sequence.
\<close>

section \<open>Loading a ROM\<close>

definition post_boot_dmg :: "machine \<Rightarrow> machine" where
  "post_boot_dmg m =
     m\<lparr>m_cpu := (m_cpu m)\<lparr>r_a := 0x01, r_f := 0xB0, r_b := 0x00, r_c := 0x13, r_d := 0x00, r_e := 0xD8,
         r_h := 0x01, r_l := 0x4D, r_sp := 0xFFFE, r_pc := 0x0100, cpu_ime := False, cpu_ime_delay := 0,
         cpu_halted := False, cpu_halt_bug := False, cpu_stopped := False\<rparr>,
       m_ppu := (m_ppu m)\<lparr>ppu_lcdc := 0x91, ppu_stat := 0x80, ppu_ly := 0x00, ppu_lyc := 0x00,
         ppu_scx := 0x00, ppu_scy := 0x00, ppu_wx := 0x00, ppu_wy := 0x00, ppu_bgp := 0xFC,
         ppu_obp0 := 0xFF, ppu_obp1 := 0xFF, ppu_mode_cycles := 0\<rparr>\<rparr>"

definition post_boot_cgb :: "machine \<Rightarrow> machine" where
  "post_boot_cgb m =
     m\<lparr>m_cpu := (m_cpu m)\<lparr>r_a := 0x11, r_f := 0x80, r_b := 0x00, r_c := 0x00, r_d := 0xFF, r_e := 0x56,
         r_h := 0x00, r_l := 0x0D, r_sp := 0xFFFE, r_pc := 0x0100, cpu_ime := False, cpu_ime_delay := 0,
         cpu_halted := False, cpu_halt_bug := False, cpu_stopped := False\<rparr>,
       m_ppu := (m_ppu m)\<lparr>ppu_lcdc := 0x91, ppu_stat := 0x80, ppu_ly := 0x00, ppu_lyc := 0x00,
         ppu_scx := 0x00, ppu_scy := 0x00, ppu_wx := 0x00, ppu_wy := 0x00, ppu_bgp := 0xFC,
         ppu_obp0 := 0xFF, ppu_obp1 := 0xFF\<rparr>,
       m_serial := (m_serial m)\<lparr>sr_sc := 0x01\<rparr>,
       m_dma := (m_dma m)\<lparr>dma_ff46 := 0x00\<rparr>\<rparr>"

definition initialize_post_boot_state :: "host \<Rightarrow> machine \<Rightarrow> machine" where
  "initialize_post_boot_state h m =
     (let m = (case m_mode m of Dmg \<Rightarrow> post_boot_dmg m | Cgb \<Rightarrow> post_boot_cgb m);
          m = m\<lparr>m_timer := timer_post_boot (m_mode m = Cgb) (m_timer m),
                m_interrupt := (m_interrupt m)\<lparr>ie := 0x00, iflag := 0x01\<rparr>,
                m_apu := apu_initialize_post_boot_state (host_floats h) (m_mode m) (m_apu m)\<rparr>
      in m\<lparr>m_clocks := (m_clocks m)
            \<lparr>clk_frame_phase := unat (ppu_ly (m_ppu m)) * 456 + ppu_mode_cycles (m_ppu m)\<rparr>\<rparr>)"

text \<open>The compatibility palette: five bits each of red, green and blue.\<close>

definition rgb555 :: "u16 \<Rightarrow> u16 \<Rightarrow> u16 \<Rightarrow> u16" where
  "rgb555 r g b = (r AND 0x1F) OR push_bit 5 (g AND 0x1F) OR push_bit 10 (b AND 0x1F)"

definition compat_palette :: "u16 list" where
  "compat_palette = [rgb555 31 31 26, rgb555 22 27 14, rgb555 10 18 8, rgb555 2 6 3]"

definition write_compat_color :: "u8 \<times> u16 \<Rightarrow> memory \<Rightarrow> memory" where
  "write_compat_color = (\<lambda>(base, rgb) m.
     let m = fst (write_bg_palette_data (lo_byte rgb) False (fst (set_bg_palette_index base m)));
         m = fst (write_bg_palette_data (hi_byte rgb) False (fst (set_bg_palette_index (base + 1) m)));
         m = fst (write_obj_palette_data (lo_byte rgb) False (fst (set_obj_palette_index base m)))
     in fst (write_obj_palette_data (hi_byte rgb) False (fst (set_obj_palette_index (base + 1) m))))"

definition initialize_cgb_compatibility_palettes :: "machine \<Rightarrow> machine" where
  "initialize_cgb_compatibility_palettes m =
     (let entries = concat (map (\<lambda>p. map (\<lambda>(c, rgb). (of_nat p * 8 + of_nat c * 2, rgb))
                                      (enumerate 0 compat_palette)) [0..<8]);
          mem = fold write_compat_color entries (m_mem m);
          mem = fst (set_bg_palette_index 0 mem);
          mem = fst (set_obj_palette_index 0 mem)
      in m\<lparr>m_mem := mem\<rparr>)"

definition select_mode :: "hardware_mode option \<Rightarrow> cartridge \<Rightarrow> core_error + hardware_mode" where
  "select_mode forced c =
     (case forced of
        Some mode \<Rightarrow>
          if mode = Dmg \<and> cgb_only c then Inl (InvalidState ''CGB-only ROM cannot run in DMG mode'')
          else Inr mode
      | None \<Rightarrow> Inr (if supports_cgb c then Cgb else Dmg))"

definition reset_devices :: "host \<Rightarrow> cartridge \<Rightarrow> hardware_mode \<Rightarrow> machine \<Rightarrow> machine" where
  "reset_devices h c mode m =
     m\<lparr>m_cart := c, m_cpu := cpu_default, m_ppu := ppu_default, m_timer := timer_default,
       m_interrupt := interrupt_default, m_joypad := joypad_default, m_dma := dma_default,
       m_serial := serial_default, m_link := False,
       m_apu := set_cgb_mode (mode = Cgb) (apu_default (host_floats h)), m_mem := memory_power_on,
       m_clocks := clock_default, m_mode := mode, m_double := False, m_armed := False, m_freeze := 0\<rparr>"

definition draw_visible :: "machine \<Rightarrow> machine" where
  "draw_visible m =
     m\<lparr>m_ppu := render_visible_area_from_memory_with_mode (m_mem m) (m_mode m = Cgb) (m_ppu m)\<rparr>"

definition restore_ppu :: "machine \<Rightarrow> machine" where
  "restore_ppu m = m\<lparr>m_ppu := restore_runtime_state (m_mem m) (m_ppu m)\<rparr>"

definition load_rom_with_mode ::
  "host \<Rightarrow> u8 list \<Rightarrow> hardware_mode option \<Rightarrow> machine \<Rightarrow> (core_error + unit) \<times> machine" where
  "load_rom_with_mode h rom forced m =
     (case cart_from_rom (host_now h) rom of
        Inl e \<Rightarrow> (Inl e, m)
      | Inr c \<Rightarrow>
          (case select_mode forced c of
             Inl e \<Rightarrow> (Inl e, m)
           | Inr mode \<Rightarrow>
               let m = initialize_post_boot_state h (reset_devices h c mode m);
                   m = (if m_mode m = Cgb \<and> \<not> supports_cgb (m_cart m)
                        then initialize_cgb_compatibility_palettes m else m);
                   m = draw_visible (sync_core_memory (restore_ppu m));
                   m = clear_pending_traces (sync_cgb_memory (sync_apu_memory m));
                   m = m\<lparr>m_vector := None, m_stall := 0, m_freeze := 0\<rparr>
               in (Inr (), push_cgb [ModeSelected (m_mode m = Cgb) (cgb_only (m_cart m))] m)))"

definition load_rom :: "host \<Rightarrow> u8 list \<Rightarrow> machine \<Rightarrow> (core_error + unit) \<times> machine" where
  "load_rom h rom m = load_rom_with_mode h rom None m"

section \<open>The serial link\<close>

record link_result =
  lr_completed :: bool
  lr_self_io :: "io_event list"
  lr_self_interrupt :: "interrupt_event list"
  lr_peer_io :: "io_event list"
  lr_peer_interrupt :: "interrupt_event list"

text \<open>Request the serial interrupt and take its new trace off the pending ones.\<close>

definition request_serial :: "machine \<Rightarrow> machine \<times> interrupt_event list" where
  "request_serial m =
     (let before = length (m_interrupt_trace m);
          m = request_interrupt INT_SERIAL SerialSource m
      in (m\<lparr>m_interrupt_trace := take before (m_interrupt_trace m)\<rparr>, drop before (m_interrupt_trace m)))"

definition sync_serial_memory :: "machine \<Rightarrow> machine" where
  "sync_serial_memory m =
     (let m = poke 0xFF01 (sr_sb (m_serial m)) m in poke 0xFF02 (read_sc (m_serial m)) m)"

definition exchange_serial_with_peer :: "machine \<Rightarrow> machine \<Rightarrow> machine \<times> machine \<times> link_result" where
  "exchange_serial_with_peer m peer =
     (let (s, t, result) = exchange_with_peer (m_serial m) (m_serial peer);
          m = m\<lparr>m_serial := s\<rparr>; peer = peer\<lparr>m_serial := t\<rparr>
      in case result of
           None \<Rightarrow> (m, peer, \<lparr>lr_completed = False, lr_self_io = [], lr_self_interrupt = [],
                              lr_peer_io = [], lr_peer_interrupt = []\<rparr>)
         | Some (tr, ptr) \<Rightarrow>
             let (m, irq) = request_serial (sync_serial_memory m);
                 (peer, pirq) = request_serial (sync_serial_memory peer)
             in (m, peer, \<lparr>lr_completed = True, lr_self_io = map IoSerial tr, lr_self_interrupt = irq,
                           lr_peer_io = map IoSerial ptr, lr_peer_interrupt = pirq\<rparr>))"

record external_result =
  er_completed :: bool
  er_outgoing :: u8
  er_io :: "io_event list"
  er_interrupt :: "interrupt_event list"

definition clock_external_serial_byte :: "u8 \<Rightarrow> machine \<Rightarrow> machine \<times> external_result" where
  "clock_external_serial_byte incoming m =
     (let (s, result) = clock_external_byte incoming (m_serial m);
          m = m\<lparr>m_serial := s\<rparr>
      in case result of
           None \<Rightarrow> (m, \<lparr>er_completed = False, er_outgoing = 0, er_io = [], er_interrupt = []\<rparr>)
         | Some (outgoing, tr) \<Rightarrow>
             let (m, irq) = request_serial (sync_serial_memory m)
             in (m, \<lparr>er_completed = True, er_outgoing = outgoing, er_io = map IoSerial tr,
                     er_interrupt = irq\<rparr>))"

definition set_serial_link_attached :: "bool \<Rightarrow> machine \<Rightarrow> machine" where
  "set_serial_link_attached b m = m\<lparr>m_link := b\<rparr>"

section \<open>One step\<close>

definition service_interrupt :: "host \<Rightarrow> machine \<Rightarrow> (core_error + unit) \<times> machine" where
  "service_interrupt h m =
     (case highest_priority (m_interrupt m) of
        None \<Rightarrow> (Inl (InvalidState ''interrupt service requested without pending source''), m)
      | Some (msk, vector) \<Rightarrow>
          let m = m\<lparr>m_cpu := (m_cpu m)\<lparr>cpu_ime := False\<rparr>, m_interrupt := acknowledge msk (m_interrupt m)\<rparr>;
              m = snd (run_state (push16 h (r_pc (m_cpu m))) m)
          in (Inr (), m\<lparr>m_cpu := (m_cpu m)\<lparr>r_pc := vector\<rparr>, m_vector := Some vector,
                m_interrupt_trace :=
                  m_interrupt_trace m @ [Serviced (interrupt_source_from_mask msk) vector]\<rparr>))"

text \<open>A HALT entered under the bug keeps the program counter on the next fetch.\<close>

definition advance_pc :: "cpu \<Rightarrow> cpu" where
  "advance_pc c = (if cpu_halt_bug c then c\<lparr>cpu_halt_bug := False\<rparr> else c\<lparr>r_pc := r_pc c + 1\<rparr>)"

definition fetch_execute :: "host \<Rightarrow> (core_error + nat) exec" where
  "fetch_execute h = do {
     c \<leftarrow> get_cpu;
     opcode \<leftarrow> ex_read (r_pc c);
     put_cpu advance_pc;
     execute_opcode h opcode }"

definition wake_up :: "machine \<Rightarrow> machine" where
  "wake_up m = m\<lparr>m_cpu := (m_cpu m)\<lparr>cpu_halted := False\<rparr>\<rparr>"

text \<open>What the traced step alone records before it wakes the CPU.\<close>

definition note_blocked :: "machine \<Rightarrow> machine" where
  "note_blocked m =
     (if has_pending (m_interrupt m) \<and> \<not> cpu_ime (m_cpu m)
      then m\<lparr>m_interrupt_trace := m_interrupt_trace m @
             [PendingBlocked (pending_mask (m_interrupt m)) (cpu_ime (m_cpu m)) (cpu_halted (m_cpu m))]\<rparr>
      else m)"

text \<open>The work of a step and the cycles it takes, before the clocks advance.\<close>

definition step_work :: "host \<Rightarrow> machine \<Rightarrow> (core_error + nat) \<times> machine" where
  "step_work h m =
     (if has_pending (m_interrupt m) \<and> cpu_ime (m_cpu m) then
        (case service_interrupt h (wake_up m) of
           (Inl e, m) \<Rightarrow> (Inl e, m)
         | (Inr _, m) \<Rightarrow> (Inr 20, m))
      else
        let m = (if has_pending (m_interrupt m) then wake_up m else m)
        in if cpu_halted (m_cpu m) then (Inr 4, m) else run_state (fetch_execute h) m)"

definition step_instruction :: "host \<Rightarrow> machine \<Rightarrow> ((core_error + step_result) \<times> machine) option" where
  "step_instruction h m =
     (case step_work h (note_blocked m) of
        (Inl e, m) \<Rightarrow> Some (Inl e, m)
      | (Inr cycles, m) \<Rightarrow> map_option (\<lambda>(r, m). (Inr r, m)) (finish_step h cycles m))"

definition step_instruction_fast :: "host \<Rightarrow> machine \<Rightarrow> ((core_error + unit) \<times> machine) option" where
  "step_instruction_fast h m =
     (case step_work h m of
        (Inl e, m) \<Rightarrow> Some (Inl e, m)
      | (Inr cycles, m) \<Rightarrow> map_option (\<lambda>m. (Inr (), m)) (finish_step_fast h cycles m))"

section \<open>The run loops\<close>

type_synonym 'a outcome = "((core_error + 'a) \<times> machine) option"

partial_function (option) run_frame_loop :: "(nat \<Rightarrow> host) \<Rightarrow> u64 \<Rightarrow> nat \<Rightarrow> machine \<Rightarrow> unit outcome" where
  "run_frame_loop hs start i m =
     (if clk_frames (m_clocks m) = start then
        Option.bind (step_instruction (hs i) m) (\<lambda>r.
          case r of (Inl e, m) \<Rightarrow> Some (Inl e, m) | (Inr _, m) \<Rightarrow> run_frame_loop hs start (i + 1) m)
      else Some (Inr (), m))"

definition run_frame :: "(nat \<Rightarrow> host) \<Rightarrow> machine \<Rightarrow> unit outcome" where
  "run_frame hs m = run_frame_loop hs (clk_frames (m_clocks m)) 0 m"

partial_function (option) run_frame_fast_loop :: "(nat \<Rightarrow> host) \<Rightarrow> u64 \<Rightarrow> nat \<Rightarrow> machine \<Rightarrow> unit outcome" where
  "run_frame_fast_loop hs start i m =
     (if clk_frames (m_clocks m) = start then
        Option.bind (step_instruction_fast (hs i) m) (\<lambda>r.
          case r of (Inl e, m) \<Rightarrow> Some (Inl e, m) | (Inr _, m) \<Rightarrow> run_frame_fast_loop hs start (i + 1) m)
      else Some (Inr (), m))"

definition run_frame_fast :: "(nat \<Rightarrow> host) \<Rightarrow> machine \<Rightarrow> unit outcome" where
  "run_frame_fast hs m = run_frame_fast_loop hs (clk_frames (m_clocks m)) 0 m"

text \<open>At most 8192 steps and one nominal frame of cycles for an audio request.\<close>

definition u64_max :: nat where "u64_max = 2 ^ 64 - 1"

definition audio_frames_available :: "machine \<Rightarrow> nat" where
  "audio_frames_available m = buffered_frames (m_apu m)"

fun run_audio_loop :: "nat \<Rightarrow> (nat \<Rightarrow> host) \<Rightarrow> nat \<Rightarrow> nat \<Rightarrow> nat \<Rightarrow> machine \<Rightarrow> unit outcome" where
  "run_audio_loop 0 hs i target max_cycles m = Some (Inr (), m)"
| "run_audio_loop (Suc n) hs i target max_cycles m =
     (if audio_frames_available m < target \<and> unat (clk_cycles (m_clocks m)) < max_cycles then
        Option.bind (step_instruction (hs i) m) (\<lambda>r.
          case r of (Inl e, m) \<Rightarrow> Some (Inl e, m)
                  | (Inr _, m) \<Rightarrow> run_audio_loop n hs (i + 1) target max_cycles m)
      else Some (Inr (), m))"

definition run_audio_slice :: "(nat \<Rightarrow> host) \<Rightarrow> nat \<Rightarrow> machine \<Rightarrow> nat outcome" where
  "run_audio_slice hs min_additional_frames m =
     (if min_additional_frames = 0 then Some (Inr 0, m)
      else
        let start = audio_frames_available m;
            target = sat_add usize_max start min_additional_frames;
            max_cycles = sat_add u64_max (unat (clk_cycles (m_clocks m)))
                           (ppu_cycles_to_cpu_cycles m FRAME_CYCLES)
        in Option.bind (run_audio_loop 8192 hs 0 target max_cycles m) (\<lambda>r.
             case r of (Inl e, m) \<Rightarrow> Some (Inl e, m)
                     | (Inr _, m) \<Rightarrow> Some (Inr (audio_frames_available m - start), m)))"

record run_slice_result =
  sl_instructions :: nat
  sl_cycles :: nat
  sl_frame_completed :: bool

fun run_slice_loop :: "nat \<Rightarrow> (nat \<Rightarrow> host) \<Rightarrow> nat \<Rightarrow> run_slice_result \<Rightarrow> machine \<Rightarrow> run_slice_result outcome"
where
  "run_slice_loop 0 hs max_cycles r m = Some (Inr r, m)"
| "run_slice_loop (Suc n) hs max_cycles r m =
     (if sl_cycles r < max_cycles then
        Option.bind (step_instruction (hs (sl_instructions r)) m) (\<lambda>s.
          case s of (Inl e, m) \<Rightarrow> Some (Inl e, m)
          | (Inr st, m) \<Rightarrow>
              let r = r\<lparr>sl_instructions := sl_instructions r + 1,
                        sl_cycles := sat_add u32_max (sl_cycles r) (st_cycles st)\<rparr>
              in if st_frame_completed st then Some (Inr (r\<lparr>sl_frame_completed := True\<rparr>), m)
                 else run_slice_loop n hs max_cycles r m)
      else Some (Inr r, m))"

definition run_slice :: "(nat \<Rightarrow> host) \<Rightarrow> nat \<Rightarrow> nat \<Rightarrow> machine \<Rightarrow> run_slice_result outcome" where
  "run_slice hs max_instructions max_cpu_cycles m =
     (let r = \<lparr>sl_instructions = 0, sl_cycles = 0, sl_frame_completed = False\<rparr> in
      if max_instructions = 0 \<or> max_cpu_cycles = 0 then Some (Inr r, m)
      else run_slice_loop max_instructions hs max_cpu_cycles r m)"

end
