(* ===== verification/Step_Same.thy ===== *)
theory Step_Same
  imports Clock_Laws Machine_Step
begin

text \<open>
  Observations do not steer the clocks or the step: two machines that agree up to observations
  stay so through the fast scheduler, so the traced and the fast step have the same outcome.
\<close>

section \<open>The clocks do not look\<close>

lemma same_upd [same_intros]:
  assumes "same m n"
  shows "same (m\<lparr>m_timer := t\<rparr>) (n\<lparr>m_timer := t\<rparr>)" "same (m\<lparr>m_serial := s\<rparr>) (n\<lparr>m_serial := s\<rparr>)"
    "same (m\<lparr>m_ppu := p\<rparr>) (n\<lparr>m_ppu := p\<rparr>)" "same (m\<lparr>m_clocks := c\<rparr>) (n\<lparr>m_clocks := c\<rparr>)"
    "same (m\<lparr>m_apu := a, m_cart := d\<rparr>) (n\<lparr>m_apu := a, m_cart := d\<rparr>)"
    "same (m\<lparr>m_cpu := q\<rparr>) (n\<lparr>m_cpu := q\<rparr>)" "same (m\<lparr>m_stall := i\<rparr>) (n\<lparr>m_stall := i\<rparr>)"
    "same (m\<lparr>m_freeze := j\<rparr>) (n\<lparr>m_freeze := j\<rparr>)"
  using assms by (elim sameE; simp)+

lemma same_count [same_intros]: "same m n \<Longrightarrow> same (count_cycles k m) (count_cycles k n)"
  by (elim sameE) (simp add: count_cycles_def)

lemma same_ports_fast [same_intros]:
  assumes "same m n" shows "same (tick_ports_fast i m) (tick_ports_fast i n)"
  unfolding tick_ports_fast_def Let_def case_prod_unfold same_sel [OF assms]
  by (simp add: same_sel [OF assms]) (intro conjI impI same_intros assms refl)

lemma same_latch [same_intros]: "same m n \<Longrightarrow> same (latch_if_due m) (latch_if_due n)"
  by (elim sameE) (simp add: latch_if_due_def)

lemma same_draw [same_intros]: "same m n \<Longrightarrow> same (draw_if b m) (draw_if b n)"
  by (elim sameE) (simp add: draw_if_def)

lemma same_next_step: "same m n \<Longrightarrow> next_step_ppu m rp = next_step_ppu n rp"
  by (elim sameE) (simp add: next_step_ppu_def Let_def)

lemma same_to_cpu: "same m n \<Longrightarrow> ppu_cycles_to_cpu_cycles m i = ppu_cycles_to_cpu_cycles n i"
  by (elim sameE) simp

lemma same_phase:
  "same m n \<Longrightarrow> same (fst (advance_frame_phase k m)) (fst (advance_frame_phase k n)) \<and>
    snd (advance_frame_phase k m) = snd (advance_frame_phase k n)"
  by (elim sameE) (simp add: advance_frame_phase_def Let_def case_prod_unfold)

lemma same_chunk_fast:
  assumes "same m n"
  shows "same (fst (display_chunk_fast h sc sp m)) (fst (display_chunk_fast h sc sp n)) \<and>
    snd (display_chunk_fast h sc sp m) = snd (display_chunk_fast h sc sp n)"
proof -
  let ?p = "\<lambda>m. tick_ports_fast sc (count_cycles sc m)"
  have p: "same (?p m) (?p n)"
    by (intro same_intros assms)
  let ?a = "\<lambda>m. m\<lparr>m_apu := apu_tick_fast (host_floats h) sp (m_apu (?p n)),
      m_cart := cart_tick (host_now h) sp (m_cart (?p n)), m_ppu := fst (ppu_tick_fast sp (m_ppu (?p n)))\<rparr>"
  let ?r = "snd (ppu_tick_fast sp (m_ppu (?p n)))"
  let ?q = "\<lambda>m. request_if (pr_stat_interrupt ?r) INT_LCD_STAT LcdStat (?a m)"
  have f: "display_chunk_fast h sc sp x = (fst (advance_frame_phase sp (?q (?p x))), ?r, snd (advance_frame_phase sp (?q (?p x))))"
    if "same x n" for x
    by (simp add: display_chunk_fast_def Let_def case_prod_unfold same_sel [OF that])
  show ?thesis
    unfolding f [OF assms] f [OF same_refl]
    using same_phase [of "?q (?p m)" "?q (?p n)" sp] p by (auto intro: same_intros)
qed

lemma same_tick_if:
  "same m n \<Longrightarrow> same (fst (tick_dma_if k (m, tr))) (fst (tick_dma_if k (n, tr))) \<and>
    snd (tick_dma_if k (m, tr)) = snd (tick_dma_if k (n, tr))"
  by (elim sameE) (simp add: tick_dma_if_def)

lemma same_charge:
  "same m n \<Longrightarrow> same (fst (fst (charge_hdma ((m, tr), b)))) (fst (fst (charge_hdma ((n, tr), b)))) \<and>
    snd (fst (charge_hdma ((m, tr), b))) = snd (fst (charge_hdma ((n, tr), b))) \<and>
    snd (charge_hdma ((m, tr), b)) = snd (charge_hdma ((n, tr), b))"
  by (elim sameE, cases b) (simp add: charge_hdma_def Let_def case_prod_unfold)

lemma same_finish [same_intros]: "same m n \<Longrightarrow> same (finish_chunk pr m) (finish_chunk pr n)"
  unfolding finish_chunk_def by (intro same_intros refl)

lemma same_freeze_pass:
  "same m n \<Longrightarrow> same (fst (freeze_pass (m, b))) (fst (freeze_pass (n, b))) \<and>
    snd (freeze_pass (m, b)) = snd (freeze_pass (n, b))"
  by (elim sameE, cases b) (simp add: freeze_pass_def count_cycles_def Let_def)

lemma same_cpu_only:
  "same m n \<Longrightarrow> same (fst (cpu_only_pass_fast k (m, tr))) (fst (cpu_only_pass_fast k (n, tr)))"
  using same_tick_if [of "tick_ports_fast k (count_cycles k m)" "tick_ports_fast k (count_cycles k n)" k tr]
  by (simp add: cpu_only_pass_fast_def same_intros)

lemma same_pass_fast:
  assumes "same m n"
  shows "same (fst (display_pass_fast h (m, b, tr, rc, rp))) (fst (display_pass_fast h (n, b, tr, rc, rp))) \<and>
    snd (display_pass_fast h (m, b, tr, rc, rp)) = snd (display_pass_fast h (n, b, tr, rc, rp))"
proof -
  note l = same_latch [OF assms]
  let ?sp = "next_step_ppu (latch_if_due n) rp"
  let ?sc = "min (ppu_cycles_to_cpu_cycles (latch_if_due n) ?sp) rc"
  obtain c pr d where c: "display_chunk_fast h ?sc ?sp (latch_if_due n) = (c, pr, d)"
    by (metis prod_cases3)
  obtain c' where c': "display_chunk_fast h ?sc ?sp (latch_if_due m) = (c', pr, d)" "same c' c"
    using same_chunk_fast [OF l, of h ?sc ?sp] c by (metis fst_conv snd_conv prod.collapse)
  obtain e etr where e: "tick_dma_if ?sc (c, tr) = (e, etr)"
    by fastforce
  obtain e' where e': "tick_dma_if ?sc (c', tr) = (e', etr)" "same e' e"
    using same_tick_if [OF c'(2), of ?sc tr] e by (metis fst_conv snd_conv prod.collapse)
  obtain f ftr rc' rp' where f: "charge_hdma ((e, etr), rc, rp) = ((f, ftr), rc', rp')"
    by (metis prod.collapse)
  obtain f' where f': "charge_hdma ((e', etr), rc, rp) = ((f', ftr), rc', rp')" "same f' f"
    using same_charge [OF e'(2), of etr "(rc, rp)"] f by (metis fst_conv snd_conv prod.collapse)
  have steps: "next_step_ppu (latch_if_due m) rp = ?sp"
    "ppu_cycles_to_cpu_cycles (latch_if_due m) k = ppu_cycles_to_cpu_cycles (latch_if_due n) k" for k
    using same_next_step [OF l] same_to_cpu [OF l] by simp_all
  show ?thesis
    unfolding display_pass_fast_def Let_def prod.case steps c c' e e'(1) fst_conv same_sel(2) [OF e'(2)] f f'(1)
    using f'(2) e'(2) by (auto intro: same_finish)
qed

lemmas loop_fast_induct = clock_loop_fast.raw_induct [rotated, consumes 1, case_names pass]

lemma same_loop_fast:
  "clock_loop_fast h s = Some r \<Longrightarrow>
     \<forall>n. same (fst s) n \<longrightarrow> (\<exists>n'. clock_loop_fast h (n, snd s) = Some (n', snd r) \<and> same (fst r) n')"
proof (induction rule: loop_fast_induct)
  case (pass loop h s r)
  obtain m b tr rc rp where s: "s = (m, b, tr, rc, rp)"
    by (metis prod_cases5)
  show ?case
  proof (intro allI impI)
    fix n
    assume "same (fst s) n"
    then have n: "same m n"
      by (simp add: s)
    note step = pass(2) [unfolded s prod.case]
    consider "rc = 0" | "0 < rc" "0 < m_freeze m" | "0 < rc" "m_freeze m = 0" "rp = 0" | "0 < rc" "m_freeze m = 0" "0 < rp"
      by blast
    then show "\<exists>n'. clock_loop_fast h (n, snd s) = Some (n', snd r) \<and> same (fst r) n'"
    proof cases
      case 1
      then show ?thesis
        using step n by (auto simp: clock_loop_fast.simps [of h] s)
    next
      case 2
      obtain m1 rc1 rp1 where f: "freeze_pass (m, rc, rp) = (m1, rc1, rp1)"
        by (metis prod_cases3)
      then obtain n1 where g: "freeze_pass (n, rc, rp) = (n1, rc1, rp1)" "same m1 n1"
        using same_freeze_pass [OF n, of "(rc, rp)"] by (metis fst_conv snd_conv prod.collapse)
      have "loop h (m1, b, tr, rc1, rp1) = Some r"
        using step 2 by (simp add: f)
      from pass(1) [OF this] g(2) show ?thesis
        using 2 same_sel(18) [OF n] by (auto simp: clock_loop_fast.simps [of h "(n, _)"] s g(1))
    next
      case 3
      then show ?thesis
        using step same_cpu_only [OF n, of rc tr] same_sel(18) [OF n] by (auto simp: clock_loop_fast.simps [of h] s)
    next
      case 4
      obtain m1 t1 where f: "display_pass_fast h (m, b, tr, rc, rp) = (m1, t1)"
        by (cases "display_pass_fast h (m, b, tr, rc, rp)")
      then obtain n1 where g: "display_pass_fast h (n, b, tr, rc, rp) = (n1, t1)" "same m1 n1"
        using same_pass_fast [OF n, of h b tr rc rp] by (metis fst_conv snd_conv prod.collapse)
      have "loop h (m1, t1) = Some r"
        using step 4 by (simp add: f)
      from pass(1) [OF this] g(2) show ?thesis
        using 4 same_sel(18) [OF n] by (auto simp: clock_loop_fast.simps [of h "(n, _)"] s g(1))
    qed
  qed
qed

section \<open>The step does not look\<close>

lemma same_service:
  assumes "same m n"
  shows "fst (service_interrupt h m) = fst (service_interrupt h n) \<and>
    same (snd (service_interrupt h m)) (snd (service_interrupt h n))"
proof -
  have push: "same x y \<Longrightarrow> same (snd (run_state (push16 h w) x)) (snd (run_state (push16 h w) y))" for x y w
    using unseen.obeys_operands(4) [of h w] by (simp add: obeys_def)
  have end_upd: "same x y \<Longrightarrow> same (x\<lparr>m_cpu := (m_cpu x)\<lparr>r_pc := w\<rparr>, m_vector := v\<rparr>)
      (y\<lparr>m_cpu := (m_cpu y)\<lparr>r_pc := w\<rparr>, m_vector := v\<rparr>)" for x y w v
    by (elim sameE) simp
  have start: "same (m\<lparr>m_cpu := q, m_interrupt := i\<rparr>) (n\<lparr>m_cpu := q, m_interrupt := i\<rparr>)" for q i
    using assms by (elim sameE) simp
  show ?thesis
    using assms
    by (auto simp: service_interrupt_def same_sel [OF assms] Let_def intro!: end_upd push start split: option.split)
qed

lemma same_wake_up [same_intros]: "same m n \<Longrightarrow> same (wake_up m) (wake_up n)"
  by (elim sameE) (simp add: wake_up_def)

lemma obeys_fetch_execute: "obeys same (fetch_execute h)"
  unfolding fetch_execute_def
  by (intro obeys_bind unseen.obeys_prims unseen.obeys_put unseen.obeys_execute)
    (simp add: keeps_clean_def cpu_ok_def advance_pc_def)

lemma same_step_work:
  assumes "same m n"
  shows "fst (step_work h m) = fst (step_work h n) \<and> same (snd (step_work h m)) (snd (step_work h n))"
proof -
  have exec: "same x y \<Longrightarrow> fst (run_state (fetch_execute h) x) = fst (run_state (fetch_execute h) y) \<and>
      same (snd (run_state (fetch_execute h) x)) (snd (run_state (fetch_execute h) y))" for x y
    using obeys_fetch_execute [of h] by (simp add: obeys_def)
  show ?thesis
    using assms same_wake_up [OF assms] same_service [OF same_wake_up [OF assms], of h] exec [OF assms]
      exec [OF same_wake_up [OF assms]] same_sel(1) [OF same_wake_up [OF assms]]
    by (auto simp: step_work_def same_sel [OF assms] case_prod_unfold Let_def split: sum.split)
qed

lemma same_note_blocked: "same (note_blocked m) m"
  by (simp add: note_blocked_def)

section \<open>The step keeps the invariant\<close>

lemma machine_ok_wake [simp]: "machine_ok (wake_up m) = machine_ok m"
  by (simp add: wake_up_def machine_ok_def) (simp add: cpu_ok_def)

lemma machine_ok_note [simp]: "machine_ok (note_blocked m) = machine_ok m"
  by (simp add: note_blocked_def)

lemma machine_ok_service: "machine_ok m \<Longrightarrow> machine_ok (snd (service_interrupt h m))"
proof -
  assume m: "machine_ok m"
  have ime: "cpu_ok ((m_cpu m)\<lparr>cpu_ime := False\<rparr>)"
    using machine_okD(1) [OF m] by (simp add: cpu_ok_def)
  have push: "machine_ok x \<Longrightarrow> machine_ok (snd (run_state (push16 h w) x))" for x w
    by (rule machine_ok_exec [OF sound.obeys_operands(4)])
  have pc: "machine_ok x \<Longrightarrow> machine_ok (x\<lparr>m_cpu := (m_cpu x)\<lparr>r_pc := v\<rparr>\<rparr>)" for x v
    using machine_okD(1) [of x] by (intro machine_ok_put) (auto simp: cpu_ok_def)
  show ?thesis
    using m by (auto simp: service_interrupt_def Let_def intro!: pc push machine_ok_put ime split: option.split)
qed

lemma machine_ok_step_work: "machine_ok m \<Longrightarrow> machine_ok (snd (step_work h m))"
proof -
  assume m: "machine_ok m"
  have "obeys both_ok (fetch_execute h)"
    unfolding fetch_execute_def
    by (intro obeys_bind sound.obeys_prims sound.obeys_put sound.obeys_execute)
      (simp add: keeps_clean_def cpu_ok_def advance_pc_def)
  then have exec: "machine_ok x \<Longrightarrow> machine_ok (snd (run_state (fetch_execute h) x))" for x
    by (rule machine_ok_exec)
  show ?thesis
    using m machine_ok_service [of "wake_up m" h] exec
    by (auto simp: step_work_def case_prod_unfold Let_def split: sum.split)
qed

lemma machine_ok_commit: "machine_ok m \<Longrightarrow> machine_ok (commit_ime_enable_delay m)"
  using machine_okD(1) [of m]
  by (auto simp: commit_ime_enable_delay_def Let_def cpu_ok_def intro!: machine_ok_put)

lemma machine_ok_take [simp]: "machine_ok (take_traces m) = machine_ok m"
  "machine_ok (clear_pending_traces m) = machine_ok m"
  by (simp_all add: take_traces_def clear_pending_traces_def machine_ok_def)

section \<open>Both steps finish alike\<close>

lemma same_commit: "same m n \<Longrightarrow> same (commit_ime_enable_delay m) (commit_ime_enable_delay n)"
  by (elim sameE) (simp add: commit_ime_enable_delay_def Let_def)

lemma finish_steps:
  assumes "machine_ok m" "same m n"
  shows "\<exists>r m' n'. finish_step h cycles m = Some (r, m') \<and> finish_step_fast h cycles n = Some n' \<and>
    same m' n' \<and> machine_ok m'"
proof -
  let ?total = "sat_add u32_max cycles (m_stall m)"
  let ?ppu = "cpu_cycles_to_ppu_cycles m ?total"
  have stall: "machine_ok (m\<lparr>m_stall := 0\<rparr>)" "same (m\<lparr>m_stall := 0\<rparr>) (n\<lparr>m_stall := 0\<rparr>)"
    using assms by (auto intro: machine_ok_put same_upd)
  obtain m1 r1 where t: "advance_clocks h ?total ?ppu (m\<lparr>m_stall := 0\<rparr>) = Some (m1, r1)" "machine_ok m1"
    and f: "clock_loop_fast h (m\<lparr>m_stall := 0\<rparr>, False, [], ?total, ?ppu) = Some (m1, cr_frame_completed r1)"
    using clock_loops [OF stall(1), of h clock_result_none ?total ?ppu]
    by (auto simp: advance_clocks_def clock_result_none_def)
  obtain n1 where g: "clock_loop_fast h (n\<lparr>m_stall := 0\<rparr>, False, [], ?total, ?ppu) = Some (n1, cr_frame_completed r1)"
    "same m1 n1"
    using same_loop_fast [OF f] stall(2) by auto
  have views: "cpu_cycles_to_ppu_cycles (x\<lparr>m_stall := 0\<rparr>) i = cpu_cycles_to_ppu_cycles x i"
    "cpu_cycles_to_ppu_cycles n i = cpu_cycles_to_ppu_cycles m i" for x i
    using same_sel(13,16) [OF assms(2)]
    by (simp_all add: cpu_cycles_to_ppu_cycles_def cgb_fast_domains_enabled_def)
  have "same (take_traces m1) (clear_pending_traces n1)"
    using g(2) by (simp add: take_traces_def clear_pending_traces_def)
  then show ?thesis
    using t g by (simp add: finish_step_def finish_step_fast_def advance_clocks_fast_def views Let_def
        same_sel(15) [OF assms(2)] same_commit machine_ok_commit)
qed

lemma steps_agree_same:
  assumes "machine_ok m" "same m n"
  shows "\<exists>r m' r' n'. step_instruction h m = Some (r, m') \<and> step_instruction_fast h n = Some (r', n') \<and>
    map_sum id (\<lambda>_. ()) r = r' \<and> same m' n' \<and> machine_ok m'"
proof -
  obtain w m1 where w: "step_work h (note_blocked m) = (w, m1)"
    by fastforce
  have "same (note_blocked m) n"
    using same_trans [OF same_note_blocked assms(2)] .
  then obtain n1 where n1: "step_work h n = (w, n1)" "same m1 n1"
    using same_step_work [of "note_blocked m" n h] w by (metis fst_conv snd_conv prod.collapse)
  have m1: "machine_ok m1"
    using machine_ok_step_work [of "note_blocked m" h] assms w by simp
  show ?thesis
  proof (cases w)
    case (Inl e)
    then show ?thesis
      using w n1 m1 by (simp add: step_instruction_def step_instruction_fast_def)
  next
    case (Inr cycles)
    then show ?thesis
      using w n1(1) finish_steps [OF m1 n1(2), of h cycles]
      by (auto simp: step_instruction_def step_instruction_fast_def)
  qed
qed

lemmas steps_agree = steps_agree_same [OF _ same_refl]

end
