(* ===== verification/Save_State.thy ===== *)
theory Save_State
  imports Machine_Step
begin

text \<open>
  Save states: \<^verbatim>\<open>state.rs\<close> and \<open>save_state\<close>/\<open>load_state\<close> of \<^verbatim>\<open>lib.rs\<close>. The byte
  encoding is the bincode library and the decoding of the title the standard library's lossy
  UTF-8; both are the record \<open>codec\<close>. Which fields an encoded state keeps is decided by the
  attributes of the source and is the function \<open>stored\<close>.
\<close>

definition CURRENT_VERSION :: nat where "CURRENT_VERSION = 7"
definition FILE_MAGIC :: "u8 list" where "FILE_MAGIC = [0x4B, 0x51, 0x53, 0x31]"

record machine_state =
  s_version :: nat
  s_cpu :: cpu
  s_ppu :: ppu
  s_timer :: timer
  s_apu :: apu
  s_interrupt :: interrupt_state
  s_joypad :: joypad
  s_dma :: dma_state
  s_serial :: serial
  s_cart :: cartridge
  s_mem :: memory
  s_clocks :: clock_state
  s_mode :: hardware_mode
  s_double :: bool
  s_armed :: bool
  s_freeze :: nat

record file_header_data =
  fh_magic :: "u8 list"
  fh_version :: nat
  fh_title :: string
  fh_rom_size :: u32
  fh_rom_checksum :: u32

record state_file =
  sf_header :: file_header_data
  sf_state :: machine_state

record codec =
  co_title :: "u8 list \<Rightarrow> string"
  co_encode :: "state_file \<Rightarrow> core_error + u8 list"
  co_decode :: "u8 list \<Rightarrow> core_error + state_file"

definition from_machine :: "machine \<Rightarrow> machine_state" where
  "from_machine m =
     \<lparr>s_version = CURRENT_VERSION, s_cpu = m_cpu m, s_ppu = m_ppu m, s_timer = m_timer m,
      s_apu = m_apu m, s_interrupt = m_interrupt m, s_joypad = m_joypad m, s_dma = m_dma m,
      s_serial = m_serial m, s_cart = m_cart m, s_mem = m_mem m, s_clocks = m_clocks m,
      s_mode = m_mode m, s_double = m_double m, s_armed = m_armed m, s_freeze = m_freeze m\<rparr>"

definition apply_to :: "machine_state \<Rightarrow> machine \<Rightarrow> machine" where
  "apply_to s m =
     restore_ppu
       (m\<lparr>m_cpu := s_cpu s, m_ppu := s_ppu s, m_timer := s_timer s, m_apu := s_apu s,
          m_interrupt := s_interrupt s, m_joypad := s_joypad s, m_dma := s_dma s,
          m_serial := s_serial s, m_cart := s_cart s, m_mem := s_mem s, m_clocks := s_clocks s,
          m_mode := s_mode s, m_double := s_double s, m_armed := s_armed s, m_freeze := s_freeze s,
          m_vector := None\<rparr>)"

definition save_state :: "machine \<Rightarrow> machine_state" where
  "save_state m = from_machine (sync_cgb_memory (sync_apu_memory (sync_core_memory m)))"

definition load_state :: "machine_state \<Rightarrow> machine \<Rightarrow> machine" where
  "load_state s m =
     (let m = apply_to s m;
          m = m\<lparr>m_apu := set_cgb_mode (m_mode m = Cgb) (m_apu m)\<rparr>;
          m = draw_visible (restore_ppu m);
          m = clear_pending_traces (sync_cgb_memory (sync_apu_memory m))
      in m\<lparr>m_stall := 0\<rparr>)"

section \<open>Identity of the ROM\<close>

definition checksum_bytes :: "u8 list \<Rightarrow> u32" where
  "checksum_bytes rom = fold (\<lambda>b acc. (acc * 16777619) XOR ucast b) rom 0"

definition rom_checksum :: "machine_state \<Rightarrow> u32" where
  "rom_checksum s = checksum_bytes (cart_rom (s_cart s))"

definition file_header :: "codec \<Rightarrow> machine_state \<Rightarrow> file_header_data" where
  "file_header c s =
     \<lparr>fh_magic = FILE_MAGIC, fh_version = CURRENT_VERSION,
      fh_title = co_title c (hdr_title_bytes (cart_header (s_cart s))),
      fh_rom_size = of_nat (length (cart_rom (s_cart s))), fh_rom_checksum = rom_checksum s\<rparr>"

section \<open>Validation\<close>

definition hex_digits :: "nat \<Rightarrow> nat \<Rightarrow> string" where
  "hex_digits width n = map (\<lambda>k. hex_digit (n div 16 ^ k mod 16)) (rev [0..<width])"

text \<open>The description of a ROM in the mismatch messages.\<close>

definition rom_label :: "string \<Rightarrow> u32 \<Rightarrow> u32 \<Rightarrow> string" where
  "rom_label title len cs =
     CHR 0x27 # title @ CHR 0x27 # '' size='' @ decimal (unat len) @ '' checksum=0x'' @ hex_digits 8 (unat cs)"

definition state_validate :: "machine_state \<Rightarrow> core_error + unit" where
  "state_validate s =
     (if s_version s \<noteq> CURRENT_VERSION then
        Inl (InvalidState (''unsupported state version '' @ decimal (s_version s) @ '' (expected '' @
          decimal CURRENT_VERSION @ '')''))
      else if length (ppu_framebuffer (s_ppu s)) \<noteq> FRAMEBUFFER_LEN then
        Inl (InvalidState ''framebuffer size mismatch'')
      else Inr ())"

definition validate_header_against_machine :: "codec \<Rightarrow> machine_state \<Rightarrow> machine \<Rightarrow> core_error + unit" where
  "validate_header_against_machine c s m =
     (let expected_title = co_title c (hdr_title_bytes (cart_header (m_cart m)));
          expected_size = of_nat (length (cart_rom (m_cart m))) :: u32;
          expected_checksum = checksum_bytes (cart_rom (m_cart m));
          actual_title = co_title c (hdr_title_bytes (cart_header (s_cart s)));
          actual_size = of_nat (length (cart_rom (s_cart s))) :: u32;
          actual_checksum = rom_checksum s
      in if actual_title \<noteq> expected_title \<or> actual_size \<noteq> expected_size \<or> actual_checksum \<noteq> expected_checksum
         then Inl (InvalidState (''state ROM mismatch: state='' @ rom_label actual_title actual_size actual_checksum @
                '', machine='' @ rom_label expected_title expected_size expected_checksum))
         else Inr ())"

definition file_validate :: "codec \<Rightarrow> state_file \<Rightarrow> core_error + unit" where
  "file_validate c f =
     (let hd = sf_header f; s = sf_state f in
      if fh_magic hd \<noteq> FILE_MAGIC then
        Inl (InvalidState (''invalid state magic '' @ concat (map (\<lambda>b. hex_digits 2 (unat b)) (fh_magic hd))))
      else if fh_version hd \<noteq> CURRENT_VERSION then
        Inl (InvalidState (''unsupported file header version '' @ decimal (fh_version hd) @ '' (expected '' @
          decimal CURRENT_VERSION @ '')''))
      else
        let state_title = co_title c (hdr_title_bytes (cart_header (s_cart s)));
            state_size = of_nat (length (cart_rom (s_cart s)));
            state_checksum = rom_checksum s
        in if fh_title hd \<noteq> state_title \<or> fh_rom_size hd \<noteq> state_size \<or> fh_rom_checksum hd \<noteq> state_checksum
           then Inl (InvalidState (''state header mismatch: header='' @
                  rom_label (fh_title hd) (fh_rom_size hd) (fh_rom_checksum hd) @
                  '', state='' @ rom_label state_title state_size state_checksum))
           else Inr ())"

section \<open>Bytes\<close>

definition to_bytes :: "codec \<Rightarrow> machine_state \<Rightarrow> core_error + u8 list" where
  "to_bytes c s = co_encode c \<lparr>sf_header = file_header c s, sf_state = s\<rparr>"

definition check_file :: "codec \<Rightarrow> state_file \<Rightarrow> core_error + machine_state" where
  "check_file c f =
     (case file_validate c f of
        Inl e \<Rightarrow> Inl e
      | Inr _ \<Rightarrow>
          (case state_validate (sf_state f) of
             Inl e \<Rightarrow> Inl e
           | Inr _ \<Rightarrow> Inr (sf_state f)))"

definition from_bytes :: "codec \<Rightarrow> u8 list \<Rightarrow> core_error + machine_state" where
  "from_bytes c bytes =
     (case co_decode c bytes of
        Inl e \<Rightarrow> Inl e
      | Inr f \<Rightarrow> check_file c f)"

text \<open>The fields that the attributes of the source leave out of an encoded state.\<close>

definition stored_cpu :: "cpu \<Rightarrow> cpu" where
  "stored_cpu c = c\<lparr>cpu_ime_delay := 0, cpu_halt_bug := False\<rparr>"

definition stored_dma :: "dma_state \<Rightarrow> dma_state" where
  "stored_dma d = d\<lparr>dma_bytes_copied := 0, dma_cycle_accum := 0, dma_start_delay := 0\<rparr>"

definition stored_ppu :: "ppu \<Rightarrow> ppu" where
  "stored_ppu p =
     p\<lparr>ppu_color_framebuffer := replicate FRAMEBUFFER_LEN 0, ppu_bg_color_ids := replicate FRAMEBUFFER_LEN 0,
       ppu_bg_priority_flags := replicate FRAMEBUFFER_LEN 0, ppu_scanline_sprites := [],
       ppu_stat_line := False, ppu_sprite_penalty := 0\<rparr>"

definition stored_apu :: "float_ops \<Rightarrow> apu \<Rightarrow> apu" where
  "stored_apu fo a = a\<lparr>apu_pcm_lpf_left := f_lit fo 0 0, apu_pcm_lpf_right := f_lit fo 0 0\<rparr>"

definition stored :: "float_ops \<Rightarrow> machine_state \<Rightarrow> machine_state" where
  "stored fo s =
     s\<lparr>s_cpu := stored_cpu (s_cpu s), s_dma := stored_dma (s_dma s), s_ppu := stored_ppu (s_ppu s),
       s_apu := stored_apu fo (s_apu s)\<rparr>"

end
