(* ===== verification/Machine_Reach.thy ===== *)
theory Machine_Reach
  imports Step_Same Save_State
begin

text \<open>
  The machines a host can reach through the public operations of the core, and that every one of
  them satisfies the invariant.
\<close>

section \<open>Power-on and loading a ROM\<close>

lemma apu_ok_default: "apu_ok (apu_default fo)"
proof -
  have "clockwork_ok (apu_default fo)"
    by (simp add: clockwork_ok_def timers_ok_def queue_ok_def apu_default_def
        buffered_frames_def apu_period_defs DEFAULT_APU_PCM_BUFFER_CAPACITY_FRAMES_def)
  then show ?thesis
    by (simp add: apu_ok_def channels_ok_default)
qed

lemma apu_ok_cgb_mode [simp]: "apu_ok (set_cgb_mode c a) = apu_ok a"
proof -
  have "clockwork (a\<lparr>apu_cgb_mode := c\<rparr>) = clockwork a"
    by simp
  then have "clockwork_ok (a\<lparr>apu_cgb_mode := c\<rparr>) = clockwork_ok a"
    using clockwork_ok_frame by metis
  then show ?thesis
    by (simp add: set_cgb_mode_def apu_ok_def)
qed

lemma apu_ok_boot: "apu_ok a \<Longrightarrow> apu_ok (apu_initialize_post_boot_state fo mode a)"
proof -
  assume a: "apu_ok a"
  have "clockwork_ok (apu_initialize_post_boot_state fo mode a)"
    unfolding apu_initialize_post_boot_state_def Let_def
    using a by (intro clockwork_ok_cleared [of a]) (simp_all add: apu_ok_def upd_ch_def)
  with a show ?thesis
    by (simp add: apu_ok_def channels_ok_boot)
qed

lemma ppu_ok_default: "ppu_ok ppu_default"
proof -
  have "planes_ok ppu_default"
    unfolding planes_ok_def by (simp add: ppu_default_def)
  then show ?thesis
    by (simp add: ppu_ok_def) (simp add: ppu_default_def scan_defs)
qed

lemma cpu_ok_default: "cpu_ok cpu_default"
  by (simp add: cpu_ok_def cpu_default_def flags_clean_def)

lemma dma_ok_default: "dma_ok dma_default"
  by (simp add: dma_ok_def dma_default_def)

lemma clocks_ok_default: "clocks_ok clock_default"
  by (simp add: clocks_ok_def clock_default_def FRAME_CYCLES_def scan_defs)

lemmas device_defaults = apu_ok_default ppu_ok_default cpu_ok_default dma_ok_default clocks_ok_default
  memory_ok_power_on

lemma machine_new_devices [simp]:
  "m_cpu (machine_new h) = cpu_default" "m_ppu (machine_new h) = ppu_default"
  "m_dma (machine_new h) = dma_default" "m_apu (machine_new h) = apu_default (host_floats h)"
  "m_mem (machine_new h) = memory_power_on" "m_clocks (machine_new h) = clock_default"
  "m_stall (machine_new h) = 0" "m_freeze (machine_new h) = 0"
  by (simp_all add: machine_new_def)

lemma machine_ok_new: "machine_ok (machine_new h)"
  by (simp add: machine_ok_def device_defaults)

lemma reset_devices_fields [simp]:
  "m_cpu (reset_devices h c mode m) = cpu_default" "m_ppu (reset_devices h c mode m) = ppu_default"
  "m_dma (reset_devices h c mode m) = dma_default"
  "m_apu (reset_devices h c mode m) = set_cgb_mode (mode = Cgb) (apu_default (host_floats h))"
  "m_mem (reset_devices h c mode m) = memory_power_on" "m_clocks (reset_devices h c mode m) = clock_default"
  "m_stall (reset_devices h c mode m) = m_stall m" "m_freeze (reset_devices h c mode m) = 0"
  by (simp_all add: reset_devices_def)

lemma machine_ok_reset: "machine_ok m \<Longrightarrow> machine_ok (reset_devices h c mode m)"
  by (simp add: machine_ok_def device_defaults)

lemma machine_ok_post_boot:
  assumes "machine_ok m"
  shows "machine_ok (post_boot_dmg m)" "machine_ok (post_boot_cgb m)"
proof -
  have c: "cpu_ok ((m_cpu m)\<lparr>r_a := a, r_f := f, r_b := b, r_c := c, r_d := d, r_e := e, r_h := hh, r_l := l,
      r_sp := sp, r_pc := pc, cpu_ime := i, cpu_ime_delay := 0, cpu_halted := ha, cpu_halt_bug := hb, cpu_stopped := st\<rparr>)"
    if "flags_clean f" for a f b c d e hh l sp pc i ha hb st
    using that by (simp add: cpu_ok_def)
  have f: "flags_clean 0xB0" "flags_clean 0x80"
    by (simp_all add: flags_clean_def)
  note p = machine_okD(2) [OF assms]
  have "dma_ok ((m_dma m)\<lparr>dma_ff46 := 0\<rparr>)"
    using machine_okD(3) [OF assms] by (simp add: dma_ok_def)
  then show "machine_ok (post_boot_dmg m)" "machine_ok (post_boot_cgb m)"
    unfolding post_boot_dmg_def post_boot_cgb_def
    using p by (auto intro!: machine_ok_put assms c f machine_ok_free [THEN iffD2])
      (simp_all add: ppu_ok_def planes_ok_def scan_defs)
qed

lemma machine_ok_boot:
  assumes "machine_ok m" shows "machine_ok (initialize_post_boot_state h m)"
  unfolding initialize_post_boot_state_def Let_def
  using machine_ok_post_boot [OF assms]
  by (intro machine_ok_put clocks_ok_phase)
    (auto intro!: machine_ok_put apu_ok_boot machine_okD split: hardware_mode.split)

lemma memory_ok_compat: "memory_ok m \<Longrightarrow> memory_ok (write_compat_color e m)"
  by (simp add: write_compat_color_def memory_ok_palette_ops split: prod.split)

lemma memory_ok_compats: "memory_ok m \<Longrightarrow> memory_ok (fold write_compat_color es m)"
  by (induction es arbitrary: m) (simp_all add: memory_ok_compat)

lemma machine_ok_palettes: "machine_ok m \<Longrightarrow> machine_ok (initialize_cgb_compatibility_palettes m)"
  unfolding initialize_cgb_compatibility_palettes_def Let_def
  by (intro machine_ok_put memory_ok_palette_ops memory_ok_compats machine_okD) simp_all

lemma machine_ok_restore: "machine_ok m \<Longrightarrow> machine_ok (restore_ppu m)"
  by (simp add: restore_ppu_def machine_ok_put ppu_ok_restore machine_okD)

lemma machine_ok_draw_visible: "machine_ok m \<Longrightarrow> machine_ok (draw_visible m)"
  using drawn_ok [OF drawn_visible] by (simp add: draw_visible_def machine_ok_put machine_okD)

lemma machine_ok_load_rom: "machine_ok m \<Longrightarrow> machine_ok (snd (load_rom_with_mode h rom f m))"
  unfolding load_rom_with_mode_def Let_def
  by (auto split: sum.split intro!: machine_ok_put machine_ok_syncs machine_ok_draw_visible machine_ok_restore
      machine_ok_palettes machine_ok_boot machine_ok_reset)

section \<open>Links, buttons and save states\<close>

lemma machine_ok_link:
  assumes "machine_ok m" "machine_ok n" "exchange_serial_with_peer m n = (m', n', r)"
  shows "machine_ok m'" "machine_ok n'"
proof -
  have pokes: "machine_ok (fst (request_serial (sync_serial_memory x)))" if "machine_ok x" for x
    using that by (simp add: request_serial_def sync_serial_memory_def Let_def machine_ok_poke)
  have "m' \<in> {m\<lparr>m_serial := s\<rparr>, fst (request_serial (sync_serial_memory (m\<lparr>m_serial := s\<rparr>)))}"
    "n' \<in> {n\<lparr>m_serial := t\<rparr>, fst (request_serial (sync_serial_memory (n\<lparr>m_serial := t\<rparr>)))}"
    if "exchange_with_peer (m_serial m) (m_serial n) = (s, t, x)" for s t x
    using assms(3) that
    by (auto simp: exchange_serial_with_peer_def Let_def case_prod_unfold split: option.splits)
  then show "machine_ok m'" "machine_ok n'"
    using assms(1,2) pokes by (metis insertE machine_ok_free(4) prod_cases3 singletonD)+
qed

lemma machine_ok_external: "machine_ok m \<Longrightarrow> machine_ok (fst (clock_external_serial_byte b m))"
  by (auto simp: clock_external_serial_byte_def request_serial_def sync_serial_memory_def Let_def case_prod_unfold
      intro!: machine_ok_poke split: option.split)

lemma machine_ok_buttons [simp]: "machine_ok (set_joypad_mask k m) = machine_ok m"
  by (simp add: set_joypad_mask_def case_prod_unfold Let_def)

lemma ppu_ok_stored: "ppu_ok p \<Longrightarrow> ppu_ok (stored_ppu p)"
  by (simp add: ppu_ok_def stored_ppu_def planes_ok_def)

lemma apu_ok_stored: "apu_ok a \<Longrightarrow> apu_ok (stored_apu fo a)"
  using clockwork_ok_frame [of "stored_apu fo a" a]
  by (simp add: apu_ok_def stored_apu_def)

lemma machine_ok_load:
  assumes k: "machine_ok k" and m: "machine_ok m"
  shows "machine_ok (load_state (stored fo (save_state k)) m)"
proof -
  define x where "x = sync_cgb_memory (sync_apu_memory (sync_core_memory k))"
  have x: "machine_ok x"
    unfolding x_def by (intro machine_ok_syncs k)
  let ?s = "stored fo (from_machine x)"
  note ok = machine_okD [OF x]
  have parts: "cpu_ok (s_cpu ?s)" "ppu_ok (s_ppu ?s)" "dma_ok (s_dma ?s)" "apu_ok (s_apu ?s)"
    "memory_ok (s_mem ?s)" "clocks_ok (s_clocks ?s)" "s_freeze ?s \<le> u32_max"
    using ok by (simp_all add: stored_def from_machine_def ppu_ok_stored apu_ok_stored)
      (simp_all add: cpu_ok_def stored_cpu_def dma_ok_def stored_dma_def)
  have "machine_ok (apply_to ?s m)"
    unfolding apply_to_def using parts machine_okD(7) [OF m]
    by (intro machine_ok_restore) (simp add: machine_ok_def)
  then show ?thesis
    unfolding load_state_def save_state_def Let_def x_def [symmetric]
    by (intro machine_ok_put)
      (auto intro!: machine_ok_syncs machine_ok_draw_visible machine_ok_restore machine_ok_put machine_okD)
qed

lemma machine_ok_same: "same m n \<Longrightarrow> machine_ok m = machine_ok n"
  by (elim sameE) (simp add: machine_ok_def)

lemma apu_ok_drain: "apu_ok a \<Longrightarrow> apu_ok (snd (drain_interleaved_i16 k a))"
  by (auto simp: apu_ok_def drain_interleaved_i16_def Let_def clockwork_ok_def timers_ok_def queue_ok_def
      buffered_frames_def)

section \<open>Reachable machines\<close>

text \<open>The public operations; a loaded state is what a reachable machine's saved bytes hold.\<close>

inductive machine_reachable :: "machine \<Rightarrow> bool" where
  new: "machine_reachable (machine_new h)"
| rom: "machine_reachable m \<Longrightarrow> machine_reachable (snd (load_rom_with_mode h rom f m))"
| step: "machine_reachable m \<Longrightarrow> step_instruction h m = Some (r, m') \<Longrightarrow> machine_reachable m'"
| step_fast: "machine_reachable m \<Longrightarrow> step_instruction_fast h m = Some (u, m') \<Longrightarrow> machine_reachable m'"
| bus_read: "machine_reachable m \<Longrightarrow> machine_reachable (snd (read8 a m))"
| bus_write: "machine_reachable m \<Longrightarrow> machine_reachable (write8 h a v m)"
| buttons: "machine_reachable m \<Longrightarrow> machine_reachable (set_joypad_mask k m)"
| attach: "machine_reachable m \<Longrightarrow> machine_reachable (set_serial_link_attached b m)"
| link: "machine_reachable m \<Longrightarrow> machine_reachable n \<Longrightarrow> exchange_serial_with_peer m n = (m', n', l) \<Longrightarrow>
    machine_reachable m'"
| linked: "machine_reachable m \<Longrightarrow> machine_reachable n \<Longrightarrow> exchange_serial_with_peer m n = (m', n', l) \<Longrightarrow>
    machine_reachable n'"
| clocked: "machine_reachable m \<Longrightarrow> machine_reachable (fst (clock_external_serial_byte b m))"
| drained: "machine_reachable m \<Longrightarrow> machine_reachable (m\<lparr>m_apu := snd (drain_interleaved_i16 k (m_apu m))\<rparr>)"
| battery: "machine_reachable m \<Longrightarrow>
    machine_reachable (m\<lparr>m_cart := fst (load_battery_save_bytes bytes (m_cart m))\<rparr>)"
| loaded: "machine_reachable m \<Longrightarrow> machine_reachable k \<Longrightarrow>
    machine_reachable (load_state (stored fo (save_state k)) m)"

lemma reachable_ok: "machine_reachable m \<Longrightarrow> machine_ok m"
proof (induction rule: machine_reachable.induct)
  case (step m h r m')
  then show ?case
    using steps_agree [of m h] by auto
next
  case (step_fast m h u m')
  then show ?case
    using steps_agree [of m h] machine_ok_same by auto
next
  case (link m n m' n' l)
  then show ?case
    using machine_ok_link(1) by blast
next
  case (linked m n m' n' l)
  then show ?case
    using machine_ok_link(2) by blast
next
  case (drained m k)
  then show ?case
    by (intro machine_ok_put apu_ok_drain machine_okD)
qed (simp_all add: machine_ok_new machine_ok_load_rom machine_ok_read8 machine_ok_write8 machine_ok_external
    machine_ok_load set_serial_link_attached_def)

end
