(* ===== verification/Opcode_Laws.thy ===== *)
theory Opcode_Laws
  imports Exec_Relation
begin

text \<open>
  What instruction execution returns: a walk over the opcode table gives, for every opcode, the
  error for the bytes that are not instructions and a cycle count within bounds for the others.
\<close>

definition ILLEGAL_OPCODES :: "u8 list" where
  "ILLEGAL_OPCODES = [0xD3, 0xDB, 0xDD, 0xE3, 0xE4, 0xEB, 0xEC, 0xED, 0xFC, 0xFD]"

definition in_time :: "core_error + nat \<Rightarrow> bool" where
  "in_time r \<longleftrightarrow> (case r of Inl _ \<Rightarrow> False | Inr n \<Rightarrow> 4 \<le> n \<and> n \<le> 24 \<and> n mod 4 = 0)"

definition yields :: "('a \<Rightarrow> bool) \<Rightarrow> 'a exec \<Rightarrow> bool" where
  "yields P f \<longleftrightarrow> (\<forall>m. P (fst (run_state f m)))"

lemma yields_bind: "(\<And>x. yields P (g x)) \<Longrightarrow> yields P (State_Monad.bind f g)"
  by (simp add: yields_def case_prod_unfold)

lemma yields_bind_from: "yields Q f \<Longrightarrow> (\<And>x. Q x \<Longrightarrow> yields P (g x)) \<Longrightarrow> yields P (State_Monad.bind f g)"
  by (simp add: yields_def case_prod_unfold)

lemma yields_return: "yields P (State_Monad.return x) \<longleftrightarrow> P x"
  by (simp add: yields_def)

lemma yields_took [simp]: "yields in_time (took n) \<longleftrightarrow> 4 \<le> n \<and> n \<le> 24 \<and> n mod 4 = 0"
  by (simp add: took_def yields_return in_time_def)

lemma yields_if: "(b \<Longrightarrow> yields P f) \<Longrightarrow> (\<not> b \<Longrightarrow> yields P g) \<Longrightarrow> yields P (if b then f else g)"
  by simp

lemma yields_cb: "yields (\<lambda>n. n \<in> {8, 12, 16}) (execute_cb_opcode h op)"
  unfolding execute_cb_opcode_def Let_def
  by (intro yields_if yields_bind yields_return [THEN iffD2]) simp_all

lemma yields_shapes [simp]:
  "yields in_time (exec_ld_r_r h op)" "yields in_time (exec_alu op)" "yields in_time exec_halt"
  "yields in_time exec_stop" "yields in_time (jr_if c)" "yields in_time (ret_if c)" "yields in_time (jp_if c)"
  "yields in_time (call_if h c)" "yields in_time (rst h a)" "yields in_time (exec_modify_hl h f)"
  unfolding exec_ld_r_r_def exec_alu_def exec_halt_def exec_stop_def jr_if_def ret_if_def jp_if_def
    call_if_def rst_def exec_modify_hl_def Let_def
  by (intro yields_bind yields_if; simp)+

lemma yields_cb_arm [simp]:
  "yields in_time (State_Monad.bind fetch (\<lambda>cb. State_Monad.bind (execute_cb_opcode h cb) took))"
  by (intro yields_bind yields_bind_from [OF yields_cb]) (auto simp: in_time_def)

text \<open>The opcodes of a row.\<close>

lemma byte_row:
  assumes "of_nat (16 * k) \<le> op" "op \<le> of_nat (16 * k + 15)" "k < 16"
  shows "\<exists>i<16. op = (of_nat (16 * k + i) :: u8)"
proof (intro exI conjI)
  have lo: "16 * k \<le> unat op" "unat op \<le> 16 * k + 15"
    using assms by (simp_all add: word_le_nat_alt unat_of_nat del: of_nat_add of_nat_mult)
  then show "unat op - 16 * k < 16"
    by simp
  have "16 * k + (unat op - 16 * k) = unat op"
    using lo by simp
  then show "op = of_nat (16 * k + (unat op - 16 * k))"
    by (simp del: of_nat_add of_nat_mult)
qed

lemma sixteen: "i < 16 \<Longrightarrow> i \<in> set (upt 0 16)"
  by simp

definition arm_ok :: "u8 \<Rightarrow> (core_error + nat) exec \<Rightarrow> bool" where
  "arm_ok op f \<longleftrightarrow> (op \<in> set ILLEGAL_OPCODES \<longrightarrow> f = unsupported op) \<and>
     (op \<notin> set ILLEGAL_OPCODES \<longrightarrow> yields in_time f)"

lemma row_00: "i < 16 \<Longrightarrow> arm_ok (of_nat (16 * 0 + i)) (exec_00 h (of_nat (16 * 0 + i)))"
  by (drule sixteen, simp add: upt_rec, elim disjE;
    simp add: arm_ok_def ILLEGAL_OPCODES_def exec_00_def; (intro yields_bind)?; simp?)

lemma row_10: "i < 16 \<Longrightarrow> arm_ok (of_nat (16 * 1 + i)) (exec_10 h (of_nat (16 * 1 + i)))"
  by (drule sixteen, simp add: upt_rec, elim disjE;
    simp add: arm_ok_def ILLEGAL_OPCODES_def exec_10_def; (intro yields_bind)?; simp?)

lemma row_20: "i < 16 \<Longrightarrow> arm_ok (of_nat (16 * 2 + i)) (exec_20 h (of_nat (16 * 2 + i)))"
  by (drule sixteen, simp add: upt_rec, elim disjE;
    simp add: arm_ok_def ILLEGAL_OPCODES_def exec_20_def; (intro yields_bind)?; simp?)

lemma row_30: "i < 16 \<Longrightarrow> arm_ok (of_nat (16 * 3 + i)) (exec_30 h (of_nat (16 * 3 + i)))"
  by (drule sixteen, simp add: upt_rec, elim disjE;
    simp add: arm_ok_def ILLEGAL_OPCODES_def exec_30_def; (intro yields_bind)?; simp?)

lemma row_C0: "i < 16 \<Longrightarrow> arm_ok (of_nat (16 * 12 + i)) (exec_C0 h (of_nat (16 * 12 + i)))"
  by (drule sixteen, simp add: upt_rec, elim disjE;
    simp add: arm_ok_def ILLEGAL_OPCODES_def exec_C0_def; (intro yields_bind)?; simp?)

lemma row_D0: "i < 16 \<Longrightarrow> arm_ok (of_nat (16 * 13 + i)) (exec_D0 h (of_nat (16 * 13 + i)))"
  by (drule sixteen, simp add: upt_rec, elim disjE;
    simp add: arm_ok_def ILLEGAL_OPCODES_def exec_D0_def; (intro yields_bind)?; simp?)

lemma row_E0: "i < 16 \<Longrightarrow> arm_ok (of_nat (16 * 14 + i)) (exec_E0 h (of_nat (16 * 14 + i)))"
  by (drule sixteen, simp add: upt_rec, elim disjE;
    simp add: arm_ok_def ILLEGAL_OPCODES_def exec_E0_def; (intro yields_bind)?; simp?)

lemma row_F0: "i < 16 \<Longrightarrow> arm_ok (of_nat (16 * 15 + i)) (exec_F0 h (of_nat (16 * 15 + i)))"
  by (drule sixteen, simp add: upt_rec, elim disjE;
    simp add: arm_ok_def ILLEGAL_OPCODES_def exec_F0_def; (intro yields_bind)?; simp?)

text \<open>The whole table.\<close>

lemma dispatch:
  "0x00 \<le> op \<Longrightarrow> op \<le> 0x0F \<Longrightarrow> execute_opcode h op = exec_00 h op"
  "0x10 \<le> op \<Longrightarrow> op \<le> 0x1F \<Longrightarrow> execute_opcode h op = exec_10 h op"
  "0x20 \<le> op \<Longrightarrow> op \<le> 0x2F \<Longrightarrow> execute_opcode h op = exec_20 h op"
  "0x30 \<le> op \<Longrightarrow> op \<le> 0x3F \<Longrightarrow> execute_opcode h op = exec_30 h op"
  "0xC0 \<le> op \<Longrightarrow> op \<le> 0xCF \<Longrightarrow> execute_opcode h op = exec_C0 h op"
  "0xD0 \<le> op \<Longrightarrow> op \<le> 0xDF \<Longrightarrow> execute_opcode h op = exec_D0 h op"
  "0xE0 \<le> op \<Longrightarrow> op \<le> 0xEF \<Longrightarrow> execute_opcode h op = exec_E0 h op"
  "0xF0 \<le> op \<Longrightarrow> op \<le> 0xFF \<Longrightarrow> execute_opcode h op = exec_F0 h op"
  by (simp_all add: execute_opcode_def word_le_nat_alt word_unat_eq_iff)

lemma row_split:
  fixes op :: u8
  shows "0x40 \<le> op \<and> op \<le> 0x7F \<and> op \<noteq> 0x76 \<or> 0x80 \<le> op \<and> op \<le> 0xBF \<or> op = 0x76 \<or>
    0x00 \<le> op \<and> op \<le> 0x0F \<or>
    0x10 \<le> op \<and> op \<le> 0x1F \<or>
    0x20 \<le> op \<and> op \<le> 0x2F \<or>
    0x30 \<le> op \<and> op \<le> 0x3F \<or>
    0xC0 \<le> op \<and> op \<le> 0xCF \<or>
    0xD0 \<le> op \<and> op \<le> 0xDF \<or>
    0xE0 \<le> op \<and> op \<le> 0xEF \<or>
    0xF0 \<le> op \<and> op \<le> 0xFF"
proof -
  have split: "64 \<le> n \<and> n \<le> 127 \<and> n \<noteq> 118 \<or> 128 \<le> n \<and> n \<le> 191 \<or> n = 118 \<or>
      0 \<le> n \<and> n \<le> 15 \<or> 16 \<le> n \<and> n \<le> 31 \<or> 32 \<le> n \<and> n \<le> 47 \<or> 48 \<le> n \<and> n \<le> 63 \<or> 192 \<le> n \<and> n \<le> 207 \<or> 208 \<le> n \<and> n \<le> 223 \<or> 224 \<le> n \<and> n \<le> 239 \<or> 240 \<le> n \<and> n \<le> 255" if "n < 256" for n :: nat
    using that by linarith
  show ?thesis
    using split [OF unsigned_less [of op, simplified]] by (simp add: word_le_nat_alt word_unat_eq_iff)
qed

lemma arm_in_row:
  assumes "of_nat (16 * k) \<le> op" "op \<le> of_nat (16 * k + 15)" "k < 16"
    "\<And>i. i < 16 \<Longrightarrow> arm_ok (of_nat (16 * k + i)) (f (of_nat (16 * k + i)))"
  shows "arm_ok op (f op)"
  using byte_row [OF assms(1-3)] assms(4) by auto

lemma opcode_table: "arm_ok op (execute_opcode h op)"
proof -
  have matrix: ?thesis if "0x40 \<le> op \<and> op \<le> 0x7F \<and> op \<noteq> 0x76 \<or> 0x80 \<le> op \<and> op \<le> 0xBF \<or> op = 0x76"
  proof -
    have "op \<notin> set ILLEGAL_OPCODES"
      using that by (auto simp: ILLEGAL_OPCODES_def)
    moreover have "yields in_time (execute_opcode h op)"
      using that by (auto simp: execute_opcode_def)
    ultimately show ?thesis
      by (simp add: arm_ok_def)
  qed
  have r00: ?thesis if "0x00 \<le> op \<and> op \<le> 0x0F"
    using that arm_in_row [of 0 op "exec_00 h"] row_00 [of _ h] by (simp add: dispatch(1))
  have r10: ?thesis if "0x10 \<le> op \<and> op \<le> 0x1F"
    using that arm_in_row [of 1 op "exec_10 h"] row_10 [of _ h] by (simp add: dispatch(2))
  have r20: ?thesis if "0x20 \<le> op \<and> op \<le> 0x2F"
    using that arm_in_row [of 2 op "exec_20 h"] row_20 [of _ h] by (simp add: dispatch(3))
  have r30: ?thesis if "0x30 \<le> op \<and> op \<le> 0x3F"
    using that arm_in_row [of 3 op "exec_30 h"] row_30 [of _ h] by (simp add: dispatch(4))
  have rC0: ?thesis if "0xC0 \<le> op \<and> op \<le> 0xCF"
    using that arm_in_row [of 12 op "exec_C0 h"] row_C0 [of _ h] by (simp add: dispatch(5))
  have rD0: ?thesis if "0xD0 \<le> op \<and> op \<le> 0xDF"
    using that arm_in_row [of 13 op "exec_D0 h"] row_D0 [of _ h] by (simp add: dispatch(6))
  have rE0: ?thesis if "0xE0 \<le> op \<and> op \<le> 0xEF"
    using that arm_in_row [of 14 op "exec_E0 h"] row_E0 [of _ h] by (simp add: dispatch(7))
  have rF0: ?thesis if "0xF0 \<le> op \<and> op \<le> 0xFF"
    using that arm_in_row [of 15 op "exec_F0 h"] row_F0 [of _ h] by (simp add: dispatch(8))
  show ?thesis
    using row_split [of op] matrix r00 r10 r20 r30 rC0 rD0 rE0 rF0 by blast
qed

end
