(* ===== verification/Step_Time.thy ===== *)
theory Step_Time
  imports Step_Same Opcode_Laws
begin

text \<open>
  The time of a step: execution leaves the clock total and the HBlank stalls recorded so far as
  they are, so all the cycles a step counts pass in its clock loop.
\<close>

section \<open>Execution takes no clock time\<close>

definition ledger :: "machine \<Rightarrow> u64 \<times> nat" where
  "ledger m = (clk_cycles (m_clocks m), stalls (m_dma_trace m))"

lemma ledger_cong: "clk_cycles (m_clocks m) = clk_cycles (m_clocks n) \<Longrightarrow> m_dma_trace m = m_dma_trace n \<Longrightarrow>
    ledger m = ledger n"
  by (simp add: ledger_def)

lemma ledger_puts [simp]:
  "ledger (m\<lparr>m_cpu := x0\<rparr>) = ledger m" "ledger (m\<lparr>m_ppu := x1\<rparr>) = ledger m"
  "ledger (m\<lparr>m_interrupt := x2\<rparr>) = ledger m" "ledger (m\<lparr>m_cart := x3\<rparr>) = ledger m"
  "ledger (m\<lparr>m_mem := x4\<rparr>) = ledger m" "ledger (m\<lparr>m_apu := x5\<rparr>) = ledger m"
  "ledger (m\<lparr>m_vector := x6\<rparr>) = ledger m" "ledger (m\<lparr>m_joypad := x7\<rparr>) = ledger m"
  "ledger (m\<lparr>m_serial := x8\<rparr>) = ledger m" "ledger (m\<lparr>m_stall := x9\<rparr>) = ledger m"
  "ledger (m\<lparr>m_timer := x10\<rparr>) = ledger m"
  "ledger (m\<lparr>m_apu_trace := y1\<rparr>) = ledger m" "ledger (m\<lparr>m_interrupt_trace := y2\<rparr>) = ledger m"
  by (simp_all add: ledger_def)

lemma ledger_ops [simp]:
  "ledger (poke a v m) = ledger m" "ledger (put_dma f m) = ledger m" "ledger (put_ppu g m) = ledger m"
  "ledger (put_timer u m) = ledger m" "ledger (request_if b k src m) = ledger m"
  "ledger (push_io tr1 m) = ledger m" "ledger (push_cgb tr2 m) = ledger m" "ledger (push_mapper tr3 m) = ledger m"
  "ledger (capture_joypad_trace es m) = ledger m" "ledger (diagnose_if b t s a v acc m) = ledger m"
  "ledger (record_diagnostic_event t s a v acc m) = ledger m"
  "ledger (sync_core_memory m) = ledger m" "ledger (sync_apu_memory m) = ledger m"
  "ledger (sync_cgb_memory m) = ledger m" "ledger (sync_hdma_registers m) = ledger m"
  "ledger (write_key1 v m) = ledger m" "ledger (perform_speed_switch m) = ledger m"
  by (simp_all add: ledger_def)

lemma gdma_ledger:
  "clk_cycles (m_clocks (fst (gdma_loop s))) = clk_cycles (m_clocks (fst s)) \<and>
   stalls (snd (gdma_loop s)) = stalls (snd s)"
proof (induction s rule: gdma_loop.induct)
  case (1 s)
  obtain m tr where s: "s = (m, tr)"
    by (cases s)
  show ?case
    using 1 transfer_stalls(2) [of m tr]
    by (subst (1 2) gdma_loop.simps) (simp add: s)
qed

lemma ledger_run_gdma [simp]: "ledger (run_gdma m) = ledger m"
  using gdma_ledger [of "(m\<lparr>m_dma_trace := []\<rparr>, m_dma_trace m @ [GdmaStallEstimate (hdma_blocks (m_dma m))
      (sat_mul u32_max (unat (hdma_blocks (m_dma m))) (hdma_block_stall_cycles m))])"]
  by (simp add: run_gdma_def Let_def case_prod_unfold ledger_def) (simp add: stalls_def)

lemma ledger_push_dma: "stalls tr = 0 \<Longrightarrow> ledger (push_dma tr m) = ledger m"
  by (simp add: ledger_def push_dma_def)

lemma ledger_hdma [simp]: "ledger (arm_hdma v m) = ledger m" "ledger (write_hdma_control v m) = ledger m"
proof -
  show arm: "ledger (arm_hdma v m) = ledger m" for m
    by (simp add: arm_hdma_def Let_def ledger_push_dma stalls_def)
  show "ledger (write_hdma_control v m) = ledger m"
    by (simp add: write_hdma_control_def Let_def arm ledger_push_dma stalls_def)
qed

lemma ledger_ff46 [simp]: "ledger (write_ff46 v m) = ledger m"
  by (simp add: write_ff46_def Let_def ledger_push_dma stalls_def)

lemma ledger_writes [simp]:
  "ledger (write8_mapper h a v m) = ledger m" "ledger (write8_port a v m) = ledger m"
  "ledger (write8_ppu a v m) = ledger m" "ledger (write8_hdma a v m) = ledger m"
  "ledger (write8_cgb a v m) = ledger m" "ledger (write8_apu h a v m) = ledger m"
  subgoal by (simp add: write8_mapper_def Let_def)
  subgoal by (simp add: write8_port_def Let_def case_prod_unfold)
  subgoal by (simp add: write8_ppu_def Let_def case_prod_unfold) (simp add: ledger_def)
  subgoal by (simp add: write8_hdma_def)
  subgoal by (simp add: write8_cgb_def Let_def case_prod_unfold)
  subgoal by (simp add: write8_apu_def Let_def case_prod_unfold)
  done

lemma ledger_write8 [simp]: "ledger (write8 h a v m) = ledger m"
  by (simp add: write8_def)

lemma ledger_read8 [simp]: "ledger (snd (read8 a m)) = ledger m" "ledger (snd (read8_timed a i m)) = ledger m"
  by (simp_all add: read8_def read8_timed_def Let_def split: option.split)

definition billed :: "u64 \<times> nat \<Rightarrow> machine \<Rightarrow> machine \<Rightarrow> bool" where
  "billed c m n \<longleftrightarrow> m = n \<and> ledger m = c"

interpretation free_time: exec_relation h "billed c" for h c
  by unfold_locales (auto simp: billed_def stop_machine_def)

lemma ledger_exec: "(\<And>c. obeys (billed c) f) \<Longrightarrow> ledger (snd (run_state f m)) = ledger m"
  by (simp add: obeys_def billed_def)

lemma ledger_step_work: "ledger (snd (step_work h m)) = ledger m"
proof -
  have push: "ledger (snd (run_state (push16 h w) x)) = ledger x" for w x
    by (rule ledger_exec) (rule free_time.obeys_operands(4))
  have exec: "ledger (snd (run_state (fetch_execute h) x)) = ledger x" for x
    unfolding fetch_execute_def
    by (rule ledger_exec, intro obeys_bind free_time.obeys_prims free_time.obeys_put free_time.obeys_execute)
      (simp add: keeps_clean_def cpu_ok_def advance_pc_def)
  have wake: "ledger (wake_up x) = ledger x" for x
    by (simp add: wake_up_def)
  have service: "ledger (snd (service_interrupt h x)) = ledger x" for x
    by (simp add: service_interrupt_def Let_def push split: option.split)
  show ?thesis
    by (simp add: step_work_def exec service wake Let_def case_prod_unfold split: sum.split)
qed

section \<open>What a step returns\<close>

lemma service_succeeds: "has_pending (m_interrupt m) \<Longrightarrow> \<exists>n. service_interrupt h m = (Inr (), n)"
  by (auto simp: has_pending_highest service_interrupt_def Let_def)

lemma fetch_execute_outcome:
  "case fst (run_state (fetch_execute h) m) of
     Inl e \<Rightarrow> \<exists>op pc. op \<in> set ILLEGAL_OPCODES \<and> e = UnsupportedOpcode op pc
   | Inr n \<Rightarrow> 4 \<le> n \<and> n \<le> 24 \<and> n mod 4 = 0"
proof -
  have arm: "case fst (run_state (execute_opcode h op) x) of
      Inl e \<Rightarrow> \<exists>op pc. op \<in> set ILLEGAL_OPCODES \<and> e = UnsupportedOpcode op pc
    | Inr n \<Rightarrow> 4 \<le> n \<and> n \<le> 24 \<and> n mod 4 = 0" for op x
    using opcode_table [of op h]
    by (cases "op \<in> set ILLEGAL_OPCODES") (auto simp: arm_ok_def yields_def in_time_def unsupported_def split: sum.splits)
  show ?thesis
    using arm by (simp add: fetch_execute_def case_prod_unfold)
qed

lemma step_work_outcome:
  "case fst (step_work h m) of
     Inl e \<Rightarrow> \<exists>op pc. op \<in> set ILLEGAL_OPCODES \<and> e = UnsupportedOpcode op pc
   | Inr n \<Rightarrow> 4 \<le> n \<and> n \<le> 24 \<and> n mod 4 = 0"
proof (cases "has_pending (m_interrupt m) \<and> cpu_ime (m_cpu m)")
  case True
  then have "has_pending (m_interrupt (wake_up m))"
    by (simp add: wake_up_def)
  then show ?thesis
    using service_succeeds [of "wake_up m" h] True by (auto simp: step_work_def)
next
  case False
  then show ?thesis
    using fetch_execute_outcome [of h] by (auto simp: step_work_def Let_def)
qed

lemma step_outcome:
  assumes "machine_ok m"
  shows "\<exists>r m'. step_instruction h m = Some (r, m') \<and> machine_ok m' \<and>
    (case r of
       Inl e \<Rightarrow> \<exists>op pc. op \<in> set ILLEGAL_OPCODES \<and> e = UnsupportedOpcode op pc
     | Inr st \<Rightarrow> 4 \<le> st_cycles st)"
proof -
  obtain w m1 where w: "step_work h (note_blocked m) = (w, m1)"
    by fastforce
  have m1: "machine_ok m1"
    using machine_ok_step_work [of "note_blocked m" h] assms w by simp
  show ?thesis
  proof (cases w)
    case (Inl e)
    then show ?thesis
      using step_work_outcome [of h "note_blocked m"] w m1 by (simp add: step_instruction_def)
  next
    case (Inr n)
    obtain r m' where "finish_step h n m1 = Some (r, m')" "machine_ok m'"
      using finish_steps [OF m1 same_refl, of h n] by auto
    moreover have "4 \<le> st_cycles r"
      using step_work_outcome [of h "note_blocked m"] w Inr calculation(1)
      by (auto simp: finish_step_def Let_def sat_add_def u32_max_def split: option.splits)
    ultimately show ?thesis
      using w Inr by (simp add: step_instruction_def)
  qed
qed

section \<open>What a step costs\<close>

lemma hdma_left_bound: "hdma_left d < 256"
  using unsigned_less [of "hdma_blocks d"] by (simp add: hdma_left_def)

lemma step_time_books:
  assumes ok: "machine_ok m" and step: "step_instruction h m = Some (Inr r, m')"
    and small: "st_cycles r + 16320 \<le> u32_max"
  shows "clk_cycles (m_clocks m') + of_nat (stalls (m_dma_trace m)) =
    clk_cycles (m_clocks m) + of_nat (st_cycles r) + of_nat (stalls (st_dma r))"
proof -
  obtain n m1 where w: "step_work h (note_blocked m) = (Inr n, m1)" and f: "finish_step h n m1 = Some (r, m')"
    using step by (auto simp: step_instruction_def split: prod.splits sum.splits)
  let ?total = "sat_add u32_max n (m_stall m1)"
  let ?m1 = "m1\<lparr>m_stall := 0\<rparr>"
  have m1: "machine_ok ?m1"
    using machine_ok_step_work [of "note_blocked m" h] ok w by (intro machine_ok_put) auto
  have books: "ledger m1 = ledger m"
    using ledger_step_work [of h "note_blocked m"] w by (simp add: note_blocked_def ledger_def split: if_splits)
  obtain m2 c where a: "clock_loop h (?m1, clock_result_none, ?total, cpu_cycles_to_ppu_cycles ?m1 ?total) = Some (m2, c)"
    and r: "st_cycles r = ?total" "st_dma r = m_dma_trace m2 @ cr_dma c"
    and m': "m' = commit_ime_enable_delay (take_traces m2)"
    using f by (auto simp: finish_step_def advance_clocks_def Let_def split: option.splits)
  have "room ?m1 ?total"
    using small hdma_left_bound [of "m_dma m1"] by (simp add: room_def r(1))
  from clock_loop_time [OF m1 this a]
  have "clk_cycles (m_clocks m2) = clk_cycles (m_clocks m1) + of_nat ?total + of_nat (stalls (cr_dma c))"
    "m_dma_trace m2 = m_dma_trace m1"
    by (simp_all add: clock_result_none_def)
  moreover have "m_clocks m' = m_clocks m2"
    by (simp add: m' commit_ime_enable_delay_def take_traces_def Let_def)
  ultimately show ?thesis
    using books by (simp add: r ledger_def algebra_simps)
qed

end
