(* ===== verification/Machine_Runs.thy ===== *)
theory Machine_Runs
  imports Machine_Reach Step_Time
begin

text \<open>
  The run loops: a slice returns within its instruction bound and says why it stopped, and the
  fast frame loop follows the traced one step by step.
\<close>

section \<open>A slice\<close>

lemma slice_loop:
  "machine_ok m \<Longrightarrow> \<exists>x m'. run_slice_loop n hs limit s m = Some (x, m') \<and> machine_ok m' \<and>
     (case x of
        Inl e \<Rightarrow> \<exists>op pc. op \<in> set ILLEGAL_OPCODES \<and> e = UnsupportedOpcode op pc
      | Inr t \<Rightarrow>
          sl_instructions s \<le> sl_instructions t \<and> sl_instructions t \<le> sl_instructions s + n \<and>
          min u32_max (sl_cycles s + 4 * (sl_instructions t - sl_instructions s)) \<le> sl_cycles t \<and>
          (sl_frame_completed t \<or> sl_instructions t = sl_instructions s + n \<or> limit \<le> sl_cycles t))"
proof (induction n arbitrary: s m)
  case (Suc n)
  show ?case
  proof (cases "sl_cycles s < limit")
    case True
    obtain r m1 where step: "step_instruction (hs (sl_instructions s)) m = Some (r, m1)" "machine_ok m1"
      and out: "case r of Inl e \<Rightarrow> \<exists>op pc. op \<in> set ILLEGAL_OPCODES \<and> e = UnsupportedOpcode op pc
        | Inr st \<Rightarrow> 4 \<le> st_cycles st"
      using step_outcome [OF Suc.prems, of "hs (sl_instructions s)"] by blast
    show ?thesis
    proof (cases r)
      case (Inl e)
      then show ?thesis
        using True step out by simp
    next
      case (Inr st)
      let ?s = "s\<lparr>sl_instructions := sl_instructions s + 1, sl_cycles := sat_add u32_max (sl_cycles s) (st_cycles st)\<rparr>"
      have cycles: "min u32_max (sl_cycles s + 4) \<le> sl_cycles ?s"
        using out Inr by (auto simp: sat_add_def)
      show ?thesis
      proof (cases "st_frame_completed st")
        case True
        then show ?thesis
          using Inr step cycles \<open>sl_cycles s < limit\<close> by simp
      next
        case False
        obtain x m' where x: "run_slice_loop n hs limit ?s m1 = Some (x, m')" "machine_ok m'"
          and t: "case x of Inl e \<Rightarrow> \<exists>op pc. op \<in> set ILLEGAL_OPCODES \<and> e = UnsupportedOpcode op pc
            | Inr t \<Rightarrow> sl_instructions ?s \<le> sl_instructions t \<and> sl_instructions t \<le> sl_instructions ?s + n \<and>
                min u32_max (sl_cycles ?s + 4 * (sl_instructions t - sl_instructions ?s)) \<le> sl_cycles t \<and>
                (sl_frame_completed t \<or> sl_instructions t = sl_instructions ?s + n \<or> limit \<le> sl_cycles t)"
          using Suc.IH [OF step(2), of ?s] by blast
        have "run_slice_loop (Suc n) hs limit s m = Some (x, m')"
          using False Inr step True x(1) by (simp add: Let_def)
        moreover have "case x of Inl e \<Rightarrow> \<exists>op pc. op \<in> set ILLEGAL_OPCODES \<and> e = UnsupportedOpcode op pc
            | Inr t \<Rightarrow> sl_instructions s \<le> sl_instructions t \<and> sl_instructions t \<le> sl_instructions s + Suc n \<and>
                min u32_max (sl_cycles s + 4 * (sl_instructions t - sl_instructions s)) \<le> sl_cycles t \<and>
                (sl_frame_completed t \<or> sl_instructions t = sl_instructions s + Suc n \<or> limit \<le> sl_cycles t)"
          using t cycles by (auto split: sum.splits)
        ultimately show ?thesis
          using x(2) by blast
      qed
    qed
  qed (use Suc.prems in simp)
qed simp

section \<open>A frame\<close>

lemmas frame_induct = run_frame_loop.raw_induct [rotated, consumes 1, case_names pass]
lemmas frame_fast_induct = run_frame_fast_loop.raw_induct [rotated, consumes 1, case_names pass]

lemma frame_to_fast:
  "run_frame_loop hs start i m = Some r \<Longrightarrow>
     \<forall>n. machine_ok m \<longrightarrow> same m n \<longrightarrow>
       (\<exists>n'. run_frame_fast_loop hs start i n = Some (fst r, n') \<and> same (snd r) n')"
proof (induction rule: frame_induct)
  case (pass loop hs start i m r)
  show ?case
  proof (intro allI impI)
    fix n
    assume ok: "machine_ok m" and n: "same m n"
    obtain x m1 y n1 where steps: "step_instruction (hs i) m = Some (x, m1)" "step_instruction_fast (hs i) n = Some (y, n1)"
      "map_sum id (\<lambda>_. ()) x = y" "same m1 n1" "machine_ok m1"
      using steps_agree_same [OF ok n, of "hs i"] by blast
    show "\<exists>n'. run_frame_fast_loop hs start i n = Some (fst r, n') \<and> same (snd r) n'"
    proof (cases "clk_frames (m_clocks m) = start")
      case True
      then show ?thesis
        using pass(2) pass(1) [of hs start "i + 1" m1 r] steps same_sel(12) [OF n]
        by (cases x) (auto simp: run_frame_fast_loop.simps [of hs start i n])
    next
      case False
      then show ?thesis
        using pass(2) n same_sel(12) [OF n] by (auto simp: run_frame_fast_loop.simps [of hs start i n])
    qed
  qed
qed

lemma fast_to_frame:
  "run_frame_fast_loop hs start i n = Some r \<Longrightarrow>
     \<forall>m. machine_ok m \<longrightarrow> same m n \<longrightarrow> run_frame_loop hs start i m \<noteq> None"
proof (induction rule: frame_fast_induct)
  case (pass loop hs start i n r)
  show ?case
  proof (intro allI impI)
    fix m
    assume ok: "machine_ok m" and n: "same m n"
    obtain x m1 y n1 where steps: "step_instruction (hs i) m = Some (x, m1)" "step_instruction_fast (hs i) n = Some (y, n1)"
      "map_sum id (\<lambda>_. ()) x = y" "same m1 n1" "machine_ok m1"
      using steps_agree_same [OF ok n, of "hs i"] by blast
    show "run_frame_loop hs start i m \<noteq> None"
    proof (cases "clk_frames (m_clocks n) = start")
      case True
      then show ?thesis
        using pass(2) pass(1) [of hs start "i + 1" n1 r] steps same_sel(12) [OF n]
        by (cases x) (auto simp: run_frame_loop.simps [of hs start i m])
    next
      case False
      then show ?thesis
        using same_sel(12) [OF n] by (auto simp: run_frame_loop.simps [of hs start i m])
    qed
  qed
qed

end
