(* ===== verification/Bus_Laws.thy ===== *)
theory Bus_Laws
  imports Machine_Ok
begin

text \<open>
  The machine's bus and its transfer engine: reads only record, blocked accesses change nothing,
  RAM reads back what was written, the stack returns what was pushed, and OAM DMA copies 160
  bytes in 644 cycles however they are delivered.
\<close>

section \<open>RAM and the stack\<close>

definition plain_ram :: "u16 \<Rightarrow> bool" where
  "plain_ram a \<longleftrightarrow> in_range 0xC000 0xDFFF a \<or> in_range 0xFF80 0xFFFE a"

lemma plain_ram_outside:
  assumes "plain_ram a"
  shows "\<not> in_range 0x0000 0x7FFF a" "\<not> in_range 0x8000 0x9FFF a" "\<not> in_range 0xA000 0xBFFF a"
    "\<not> in_range 0xFF00 0xFF02 a" "\<not> in_range 0xFF04 0xFF07 a" "\<not> in_range 0xFF10 0xFF26 a"
    "\<not> in_range 0xFF30 0xFF3F a" "\<not> in_range 0xFF40 0xFF4B a" "\<not> in_range 0xFF51 0xFF55 a"
    "\<not> in_range 0xFF68 0xFF6B a" "\<not> in_range 0xFF76 0xFF77 a" "\<not> in_range 0xFE00 0xFE9F a"
    "a \<noteq> 0xFF00" "a \<noteq> 0xFF01" "a \<noteq> 0xFF02" "a \<noteq> 0xFF04" "a \<noteq> 0xFF05" "a \<noteq> 0xFF06" "a \<noteq> 0xFF07"
    "a \<noteq> 0xFF0F" "a \<noteq> 0xFF4D" "a \<noteq> 0xFF4F" "a \<noteq> 0xFF70" "a \<noteq> 0xFFFF" "\<not> in_range 0xE000 0xFDFF a"
    "\<not> cgb_register_addr a"
  using assms by (auto simp: plain_ram_def in_range_nat u16_eq_nat cgb_register_addr_def)

lemma plain_ram_write:
  "plain_ram a \<Longrightarrow> \<not> dma_blocks_cpu_access m a \<Longrightarrow> write8 h a v m = poke a v m"
  by (simp only: write8_def plain_ram_outside if_False simp_thms)

lemma plain_ram_peek:
  "plain_ram a \<Longrightarrow> \<not> dma_blocks_cpu_access m a \<Longrightarrow> peek8 m a = mem_read8 (m_mem m) a"
  by (simp only: peek8_def plain_ram_outside if_False simp_thms)

lemma plain_ram_read:
  assumes "plain_ram a" "\<not> dma_blocks_cpu_access m a"
  shows "read8 a m = (mem_read8 (m_mem m) a, m)"
  using assms by (simp add: read8_def plain_ram_peek diagnose_if_def plain_ram_outside)

lemma plain_ram_canon: "plain_ram a \<Longrightarrow> canon a = a"
  by (simp add: canon_def plain_ram_outside)

lemma poke_blocks [simp]: "dma_blocks_cpu_access (poke a v m) b = dma_blocks_cpu_access m b"
  "dma_blocks_cpu_access (m\<lparr>m_cpu := c\<rparr>) b = dma_blocks_cpu_access m b"
proof -
  have "m_dma (m\<lparr>m_cpu := c\<rparr>) = m_dma m" "m_mode (m\<lparr>m_cpu := c\<rparr>) = m_mode m"
    by simp_all
  then show "dma_blocks_cpu_access (poke a v m) b = dma_blocks_cpu_access m b"
    "dma_blocks_cpu_access (m\<lparr>m_cpu := c\<rparr>) b = dma_blocks_cpu_access m b"
    by (simp_all only: dma_blocks_cpu_access_def poke_sel)
qed

lemma bytes_of_word: "push_bit 8 (ucast (hi_byte w)) OR ucast (lo_byte w) = (w :: u16)"
  using join_hi_lo [of w] by (simp add: join_bytes_def)

definition stack_ready :: "machine \<Rightarrow> bool" where
  "stack_ready m \<longleftrightarrow> (\<forall>k\<in>{1, 2}. plain_ram (r_sp (m_cpu m) - k) \<and>
     \<not> dma_blocks_cpu_access m (r_sp (m_cpu m) - k))"

definition pushed :: "u16 \<Rightarrow> machine \<Rightarrow> machine" where
  "pushed w m = (let sp = r_sp (m_cpu m) in
     poke (sp - 2) (lo_byte w) (poke (sp - 1) (hi_byte w) (m\<lparr>m_cpu := (m_cpu m)\<lparr>r_sp := sp - 2\<rparr>\<rparr>)))"

lemma poke_cpu: "(poke a v m)\<lparr>m_cpu := c\<rparr> = poke a v (m\<lparr>m_cpu := c\<rparr>)"
  by (rule machine.equality) (simp_all add: poke_def)

lemma push_ready:
  assumes "stack_ready m"
  shows "run_state (push16 h w) m = ((), pushed w m)"
proof -
  have two: "r_sp (m_cpu m) - 1 - 1 = r_sp (m_cpu m) - 2"
    by simp
  show ?thesis
    using assms
    by (simp add: push16_def put_cpu_def get_cpu_def ex_write_def pushed_def stack_ready_def plain_ram_write Let_def
        two poke_cpu)
qed

lemma pop_pushed:
  assumes "stack_ready m" "machine_ok m"
  shows "run_state pop16 (pushed w m) =
    (w, poke (r_sp (m_cpu m) - 2) (lo_byte w) (poke (r_sp (m_cpu m) - 1) (hi_byte w) m))"
proof -
  let ?sp = "r_sp (m_cpu m)"
  note r = assms(1) [unfolded stack_ready_def]
  have ne: "canon (?sp - 1) \<noteq> canon (?sp - 2)"
    using r by (simp add: plain_ram_canon)
  have bank: "bank_regs_ok (m_mem m)" "bank_regs_ok (mem_write8 a v (m_mem m))" for a v
    using machine_okD(5) [OF assms(2)] by (simp_all add: memory_ok_def bank_regs_ok_def)
  show ?thesis
    using r ne
    by (simp add: pop16_def pop_byte_def put_cpu_def get_cpu_def ex_read_def pushed_def plain_ram_read Let_def
        read_write8 [OF bank(1)] read_write8 [OF bank(2)] poke_cpu bytes_of_word)
qed

text \<open>The bus does not write the CPU.\<close>

lemma cpu_gdma: "m_cpu (fst (gdma_loop s)) = m_cpu (fst s)"
proof (induction s rule: gdma_loop.induct)
  case (1 s)
  obtain m tr where s: "s = (m, tr)"
    by (cases s)
  show ?case
    using 1 by (subst gdma_loop.simps) (simp add: s transfer_hdma_block_def Let_def)
qed

lemma cpu_writes [simp]:
  "m_cpu (write8_mapper h a v m) = m_cpu m" "m_cpu (write8_port a v m) = m_cpu m"
  "m_cpu (write8_ppu a v m) = m_cpu m" "m_cpu (write8_hdma a v m) = m_cpu m"
  "m_cpu (write8_cgb a v m) = m_cpu m" "m_cpu (write8_apu h a v m) = m_cpu m"
  subgoal by (simp add: write8_mapper_def Let_def)
  subgoal by (simp add: write8_port_def Let_def case_prod_unfold)
  subgoal by (simp add: write8_ppu_def write_ff46_def Let_def case_prod_unfold)
  subgoal by (simp add: write8_hdma_def write_hdma_control_def run_gdma_def arm_hdma_def cpu_gdma Let_def case_prod_unfold)
  subgoal by (simp add: write8_cgb_def Let_def case_prod_unfold)
  subgoal by (simp add: write8_apu_def Let_def case_prod_unfold)
  done

lemma cpu_write8 [simp]: "m_cpu (write8 h a v m) = m_cpu m"
  by (simp add: write8_def)

lemma cpu_push16: "m_cpu (snd (run_state (push16 h w) m)) = (m_cpu m)\<lparr>r_sp := r_sp (m_cpu m) - 2\<rparr>"
  by (simp add: push16_def put_cpu_def get_cpu_def ex_write_def)

section \<open>Blocked accesses\<close>

text \<open>The owner of an address: while it is another one, the CPU has no access.\<close>

definition cpu_locked_out :: "machine \<Rightarrow> u16 \<Rightarrow> bool" where
  "cpu_locked_out m a \<longleftrightarrow>
     dma_blocks_cpu_access m a \<or>
     in_range 0x8000 0x9FFF a \<and> \<not> can_cpu_access_vram (m_ppu m) \<or>
     in_range 0xFE00 0xFE9F a \<and> (\<not> can_cpu_access_oam (m_ppu m) \<or> dma_active (m_dma m))"

lemma vram_outside:
  assumes "in_range 0x8000 0x9FFF a"
  shows "\<not> in_range 0x0000 0x7FFF a"
  using assms by (auto simp: in_range_nat)

lemma oam_outside:
  assumes "in_range 0xFE00 0xFE9F a"
  shows "\<not> in_range 0x0000 0x7FFF a" "\<not> in_range 0x8000 0x9FFF a" "\<not> in_range 0xA000 0xBFFF a"
    "\<not> in_range 0xFF00 0xFF02 a" "\<not> in_range 0xFF04 0xFF07 a" "\<not> in_range 0xFF10 0xFF26 a"
    "\<not> in_range 0xFF30 0xFF3F a" "\<not> in_range 0xFF40 0xFF4B a" "\<not> in_range 0xFF51 0xFF55 a"
    "\<not> in_range 0xFF68 0xFF6B a" "\<not> in_range 0xFF76 0xFF77 a"
    "a \<noteq> 0xFF00" "a \<noteq> 0xFF01" "a \<noteq> 0xFF02" "a \<noteq> 0xFF04" "a \<noteq> 0xFF05" "a \<noteq> 0xFF06" "a \<noteq> 0xFF07"
    "a \<noteq> 0xFF0F" "a \<noteq> 0xFF4D" "a \<noteq> 0xFF4F" "a \<noteq> 0xFF70" "a \<noteq> 0xFFFF" "\<not> cgb_register_addr a"
  using assms by (auto simp: in_range_nat u16_eq_nat cgb_register_addr_def)

lemma locked_out_write: "cpu_locked_out m a \<Longrightarrow> same (write8 h a v m) m"
  unfolding cpu_locked_out_def
  by (elim disjE conjE; cases "dma_blocks_cpu_access m a")
    (auto simp: write8_def vram_outside oam_outside)

lemma locked_out_read: "cpu_locked_out m a \<Longrightarrow> fst (read8 a m) = 0xFF"
  unfolding cpu_locked_out_def
  by (elim disjE conjE; cases "dma_blocks_cpu_access m a")
    (auto simp: read8_def peek8_def Let_def vram_outside oam_outside)

lemma read_only_records: "same (snd (read8 a m)) m" "same (snd (read8_timed a n m)) m"
  by (simp_all add: read8_def read8_timed_def Let_def split: option.split)

section \<open>OAM DMA\<close>

text \<open>What a transfer from \<open>src\<close> has copied after \<open>k\<close> bytes.\<close>

definition copied_to :: "machine \<Rightarrow> u16 \<Rightarrow> nat \<Rightarrow> machine \<Rightarrow> bool" where
  "copied_to m0 src k m \<longleftrightarrow>
     m_cart m = m_cart m0 \<and> bank_regs_ok (m_mem m) \<and>
     (\<forall>a. mem_read8 (m_mem m) a =
       (if in_range 0xFE00 0xFE9F a \<and> unat a - 0xFE00 < k
        then read8_for_dma m0 (src + of_nat (unat a - 0xFE00)) else mem_read8 (m_mem m0) a))"

lemma copied_to_step:
  assumes "copied_to m0 src k m" "k < 0xA0" "unat src + 0xA0 \<le> 0xFE00"
  shows "copied_to m0 src (Suc k) (poke (0xFE00 + of_nat k) (read8_for_dma m (src + of_nat k)) m)"
proof -
  let ?a = "0xFE00 + of_nat k :: u16"
  have a: "unat ?a = 0xFE00 + k"
    using assms(2) by (simp add: unat_u16_add unat_of_nat)
  have s: "unat (src + of_nat k) = unat src + k"
    using assms(2,3) by (simp add: unat_u16_add unat_of_nat)
  have ca: "canon ?a = ?a"
    using a assms(2) by (simp add: canon_def in_range_nat)
  have cb: "canon b = ?a \<longleftrightarrow> b = ?a" for b
  proof
    assume c: "canon b = ?a"
    have "unat (canon b) \<le> 0xDDFF" if "in_range 0xE000 0xFDFF b"
      using that by (auto simp: canon_def in_range_nat unat_u16_sub word_le_nat_alt)
    with c a have "\<not> in_range 0xE000 0xFDFF b"
      by auto
    with c show "b = ?a"
      by (simp add: canon_def)
  qed (simp add: ca)
  have ab: "b = ?a \<longleftrightarrow> in_range 0xFE00 0xFE9F b \<and> unat b - 0xFE00 = k" for b
    using a assms(2) by (auto simp: u16_eq_nat in_range_nat)
  have bank: "bank_regs_ok (m_mem m)"
    using assms(1) by (simp add: copied_to_def)
  have rd: "mem_read8 (mem_write8 ?a v (m_mem m)) b =
      (if in_range 0xFE00 0xFE9F b \<and> unat b - 0xFE00 = k then v else mem_read8 (m_mem m) b)" for v b
    unfolding ab [symmetric] using read_write8 [OF bank, of ?a v b] cb [of b] ca by metis
  have src: "read8_for_dma m (src + of_nat k) = read8_for_dma m0 (src + of_nat k)"
  proof -
    have "\<not> in_range 0xFE00 0xFE9F (src + of_nat k)"
      using s assms(2,3) by (simp add: in_range_nat)
    then show ?thesis
      using assms(1) unfolding read8_for_dma_def copied_to_def by simp
  qed
  have "bank_regs_ok (mem_write8 ?a v (m_mem m))" for v
    using bank by (simp add: bank_regs_ok_def)
  then show ?thesis
    using assms(1) unfolding copied_to_def by (auto simp: rd src less_Suc_eq)
qed

lemma oam_copy_effect:
  "copied_to m0 src (dma_bytes_copied (m_dma m)) m \<Longrightarrow> dma_source (m_dma m) = src \<Longrightarrow>
   unat src + 0xA0 \<le> 0xFE00 \<Longrightarrow> dma_bytes_copied (m_dma m) \<le> 0xA0 \<Longrightarrow>
   let n = oam_dma_copy m; k = min (dma_cycle_accum (m_dma m) div 4) (0xA0 - dma_bytes_copied (m_dma m)) in
     m_dma n = (m_dma m)\<lparr>dma_bytes_copied := dma_bytes_copied (m_dma m) + k,
       dma_cycle_accum := dma_cycle_accum (m_dma m) - 4 * k\<rparr> \<and>
     copied_to m0 src (dma_bytes_copied (m_dma m) + k) n"
proof (induction m rule: oam_dma_copy.induct)
  case (1 m)
  let ?i = "dma_bytes_copied (m_dma m)" and ?c = "dma_cycle_accum (m_dma m)"
  show ?case
  proof (cases "?c \<ge> 4 \<and> ?i < 0xA0")
    case True
    let ?n = "put_dma (\<lambda>d. d\<lparr>dma_bytes_copied := dma_bytes_copied d + 1, dma_cycle_accum := dma_cycle_accum d - 4\<rparr>)
      (poke (0xFE00 + of_nat ?i) (read8_for_dma m (dma_source (m_dma m) + of_nat ?i)) m)"
    have "copied_to m0 src (Suc ?i) ?n"
      using copied_to_step [OF 1(2) _ 1(4)] True 1(3) by (simp add: copied_to_def)
    moreover have "oam_dma_copy m = oam_dma_copy ?n"
      by (subst oam_dma_copy.simps) (simp add: True Let_def)
    moreover define K where "K = min ((?c - 4) div 4) (159 - ?i)"
    moreover have "min (?c div 4) (0xA0 - ?i) = Suc K"
      using True by (simp add: K_def min_def) linarith
    moreover have "m_dma (oam_dma_copy ?n) = (m_dma m)\<lparr>dma_bytes_copied := Suc ?i + K, dma_cycle_accum := ?c - 4 - 4 * K\<rparr> \<and>
        copied_to m0 src (Suc ?i + K) (oam_dma_copy ?n)"
      using 1(1) [OF True refl refl refl] True calculation(1) 1(3-5) by (simp add: Let_def flip: K_def)
    ultimately show ?thesis
      by (simp only: Let_def) (simp add: algebra_simps)
  next
    case False
    then have "oam_dma_copy m = m"
      by (subst oam_dma_copy.simps) auto
    moreover have "min (?c div 4) (0xA0 - ?i) = 0"
      using False 1(5) by auto
    ultimately show ?thesis
      using 1(2) by (simp add: Let_def)
  qed
qed

text \<open>The transfer \<open>t\<close> cycles after its start: a start delay of four cycles, then four cycles a byte.\<close>

definition transfer_at :: "machine \<Rightarrow> u16 \<Rightarrow> nat \<Rightarrow> machine \<Rightarrow> bool" where
  "transfer_at m0 src t m \<longleftrightarrow>
     (if t < 644 then
        dma_active (m_dma m) \<and> dma_source (m_dma m) = src \<and> dma_start_delay (m_dma m) = 4 - t \<and>
        dma_cycle_accum (m_dma m) = (t - 4) mod 4 \<and> dma_bytes_copied (m_dma m) = (t - 4) div 4 \<and>
        copied_to m0 src ((t - 4) div 4) m
      else \<not> dma_active (m_dma m) \<and> copied_to m0 src 0xA0 m)"

lemma copied_to_put [simp]: "copied_to m0 src k (put_dma f m) = copied_to m0 src k m"
  by (simp add: copied_to_def)

lemma transfer_tick:
  assumes at: "transfer_at m0 src t m" and n: "n \<le> 252" and src: "unat src + 0xA0 \<le> 0xFE00"
  shows "transfer_at m0 src (t + n) (fst (tick_dma n (m, tr))) \<and>
    snd (tick_dma n (m, tr)) = tr @ (if t < 644 \<and> 644 \<le> t + n then [OamDmaComplete src 0xA0] else [])"
proof -
  consider (over) "644 \<le> t" | (delay) "t < 4" "t + n \<le> 4" | (copy) "t < 644" "4 < t + n \<or> 4 \<le> t"
    by linarith
  then show ?thesis
  proof cases
    case over
    then show ?thesis
      using at by (simp add: transfer_at_def tick_dma_def)
  next
    case delay
    then have "dma_active (m_dma m)" "dma_start_delay (m_dma m) = 4 - t" "n - min n (4 - t) = 0" "0 < 4 - t"
      "4 - t - min n (4 - t) = 4 - (t + n)"
      using at by (auto simp: transfer_at_def)
    then have "tick_dma n (m, tr) = (put_dma (\<lambda>d. d\<lparr>dma_start_delay := 4 - (t + n)\<rparr>) m, tr)"
      by (simp add: tick_dma_def Let_def)
    then show ?thesis
      using at delay by (simp add: transfer_at_def)
  next
    case copy
    let ?rem = "n - min n (4 - t)"
    have d: "dma_active (m_dma m)" "dma_start_delay (m_dma m) = 4 - t" "dma_source (m_dma m) = src"
      "dma_cycle_accum (m_dma m) = (t - 4) mod 4" "dma_bytes_copied (m_dma m) = (t - 4) div 4"
      "copied_to m0 src ((t - 4) div 4) m"
      using at copy(1) by (simp_all add: transfer_at_def)
    define A where "A = (t - 4) mod 4 + ?rem"
    have A: "t + n - 4 = 4 * ((t - 4) div 4) + A" "A \<le> 255"
      using copy n mult_div_mod_eq [of 4 "t - 4"] mod_less_divisor [of 4 "t - 4"] by (auto simp: A_def min_def)
    define x where "x = put_dma (\<lambda>d. d\<lparr>dma_cycle_accum := A\<rparr>) (put_dma (\<lambda>d. d\<lparr>dma_start_delay := 0\<rparr>) m)"
    have go: "\<not> (0 < 4 - t \<and> ?rem = 0)" "4 - t - min n (4 - t) = 0"
      using copy by auto
    have accum: "sat_add u8_max ((t - 4) mod 4) (?rem mod 256) = A"
      using n A(2) by (simp add: A_def sat_add_def u8_max_def)
    have x: "m_dma x = (m_dma m)\<lparr>dma_start_delay := 0, dma_cycle_accum := A\<rparr>" "copied_to m0 src ((t - 4) div 4) x"
      using d by (simp_all add: x_def)
    define k where "k = min (A div 4) (0xA0 - (t - 4) div 4)"
    have "(t - 4) div 4 \<le> 0xA0"
      using copy(1) by linarith
    then have y: "m_dma (oam_dma_copy x) = (m_dma x)\<lparr>dma_bytes_copied := (t - 4) div 4 + k, dma_cycle_accum := A - 4 * k\<rparr>"
      "copied_to m0 src ((t - 4) div 4 + k) (oam_dma_copy x)"
      using oam_copy_effect [of m0 src x] x d src by (simp_all add: Let_def flip: k_def)
    let ?stop = "\<lambda>y. put_dma (\<lambda>d. d\<lparr>dma_active := False, dma_bytes_copied := 0, dma_cycle_accum := 0,
        dma_start_delay := 0\<rparr>) y"
    have xx: "put_dma (\<lambda>d. d\<lparr>dma_cycle_accum := sat_add u8_max (dma_cycle_accum d) (?rem mod 256)\<rparr>)
        (put_dma (\<lambda>d. d\<lparr>dma_start_delay := 0\<rparr>) m) = x"
      by (simp add: x_def put_dma_def d(4) accum)
    have "tick_dma n (m, tr) =
        (if dma_bytes_copied (m_dma (oam_dma_copy x)) \<ge> 0xA0
         then (?stop (oam_dma_copy x), tr @ [OamDmaComplete (dma_source (m_dma (oam_dma_copy x))) 0xA0])
         else (oam_dma_copy x, tr))"
      unfolding tick_dma_def prod.case Let_def d(2) go(2) xx
      by (simp only: d(1) go(1) not_True_eq_False if_False put_dma_fields)
    then have tick: "tick_dma n (m, tr) =
        (if (t - 4) div 4 + k \<ge> 0xA0 then (?stop (oam_dma_copy x), tr @ [OamDmaComplete src 0xA0])
         else (oam_dma_copy x, tr))"
      by (simp add: y(1) x(1) d(3))
    have T: "(t + n - 4) div 4 = (t - 4) div 4 + A div 4" "(t + n - 4) mod 4 = A mod 4"
      by (simp_all add: A(1))
    have late: "4 \<le> t + n"
      using copy(2) by auto
    show ?thesis
    proof (cases "t + n < 644")
      case True
      then have "A div 4 < 0xA0 - (t - 4) div 4"
        using T(1) by linarith
      then have "k = A div 4"
        by (simp add: k_def)
      moreover have "A - 4 * (A div 4) = A mod 4" "(t - 4) div 4 + A div 4 < 0xA0"
        using True T(1) by (simp_all add: minus_mult_div_eq_mod) 
      ultimately show ?thesis
        using True late copy(1) y x(1) d(1,3) by (simp add: tick transfer_at_def T)
    next
      case False
      then have "0xA0 - (t - 4) div 4 \<le> A div 4"
        using T(1) by linarith
      then have "k = 0xA0 - (t - 4) div 4"
        by (simp add: k_def)
      then have "(t - 4) div 4 + k = 0xA0"
        using \<open>(t - 4) div 4 \<le> 0xA0\<close> by simp
      then show ?thesis
        using False copy(1) y by (simp add: tick transfer_at_def)
    qed
  qed
qed

lemma transfer_ticks:
  "transfer_at m0 src t m \<Longrightarrow> (\<forall>n\<in>set ns. n \<le> 252) \<Longrightarrow> unat src + 0xA0 \<le> 0xFE00 \<Longrightarrow>
     transfer_at m0 src (t + sum_list ns) (fst (fold tick_dma ns (m, tr))) \<and>
     snd (fold tick_dma ns (m, tr)) =
       tr @ (if t < 644 \<and> 644 \<le> t + sum_list ns then [OamDmaComplete src 0xA0] else [])"
proof (induction ns arbitrary: t m tr)
  case (Cons n ns)
  obtain m1 tr1 where t1: "tick_dma n (m, tr) = (m1, tr1)"
    by fastforce
  have "transfer_at m0 src (t + n) m1"
    "tr1 = tr @ (if t < 644 \<and> 644 \<le> t + n then [OamDmaComplete src 0xA0] else [])"
    using transfer_tick [OF Cons.prems(1) _ Cons.prems(3), of n tr] Cons.prems(2) t1 by simp_all
  then show ?case
    using Cons.IH [of "t + n" m1 tr1] Cons.prems t1 by (auto simp: add.assoc)
qed simp

lemma transfer_start:
  assumes "bank_regs_ok (m_mem m)"
  shows "transfer_at (write_ff46 v m) (push_bit 8 (ucast v)) 0 (write_ff46 v m)"
proof -
  have "bank_regs_ok (m_mem (write_ff46 v m))"
    using assms by (simp add: write_ff46_def Let_def bank_regs_ok_def)
  then show ?thesis
    by (simp add: transfer_at_def copied_to_def) (simp add: write_ff46_def Let_def)
qed

end
