(* ===== verification/Save_Laws.thy ===== *)
theory Save_Laws
  imports Machine_Reach
begin

text \<open>
  Loading a ROM forgets the machine it is loaded into, and what a save state carries from one
  machine to another.
\<close>

section \<open>Loading a ROM forgets the past\<close>

text \<open>The fields that \<open>reset_devices\<close> leaves, set as another machine has them.\<close>

definition put_past :: "machine \<Rightarrow> machine \<Rightarrow> machine" where
  "put_past k m = (put_obs k m)\<lparr>m_vector := m_vector k, m_stall := m_stall k\<rparr>"

lemma put_past_sel [simp]:
  "m_cpu (put_past k m) = m_cpu m" "m_ppu (put_past k m) = m_ppu m" "m_timer (put_past k m) = m_timer m"
  "m_interrupt (put_past k m) = m_interrupt m" "m_joypad (put_past k m) = m_joypad m"
  "m_dma (put_past k m) = m_dma m" "m_serial (put_past k m) = m_serial m" "m_link (put_past k m) = m_link m"
  "m_apu (put_past k m) = m_apu m" "m_cart (put_past k m) = m_cart m" "m_mem (put_past k m) = m_mem m"
  "m_clocks (put_past k m) = m_clocks m" "m_mode (put_past k m) = m_mode m" "m_double (put_past k m) = m_double m"
  "m_armed (put_past k m) = m_armed m" "m_freeze (put_past k m) = m_freeze m"
  "m_vector (put_past k m) = m_vector k" "m_stall (put_past k m) = m_stall k"
  by (simp_all add: put_past_def)

lemma put_past_upd [simp]:
  "(put_past k m)\<lparr>m_cpu := x0\<rparr> = put_past k (m\<lparr>m_cpu := x0\<rparr>)"
  "(put_past k m)\<lparr>m_ppu := x1\<rparr> = put_past k (m\<lparr>m_ppu := x1\<rparr>)"
  "(put_past k m)\<lparr>m_timer := x2\<rparr> = put_past k (m\<lparr>m_timer := x2\<rparr>)"
  "(put_past k m)\<lparr>m_interrupt := x3\<rparr> = put_past k (m\<lparr>m_interrupt := x3\<rparr>)"
  "(put_past k m)\<lparr>m_dma := x5\<rparr> = put_past k (m\<lparr>m_dma := x5\<rparr>)"
  "(put_past k m)\<lparr>m_serial := x6\<rparr> = put_past k (m\<lparr>m_serial := x6\<rparr>)"
  "(put_past k m)\<lparr>m_apu := x8\<rparr> = put_past k (m\<lparr>m_apu := x8\<rparr>)"
  "(put_past k m)\<lparr>m_mem := x10\<rparr> = put_past k (m\<lparr>m_mem := x10\<rparr>)"
  "(put_past k m)\<lparr>m_clocks := x11\<rparr> = put_past k (m\<lparr>m_clocks := x11\<rparr>)"
  by (rule machine.equality; simp add: put_past_def)+

lemma put_past_pokes [simp]:
  "poke a v (put_past k m) = put_past k (poke a v m)"
  "fold (\<lambda>(a, v). poke a v) ps (put_past k m) = put_past k (fold (\<lambda>(a, v). poke a v) ps m)"
proof -
  show p: "poke a v (put_past k m) = put_past k (poke a v m)" for a v m
    by (simp add: poke_def)
  show "fold (\<lambda>(a, v). poke a v) ps (put_past k m) = put_past k (fold (\<lambda>(a, v). poke a v) ps m)"
    by (induction ps arbitrary: m) (auto simp: p)
qed

lemma put_past_syncs [simp]:
  "sync_core_memory (put_past k m) = put_past k (sync_core_memory m)"
  "sync_apu_memory (put_past k m) = put_past k (sync_apu_memory m)"
  "sync_cgb_memory (put_past k m) = put_past k (sync_cgb_memory m)"
  "restore_ppu (put_past k m) = put_past k (restore_ppu m)"
  "draw_visible (put_past k m) = put_past k (draw_visible m)"
  "initialize_cgb_compatibility_palettes (put_past k m) = put_past k (initialize_cgb_compatibility_palettes m)"
  "initialize_post_boot_state h (put_past k m) = put_past k (initialize_post_boot_state h m)"
proof -
  have q: "cgb_reg (put_past k m) v = cgb_reg m v" "read_key1 (put_past k m) = read_key1 m"
    "cgb_palette_access_blocked (put_past k m) = cgb_palette_access_blocked m" for m v
    by (simp_all add: cgb_reg_def read_key1_def cgb_palette_access_blocked_def)
  have boot: "post_boot_dmg (put_past k m) = put_past k (post_boot_dmg m)"
    "post_boot_cgb (put_past k m) = put_past k (post_boot_cgb m)" for m
    by (simp_all add: post_boot_dmg_def post_boot_cgb_def)
  show "sync_core_memory (put_past k m) = put_past k (sync_core_memory m)"
    "sync_apu_memory (put_past k m) = put_past k (sync_apu_memory m)"
    "sync_cgb_memory (put_past k m) = put_past k (sync_cgb_memory m)"
    unfolding sync_core_memory_def sync_apu_memory_def sync_cgb_memory_def Let_def put_past_sel q
    by (simp_all only: put_past_pokes put_past_sel q poke_fields)
  show "restore_ppu (put_past k m) = put_past k (restore_ppu m)" "draw_visible (put_past k m) = put_past k (draw_visible m)"
    "initialize_cgb_compatibility_palettes (put_past k m) = put_past k (initialize_cgb_compatibility_palettes m)"
    by (simp_all add: restore_ppu_def draw_visible_def initialize_cgb_compatibility_palettes_def Let_def)
  show "initialize_post_boot_state h (put_past k m) = put_past k (initialize_post_boot_state h m)"
    by (simp add: initialize_post_boot_state_def boot Let_def split: hardware_mode.split)
qed

lemma reset_past: "reset_devices h c mode m = put_past m (reset_devices h c mode n)"
  by (rule machine.equality) (simp_all add: reset_devices_def put_past_def)

definition booted_machine :: "host \<Rightarrow> cartridge \<Rightarrow> hardware_mode \<Rightarrow> machine \<Rightarrow> machine" where
  "booted_machine h c mode m =
     (let m = initialize_post_boot_state h (reset_devices h c mode m);
          m = (if m_mode m = Cgb \<and> \<not> supports_cgb (m_cart m)
               then initialize_cgb_compatibility_palettes m else m)
      in sync_cgb_memory (sync_apu_memory (draw_visible (sync_core_memory (restore_ppu m)))))"

definition fresh :: "machine \<Rightarrow> machine" where
  "fresh m =
     (let m = (clear_pending_traces m)\<lparr>m_vector := None, m_stall := 0, m_freeze := 0\<rparr>
      in push_cgb [ModeSelected (m_mode m = Cgb) (cgb_only (m_cart m))] m)"

lemma load_rom_cases:
  "load_rom_with_mode h rom f m =
     (case cart_from_rom (host_now h) rom of
        Inl e \<Rightarrow> (Inl e, m)
      | Inr c \<Rightarrow>
          (case select_mode f c of
             Inl e \<Rightarrow> (Inl e, m)
           | Inr mode \<Rightarrow> (Inr (), fresh (booted_machine h c mode m))))"
  by (simp add: load_rom_with_mode_def booted_machine_def fresh_def Let_def split: sum.split)

lemma booted_past: "booted_machine h c mode m = put_past m (booted_machine h c mode n)"
  by (subst booted_machine_def, subst reset_past [of h c mode m n]) (simp add: booted_machine_def Let_def)

lemma same_fresh: "same (fresh (put_past k m)) (fresh m)"
proof -
  have "(clear_pending_traces (put_past k m))\<lparr>m_vector := None, m_stall := 0, m_freeze := 0\<rparr> =
      put_obs (clear_pending_traces k) ((clear_pending_traces m)\<lparr>m_vector := None, m_stall := 0, m_freeze := 0\<rparr>)"
    by (rule machine.equality) (simp_all add: clear_pending_traces_def put_past_def)
  then show ?thesis
    by (simp add: fresh_def Let_def)
qed

lemma load_rom_forgets:
  "fst (load_rom_with_mode h rom f m) = fst (load_rom_with_mode h rom f n) \<and>
   (fst (load_rom_with_mode h rom f m) = Inr () \<longrightarrow>
      same (snd (load_rom_with_mode h rom f m)) (snd (load_rom_with_mode h rom f n)))"
  using same_fresh [of m "booted_machine h c mode n" for c mode] booted_past [of h _ _ m n]
  by (auto simp: load_rom_cases split: sum.split)

lemma booted_fields:
  "m_mode (booted_machine h c mode m) = mode" "m_cart (booted_machine h c mode m) = c"
  "r_pc (m_cpu (booted_machine h c mode m)) = 0x100" "r_sp (m_cpu (booted_machine h c mode m)) = 0xFFFE"
  "cpu_ime (m_cpu (booted_machine h c mode m)) = False" "cpu_halted (m_cpu (booted_machine h c mode m)) = False"
  by (cases mode; simp add: booted_machine_def initialize_post_boot_state_def post_boot_dmg_def post_boot_cgb_def
      initialize_cgb_compatibility_palettes_def draw_visible_def restore_ppu_def reset_devices_def Let_def)+

lemma fresh_fields:
  "m_mode (fresh m) = m_mode m" "m_cart (fresh m) = m_cart m" "m_cpu (fresh m) = m_cpu m"
  by (simp_all add: fresh_def clear_pending_traces_def Let_def)

section \<open>Save states\<close>

text \<open>
  The contract of the encoder for a file: it is encoded, and decoding the bytes gives it back with
  the fields of the state that are stored.
\<close>

definition codec_stores :: "codec \<Rightarrow> float_ops \<Rightarrow> state_file \<Rightarrow> bool" where
  "codec_stores c fo f \<longleftrightarrow> (\<exists>bytes. co_encode c f = Inr bytes \<and>
     co_decode c bytes = Inr (f\<lparr>sf_state := stored fo (sf_state f)\<rparr>))"

definition saved_file :: "codec \<Rightarrow> machine \<Rightarrow> state_file" where
  "saved_file c m = \<lparr>sf_header = file_header c (save_state m), sf_state = save_state m\<rparr>"

lemma stored_fields [simp]:
  "s_version (stored fo s) = s_version s" "s_cart (stored fo s) = s_cart s" "s_timer (stored fo s) = s_timer s"
  "s_interrupt (stored fo s) = s_interrupt s" "s_joypad (stored fo s) = s_joypad s"
  "s_serial (stored fo s) = s_serial s" "s_mem (stored fo s) = s_mem s" "s_clocks (stored fo s) = s_clocks s"
  "s_mode (stored fo s) = s_mode s" "s_double (stored fo s) = s_double s" "s_armed (stored fo s) = s_armed s"
  "s_freeze (stored fo s) = s_freeze s" "s_cpu (stored fo s) = stored_cpu (s_cpu s)"
  "s_dma (stored fo s) = stored_dma (s_dma s)" "ppu_framebuffer (s_ppu (stored fo s)) = ppu_framebuffer (s_ppu s)"
  by (simp_all add: stored_def stored_ppu_def)

lemma save_fields [simp]:
  "s_version (save_state m) = CURRENT_VERSION" "s_cart (save_state m) = m_cart m" "s_cpu (save_state m) = m_cpu m"
  "s_timer (save_state m) = m_timer m" "s_interrupt (save_state m) = m_interrupt m"
  "s_joypad (save_state m) = m_joypad m" "s_serial (save_state m) = m_serial m" "s_dma (save_state m) = m_dma m"
  "s_clocks (save_state m) = m_clocks m" "s_mode (save_state m) = m_mode m" "s_double (save_state m) = m_double m"
  "s_armed (save_state m) = m_armed m" "s_freeze (save_state m) = m_freeze m" "s_ppu (save_state m) = m_ppu m"
  "s_apu (save_state m) = m_apu m"
  by (simp_all add: save_state_def from_machine_def)

lemma saved_file_checks:
  assumes "machine_ok m"
  shows "check_file c \<lparr>sf_header = file_header c (save_state m), sf_state = stored fo (save_state m)\<rparr> =
    Inr (stored fo (save_state m))"
  using machine_okD(2) [OF assms]
  by (simp add: check_file_def file_validate_def file_header_def state_validate_def rom_checksum_def ppu_ok_def
      planes_ok_def Let_def)

lemma load_fields:
  "m_cpu (load_state s k) = s_cpu s" "m_timer (load_state s k) = s_timer s" "m_interrupt (load_state s k) = s_interrupt s"
  "m_joypad (load_state s k) = s_joypad s" "m_serial (load_state s k) = s_serial s" "m_cart (load_state s k) = s_cart s"
  "m_clocks (load_state s k) = s_clocks s" "m_mode (load_state s k) = s_mode s" "m_double (load_state s k) = s_double s"
  "m_armed (load_state s k) = s_armed s" "m_freeze (load_state s k) = s_freeze s" "m_dma (load_state s k) = s_dma s"
  by (simp_all add: load_state_def apply_to_def restore_ppu_def draw_visible_def clear_pending_traces_def Let_def)

lemma load_display_any: "m_ppu (load_state s k) = m_ppu (load_state s k')"
  by (simp add: load_state_def apply_to_def restore_ppu_def draw_visible_def clear_pending_traces_def Let_def)

text \<open>
  The display without what a load recomputes: the planes, the latched sprites with their penalty,
  the STAT line and the low bits of STAT.
\<close>

definition kept_display :: "ppu \<Rightarrow> ppu" where
  "kept_display p =
     p\<lparr>ppu_framebuffer := [], ppu_color_framebuffer := [], ppu_bg_color_ids := [], ppu_bg_priority_flags := [],
       ppu_scanline_sprites := [], ppu_sprite_penalty := 0, ppu_stat_line := False,
       ppu_stat := ppu_stat p AND 0xF8\<rparr>"

lemma kept_fold: "(\<And>x p. kept_display (f x p) = kept_display p) \<Longrightarrow> kept_display (fold f xs p) = kept_display p"
  by (induction xs arbitrary: p) simp_all

lemma kept_drawn: "kept_display (render_visible_area_from_memory_with_mode m cgb p) = kept_display p"
proof -
  have bg: "kept_display (put_bg i v p) = kept_display p" for i v p
    by (cases v) (simp add: put_bg_def kept_display_def)
  have column: "kept_display (draw_sprite_column m cgb y s row px p) = kept_display p" for y s row px p
    by (simp add: draw_sprite_column_def kept_display_def Let_def case_prod_unfold)
  have sprite: "kept_display (draw_sprite v0 v1 m y cgb s p) = kept_display p" for v0 v1 y s p
    unfolding draw_sprite_def Let_def by (simp add: kept_fold column)
  have overlay: "kept_display (overlay_sprite_list_on_scanline_with_vram_mode v0 v1 m ss y cgb p) = kept_display p"
    for v0 v1 ss y p
    unfolding overlay_sprite_list_on_scanline_with_vram_mode_def by (rule kept_fold) (simp add: sprite case_prod_unfold)
  have "kept_display (render_scanline_from_vram_with_mode y v0 v1 m cgb w p) = kept_display p" for y v0 v1 w p
    unfolding render_scanline_from_vram_with_mode_def Let_def by (simp add: kept_fold bg)
  then have "kept_display (render_scanline_from_memory_with_mode m y cgb p) = kept_display p" for y p
    unfolding render_scanline_from_memory_with_mode_def overlay_sprites_on_scanline_with_vram_mode_def Let_def
    by (simp add: overlay)
  then show ?thesis
    unfolding render_visible_area_from_memory_with_mode_def by (rule kept_fold)
qed

lemma stat_high: "(w OR 0x04) AND 0xF8 = w AND 0xF8" "(w AND - 5) AND 0xF8 = w AND (0xF8 :: u8)"
  "(w AND - 4 OR mode_bits k) AND 0xF8 = w AND (0xF8 :: u8)"
  subgoal by (simp add: bit.conj_disj_distrib2)
  subgoal by (simp add: and.assoc)
  subgoal by (cases k) (simp_all add: bit.conj_disj_distrib2 and.assoc)
  done

lemma kept_restored: "kept_display (restore_runtime_state m p) = kept_display p"
proof -
  have stat: "kept_display (update_stat q) = kept_display q" for q
    by (simp add: update_stat_def kept_display_def Let_def stat_high)
  have line: "kept_display (fst (refresh_stat_interrupt_line q)) = kept_display q" for q
    using stat [of q] by (simp add: refresh_stat_interrupt_line_def kept_display_def Let_def)
  have latch: "kept_display (refresh_mode3_penalty oam q) = kept_display q" for oam q
    by (simp add: refresh_mode3_penalty_def latch_scanline_state_def kept_display_def Let_def split: prod.split)
  have planes: "kept_display (q\<lparr>ppu_color_framebuffer := c\<rparr>) = kept_display q"
    "kept_display (q\<lparr>ppu_bg_color_ids := i\<rparr>) = kept_display q" "kept_display (q\<lparr>ppu_bg_priority_flags := i\<rparr>) = kept_display q"
    "kept_display (q\<lparr>ppu_stat_line := b\<rparr>) = kept_display q" for q c i b
    by (simp_all add: kept_display_def)
  show ?thesis
    unfolding restore_runtime_state_def Let_def by (simp only: latch line stat planes split: if_split) simp
qed

lemma load_display:
  "kept_display (m_ppu (load_state (stored fo s) k)) = kept_display (s_ppu s)"
proof -
  have "kept_display (stored_ppu p) = kept_display p" for p
    by (simp add: stored_ppu_def kept_display_def)
  then show ?thesis
    by (simp add: load_state_def apply_to_def restore_ppu_def draw_visible_def clear_pending_traces_def Let_def
        kept_drawn kept_restored stored_def)
qed

lemma load_audio:
  "m_apu (load_state (stored fo s) k) = (s_apu s)\<lparr>apu_pcm_lpf_left := f_lit fo 0 0, apu_pcm_lpf_right := f_lit fo 0 0,
     apu_cgb_mode := (s_mode s = Cgb)\<rparr>"
  by (simp add: load_state_def apply_to_def restore_ppu_def draw_visible_def clear_pending_traces_def Let_def
      stored_def stored_apu_def set_cgb_mode_def)

text \<open>Two memories that differ in the mirrors of the registers alone.\<close>

definition beside_mirrors :: "memory \<Rightarrow> memory \<Rightarrow> bool" where
  "beside_mirrors a b \<longleftrightarrow>
     b\<lparr>mem_data := mem_data a\<rparr> = a \<and>
     (\<forall>x. unat x < 0xFF00 \<or> 0xFF80 \<le> unat x \<and> unat x < 0xFFFF \<longrightarrow> mem_data b x = mem_data a x)"

lemma beside_refl: "beside_mirrors a a"
  by (simp add: beside_mirrors_def)

lemma beside_trans: "beside_mirrors a b \<Longrightarrow> beside_mirrors b c \<Longrightarrow> beside_mirrors a c"
  unfolding beside_mirrors_def by (metis memory.surjective memory.update_convs(1))

lemma beside_poke:
  assumes "0xFF00 \<le> unat x" "unat x < 0xFF80 \<or> unat x = 0xFFFF"
  shows "beside_mirrors (m_mem m) (m_mem (poke x v m))"
proof -
  have "mem_write8 x v (m_mem m) = (m_mem m)\<lparr>mem_data := (mem_data (m_mem m))(x := v)\<rparr>"
    using assms(1) by (simp add: mem_write8_def in_range_nat)
  then show ?thesis
    using assms by (auto simp: beside_mirrors_def poke_def)
qed

lemma beside_more:
  assumes "beside_mirrors a (m_mem m)" "0xFF00 \<le> unat x" "unat x < 0xFF80 \<or> unat x = 0xFFFF"
  shows "beside_mirrors a (m_mem (poke x v m))"
  by (rule beside_trans [OF assms(1) beside_poke [OF assms(2,3)]])

lemma beside_pokes:
  "\<forall>(x, v)\<in>set ps. 0xFF00 \<le> unat x \<and> (unat x < 0xFF80 \<or> unat x = 0xFFFF) \<Longrightarrow>
     beside_mirrors (m_mem m) (m_mem (fold (\<lambda>(x, v). poke x v) ps m))"
proof (induction ps arbitrary: m)
  case Nil
  show ?case
    by (simp add: beside_refl)
next
  case (Cons p ps)
  obtain x v where p: "p = (x, v)"
    by (cases p)
  then have x: "0xFF00 \<le> unat x" "unat x < 0xFF80 \<or> unat x = 0xFFFF"
    using Cons.prems by auto
  have "beside_mirrors (m_mem (poke x v m)) (m_mem (fold (\<lambda>(x, v). poke x v) ps (poke x v m)))"
    by (rule Cons.IH) (use Cons.prems in simp)
  then show ?case
    using beside_trans [OF beside_poke [OF x]] by (simp add: p del: poke_fields poke_sel)
qed

lemma beside_syncs:
  "beside_mirrors (m_mem m) (m_mem (sync_core_memory m))"
  "beside_mirrors (m_mem m) (m_mem (sync_apu_memory m))"
  "beside_mirrors (m_mem m) (m_mem (sync_cgb_memory m))"
proof -
  show "beside_mirrors (m_mem m) (m_mem (sync_core_memory m))"
    unfolding sync_core_memory_def by (rule beside_pokes) simp
  have "0xFF00 \<le> unat (0xFF10 + of_nat i :: u16) \<and> unat (0xFF10 + of_nat i :: u16) < 0xFF80"
    "0xFF00 \<le> unat (0xFF30 + of_nat i :: u16) \<and> unat (0xFF30 + of_nat i :: u16) < 0xFF80" if "i < 0x17" for i
    using that by (simp_all add: unat_u16_add unat_of_nat)
  then show "beside_mirrors (m_mem m) (m_mem (sync_apu_memory m))"
    unfolding sync_apu_memory_def Let_def by (intro beside_pokes) auto
  show "beside_mirrors (m_mem m) (m_mem (sync_cgb_memory m))"
    unfolding sync_cgb_memory_def Let_def
    by (intro beside_more beside_refl) simp_all
qed

lemma load_image: "beside_mirrors (m_mem m) (m_mem (load_state (stored fo (save_state m)) k))"
proof -
  let ?s = "save_state m"
  have s: "beside_mirrors (m_mem m) (s_mem ?s)"
    using beside_trans [OF beside_trans [OF beside_syncs(1) beside_syncs(2)] beside_syncs(3)]
    by (simp add: save_state_def from_machine_def)
  define y where "y = draw_visible (restore_ppu ((apply_to (stored fo ?s) k)
      \<lparr>m_apu := set_cgb_mode (m_mode (apply_to (stored fo ?s) k) = Cgb) (m_apu (apply_to (stored fo ?s) k))\<rparr>))"
  have y: "m_mem y = s_mem ?s"
    by (simp add: y_def draw_visible_def restore_ppu_def apply_to_def)
  have "m_mem (load_state (stored fo ?s) k) = m_mem (sync_cgb_memory (sync_apu_memory y))"
    by (simp add: load_state_def clear_pending_traces_def y_def Let_def)
  then show ?thesis
    using beside_trans [OF s [folded y] beside_trans [OF beside_syncs(2) beside_syncs(3)]] by simp
qed

lemma load_rest:
  "m_vector (load_state s k) = None" "m_stall (load_state s k) = 0" "m_link (load_state s k) = m_link k"
  by (simp_all add: load_state_def apply_to_def restore_ppu_def draw_visible_def clear_pending_traces_def Let_def)

end
