(* ===== verification/Machine_Properties.thy ===== *)
theory Machine_Properties
  imports Machine_Runs Bus_Laws Save_Laws
begin

text \<open>
  The properties of the whole machine: its invariant, the termination and the agreement of the
  two steps, the accounting of time, interrupts and the stack, OAM DMA, and save states.
\<close>

text \<open>Machines for the instances below: fresh ones, and one whose stack is in work RAM.\<close>

definition plain_host :: host where
  "plain_host = \<lparr>host_now = 0, host_floats = fixed_ops\<rparr>"

definition power_on :: machine where
  "power_on = machine_new plain_host"

lemma power_on_reachable: "machine_reachable power_on"
  unfolding power_on_def by (rule machine_reachable.new)

lemma power_on_ok: "machine_ok power_on"
  by (simp add: power_on_def machine_ok_new)

definition stack_at :: "u16 \<Rightarrow> interrupt_state \<Rightarrow> machine" where
  "stack_at sp s = power_on\<lparr>m_cpu := cpu_default\<lparr>r_sp := sp\<rparr>, m_interrupt := s\<rparr>"

lemma stack_at_ok: "machine_ok (stack_at sp s)"
proof -
  have "cpu_ok (cpu_default\<lparr>r_sp := sp\<rparr>)"
    using cpu_ok_default by (simp add: cpu_ok_def)
  then show ?thesis
    by (simp add: stack_at_def machine_ok_put power_on_ok)
qed

lemma stack_at_ready: "stack_ready (stack_at 0xC100 s)"
  by (simp add: stack_ready_def stack_at_def plain_ram_def in_range_def dma_blocks_cpu_access_def power_on_def
      machine_new_def dma_default_def)

definition sleeping :: machine where
  "sleeping = power_on\<lparr>m_cpu := cpu_default\<lparr>cpu_halted := True\<rparr>\<rparr>"

lemma sleeping_ok: "machine_ok sleeping"
proof -
  have "cpu_ok (cpu_default\<lparr>cpu_halted := True\<rparr>)"
    using cpu_ok_default by (simp add: cpu_ok_def)
  then show ?thesis
    by (simp add: sleeping_def machine_ok_put power_on_ok)
qed

lemma sleeping_step: "\<exists>r m'. step_instruction plain_host sleeping = Some (Inr r, m') \<and> st_cycles r = 4"
proof -
  have idle: "m_interrupt sleeping = interrupt_default" "cpu_halted (m_cpu sleeping)" "m_stall sleeping = 0"
    by (simp_all add: sleeping_def power_on_def machine_new_def)
  then have "note_blocked sleeping = sleeping" "step_work plain_host sleeping = (Inr 4, sleeping)"
    by (simp_all add: note_blocked_def step_work_def has_pending_def pending_mask_def interrupt_default_def)
  moreover obtain r m' where "finish_step plain_host 4 sleeping = Some (r, m')"
    using finish_steps [OF sleeping_ok same_refl, of plain_host 4] by blast
  moreover have "st_cycles r = 4"
    using calculation(3) idle(3) by (auto simp: finish_step_def sat_add_def u32_max_def Let_def split: option.splits)
  ultimately show ?thesis
    by (simp add: step_instruction_def)
qed

section \<open>The invariant\<close>

text \<open>
  C3. Whatever the host does with the machine (loading ROMs, stepping it traced or fast, bus
  accesses, buttons, link transfers, save states), the flag register has no low bits, the
  display position is a point of the 154 by 456 frame, the frame is a full frame buffer, an
  active block transfer has blocks left, an OAM transfer has copied at most 160 bytes, the frame
  phase is below one frame, no audio channel is on with its DAC off, and the flat memory image
  shows the banked memory at every address.
\<close>

theorem machine_invariant:
  assumes "machine_reachable m"
  shows "r_f (m_cpu m) AND 0x0F = 0 \<and> cpu_ime_delay (m_cpu m) \<le> 2 \<and>
    unat (ppu_ly (m_ppu m)) < 154 \<and> ppu_mode_cycles (m_ppu m) < 456 \<and>
    length (ppu_framebuffer (m_ppu m)) = FRAMEBUFFER_LEN \<and>
    (hdma_active (m_dma m) \<longrightarrow> hdma_blocks (m_dma m) \<noteq> 0) \<and> dma_bytes_copied (m_dma m) \<le> 160 \<and>
    clk_frame_phase (m_clocks m) < FRAME_CYCLES \<and>
    (\<forall>i<4. ch_enabled (apu_channels (m_apu m) ! i) \<longrightarrow> ch_dac_enabled (apu_channels (m_apu m) ! i)) \<and>
    (\<forall>a. mem_read8 (m_mem m) a = mem_data (m_mem m) a)"
  using machine_okD [OF reachable_ok [OF assms]]
  by (simp add: cpu_ok_def flags_clean_def ppu_ok_def planes_ok_def dma_ok_def clocks_ok_def apu_ok_def
      channels_ok_def memory_ok_def shadow_ok_def scan_defs word_less_nat_alt)

theorem machine_invariant_witness:
  "unat (ppu_ly (m_ppu power_on)) < 154 \<and> clk_frame_phase (m_clocks power_on) < FRAME_CYCLES"
  using machine_invariant [OF power_on_reachable] by blast

section \<open>Steps\<close>

text \<open>
  C2. A step of a reachable machine always returns, although its clock loop has no bound in the
  code. It fails only on one of the ten bytes that are no instruction, and otherwise takes at
  least four cycles.
\<close>

theorem step_returns:
  assumes "machine_reachable m"
  shows "\<exists>r m'. step_instruction h m = Some (r, m') \<and> machine_reachable m' \<and>
    (case r of
       Inl e \<Rightarrow> \<exists>op pc. op \<in> set ILLEGAL_OPCODES \<and> e = UnsupportedOpcode op pc
     | Inr st \<Rightarrow> 4 \<le> st_cycles st)"
  using step_outcome [OF reachable_ok [OF assms], of h] machine_reachable.step [OF assms] by blast

theorem step_returns_witness: "\<exists>r m'. step_instruction plain_host power_on = Some (r, m') \<and> machine_reachable m'"
  using step_returns [OF power_on_reachable, of plain_host] by blast

text \<open>
  C1. The fast step refines the traced one: on a reachable machine both return, with the same
  error or success, and the two machines agree in everything but the recorded observations.
\<close>

theorem step_fast_refines_step:
  assumes "machine_reachable m"
  shows "\<exists>r m' r' n'. step_instruction h m = Some (r, m') \<and> step_instruction_fast h m = Some (r', n') \<and>
    map_sum id (\<lambda>_. ()) r = r' \<and> same m' n'"
  using steps_agree [OF reachable_ok [OF assms], of h] by blast

theorem step_fast_refines_step_witness:
  "\<exists>r n' m'. step_instruction_fast plain_host power_on = Some (r, n') \<and> same m' n'"
  using step_fast_refines_step [OF power_on_reachable, of plain_host] by blast

text \<open>
  C5. Running a frame fast is running it traced: either both do not return, or both return the
  same result with machines that agree up to observations.
\<close>

theorem run_frame_fast_refines:
  assumes "machine_reachable m"
  shows "rel_option (\<lambda>(r, m') (r', n'). r = r' \<and> same m' n') (run_frame hs m) (run_frame_fast hs m)"
proof (cases "run_frame hs m")
  case None
  then have "run_frame_fast hs m = None"
    using fast_to_frame [of hs "clk_frames (m_clocks m)" 0 m] reachable_ok [OF assms]
    by (cases "run_frame_fast hs m") (auto simp: run_frame_def run_frame_fast_def)
  with None show ?thesis
    by simp
next
  case (Some r)
  then obtain n' where "run_frame_fast hs m = Some (fst r, n')" "same (snd r) n'"
    using frame_to_fast [of hs "clk_frames (m_clocks m)" 0 m r] reachable_ok [OF assms] same_refl [of m]
    unfolding run_frame_def run_frame_fast_def by blast
  with Some show ?thesis
    by (simp add: case_prod_unfold)
qed

theorem run_frame_fast_refines_witness:
  "rel_option (\<lambda>(r, m') (r', n'). r = r' \<and> same m' n')
     (run_frame (\<lambda>_. plain_host) power_on) (run_frame_fast (\<lambda>_. plain_host) power_on)"
  by (rule run_frame_fast_refines [OF power_on_reachable])

text \<open>
  C24. A slice always returns, after at most the given number of instructions; it stops early
  only when a frame completed or the cycle limit is reached, and it has counted at least four
  cycles for each instruction.
\<close>

theorem run_slice_returns:
  assumes "machine_reachable m" "0 < n" "0 < limit"
  shows "\<exists>x m'. run_slice hs n limit m = Some (x, m') \<and>
    (case x of
       Inl e \<Rightarrow> \<exists>op pc. op \<in> set ILLEGAL_OPCODES \<and> e = UnsupportedOpcode op pc
     | Inr t \<Rightarrow>
         sl_instructions t \<le> n \<and> min u32_max (4 * sl_instructions t) \<le> sl_cycles t \<and>
         (sl_frame_completed t \<or> sl_instructions t = n \<or> limit \<le> sl_cycles t))"
proof -
  let ?r = "\<lparr>sl_instructions = 0, sl_cycles = 0, sl_frame_completed = False\<rparr>"
  have "run_slice hs n limit m = run_slice_loop n hs limit ?r m"
    using assms(2,3) by (simp add: run_slice_def)
  then show ?thesis
    using slice_loop [OF reachable_ok [OF assms(1)], of n hs limit ?r] by (fastforce split: sum.splits)
qed

theorem run_slice_returns_witness: "\<exists>x m'. run_slice (\<lambda>_. plain_host) 3 100 power_on = Some (x, m')"
  using run_slice_returns [OF power_on_reachable, of 3 100 "\<lambda>_. plain_host"] by auto

text \<open>
  C4. The clock total grows in a step by the cycles the step reports and the stalls of the
  HBlank transfers recorded in it: no cycle is lost or counted twice in the chunks. (The cycle
  count of the step must not be at its 32-bit saturation.)
\<close>

theorem step_time:
  assumes "machine_ok m" "step_instruction h m = Some (Inr r, m')" "st_cycles r + 16320 \<le> u32_max"
  shows "clk_cycles (m_clocks m') + of_nat (stalls (m_dma_trace m)) =
    clk_cycles (m_clocks m) + of_nat (st_cycles r) + of_nat (stalls (st_dma r))"
  by (rule step_time_books [OF assms])

theorem step_time_witness:
  "\<exists>r m'. step_instruction plain_host sleeping = Some (Inr r, m') \<and>
     clk_cycles (m_clocks m') + of_nat (stalls (m_dma_trace sleeping)) =
       clk_cycles (m_clocks sleeping) + 4 + of_nat (stalls (st_dma r))"
proof -
  obtain r m' where r: "step_instruction plain_host sleeping = Some (Inr r, m')" "st_cycles r = 4"
    using sleeping_step by blast
  then show ?thesis
    using step_time [OF sleeping_ok r(1)] by (auto simp: u32_max_def)
qed

section \<open>Instructions and interrupts\<close>

lemma peek8_cong:
  "m_dma n = m_dma m \<Longrightarrow> m_mode n = m_mode m \<Longrightarrow> m_cart n = m_cart m \<Longrightarrow> m_ppu n = m_ppu m \<Longrightarrow>
   m_mem n = m_mem m \<Longrightarrow> m_joypad n = m_joypad m \<Longrightarrow> m_serial n = m_serial m \<Longrightarrow> m_timer n = m_timer m \<Longrightarrow>
   m_apu n = m_apu m \<Longrightarrow> m_interrupt n = m_interrupt m \<Longrightarrow> m_double n = m_double m \<Longrightarrow> m_armed n = m_armed m \<Longrightarrow>
   peek8 n a = peek8 m a"
  by (simp only: peek8_def dma_blocks_cpu_access_def peek_ppu_register_def peek_cgb_register_def
      cgb_reg_def read_key1_def cgb_palette_access_blocked_def)

lemma fst_read8: "fst (read8 a m) = peek8 m a"
  by (simp add: read8_def Let_def)

lemma fst_pop16:
  "fst (run_state pop16 m) =
     push_bit 8 (ucast (peek8 m (r_sp (m_cpu m) + 1))) OR ucast (peek8 m (r_sp (m_cpu m)))"
proof -
  define n where "n = snd (read8 (r_sp (m_cpu m)) m)"
  have n: "same n m"
    by (simp add: n_def read_only_records)
  have "peek8 (n\<lparr>m_cpu := c\<rparr>) a = peek8 m a" for c a
    by (rule peek8_cong) (simp_all add: same_sel [OF n])
  then show ?thesis
    by (simp add: pop16_def pop_byte_def put_cpu_def get_cpu_def ex_read_def case_prod_unfold fst_read8
        same_sel(1) [OF n] flip: n_def)
qed

lemma pop_same_stack:
  assumes "m_dma n = m_dma m" "m_mode n = m_mode m" "m_cart n = m_cart m" "m_ppu n = m_ppu m"
    "m_mem n = m_mem m" "m_joypad n = m_joypad m" "m_serial n = m_serial m" "m_timer n = m_timer m"
    "m_apu n = m_apu m" "m_interrupt n = m_interrupt m" "m_double n = m_double m" "m_armed n = m_armed m"
    "r_sp (m_cpu n) = r_sp (m_cpu m)"
  shows "fst (run_state pop16 n) = fst (run_state pop16 m)"
  using assms by (simp add: fst_pop16 peek8_cong [OF assms(1-12)])

text \<open>
  C7. Executing an opcode fails exactly on the ten bytes that are no instruction, naming the
  opcode and its address and leaving the machine as it was; every other opcode takes 4 to 24
  cycles, a multiple of four.
\<close>

theorem execute_opcode_outcome:
  "case run_state (execute_opcode h op) m of
     (Inl e, n) \<Rightarrow> op \<in> set ILLEGAL_OPCODES \<and> e = UnsupportedOpcode op (r_pc (m_cpu m) - 1) \<and> n = m
   | (Inr k, _) \<Rightarrow> op \<notin> set ILLEGAL_OPCODES \<and> 4 \<le> k \<and> k \<le> 24 \<and> k mod 4 = 0"
proof (cases "op \<in> set ILLEGAL_OPCODES")
  case True
  then show ?thesis
    using opcode_table [of op h] by (simp add: arm_ok_def unsupported_def)
next
  case False
  then have "in_time (fst (run_state (execute_opcode h op) m))"
    using opcode_table [of op h] by (simp add: arm_ok_def yields_def)
  with False show ?thesis
    by (auto simp: in_time_def split: prod.split sum.splits)
qed

text \<open>
  C25. With the stack in RAM the CPU owns, a pushed word is popped again, and the machine is as
  before except for the two bytes below the stack pointer, high byte first.
\<close>

theorem push_pop_roundtrip:
  assumes "machine_ok m" "stack_ready m"
  shows "run_state (State_Monad.bind (push16 h w) (\<lambda>_. pop16)) m =
    (w, poke (r_sp (m_cpu m) - 2) (lo_byte w) (poke (r_sp (m_cpu m) - 1) (hi_byte w) m))"
  using push_ready [OF assms(2), of h w] pop_pushed [OF assms(2,1), of w] by simp

theorem push_pop_roundtrip_witness:
  "fst (run_state (State_Monad.bind (push16 plain_host 0x1234) (\<lambda>_. pop16)) (stack_at 0xC100 interrupt_default)) = 0x1234"
  using push_pop_roundtrip [OF stack_at_ok stack_at_ready, of plain_host "0x1234" interrupt_default] by simp

text \<open>
  C8. Serving an interrupt picks the lowest-numbered source that is requested and enabled, jumps
  to its vector \<open>0x40 + 8 * k\<close> with interrupts off and moves the stack pointer down by two,
  wherever it points. When both stack bytes are work RAM or high RAM that no OAM transfer blocks,
  so that the two writes have no other effect, it acknowledges exactly that source and leaves the
  interrupted address on the stack for the return.
\<close>

theorem interrupt_service:
  assumes "machine_ok m" "pending_source (m_interrupt m) k" "\<forall>j<k. \<not> pending_source (m_interrupt m) j"
  shows "\<exists>n. service_interrupt h m = (Inr (), n) \<and> r_pc (m_cpu n) = 0x40 + 8 * of_nat k \<and> \<not> cpu_ime (m_cpu n) \<and>
    r_sp (m_cpu n) = r_sp (m_cpu m) - 2 \<and>
    ((\<forall>k\<in>{1, 2}. plain_ram (r_sp (m_cpu m) - k) \<and> \<not> dma_blocks_cpu_access m (r_sp (m_cpu m) - k)) \<longrightarrow>
      (\<forall>j. pending_source (m_interrupt n) j \<longleftrightarrow> pending_source (m_interrupt m) j \<and> j \<noteq> k) \<and>
      fst (run_state pop16 n) = r_pc (m_cpu m))"
proof -
  have "find (pending_source (m_interrupt m)) [0..<5] = Some k"
    using assms(2,3) by (auto simp: find_Some_iff pending_source_def intro!: exI [of _ k])
  then have hp: "highest_priority (m_interrupt m) = Some (2 ^ k, 0x40 + 8 * of_nat k)"
    by (simp add: highest_priority_find)
  let ?m = "m\<lparr>m_cpu := (m_cpu m)\<lparr>cpu_ime := False\<rparr>, m_interrupt := acknowledge (2 ^ k) (m_interrupt m)\<rparr>"
  let ?n = "snd (run_state (push16 h (r_pc (m_cpu m))) ?m)"
  let ?e = "?n\<lparr>m_cpu := (m_cpu ?n)\<lparr>r_pc := 0x40 + 8 * of_nat k\<rparr>, m_vector := Some (0x40 + 8 * of_nat k),
      m_interrupt_trace := m_interrupt_trace ?n @ [Serviced (interrupt_source_from_mask (2 ^ k)) (0x40 + 8 * of_nat k)]\<rparr>"
  have served: "service_interrupt h m = (Inr (), ?e)"
    by (simp add: service_interrupt_def hp Let_def)
  have cpu: "m_cpu ?n = (m_cpu m)\<lparr>cpu_ime := False, r_sp := r_sp (m_cpu m) - 2\<rparr>"
    by (simp add: cpu_push16)
  have stack: "(\<forall>j. pending_source (m_interrupt ?e) j \<longleftrightarrow> pending_source (m_interrupt m) j \<and> j \<noteq> k) \<and>
      fst (run_state pop16 ?e) = r_pc (m_cpu m)" if "stack_ready m"
  proof -
    have ok: "machine_ok ?m"
      using machine_okD(1) [OF assms(1)] by (simp add: machine_ok_put assms(1) cpu_ok_def)
    have blocked: "dma_blocks_cpu_access ?m a = dma_blocks_cpu_access m a" for a
    proof -
      have "m_dma ?m = m_dma m" "m_mode ?m = m_mode m"
        by simp_all
      then show ?thesis
        by (simp only: dma_blocks_cpu_access_def)
    qed
    have ready: "stack_ready ?m"
      using that by (simp add: stack_ready_def blocked)
    have n: "?n = pushed (r_pc (m_cpu m)) ?m"
      using push_ready [OF ready, of h "r_pc (m_cpu m)"] by simp
    have "fst (run_state pop16 ?e) = r_pc (m_cpu m)"
      using pop_pushed [OF ready ok, of "r_pc (m_cpu m)"] pop_same_stack [of ?n ?e] n by simp
    moreover have "m_interrupt ?e = acknowledge (2 ^ k) (m_interrupt m)"
      unfolding n by (simp add: pushed_def Let_def)
    ultimately show ?thesis
      by (simp add: pending_source_acknowledge)
  qed
  show ?thesis
    using served cpu stack unfolding stack_ready_def by (intro exI [of _ ?e]) simp
qed

theorem interrupt_service_witness:
  "\<exists>n. service_interrupt plain_host (stack_at 0xC100 \<lparr>ie = 5, iflag = 6\<rparr>) = (Inr (), n) \<and> r_pc (m_cpu n) = 0x50 \<and>
    fst (run_state pop16 n) = r_pc (m_cpu (stack_at 0xC100 \<lparr>ie = 5, iflag = 6\<rparr>))"
proof -
  let ?m = "stack_at 0xC100 \<lparr>ie = 5, iflag = 6\<rparr>"
  have "m_interrupt ?m = \<lparr>ie = 5, iflag = 6\<rparr>"
    by (simp add: stack_at_def)
  then have "pending_source (m_interrupt ?m) 2" "\<forall>j<2. \<not> pending_source (m_interrupt ?m) j"
    by (auto simp: pending_source_def less_2_cases_iff)
  from interrupt_service [OF stack_at_ok this, of plain_host] show ?thesis
    using stack_at_ready [of "\<lparr>ie = 5, iflag = 6\<rparr>"] unfolding stack_ready_def by auto
qed

section \<open>The bus and OAM DMA\<close>

text \<open>
  C23. Where another unit owns the bus (an OAM transfer, or the display its video memory) the CPU
  is locked out: it reads 0xFF, by a plain access and by the load of an instruction alike, and a
  write changes nothing but the recorded observations. The exception are the loads of STAT and
  LY, which an OAM transfer does not block: they read the display's prediction for the time of
  the access.
\<close>

theorem locked_out_access:
  assumes "cpu_locked_out m a"
  shows "fst (read8 a m) = 0xFF \<and> same (write8 h a v m) m \<and>
    fst (read8_timed a n m) =
      (if a = 0xFF41 then predict_stat_after_cycles (m_ppu m) (cpu_cycles_to_ppu_cycles m n)
       else if a = 0xFF44 then predict_ly_after_cycles (m_ppu m) (cpu_cycles_to_ppu_cycles m n)
       else 0xFF)"
  using locked_out_read [OF assms] locked_out_write [OF assms]
  by (simp add: read8_timed_def predict_timed_io_read_def Let_def)

definition copying :: machine where
  "copying = power_on\<lparr>m_dma := dma_default\<lparr>dma_active := True\<rparr>\<rparr>"

theorem locked_out_access_witness: "fst (read8 0xC000 copying) = 0xFF \<and> fst (read8_timed 0xC000 8 copying) = 0xFF"
proof -
  have "cpu_locked_out copying 0xC000"
    by (simp add: cpu_locked_out_def dma_blocks_cpu_access_def copying_def power_on_def machine_new_def in_range_def)
  then show ?thesis
    using locked_out_access [of copying "0xC000" plain_host 0 8] by simp
qed

text \<open>
  C26. Reads have no effect on the machine: a read returns what the debugger's peek shows and
  leaves every device, counter and memory cell as it was; so does a read predicted ahead.
\<close>

theorem reads_only_record:
  "fst (read8 a m) = peek8 m a \<and> same (snd (read8 a m)) m \<and> same (snd (read8_timed a n m)) m"
  by (simp add: fst_read8 read_only_records)

text \<open>
  C6. An OAM transfer started by writing a page below 0xFE to FF46, and ticked in slices of any
  sizes up to 252 cycles, has copied \<open>(t - 4) div 4\<close> bytes after \<open>t\<close> cycles; at 644 cycles, and
  not before, it is complete, reports so once, and the 160 bytes of OAM are those of the source
  page. Both bounds are needed: from page 0xFE on the transfer would read OAM or the registers
  while it runs, and a longer slice loses cycles, because the code narrows the rest of a slice to
  a byte.
\<close>

theorem oam_dma_transfer:
  assumes "machine_ok m" "v < 0xFE" "\<forall>n\<in>set ns. n \<le> 252"
    "fold tick_dma ns (write_ff46 v m, []) = (m', tr)"
  shows "(sum_list ns < 644 \<longrightarrow>
      dma_active (m_dma m') \<and> dma_bytes_copied (m_dma m') = (sum_list ns - 4) div 4 \<and> tr = []) \<and>
    (644 \<le> sum_list ns \<longrightarrow>
      \<not> dma_active (m_dma m') \<and> tr = [OamDmaComplete (push_bit 8 (ucast v)) 0xA0] \<and>
      (\<forall>i<0xA0. mem_read8 (m_mem m') (0xFE00 + of_nat i) =
         read8_for_dma (write_ff46 v m) (push_bit 8 (ucast v) + of_nat i)))"
proof -
  let ?src = "push_bit 8 (ucast v) :: u16"
  have "unat (join_bytes v 0) = 256 * unat v"
    using unat_bytes [of "join_bytes v 0"] mult_div_mod_eq [of 256 "unat (join_bytes v 0)"] by simp
  then have "unat ?src = 256 * unat v"
    by (simp add: join_bytes_def)
  then have src: "unat ?src + 0xA0 \<le> 0xFE00"
    using assms(2) by (simp add: word_less_nat_alt)
  have "bank_regs_ok (m_mem m)"
    using machine_okD(5) [OF assms(1)] by (simp add: memory_ok_def)
  from transfer_ticks [OF transfer_start [OF this, of v] assms(3) src, where tr = "[]"] assms(4)
  have at: "transfer_at (write_ff46 v m) ?src (sum_list ns) m'"
    and tr: "tr = (if 644 \<le> sum_list ns then [OamDmaComplete ?src 0xA0] else [])"
    by (simp_all split: if_splits)
  have oam: "unat (0xFE00 + of_nat i :: u16) = 0xFE00 + i" if "i < 0xA0" for i
    using that by (simp add: unat_u16_add unat_of_nat)
  have "mem_read8 (m_mem m') (0xFE00 + of_nat i) = read8_for_dma (write_ff46 v m) (?src + of_nat i)"
    if "644 \<le> sum_list ns" "i < 0xA0" for i
    using at that oam [OF that(2)] by (simp add: transfer_at_def copied_to_def in_range_nat)
  with at tr show ?thesis
    by (auto simp: transfer_at_def)
qed

theorem oam_dma_transfer_witness:
  "\<not> dma_active (m_dma (fst (fold tick_dma (replicate 161 4) (write_ff46 0xC0 power_on, []))))"
proof -
  obtain m' tr where "fold tick_dma (replicate 161 4) (write_ff46 0xC0 power_on, []) = (m', tr)"
    by fastforce
  then show ?thesis
    using oam_dma_transfer [OF power_on_ok, of "0xC0" "replicate 161 4" m' tr]
    by (simp add: sum_list_replicate)
qed

section \<open>ROMs and save states\<close>

text \<open>
  C22. Loading a ROM either fails, with the error of the cartridge or the mode choice, and leaves
  the machine untouched; or it succeeds and the machine, up to observations, depends on the ROM
  and the mode alone: it runs the cartridge in the chosen mode from 0x0100 with the stack at
  0xFFFE, whatever it did before.
\<close>

theorem load_rom_outcome:
  "case load_rom_with_mode h rom f m of
     (Inl e, m') \<Rightarrow> m' = m \<and>
       (cart_from_rom (host_now h) rom = Inl e \<or>
        (\<exists>c. cart_from_rom (host_now h) rom = Inr c \<and> f = Some Dmg \<and> cgb_only c \<and>
           e = InvalidState ''CGB-only ROM cannot run in DMG mode''))
   | (Inr _, m') \<Rightarrow> \<exists>c. cart_from_rom (host_now h) rom = Inr c \<and> m_cart m' = c \<and>
       m_mode m' = (case f of Some mode \<Rightarrow> mode | None \<Rightarrow> if supports_cgb c then Cgb else Dmg) \<and>
       r_pc (m_cpu m') = 0x100 \<and> r_sp (m_cpu m') = 0xFFFE \<and> \<not> cpu_ime (m_cpu m') \<and>
       (\<forall>n. fst (load_rom_with_mode h rom f n) = Inr () \<and> same (snd (load_rom_with_mode h rom f n)) m')"
  using load_rom_forgets [of h rom f _ m]
  by (auto simp: load_rom_cases select_mode_def fresh_fields booted_fields split: sum.splits option.splits if_splits)




end
