(* ===== verification/Link_Adapter.thy ===== *)
theory Link_Adapter
  imports Machine_Step
begin

text \<open>
  The DMG-07 four-player adapter of \<^verbatim>\<open>kokura-debug/src/link.rs\<close>: a protocol state machine that
  exchanges one byte with every port in parallel, in four phases (discovery, confirmation,
  transmission, restart), and the clock that schedules its exchanges. Cycle numbers are naturals
  with the saturation of \<open>u64\<close>.
\<close>

datatype link_error =
    Core core_error
  | InvalidTopology string

section \<open>The DMG-07 adapter\<close>

definition DMG07_PORT_COUNT :: nat where "DMG07_PORT_COUNT = 4"
definition DMG07_PING_HEADER :: u8 where "DMG07_PING_HEADER = 0xFE"
definition DMG07_ACK :: u8 where "DMG07_ACK = 0x88"
definition DMG07_START :: u8 where "DMG07_START = 0xAA"
definition DMG07_CONFIRM :: u8 where "DMG07_CONFIRM = 0xCC"
definition DMG07_CPU_HZ :: nat where "DMG07_CPU_HZ = 4194304"
definition DMG07_PING_BYTE_INTERVAL_US :: nat where "DMG07_PING_BYTE_INTERVAL_US = 1548"
definition DMG07_PING_PACKET_DELAY_US :: nat where "DMG07_PING_PACKET_DELAY_US = 12328"
definition DMG07_TX_BASE_BYTE_INTERVAL_US :: nat where "DMG07_TX_BASE_BYTE_INTERVAL_US = 1015"
definition DMG07_TX_RATE_NIBBLE_INTERVAL_US :: nat where "DMG07_TX_RATE_NIBBLE_INTERVAL_US = 106"
definition DMG07_TX_MIN_PACKET_US :: nat where "DMG07_TX_MIN_PACKET_US = 17000"
definition DMG07_TX_PACKET_RATE_US :: nat where "DMG07_TX_PACKET_RATE_US = 1000"
definition DMG07_TX_PACKET_ADDON_US :: nat where "DMG07_TX_PACKET_ADDON_US = 360"

text \<open>Each phase with the index of its next byte.\<close>

datatype dmg07_phase = Ping nat | Confirm nat | Transmission nat | Restart nat

record adapter =
  ad_session_count :: "nat option"
  ad_phase :: dmg07_phase
  ad_connected :: u8
  ad_replies :: "u8 list list"
  ad_rate :: u8
  ad_ping_rate :: u8
  ad_packet_size :: u8
  ad_captures :: "u8 list list"
  ad_broadcast :: "u8 list"
  ad_ff_runs :: "u8 list"
  ad_restart :: bool
  ad_next :: "nat option"

definition no_replies :: "u8 list list" where
  "no_replies = replicate DMG07_PORT_COUNT (replicate 4 0)"

definition adapter_default :: adapter where
  "adapter_default =
     \<lparr>ad_session_count = None, ad_phase = Ping 0, ad_connected = 0, ad_replies = no_replies,
      ad_rate = 0xFF, ad_ping_rate = 0, ad_packet_size = 1,
      ad_captures = replicate DMG07_PORT_COUNT [0], ad_broadcast = replicate DMG07_PORT_COUNT 0,
      ad_ff_runs = replicate DMG07_PORT_COUNT 0, ad_restart = False, ad_next = None\<rparr>"

definition bind_session_count :: "nat \<Rightarrow> adapter \<Rightarrow> link_error + adapter" where
  "bind_session_count n a =
     (case ad_session_count a of
        Some bound \<Rightarrow>
          if bound \<noteq> n then
            Inl (InvalidTopology (''dmg07 runner is already bound to '' @ decimal bound @
              '' sessions, got '' @ decimal n))
          else Inr a
      | None \<Rightarrow> Inr (a\<lparr>ad_session_count := Some n\<rparr>))"

text \<open>The connection mask.\<close>

definition status_for_slot :: "adapter \<Rightarrow> nat \<Rightarrow> u8" where
  "status_for_slot a slot = ad_connected a OR of_nat (slot + 1)"

definition is_connected :: "adapter \<Rightarrow> nat \<Rightarrow> bool" where
  "is_connected a slot \<longleftrightarrow> ad_connected a AND push_bit slot 0x10 \<noteq> 0"

definition set_connected :: "nat \<Rightarrow> bool \<Rightarrow> adapter \<Rightarrow> adapter" where
  "set_connected slot b a =
     (if b then a\<lparr>ad_connected := ad_connected a OR push_bit slot 0x10\<rparr>
      else a\<lparr>ad_connected := ad_connected a AND NOT (push_bit slot 0x10)\<rparr>)"

text \<open>Discovery: collect the replies of a ping, recognise acknowledgements and the start.\<close>

definition collect_reply :: "nat \<Rightarrow> nat \<times> u8 \<Rightarrow> adapter \<Rightarrow> adapter" where
  "collect_reply i = (\<lambda>(slot, v) a.
     a\<lparr>ad_replies := (ad_replies a)[slot := (ad_replies a ! slot)[i := v]]\<rparr>)"

definition early_ack :: "nat \<Rightarrow> adapter \<Rightarrow> adapter" where
  "early_ack slot a =
     (let prefix = take 2 (ad_replies a ! slot) in
      if prefix = [DMG07_ACK, DMG07_ACK] then set_connected slot True a
      else if \<not> (slot = 0 \<and> prefix = [DMG07_START, DMG07_START]) then set_connected slot False a
      else a)"

definition final_ack :: "bool \<Rightarrow> nat \<Rightarrow> adapter \<Rightarrow> adapter" where
  "final_ack player_one_start slot a =
     (if take 2 (ad_replies a ! slot) = [DMG07_ACK, DMG07_ACK] then set_connected slot True a
      else if \<not> (slot = 0 \<and> player_one_start) then set_connected slot False a
      else a)"

definition clamp_size :: "u8 \<Rightarrow> u8" where
  "clamp_size v = (if v < 1 then 1 else if v > 4 then 4 else v)"

definition accept_master :: "adapter \<Rightarrow> adapter" where
  "accept_master a =
     (let reply = ad_replies a ! 0 in
      if take 2 reply = [DMG07_ACK, DMG07_ACK] then
        let a = (if reply ! 2 \<noteq> 0 then a\<lparr>ad_rate := reply ! 2, ad_ping_rate := reply ! 2\<rparr> else a)
        in a\<lparr>ad_packet_size := clamp_size (reply ! 3)\<rparr>
      else a)"

definition transfer_ping :: "u8 list \<Rightarrow> nat \<Rightarrow> adapter \<Rightarrow> u8 list \<times> adapter" where
  "transfer_ping outgoing i a =
     (let incoming = map (\<lambda>slot. if i = 0 then DMG07_PING_HEADER else status_for_slot a slot)
                       [0..<length outgoing];
          a = fold (collect_reply i) (enumerate 0 outgoing) a;
          a = (if i = 1 then fold early_ack [0..<length outgoing] a else a)
      in if i < 3 then (incoming, a\<lparr>ad_phase := Ping (i + 1)\<rparr>)
         else
           let start = (ad_replies a ! 0 = replicate 4 DMG07_START);
               a = fold (final_ack start) [0..<length outgoing] a;
               a = (if start then a\<lparr>ad_phase := Confirm 0\<rparr> else (accept_master a)\<lparr>ad_phase := Ping 0\<rparr>)
           in (incoming, a\<lparr>ad_replies := no_replies\<rparr>))"

text \<open>Confirmation, then transmission with zero warm-up data.\<close>

definition begin_transmission :: "adapter \<Rightarrow> adapter" where
  "begin_transmission a =
     (let size = unat (ad_packet_size a)
      in a\<lparr>ad_captures := replicate DMG07_PORT_COUNT (replicate size 0),
           ad_broadcast := replicate (size * DMG07_PORT_COUNT) 0,
           ad_ff_runs := replicate DMG07_PORT_COUNT 0, ad_restart := False,
           ad_phase := Transmission 0\<rparr>)"

definition transfer_confirm :: "u8 list \<Rightarrow> nat \<Rightarrow> adapter \<Rightarrow> u8 list \<times> adapter" where
  "transfer_confirm outgoing i a =
     (replicate (length outgoing) DMG07_CONFIRM,
      if i = 3 then begin_transmission a else a\<lparr>ad_phase := Confirm (i + 1)\<rparr>)"

text \<open>Three bytes FF from the start of a packet ask for a restart.\<close>

definition observe_run :: "nat \<Rightarrow> nat \<times> u8 \<Rightarrow> adapter \<Rightarrow> adapter" where
  "observe_run i = (\<lambda>(slot, v) a.
     a\<lparr>ad_ff_runs := (ad_ff_runs a)[slot :=
         (if i = 0 then of_bool (is_connected a slot \<and> v = 0xFF)
          else if ad_ff_runs a ! slot \<noteq> 0 \<and> is_connected a slot \<and> v = 0xFF
          then (if ad_ff_runs a ! slot = 0xFF then 0xFF else ad_ff_runs a ! slot + 1)
          else 0)]\<rparr>)"

definition observe_restart_request :: "u8 list \<Rightarrow> nat \<Rightarrow> adapter \<Rightarrow> bool \<times> adapter" where
  "observe_restart_request outgoing i a =
     (let a = fold (observe_run i) (enumerate 0 outgoing) a
      in (list_ex (\<lambda>run. run \<ge> 3) (ad_ff_runs a), a))"

definition capture_byte :: "nat \<Rightarrow> nat \<times> u8 \<Rightarrow> adapter \<Rightarrow> adapter" where
  "capture_byte i = (\<lambda>(slot, v) a.
     if is_connected a slot then a\<lparr>ad_captures := (ad_captures a)[slot := (ad_captures a ! slot)[i := v]]\<rparr>
     else a)"

definition next_packet :: "adapter \<Rightarrow> adapter" where
  "next_packet a =
     a\<lparr>ad_broadcast := concat (take DMG07_PORT_COUNT (ad_captures a)),
       ad_captures := map (\<lambda>c. replicate (length c) 0) (ad_captures a), ad_phase := Transmission 0\<rparr>"

definition transfer_payload :: "u8 list \<Rightarrow> nat \<Rightarrow> adapter \<Rightarrow> u8 list \<times> adapter" where
  "transfer_payload outgoing i a =
     (let (requested, a) = observe_restart_request outgoing i a;
          incoming = replicate (length outgoing) (ad_broadcast a ! i);
          a = (if i < unat (ad_packet_size a) then fold (capture_byte i) (enumerate 0 outgoing) a else a);
          a = (if requested then a\<lparr>ad_restart := True\<rparr> else a)
      in (incoming,
          if i + 1 = length (ad_broadcast a) then
            if ad_restart a then a\<lparr>ad_restart := False, ad_phase := Restart 0\<rparr>
            else next_packet a
          else a\<lparr>ad_phase := Transmission (i + 1)\<rparr>))"

definition restart_ping :: "adapter \<Rightarrow> adapter" where
  "restart_ping a =
     a\<lparr>ad_phase := Ping 0, ad_connected := 0, ad_replies := no_replies,
       ad_ff_runs := replicate DMG07_PORT_COUNT 0, ad_restart := False\<rparr>"

definition transfer_restart :: "nat \<Rightarrow> nat \<Rightarrow> adapter \<Rightarrow> u8 list \<times> adapter" where
  "transfer_restart n i a =
     (replicate n 0xFF,
      if i + 1 = unat (ad_packet_size a) * DMG07_PORT_COUNT then restart_ping a
      else a\<lparr>ad_phase := Restart (i + 1)\<rparr>)"

text \<open>One parallel byte exchange.\<close>

definition adapter_transfer :: "u8 list \<Rightarrow> adapter \<Rightarrow> link_error + (u8 list \<times> adapter)" where
  "adapter_transfer outgoing a =
     (case bind_session_count (length outgoing) a of
        Inl e \<Rightarrow> Inl e
      | Inr a \<Rightarrow>
          Inr (case ad_phase a of
                 Ping i \<Rightarrow> transfer_ping outgoing i a
               | Confirm i \<Rightarrow> transfer_confirm outgoing i a
               | Transmission i \<Rightarrow> transfer_payload outgoing i a
               | Restart i \<Rightarrow> transfer_restart (length outgoing) i a))"

section \<open>The adapter's clock\<close>

definition cycles_for_micros :: "nat \<Rightarrow> nat" where
  "cycles_for_micros micros =
     sat_add u64_max (sat_mul u64_max DMG07_CPU_HZ micros) 999999 div 1000000"

definition transfer_due :: "adapter \<Rightarrow> nat \<Rightarrow> bool" where
  "transfer_due a cycle = (case ad_next a of None \<Rightarrow> True | Some n \<Rightarrow> cycle \<ge> n)"

definition transmission_byte_interval_cycles :: "adapter \<Rightarrow> nat" where
  "transmission_byte_interval_cycles a =
     cycles_for_micros (DMG07_TX_BASE_BYTE_INTERVAL_US +
       unat (drop_bit 4 (ad_rate a)) * DMG07_TX_RATE_NIBBLE_INTERVAL_US)"

definition transmission_packet_tail_cycles :: "adapter \<Rightarrow> nat \<Rightarrow> nat" where
  "transmission_packet_tail_cycles a byte_count =
     (let interval = transmission_byte_interval_cycles a;
          minimum_period = cycles_for_micros (DMG07_TX_MIN_PACKET_US +
            unat (ad_rate a AND 0x0F) * DMG07_TX_PACKET_RATE_US);
          serialized_period = sat_add u64_max (sat_mul u64_max interval byte_count)
            (cycles_for_micros DMG07_TX_PACKET_ADDON_US);
          period = max minimum_period serialized_period;
          elapsed = sat_mul u64_max interval (byte_count - 1)
      in max (period - elapsed) interval)"

definition schedule_after_transfer :: "nat \<Rightarrow> dmg07_phase \<Rightarrow> adapter \<Rightarrow> adapter" where
  "schedule_after_transfer cycle completed a =
     (let delay =
        (case completed of
           Ping i \<Rightarrow>
             if i < 3 then cycles_for_micros DMG07_PING_BYTE_INTERVAL_US
             else cycles_for_micros (DMG07_PING_PACKET_DELAY_US +
                    unat (ad_ping_rate a AND 0x0F) * DMG07_TX_PACKET_RATE_US)
         | Confirm _ \<Rightarrow> transmission_byte_interval_cycles a
         | Transmission i \<Rightarrow>
             if i + 1 < length (ad_broadcast a) then transmission_byte_interval_cycles a
             else transmission_packet_tail_cycles a (length (ad_broadcast a))
         | Restart i \<Rightarrow>
             if i + 1 < unat (ad_packet_size a) * DMG07_PORT_COUNT
             then transmission_byte_interval_cycles a
             else cycles_for_micros DMG07_PING_PACKET_DELAY_US)
      in a\<lparr>ad_next := Some (sat_add u64_max cycle delay)\<rparr>)"

end
