(* ===== verification/Link_Laws.thy ===== *)
theory Link_Laws
  imports Link_Adapter
begin

text \<open>
  The DMG-07 adapter never leaves its buffers, and what one packet or one ping of exchanges does
  to it, byte by byte.
\<close>

section \<open>The adapter's invariant\<close>

definition buffers_ok :: "adapter \<Rightarrow> bool" where
  "buffers_ok a \<longleftrightarrow>
     length (ad_replies a) = 4 \<and> (\<forall>r\<in>set (ad_replies a). length r = 4) \<and>
     1 \<le> unat (ad_packet_size a) \<and> unat (ad_packet_size a) \<le> 4 \<and> length (ad_ff_runs a) = 4"

definition packets_ok :: "adapter \<Rightarrow> bool" where
  "packets_ok a \<longleftrightarrow>
     length (ad_broadcast a) = 4 * unat (ad_packet_size a) \<and> length (ad_captures a) = 4 \<and>
     (\<forall>c\<in>set (ad_captures a). length c = unat (ad_packet_size a))"

fun phase_ok :: "adapter \<Rightarrow> dmg07_phase \<Rightarrow> bool" where
  "phase_ok a (Ping i) = (i < 4)"
| "phase_ok a (Confirm i) = (i < 4)"
| "phase_ok a (Transmission i) = (packets_ok a \<and> i < 4 * unat (ad_packet_size a))"
| "phase_ok a (Restart i) = (i < 4 * unat (ad_packet_size a))"

definition adapter_ok :: "nat \<Rightarrow> adapter \<Rightarrow> bool" where
  "adapter_ok n a \<longleftrightarrow> ad_session_count a \<in> {None, Some n} \<and> buffers_ok a \<and> phase_ok a (ad_phase a)"

lemma adapter_ok_default: "adapter_ok n adapter_default"
  by (simp add: adapter_ok_def buffers_ok_def adapter_default_def no_replies_def DMG07_PORT_COUNT_def)

text \<open>Updates that keep all buffers.\<close>

definition like_buffers :: "adapter \<Rightarrow> adapter \<Rightarrow> bool" where
  "like_buffers a b \<longleftrightarrow>
     ad_session_count b = ad_session_count a \<and> ad_packet_size b = ad_packet_size a \<and>
     ad_phase b = ad_phase a \<and> length (ad_ff_runs b) = length (ad_ff_runs a) \<and>
     map length (ad_replies b) = map length (ad_replies a) \<and>
     map length (ad_captures b) = map length (ad_captures a) \<and> ad_broadcast b = ad_broadcast a"

lemma like_refl [simp]: "like_buffers a a"
  by (simp add: like_buffers_def)

lemma like_trans: "like_buffers a b \<Longrightarrow> like_buffers b c \<Longrightarrow> like_buffers a c"
  by (simp add: like_buffers_def)

lemma like_fold: "(\<And>x a. like_buffers a (f x a)) \<Longrightarrow> like_buffers a (fold f xs a)"
  by (induction xs arbitrary: a) (auto intro: like_trans)

lemma map_length_update:
  "length v = length (xs ! i) \<Longrightarrow> map length (xs[i := v]) = map length xs"
  by (rule nth_equalityI) (auto, metis nth_list_update_eq nth_list_update_neq)

lemma like_updates:
  "like_buffers a (set_connected slot b a)" "like_buffers a (collect_reply i p a)"
  "like_buffers a (early_ack slot a)" "like_buffers a (final_ack st slot a)"
  "like_buffers a (observe_run i p a)" "like_buffers a (capture_byte i p a)"
proof -
  show c: "like_buffers a (set_connected slot b a)" for slot b
    by (simp add: set_connected_def like_buffers_def)
  show "like_buffers a (early_ack slot a)" "like_buffers a (final_ack st slot a)"
    using c by (simp_all add: early_ack_def final_ack_def Let_def)
  show "like_buffers a (collect_reply i p a)" "like_buffers a (observe_run i p a)" "like_buffers a (capture_byte i p a)"
    by (simp_all add: collect_reply_def observe_run_def capture_byte_def like_buffers_def map_length_update
        split: prod.split)
qed

lemmas like_folds =
  like_fold [of "collect_reply i" for i, OF like_updates(2)] like_fold [of early_ack, OF like_updates(3)]
  like_fold [of "final_ack st" for st, OF like_updates(4)] like_fold [of "observe_run i" for i, OF like_updates(5)]
  like_fold [of "capture_byte i" for i, OF like_updates(6)]

lemma all_lengths: "(\<forall>r\<in>set xs. length r = k) \<longleftrightarrow> map length xs = replicate (length xs) k"
  by (induction xs) auto

lemma like_ok:
  assumes "like_buffers a b"
  shows "buffers_ok b = buffers_ok a" "packets_ok b = packets_ok a" "ad_phase b = ad_phase a"
    "ad_session_count b = ad_session_count a" "ad_packet_size b = ad_packet_size a" "ad_broadcast b = ad_broadcast a"
proof -
  have l: "length (ad_replies b) = length (ad_replies a)" "length (ad_captures b) = length (ad_captures a)"
    using assms unfolding like_buffers_def by (metis length_map)+
  show "buffers_ok b = buffers_ok a" "packets_ok b = packets_ok a"
    using assms l by (simp_all add: buffers_ok_def packets_ok_def all_lengths like_buffers_def)
qed (use assms in \<open>simp_all add: like_buffers_def\<close>)

lemma length_concat_const: "\<forall>x\<in>set xs. length x = k \<Longrightarrow> length (concat xs) = length xs * k"
  by (induction xs) auto

lemma clamp_size: "1 \<le> unat (clamp_size v) \<and> unat (clamp_size v) \<le> 4"
  by (auto simp: clamp_size_def word_less_nat_alt)

lemma ping_ok:
  assumes "adapter_ok n a" "ad_phase a = Ping i"
  shows "adapter_ok n (snd (transfer_ping out i a)) \<and> length (fst (transfer_ping out i a)) = length out"
proof -
  let ?b = "fold (collect_reply i) (enumerate 0 out) a"
  define c where "c = (if i = 1 then fold early_ack [0..<length out] ?b else ?b)"
  have c: "like_buffers a c"
    using like_trans [OF like_folds(1) like_folds(2)] like_folds(1) by (simp add: c_def)
  define d where "d = fold (final_ack (ad_replies c ! 0 = replicate 4 DMG07_START)) [0..<length out] c"
  have d: "like_buffers a d"
    unfolding d_def by (rule like_trans [OF c like_folds(3)])
  have buffers: "buffers_ok a" "ad_session_count a \<in> {None, Some n}" "i < 4"
    using assms by (simp_all add: adapter_ok_def)
  note cd = like_ok [OF c] like_ok [OF d]
  have "buffers_ok (accept_master d)" "ad_session_count (accept_master d) = ad_session_count d"
    using buffers cd clamp_size by (simp_all add: accept_master_def buffers_ok_def Let_def)
  then show ?thesis
    using buffers cd unfolding transfer_ping_def Let_def c_def [symmetric] d_def [symmetric]
    by (auto simp: adapter_ok_def buffers_ok_def no_replies_def DMG07_PORT_COUNT_def)
qed

lemma payload_ok:
  assumes "adapter_ok n a" "ad_phase a = Transmission i"
  shows "adapter_ok n (snd (transfer_payload out i a)) \<and> length (fst (transfer_payload out i a)) = length out"
proof -
  define b where "b = snd (observe_restart_request out i a)"
  have b: "like_buffers a b"
    unfolding b_def observe_restart_request_def Let_def by (simp add: like_folds)
  define c where "c = (if i < unat (ad_packet_size b) then fold (capture_byte i) (enumerate 0 out) b else b)"
  have c: "like_buffers a c"
    using like_trans [OF b like_folds(5)] b by (simp add: c_def)
  define d where "d = (if fst (observe_restart_request out i a) then c\<lparr>ad_restart := True\<rparr> else c)"
  have d: "like_buffers a d"
    using c by (simp add: d_def like_buffers_def)
  have buffers: "buffers_ok a" "ad_session_count a \<in> {None, Some n}" "packets_ok a" "i < 4 * unat (ad_packet_size a)"
    using assms by (simp_all add: adapter_ok_def)
  note ok = like_ok [OF d]
  have next_ok: "packets_ok (next_packet d)"
    using buffers(3) ok length_concat_const [of "ad_captures d" "unat (ad_packet_size a)"]
    by (simp add: packets_ok_def next_packet_def DMG07_PORT_COUNT_def)
  have "transfer_payload out i a = (replicate (length out) (ad_broadcast b ! i),
      if i + 1 = length (ad_broadcast d) then
        if ad_restart d then d\<lparr>ad_restart := False, ad_phase := Restart 0\<rparr> else next_packet d
      else d\<lparr>ad_phase := Transmission (i + 1)\<rparr>)"
    by (simp add: transfer_payload_def Let_def case_prod_unfold b_def c_def d_def)
  then show ?thesis
    using buffers ok next_ok
    by (auto simp: adapter_ok_def buffers_ok_def packets_ok_def next_packet_def)
qed

lemma transfer_ok:
  assumes "adapter_ok n a" "length out = n"
  shows "\<exists>incoming b. adapter_transfer out a = Inr (incoming, b) \<and> length incoming = n \<and> adapter_ok n b"
proof -
  obtain b where b: "bind_session_count n a = Inr b" "adapter_ok n b"
    using assms(1) by (auto simp: bind_session_count_def adapter_ok_def buffers_ok_def packets_ok_def
        elim: phase_ok.elims split: option.split)
  show ?thesis
  proof (cases "ad_phase b")
    case (Ping i)
    then show ?thesis
      using ping_ok [OF b(2) Ping, of out] b(1) assms(2) by (simp add: adapter_transfer_def) (metis prod.collapse)
  next
    case (Confirm i)
    then show ?thesis
      using b assms(2)
      by (auto simp: adapter_transfer_def transfer_confirm_def begin_transmission_def adapter_ok_def buffers_ok_def
          packets_ok_def DMG07_PORT_COUNT_def Let_def)
  next
    case (Transmission i)
    then show ?thesis
      using payload_ok [OF b(2) Transmission, of out] b(1) assms(2) by (simp add: adapter_transfer_def) (metis prod.collapse)
  next
    case (Restart i)
    then show ?thesis
      using b assms(2)
      by (auto simp: adapter_transfer_def transfer_restart_def restart_ping_def adapter_ok_def buffers_ok_def
          no_replies_def DMG07_PORT_COUNT_def)
  qed
qed

section \<open>Sequences of exchanges\<close>

fun run_transfers :: "u8 list list \<Rightarrow> adapter \<Rightarrow> link_error + (u8 list list \<times> adapter)" where
  "run_transfers [] a = Inr ([], a)"
| "run_transfers (out # outs) a =
     (case adapter_transfer out a of
        Inl e \<Rightarrow> Inl e
      | Inr (incoming, b) \<Rightarrow>
          (case run_transfers outs b of Inl e \<Rightarrow> Inl e | Inr (rest, c) \<Rightarrow> Inr (incoming # rest, c)))"

lemma run_transfers_snoc:
  assumes "run_transfers outs a = Inr (ins, b)" "adapter_transfer out b = Inr (incoming, c)"
  shows "run_transfers (outs @ [out]) a = Inr (ins @ [incoming], c)"
  using assms by (induction outs arbitrary: a ins) (auto split: sum.splits prod.splits)

lemma run_transfers_ok:
  assumes "adapter_ok n a" "\<forall>out\<in>set outs. length out = n"
  shows "\<exists>ins b. run_transfers outs a = Inr (ins, b) \<and> length ins = length outs \<and>
    (\<forall>x\<in>set ins. length x = n) \<and> adapter_ok n b"
  using assms
proof (induction outs arbitrary: a)
  case (Cons out outs)
  obtain incoming b where b: "adapter_transfer out a = Inr (incoming, b)" "length incoming = n" "adapter_ok n b"
    using transfer_ok [of n a out] Cons.prems by auto
  with Cons.IH [of b] Cons.prems show ?case
    by auto
qed simp

text \<open>Updates slot by slot, as one map over the slots.\<close>

lemma fold_slots:
  "fold (\<lambda>(slot, v) xs. xs[slot := g slot v (xs ! slot)]) (enumerate k out) xs =
   map (\<lambda>slot. if k \<le> slot \<and> slot < k + length out then g slot (out ! (slot - k)) (xs ! slot) else xs ! slot)
     [0..<length xs]"
proof (induction out arbitrary: k xs)
  case Nil
  then show ?case
    by (intro nth_equalityI) auto
next
  case (Cons v out)
  show ?case
    by (simp only: enumerate_simps fold_simps prod.case Cons.IH)
      (auto simp: nth_list_update nth_Cons' Suc_le_eq le_less intro!: nth_equalityI)
qed

definition next_run :: "nat \<Rightarrow> bool \<Rightarrow> u8 \<Rightarrow> u8 \<Rightarrow> u8" where
  "next_run i connected v run =
     (if i = 0 then of_bool (connected \<and> v = 0xFF)
      else if run \<noteq> 0 \<and> connected \<and> v = 0xFF then (if run = 0xFF then 0xFF else run + 1)
      else 0)"

lemma observe_fold:
  "fold (observe_run i) ps a =
   a\<lparr>ad_ff_runs := fold (\<lambda>(slot, v) xs. xs[slot := next_run i (is_connected a slot) v (xs ! slot)]) ps (ad_ff_runs a)\<rparr>"
  by (induction ps arbitrary: a) (auto simp: observe_run_def next_run_def is_connected_def)

lemma capture_fold:
  "fold (capture_byte i) ps a =
   a\<lparr>ad_captures := fold (\<lambda>(slot, v) xs. xs[slot := if is_connected a slot then (xs ! slot)[i := v] else xs ! slot])
      ps (ad_captures a)\<rparr>"
  by (induction ps arbitrary: a) (auto simp: capture_byte_def is_connected_def)

lemma collect_fold:
  "fold (collect_reply i) ps a =
   a\<lparr>ad_replies := fold (\<lambda>(slot, v) xs. xs[slot := (xs ! slot)[i := v]]) ps (ad_replies a)\<rparr>"
  by (induction ps arbitrary: a) (auto simp: collect_reply_def)

section \<open>A packet of the transmission phase\<close>

text \<open>
  The run of bytes FF a port has sent since the packet began, whether a port asks for a restart,
  and what the adapter has captured of a port after some bytes.
\<close>

definition ff_run :: "u8 list list \<Rightarrow> adapter \<Rightarrow> nat \<Rightarrow> nat \<Rightarrow> nat \<Rightarrow> u8" where
  "ff_run outs a n k slot =
     (if slot < n \<and> is_connected a slot \<and> (\<forall>j<k. outs ! j ! slot = 0xFF) then of_nat k else 0)"

definition wants_restart :: "u8 list list \<Rightarrow> adapter \<Rightarrow> nat \<Rightarrow> bool" where
  "wants_restart outs a n \<longleftrightarrow> (\<exists>slot<n. is_connected a slot \<and> (\<forall>j<3. outs ! j ! slot = 0xFF))"

definition captured :: "u8 list list \<Rightarrow> adapter \<Rightarrow> nat \<Rightarrow> nat \<Rightarrow> nat \<Rightarrow> u8 list" where
  "captured outs a n k slot =
     (if slot < n \<and> is_connected a slot
      then map (\<lambda>j. outs ! j ! slot) [0..<k] @ replicate (unat (ad_packet_size a) - k) 0
      else replicate (unat (ad_packet_size a)) 0)"

text \<open>The state of the adapter after some bytes of a packet that began in \<open>a\<close>.\<close>

definition after_bytes :: "nat \<Rightarrow> u8 list list \<Rightarrow> adapter \<Rightarrow> nat \<Rightarrow> adapter \<Rightarrow> bool" where
  "after_bytes n outs a k b \<longleftrightarrow>
     ad_session_count b \<in> {None, Some n} \<and> ad_packet_size b = ad_packet_size a \<and>
     ad_connected b = ad_connected a \<and> ad_broadcast b = ad_broadcast a \<and> ad_phase b = Transmission k \<and>
     ad_restart b = (3 \<le> k \<and> wants_restart outs a n) \<and> length (ad_ff_runs b) = 4 \<and>
     (\<forall>slot<4. n \<le> slot \<or> 0 < k \<longrightarrow> ad_ff_runs b ! slot = ff_run outs a n k slot) \<and>
     ad_captures b = map (captured outs a n (min k (unat (ad_packet_size a)))) [0..<4]"

lemma ff_run_next:
  assumes "k < 16" "slot < n" "k = 0 \<or> run = ff_run outs a n k slot"
  shows "next_run k (is_connected a slot) (outs ! k ! slot) run = ff_run outs a n (k + 1) slot"
proof -
  have small: "of_nat k \<noteq> (0xFF :: u8)" "k \<noteq> 0 \<Longrightarrow> of_nat k \<noteq> (0 :: u8)"
    using assms(1) by (simp_all add: word_unat_eq_iff unat_of_nat)
  show ?thesis
    using assms small by (auto simp: next_run_def ff_run_def less_Suc_eq add.commute split: if_splits)
qed

lemma captured_next:
  assumes "k < unat (ad_packet_size a)"
  shows "captured outs a n (k + 1) slot =
    (if slot < n \<and> is_connected a slot then (captured outs a n k slot)[k := outs ! k ! slot]
     else captured outs a n k slot)"
proof -
  have "replicate (unat (ad_packet_size a) - k) (0 :: u8) = 0 # replicate (unat (ad_packet_size a) - (k + 1)) 0"
    using assms by (simp add: Suc_diff_Suc flip: replicate_Suc)
  then show ?thesis
    by (simp add: captured_def list_update_append)
qed

lemma ff_run_request:
  assumes "k < 16"
  shows "(\<exists>slot<4. 3 \<le> ff_run outs a n (k + 1) slot) \<Longrightarrow> 3 \<le> k + 1 \<and> wants_restart outs a n"
    "n \<le> 4 \<Longrightarrow> k = 2 \<Longrightarrow> wants_restart outs a n \<Longrightarrow> \<exists>slot<4. 3 \<le> ff_run outs a n (k + 1) slot"
proof -
  assume "\<exists>slot<4. 3 \<le> ff_run outs a n (k + 1) slot"
  then obtain slot where slot: "slot < n" "is_connected a slot" "\<forall>j<k + 1. outs ! j ! slot = 0xFF"
      "3 \<le> (of_nat (k + 1) :: u8)"
    by (auto simp: ff_run_def split: if_splits)
  from slot(4) assms have "3 \<le> k + 1"
    by (simp add: word_le_nat_alt unat_of_nat del: of_nat_Suc of_nat_add)
  with slot show "3 \<le> k + 1 \<and> wants_restart outs a n"
    by (auto simp: wants_restart_def)
next
  assume "n \<le> 4" "k = 2" "wants_restart outs a n"
  then obtain slot where "slot < n" "is_connected a slot" "\<forall>j<3. outs ! j ! slot = 0xFF" "slot < 4"
    by (auto simp: wants_restart_def)
  with \<open>k = 2\<close> have "3 \<le> ff_run outs a n (k + 1) slot"
    by (simp add: ff_run_def)
  with \<open>slot < 4\<close> show "\<exists>slot<4. 3 \<le> ff_run outs a n (k + 1) slot"
    by blast
qed

text \<open>One byte of the packet: the runs of FF, the captures, and both together.\<close>

lemma observe_outcome:
  assumes "after_bytes n outs a k b" "length (outs ! k) = n" "n \<le> 4" "k < 16"
  shows "snd (observe_restart_request (outs ! k) k b) = b\<lparr>ad_ff_runs := map (ff_run outs a n (k + 1)) [0..<4]\<rparr>"
    "fst (observe_restart_request (outs ! k) k b) \<or> ad_restart b \<longleftrightarrow> 3 \<le> k + 1 \<and> wants_restart outs a n"
proof -
  have conn: "is_connected b = is_connected a"
    using assms(1) by (simp add: after_bytes_def is_connected_def fun_eq_iff)
  have runs: "map (\<lambda>slot. if 0 \<le> slot \<and> slot < 0 + length (outs ! k)
        then next_run k (is_connected a slot) ((outs ! k) ! (slot - 0)) (ad_ff_runs b ! slot) else ad_ff_runs b ! slot)
      [0..<length (ad_ff_runs b)] = map (ff_run outs a n (k + 1)) [0..<4]"
  proof (intro map_cong)
    fix slot
    assume "slot \<in> set [0..<4::nat]"
    then have slot: "slot < 4"
      by simp
    have run: "n \<le> slot \<or> 0 < k \<Longrightarrow> ad_ff_runs b ! slot = ff_run outs a n k slot"
      using assms(1) slot unfolding after_bytes_def by blast
    show "(if 0 \<le> slot \<and> slot < 0 + length (outs ! k)
        then next_run k (is_connected a slot) ((outs ! k) ! (slot - 0)) (ad_ff_runs b ! slot) else ad_ff_runs b ! slot) =
      ff_run outs a n (k + 1) slot"
    proof (cases "slot < n")
      case True
      then show ?thesis
        using ff_run_next [of k slot n "ad_ff_runs b ! slot" outs a] run assms(2,4) by (cases "k = 0") simp_all
    next
      case False
      then show ?thesis
        using run assms(2) by (simp add: ff_run_def)
    qed
  qed (use assms(1) in \<open>simp add: after_bytes_def\<close>)
  note runs_fold = fold_slots [where g = "\<lambda>slot v run. next_run k (is_connected a slot) v run" and k = 0
      and out = "outs ! k" and xs = "ad_ff_runs b", unfolded runs]
  show "snd (observe_restart_request (outs ! k) k b) = b\<lparr>ad_ff_runs := map (ff_run outs a n (k + 1)) [0..<4]\<rparr>"
    unfolding observe_restart_request_def Let_def observe_fold conn runs_fold by simp
  have "fst (observe_restart_request (outs ! k) k b) \<longleftrightarrow> (\<exists>slot<4. 3 \<le> ff_run outs a n (k + 1) slot)"
    unfolding observe_restart_request_def Let_def observe_fold conn runs_fold
    by (auto simp: list_ex_iff)
  moreover have "ad_restart b = (3 \<le> k \<and> wants_restart outs a n)"
    using assms(1) by (simp add: after_bytes_def)
  ultimately show "fst (observe_restart_request (outs ! k) k b) \<or> ad_restart b \<longleftrightarrow> 3 \<le> k + 1 \<and> wants_restart outs a n"
    using ff_run_request [OF assms(4), where outs = outs and a = a and n = n] assms(3) by (cases "k = 2") auto
qed

lemma capture_outcome:
  assumes "after_bytes n outs a k b" "length (outs ! k) = n" "n \<le> 4" "ad_captures c = ad_captures b"
    "ad_connected c = ad_connected b" "ad_packet_size c = ad_packet_size b"
  shows "(if k < unat (ad_packet_size c) then fold (capture_byte k) (enumerate 0 (outs ! k)) c else c) =
    c\<lparr>ad_captures := map (captured outs a n (min (k + 1) (unat (ad_packet_size a)))) [0..<4]\<rparr>"
proof -
  have conn: "is_connected c = is_connected a" and size: "ad_packet_size c = ad_packet_size a"
    and caps: "ad_captures c = map (captured outs a n (min k (unat (ad_packet_size a)))) [0..<4]"
    using assms by (simp_all add: after_bytes_def is_connected_def fun_eq_iff)
  show ?thesis
  proof (cases "k < unat (ad_packet_size a)")
    case True
    then have ends: "min k (unat (ad_packet_size a)) = k" "min (k + 1) (unat (ad_packet_size a)) = k + 1"
      by simp_all
    with caps have caps_k: "ad_captures c = map (captured outs a n k) [0..<4]"
      by simp
    have "fold (\<lambda>(slot, v) xs. xs[slot := if is_connected a slot then (xs ! slot)[k := v] else xs ! slot])
        (enumerate 0 (outs ! k)) (ad_captures c) = map (captured outs a n (k + 1)) [0..<4]"
      unfolding fold_slots [where g = "\<lambda>slot v x. if is_connected a slot then x[k := v] else x"] caps_k
        captured_next [OF True, of outs n]
      using assms(2,3) by (auto simp: captured_def)
    with True size ends show ?thesis
      unfolding capture_fold conn by simp
  next
    case False
    then show ?thesis
      using size caps by simp
  qed
qed

lemma payload_outcome:
  assumes "after_bytes n outs a k b" "length (outs ! k) = n" "n \<le> 4" "k < 4 * unat (ad_packet_size a)"
    "length (ad_broadcast a) = 4 * unat (ad_packet_size a)" "unat (ad_packet_size a) \<le> 4"
  obtains c where "after_bytes n outs a (k + 1) (c\<lparr>ad_phase := Transmission (k + 1)\<rparr>)"
    "transfer_payload (outs ! k) k b = (replicate n (ad_broadcast a ! k),
       if k + 1 = 4 * unat (ad_packet_size a) then
         if wants_restart outs a n then c\<lparr>ad_restart := False, ad_phase := Restart 0\<rparr> else next_packet c
       else c\<lparr>ad_phase := Transmission (k + 1)\<rparr>)"
proof -
  obtain req b' where req: "observe_restart_request (outs ! k) k b = (req, b')"
    by (cases "observe_restart_request (outs ! k) k b")
  note seen = observe_outcome [OF assms(1-3), unfolded req fst_conv snd_conv]
  have k: "k < 16"
    using assms(4,6) by linarith
  have b': "b' = b\<lparr>ad_ff_runs := map (ff_run outs a n (k + 1)) [0..<4]\<rparr>"
    and asked: "req \<or> ad_restart b \<longleftrightarrow> 3 \<le> k + 1 \<and> wants_restart outs a n"
    using seen k by auto
  define c where "c = b'\<lparr>ad_captures := map (captured outs a n (min (k + 1) (unat (ad_packet_size a)))) [0..<4],
      ad_restart := 3 \<le> k + 1 \<and> wants_restart outs a n\<rparr>"
  have cap: "(if k < unat (ad_packet_size b') then fold (capture_byte k) (enumerate 0 (outs ! k)) b' else b') =
      b'\<lparr>ad_captures := map (captured outs a n (min (k + 1) (unat (ad_packet_size a)))) [0..<4]\<rparr>"
    by (rule capture_outcome [OF assms(1-3)]) (simp_all add: b')
  have "(if req then b'\<lparr>ad_captures := map (captured outs a n (min (k + 1) (unat (ad_packet_size a)))) [0..<4],
      ad_restart := True\<rparr> else b'\<lparr>ad_captures := map (captured outs a n (min (k + 1) (unat (ad_packet_size a)))) [0..<4]\<rparr>) = c"
    using asked by (cases req) (auto simp: c_def b')
  note pay = this
  have after: "after_bytes n outs a (k + 1) (c\<lparr>ad_phase := Transmission (k + 1)\<rparr>)"
    using assms(1) by (simp add: after_bytes_def c_def b')
  have "3 \<le> k + 1" if "k + 1 = 4 * unat (ad_packet_size a)"
    using that assms(4) by (cases "unat (ad_packet_size a)") simp_all
  moreover have "ad_broadcast b' = ad_broadcast a" "ad_broadcast c = ad_broadcast a"
    using assms(1) by (simp_all add: after_bytes_def b' c_def)
  ultimately have "transfer_payload (outs ! k) k b = (replicate n (ad_broadcast a ! k),
       if k + 1 = 4 * unat (ad_packet_size a) then
         if wants_restart outs a n then c\<lparr>ad_restart := False, ad_phase := Restart 0\<rparr> else next_packet c
       else c\<lparr>ad_phase := Transmission (k + 1)\<rparr>)"
    unfolding transfer_payload_def req Let_def prod.case cap pay using assms(2,5) by (simp add: c_def)
  with after that show thesis
    by blast
qed

section \<open>Whole packets\<close>

definition packet_start :: "nat \<Rightarrow> adapter \<Rightarrow> bool" where
  "packet_start n a \<longleftrightarrow>
     adapter_ok n a \<and> ad_phase a = Transmission 0 \<and> \<not> ad_restart a \<and>
     ad_captures a = replicate 4 (replicate (unat (ad_packet_size a)) 0) \<and>
     (\<forall>slot<4. n \<le> slot \<longrightarrow> ad_ff_runs a ! slot = 0)"

lemma packet_start_facts:
  assumes "packet_start n a"
  shows "length (ad_broadcast a) = 4 * unat (ad_packet_size a)" "1 \<le> unat (ad_packet_size a)"
    "unat (ad_packet_size a) \<le> 4" "length (ad_replies a) = 4" "\<forall>r\<in>set (ad_replies a). length r = 4"
proof -
  have "phase_ok a (Transmission 0)"
    using assms unfolding packet_start_def adapter_ok_def by metis
  then show "length (ad_broadcast a) = 4 * unat (ad_packet_size a)"
    by (simp add: packets_ok_def)
qed (use assms in \<open>simp_all add: packet_start_def adapter_ok_def buffers_ok_def\<close>)

lemma after_no_bytes: "packet_start n a \<Longrightarrow> after_bytes n outs a 0 a"
  by (auto simp: packet_start_def after_bytes_def adapter_ok_def buffers_ok_def ff_run_def captured_def
      map_replicate_const intro!: nth_equalityI)

lemma bind_known:
  assumes "ad_session_count b \<in> {None, Some n}"
  shows "bind_session_count n b = Inr (b\<lparr>ad_session_count := Some n\<rparr>)"
proof (cases "ad_session_count b")
  case (Some m)
  with assms have "ad_session_count b = Some n"
    by simp
  moreover from this have "b\<lparr>ad_session_count := Some n\<rparr> = b"
    by (intro adapter.equality) simp_all
  ultimately show ?thesis
    by (simp add: bind_session_count_def)
qed (simp add: bind_session_count_def)

lemma after_bytes_bound:
  "after_bytes n outs a k b \<Longrightarrow> after_bytes n outs a k (b\<lparr>ad_session_count := Some n\<rparr>)"
  by (simp add: after_bytes_def)

lemma transmit_byte:
  assumes "packet_start n a" "after_bytes n outs a k b" "length (outs ! k) = n" "n \<le> 4" "k < 4 * unat (ad_packet_size a)"
  obtains c where "after_bytes n outs a (k + 1) (c\<lparr>ad_phase := Transmission (k + 1)\<rparr>)"
    "adapter_transfer (outs ! k) b = Inr (replicate n (ad_broadcast a ! k),
       if k + 1 = 4 * unat (ad_packet_size a) then
         if wants_restart outs a n then c\<lparr>ad_restart := False, ad_phase := Restart 0\<rparr> else next_packet c
       else c\<lparr>ad_phase := Transmission (k + 1)\<rparr>)"
proof (rule payload_outcome [OF after_bytes_bound [OF assms(2)] assms(3,4,5) packet_start_facts(1,3) [OF assms(1)]])
  fix c
  assume c: "after_bytes n outs a (k + 1) (c\<lparr>ad_phase := Transmission (k + 1)\<rparr>)"
    "transfer_payload (outs ! k) k (b\<lparr>ad_session_count := Some n\<rparr>) = (replicate n (ad_broadcast a ! k),
       if k + 1 = 4 * unat (ad_packet_size a) then
         if wants_restart outs a n then c\<lparr>ad_restart := False, ad_phase := Restart 0\<rparr> else next_packet c
       else c\<lparr>ad_phase := Transmission (k + 1)\<rparr>)"
  have "adapter_transfer (outs ! k) b = Inr (transfer_payload (outs ! k) k (b\<lparr>ad_session_count := Some n\<rparr>))"
    using assms(2,3) bind_known [of b n] by (simp add: adapter_transfer_def after_bytes_def)
  with c that show thesis
    by simp
qed

lemma run_prefix:
  assumes "packet_start n a" "length outs = 4 * unat (ad_packet_size a)" "\<forall>out\<in>set outs. length out = n" "n \<le> 4"
    "k < 4 * unat (ad_packet_size a)"
  shows "\<exists>b. run_transfers (take k outs) a = Inr (map (\<lambda>j. replicate n (ad_broadcast a ! j)) [0..<k], b) \<and>
    after_bytes n outs a k b"
  using assms(5)
proof (induction k)
  case 0
  show ?case
    using after_no_bytes [OF assms(1)] by simp
next
  case (Suc k)
  then obtain b where b: "run_transfers (take k outs) a = Inr (map (\<lambda>j. replicate n (ad_broadcast a ! j)) [0..<k], b)"
      "after_bytes n outs a k b"
    by auto
  have k: "length (outs ! k) = n" "take (Suc k) outs = take k outs @ [outs ! k]" "k < 4 * unat (ad_packet_size a)"
    "k + 1 \<noteq> 4 * unat (ad_packet_size a)"
    using assms(2,3) Suc.prems by (simp_all add: take_Suc_conv_app_nth)
  obtain c where c: "after_bytes n outs a (k + 1) (c\<lparr>ad_phase := Transmission (k + 1)\<rparr>)"
      "adapter_transfer (outs ! k) b = Inr (replicate n (ad_broadcast a ! k), c\<lparr>ad_phase := Transmission (k + 1)\<rparr>)"
    by (rule transmit_byte [OF assms(1) b(2) k(1) assms(4) k(3)]) (simp only: k(4) if_False)
  have "run_transfers (take (Suc k) outs) a =
      Inr (map (\<lambda>j. replicate n (ad_broadcast a ! j)) [0..<Suc k], c\<lparr>ad_phase := Transmission (k + 1)\<rparr>)"
    using run_transfers_snoc [OF b(1) c(2)] k(2) by simp
  with c(1) show ?case
    by auto
qed

lemma packet_run:
  assumes "packet_start n a" "length outs = 4 * unat (ad_packet_size a)" "\<forall>out\<in>set outs. length out = n" "n \<le> 4"
  shows "\<exists>c. after_bytes n outs a (length outs) (c\<lparr>ad_phase := Transmission (length outs)\<rparr>) \<and>
    run_transfers outs a = Inr (map (\<lambda>j. replicate n (ad_broadcast a ! j)) [0..<length outs],
      if wants_restart outs a n then c\<lparr>ad_restart := False, ad_phase := Restart 0\<rparr> else next_packet c)"
proof -
  define k where "k = length outs - 1"
  have k: "k < 4 * unat (ad_packet_size a)" "k + 1 = length outs" "take k outs @ [outs ! k] = outs" "length (outs ! k) = n"
    using assms(2,3) packet_start_facts(2) [OF assms(1)]
    by (simp_all add: k_def take_Suc_conv_app_nth flip: take_Suc_conv_app_nth)
  have last: "(k + 1 = 4 * unat (ad_packet_size a)) = True"
    using k(2) assms(2) by simp
  obtain b where b: "run_transfers (take k outs) a = Inr (map (\<lambda>j. replicate n (ad_broadcast a ! j)) [0..<k], b)"
      "after_bytes n outs a k b"
    using run_prefix [OF assms k(1)] by blast
  obtain c where c: "after_bytes n outs a (k + 1) (c\<lparr>ad_phase := Transmission (k + 1)\<rparr>)"
      "adapter_transfer (outs ! k) b = Inr (replicate n (ad_broadcast a ! k),
         if wants_restart outs a n then c\<lparr>ad_restart := False, ad_phase := Restart 0\<rparr> else next_packet c)"
    by (rule transmit_byte [OF assms(1) b(2) k(4) assms(4) k(1)]) (simp only: last if_True)
  have "run_transfers outs a = Inr (map (\<lambda>j. replicate n (ad_broadcast a ! j)) [0..<k + 1],
      if wants_restart outs a n then c\<lparr>ad_restart := False, ad_phase := Restart 0\<rparr> else next_packet c)"
    using run_transfers_snoc [OF b(1) c(2)] k(3) by simp
  with c(1) show ?thesis
    unfolding k(2) by blast
qed

lemma ff_run_absent: "n \<le> slot \<Longrightarrow> ff_run outs a n k slot = 0"
  by (simp add: ff_run_def)

lemma next_packet_start:
  assumes "packet_start n a" "after_bytes n outs a k (c\<lparr>ad_phase := Transmission k\<rparr>)" "\<not> wants_restart outs a n"
    "unat (ad_packet_size a) \<le> k" "adapter_ok n (next_packet c)"
  shows "packet_start n (next_packet c)"
    "ad_broadcast (next_packet c) = concat (map (captured outs a n (unat (ad_packet_size a))) [0..<4])"
    "ad_connected (next_packet c) = ad_connected a"
proof -
  have len: "length (captured outs a n (unat (ad_packet_size a)) slot) = unat (ad_packet_size a)" for slot
    by (simp add: captured_def)
  have c: "ad_captures c = map (captured outs a n (unat (ad_packet_size a))) [0..<4]" "ad_packet_size c = ad_packet_size a"
      "\<not> ad_restart c" "\<forall>slot<4. n \<le> slot \<longrightarrow> ad_ff_runs c ! slot = 0" "ad_connected c = ad_connected a"
    using assms(2,3,4) by (auto simp: after_bytes_def ff_run_absent min_absorb2)
  show "packet_start n (next_packet c)"
    using assms(5) c len by (simp add: packet_start_def next_packet_def o_def map_replicate_const)
  show "ad_broadcast (next_packet c) = concat (map (captured outs a n (unat (ad_packet_size a))) [0..<4])"
    "ad_connected (next_packet c) = ad_connected a"
    using c by (simp_all add: next_packet_def DMG07_PORT_COUNT_def)
qed

section \<open>Discovery\<close>

lemma port_bit: "push_bit slot (0x10 :: u8) = push_bit (slot + 4) 1"
  by (simp add: push_bit_eq_mult power_add)

lemma is_connected_bit: "is_connected a slot \<longleftrightarrow> bit (ad_connected a) (slot + 4)"
  unfolding is_connected_def port_bit by (simp only: bit_iff_and_push_bit_not_eq_0)

lemma set_connected_bit:
  assumes "slot < 4" "t < 4"
  shows "is_connected (set_connected slot b a) t = (if slot = t then b else is_connected a t)"
  using assms unfolding is_connected_bit set_connected_def port_bit
  by (auto simp: bit_simps)

text \<open>What a slot's reply says about its connection; \<open>None\<close> keeps the bit.\<close>

definition reply_says :: "bool \<Rightarrow> u8 list \<Rightarrow> nat \<Rightarrow> bool option" where
  "reply_says start reply slot =
     (if take 2 reply = [DMG07_ACK, DMG07_ACK] then Some True
      else if slot = 0 \<and> start then None else Some False)"

definition connect_as :: "bool option \<Rightarrow> nat \<Rightarrow> adapter \<Rightarrow> adapter" where
  "connect_as says slot a = (case says of None \<Rightarrow> a | Some b \<Rightarrow> set_connected slot b a)"

lemma early_says:
  "early_ack slot a = connect_as (reply_says (take 2 (ad_replies a ! 0) = [DMG07_START, DMG07_START]) (ad_replies a ! slot) slot) slot a"
  by (auto simp: early_ack_def connect_as_def reply_says_def Let_def)

lemma final_says: "final_ack start slot a = connect_as (reply_says start (ad_replies a ! slot) slot) slot a"
  by (simp add: final_ack_def connect_as_def reply_says_def)

lemma connect_frame: "connect_as says slot a = a\<lparr>ad_connected := ad_connected (connect_as says slot a)\<rparr>"
  by (cases says) (simp_all add: connect_as_def set_connected_def)

lemma connect_fold:
  assumes "\<And>slot b. ad_replies b = ad_replies a \<Longrightarrow> f slot b = connect_as (says slot) slot b" "n \<le> 4"
  shows "fold f [0..<n] a = a\<lparr>ad_connected := ad_connected (fold f [0..<n] a)\<rparr> \<and>
    (\<forall>t<4. is_connected (fold f [0..<n] a) t =
      (if t < n then (case says t of None \<Rightarrow> is_connected a t | Some b \<Rightarrow> b) else is_connected a t))"
  using assms(2)
proof (induction n)
  case (Suc n)
  then have frame: "fold f [0..<n] a = a\<lparr>ad_connected := ad_connected (fold f [0..<n] a)\<rparr>"
    and bits: "\<forall>t<4. is_connected (fold f [0..<n] a) t =
      (if t < n then (case says t of None \<Rightarrow> is_connected a t | Some b \<Rightarrow> b) else is_connected a t)"
    by simp_all
  have last: "fold f [0..<Suc n] a = connect_as (says n) n (fold f [0..<n] a)"
    using assms(1) [of "fold f [0..<n] a" n] arg_cong [OF frame, of ad_replies] by simp
  have "connect_as (says n) n (fold f [0..<n] a) = a\<lparr>ad_connected := ad_connected (connect_as (says n) n (fold f [0..<n] a))\<rparr>"
    by (subst connect_frame, subst frame) simp
  moreover have "\<forall>t<4. is_connected (connect_as (says n) n (fold f [0..<n] a)) t =
      (if t < Suc n then (case says t of None \<Rightarrow> is_connected a t | Some b \<Rightarrow> b) else is_connected a t)"
    using bits Suc.prems set_connected_bit [of n] by (auto simp: connect_as_def less_Suc_eq split: option.splits)
  ultimately show ?case
    unfolding last by blast
qed simp

lemma collect_outcome:
  assumes "length (ad_replies a) = 4" "length out \<le> 4"
  shows "fold (collect_reply i) (enumerate 0 out) a =
    a\<lparr>ad_replies := map (\<lambda>slot. if slot < length out then (ad_replies a ! slot)[i := out ! slot] else ad_replies a ! slot) [0..<4]\<rparr>"
  unfolding collect_fold fold_slots [where g = "\<lambda>slot v r. r[i := v]"] using assms by simp

text \<open>The four bytes of one ping.\<close>

definition record_replies :: "nat \<Rightarrow> u8 list \<Rightarrow> u8 list list \<Rightarrow> u8 list list" where
  "record_replies i out rs =
     map (\<lambda>slot. if slot < length out then (rs ! slot)[i := out ! slot] else rs ! slot) [0..<4]"

lemma ping_byte:
  assumes "ad_phase a = Ping i" "ad_session_count a \<in> {None, Some n}" "length (ad_replies a) = 4" "length out = n" "n \<le> 4"
    "i < 3" "i \<noteq> 1"
  shows "adapter_transfer out a =
    Inr (map (\<lambda>slot. if i = 0 then DMG07_PING_HEADER else status_for_slot a slot) [0..<n],
         a\<lparr>ad_session_count := Some n, ad_replies := record_replies i out (ad_replies a), ad_phase := Ping (i + 1)\<rparr>)"
  using assms bind_known [OF assms(2)]
  by (simp add: adapter_transfer_def transfer_ping_def Let_def collect_outcome record_replies_def status_for_slot_def)

lemma ping_second:
  assumes "ad_phase a = Ping 1" "ad_session_count a = Some n" "length (ad_replies a) = 4" "length out = n" "n \<le> 4"
  defines "rs \<equiv> record_replies 1 out (ad_replies a)"
  shows "\<exists>m. adapter_transfer out a =
      Inr (map (status_for_slot a) [0..<n], a\<lparr>ad_replies := rs, ad_connected := m, ad_phase := Ping 2\<rparr>) \<and>
    (\<forall>t<4. is_connected (a\<lparr>ad_connected := m\<rparr>) t = (if t < n then
      (case reply_says (take 2 (rs ! 0) = [DMG07_START, DMG07_START]) (rs ! t) t of None \<Rightarrow> is_connected a t | Some b \<Rightarrow> b)
      else is_connected a t))"
proof -
  let ?b = "a\<lparr>ad_replies := rs\<rparr>"
  have "early_ack slot b = connect_as (reply_says (take 2 (rs ! 0) = [DMG07_START, DMG07_START]) (rs ! slot) slot) slot b"
    if "ad_replies b = ad_replies ?b" for slot b
    using that by (simp add: early_says)
  from connect_fold [of ?b early_ack, OF this assms(5)]
  obtain m where m: "fold early_ack [0..<n] ?b = ?b\<lparr>ad_connected := m\<rparr>"
    "\<forall>t<4. is_connected (?b\<lparr>ad_connected := m\<rparr>) t = (if t < n then
      (case reply_says (take 2 (rs ! 0) = [DMG07_START, DMG07_START]) (rs ! t) t of None \<Rightarrow> is_connected ?b t | Some b \<Rightarrow> b)
      else is_connected ?b t)"
    by metis
  have conn: "is_connected ?b = is_connected a" "is_connected (?b\<lparr>ad_connected := m\<rparr>) = is_connected (a\<lparr>ad_connected := m\<rparr>)"
    by (simp_all add: is_connected_def fun_eq_iff)
  have "adapter_transfer out a = Inr (map (status_for_slot a) [0..<n], ?b\<lparr>ad_connected := m, ad_phase := Ping 2\<rparr>)"
    using assms(1-5) m(1) rs_def
    by (simp add: adapter_transfer_def bind_session_count_def transfer_ping_def Let_def collect_outcome record_replies_def)
  with m(2) [unfolded conn] show ?thesis
    by blast
qed

lemma ping_last:
  assumes "ad_phase a = Ping 3" "ad_session_count a = Some n" "length (ad_replies a) = 4" "length out = n" "n \<le> 4"
  defines "rs \<equiv> record_replies 3 out (ad_replies a)"
  defines "start \<equiv> rs ! 0 = replicate 4 DMG07_START"
  shows "\<exists>m. adapter_transfer out a = Inr (map (status_for_slot a) [0..<n],
      (if start then a\<lparr>ad_replies := rs, ad_connected := m, ad_phase := Confirm 0\<rparr>
       else (accept_master (a\<lparr>ad_replies := rs, ad_connected := m\<rparr>))\<lparr>ad_phase := Ping 0\<rparr>)\<lparr>ad_replies := no_replies\<rparr>) \<and>
    (\<forall>t<4. is_connected (a\<lparr>ad_connected := m\<rparr>) t = (if t < n then
      (case reply_says start (rs ! t) t of None \<Rightarrow> is_connected a t | Some b \<Rightarrow> b) else is_connected a t))"
proof -
  let ?b = "a\<lparr>ad_replies := rs\<rparr>"
  have "final_ack start slot b = connect_as (reply_says start (rs ! slot) slot) slot b"
    if "ad_replies b = ad_replies ?b" for slot b
    using that by (simp add: final_says)
  from connect_fold [of ?b "final_ack start", OF this assms(5)]
  obtain m where m: "fold (final_ack start) [0..<n] ?b = ?b\<lparr>ad_connected := m\<rparr>"
    "\<forall>t<4. is_connected (?b\<lparr>ad_connected := m\<rparr>) t = (if t < n then
      (case reply_says start (rs ! t) t of None \<Rightarrow> is_connected ?b t | Some b \<Rightarrow> b) else is_connected ?b t)"
    by metis
  have conn: "is_connected ?b = is_connected a" "is_connected (?b\<lparr>ad_connected := m\<rparr>) = is_connected (a\<lparr>ad_connected := m\<rparr>)"
    by (simp_all add: is_connected_def fun_eq_iff)
  have collect: "fold (collect_reply 3) (enumerate 0 out) a = ?b"
    using assms(3-5) rs_def by (simp add: collect_outcome record_replies_def)
  have "adapter_transfer out a = Inr (map (status_for_slot a) [0..<n],
      (if start then ?b\<lparr>ad_connected := m, ad_phase := Confirm 0\<rparr>
       else (accept_master (?b\<lparr>ad_connected := m\<rparr>))\<lparr>ad_phase := Ping 0\<rparr>)\<lparr>ad_replies := no_replies\<rparr>)"
    using assms(1-5) m(1) unfolding adapter_transfer_def bind_session_count_def
    by (cases start) (simp_all add: transfer_ping_def Let_def collect flip: start_def)
  with m(2) [unfolded conn] show ?thesis
    by blast
qed

end
