(* ===== verification/Link_Properties.thy ===== *)
theory Link_Properties
  imports Link_Laws
begin

text \<open>
  What the DMG-07 adapter promises to the machines on its ports: totality, and the outcome of a
  ping, of the confirmation and of a packet.
\<close>

text \<open>
  C27. The adapter broadcasts each packet one packet later. From the start of a packet, after
  four exchanges per byte of the packet size, every port has received the broadcast packet byte
  by byte. If a connected port began with three bytes FF the adapter then restarts; otherwise it
  stands at the start of the next packet, which holds the first bytes of the four ports in port
  order, zeros for a port that is absent or not connected.
\<close>

theorem dmg07_packet:
  assumes "packet_start n a" "length outs = 4 * unat (ad_packet_size a)" "\<forall>out\<in>set outs. length out = n" "n \<le> 4"
  shows "\<exists>b. run_transfers outs a = Inr (map (\<lambda>j. replicate n (ad_broadcast a ! j)) [0..<length outs], b) \<and>
    (if \<exists>slot<n. is_connected a slot \<and> (\<forall>j<3. outs ! j ! slot = 0xFF) then ad_phase b = Restart 0
     else packet_start n b \<and> ad_connected b = ad_connected a \<and>
       ad_broadcast b = concat (map (\<lambda>slot. if slot < n \<and> is_connected a slot
         then map (\<lambda>j. outs ! j ! slot) [0..<unat (ad_packet_size a)] else replicate (unat (ad_packet_size a)) 0) [0..<4]))"
proof -
  obtain c where c: "after_bytes n outs a (length outs) (c\<lparr>ad_phase := Transmission (length outs)\<rparr>)"
      "run_transfers outs a = Inr (map (\<lambda>j. replicate n (ad_broadcast a ! j)) [0..<length outs],
         if wants_restart outs a n then c\<lparr>ad_restart := False, ad_phase := Restart 0\<rparr> else next_packet c)"
    using packet_run [OF assms] by blast
  have ok: "adapter_ok n (if wants_restart outs a n then c\<lparr>ad_restart := False, ad_phase := Restart 0\<rparr> else next_packet c)"
    using run_transfers_ok [of n a outs] assms(1,3) c(2) by (auto simp: packet_start_def)
  have captured: "captured outs a n (unat (ad_packet_size a)) = (\<lambda>slot. if slot < n \<and> is_connected a slot
         then map (\<lambda>j. outs ! j ! slot) [0..<unat (ad_packet_size a)] else replicate (unat (ad_packet_size a)) 0)"
    by (simp add: captured_def fun_eq_iff)
  show ?thesis
  proof (cases "wants_restart outs a n")
    case True
    with c(2) show ?thesis
      by (simp add: wants_restart_def)
  next
    case False
    with ok have "adapter_ok n (next_packet c)"
      by simp
    note begun = next_packet_start [OF assms(1) c(1) False _ this, unfolded captured]
    have cond: "(\<exists>slot<n. is_connected a slot \<and> (\<forall>j<3. outs ! j ! slot = 0xFF)) = False"
      using False unfolding wants_restart_def by blast
    have "unat (ad_packet_size a) \<le> length outs"
      using assms(2) by simp
    note begun = begun [OF this]
    show ?thesis
      unfolding cond if_False using begun c(2) False by (intro exI [of _ "next_packet c"]) simp
  qed
qed

definition tiny_adapter :: adapter where
  "tiny_adapter = begin_transmission (adapter_default\<lparr>ad_connected := 0x30\<rparr>)"

lemma tiny_start: "packet_start 2 tiny_adapter"
  by (simp add: packet_start_def tiny_adapter_def begin_transmission_def adapter_default_def adapter_ok_def
      buffers_ok_def packets_ok_def no_replies_def DMG07_PORT_COUNT_def Let_def nth_Cons')

theorem dmg07_packet_witness:
  "\<exists>b. run_transfers [[1, 2], [3, 4], [5, 6], [7, 8]] tiny_adapter = Inr (replicate 4 [0, 0], b) \<and>
    ad_broadcast b = [1, 2, 0, 0]"
proof -
  have conn: "is_connected tiny_adapter 0" "is_connected tiny_adapter 1"
    and size: "ad_packet_size tiny_adapter = 1" "ad_broadcast tiny_adapter = replicate 4 0"
    by (simp_all add: tiny_adapter_def begin_transmission_def adapter_default_def DMG07_PORT_COUNT_def Let_def
        is_connected_def)
  define outs :: "u8 list list" where "outs = [[1, 2], [3, 4], [5, 6], [7, 8]]"
  have outs: "length outs = 4 * unat (ad_packet_size tiny_adapter)" "\<forall>out\<in>set outs. length out = 2" "length outs = 4"
    by (simp_all add: outs_def size)
  have no_restart: "(\<exists>slot<2. is_connected tiny_adapter slot \<and> (\<forall>j<3. outs ! j ! slot = 0xFF)) = False"
    by (auto simp: outs_def dest!: less_2_cases intro!: exI [of _ 0])
  have upts: "[0..<4] = [0, 1, 2, 3 :: nat]" "[0..<1] = [0 :: nat]"
    by (simp_all add: upt_rec)
  have "\<exists>b. run_transfers outs tiny_adapter =
      Inr (map (\<lambda>j. replicate 2 (ad_broadcast tiny_adapter ! j)) [0..<4], b) \<and>
      ad_broadcast b = concat (map (\<lambda>slot. if slot < 2 \<and> is_connected tiny_adapter slot
         then map (\<lambda>j. outs ! j ! slot) [0..<unat (ad_packet_size tiny_adapter)]
         else replicate (unat (ad_packet_size tiny_adapter)) 0) [0..<4])"
    using dmg07_packet [OF tiny_start outs(1,2)] unfolding no_restart if_False outs(3) by auto
  then show ?thesis
    using conn unfolding upts size outs_def by (simp add: upts numeral_eq_Suc)
qed

text \<open>
  From discovery to data: when player one starts the game, the adapter sends every port four
  confirmation bytes whatever the ports send, and then stands at the start of a packet of zeros.
\<close>

theorem dmg07_confirm:
  assumes "adapter_ok n a" "ad_phase a = Confirm 0" "length w = n" "length x = n" "length y = n" "length z = n"
  shows "\<exists>b. run_transfers [w, x, y, z] a = Inr ([replicate n DMG07_CONFIRM, replicate n DMG07_CONFIRM,
      replicate n DMG07_CONFIRM, replicate n DMG07_CONFIRM], b) \<and>
    packet_start n b \<and> ad_connected b = ad_connected a \<and> ad_packet_size b = ad_packet_size a \<and>
    ad_broadcast b = replicate (4 * unat (ad_packet_size a)) 0"
proof -
  have bind: "ad_session_count a \<in> {None, Some n}" and buffers: "buffers_ok a"
    using assms(1) by (simp_all add: adapter_ok_def)
  then show ?thesis
    using assms(2-) bind_known [OF bind]
    by (simp add: adapter_transfer_def transfer_confirm_def bind_session_count_def begin_transmission_def Let_def
        packet_start_def adapter_ok_def buffers_ok_def packets_ok_def DMG07_PORT_COUNT_def)
qed

theorem dmg07_confirm_witness:
  "\<exists>b. run_transfers [[1, 2], [3, 4], [5, 6], [7, 8]] (adapter_default\<lparr>ad_phase := Confirm 0\<rparr>) =
     Inr ([[0xCC, 0xCC], [0xCC, 0xCC], [0xCC, 0xCC], [0xCC, 0xCC]], b) \<and> packet_start 2 b"
proof -
  have "adapter_ok 2 (adapter_default\<lparr>ad_phase := Confirm 0\<rparr>)"
    by (simp add: adapter_ok_def buffers_ok_def adapter_default_def no_replies_def DMG07_PORT_COUNT_def)
  from dmg07_confirm [OF this, of "[1, 2]" "[3, 4]" "[5, 6]" "[7, 8]"] show ?thesis
    by (auto simp: DMG07_CONFIRM_def numeral_eq_Suc)
qed

text \<open>
  The adapter is total and stays in its buffers: from the power-on state, any sequence of
  parallel exchanges on the same ports succeeds, answers every port each time, and leaves every
  buffer at its size and the byte index inside the packet of the current phase.
\<close>

theorem dmg07_exchanges_safe:
  assumes "\<forall>out\<in>set outs. length out = n"
  shows "\<exists>ins b. run_transfers outs adapter_default = Inr (ins, b) \<and> length ins = length outs \<and>
    (\<forall>x\<in>set ins. length x = n) \<and> adapter_ok n b"
  by (rule run_transfers_ok [OF adapter_ok_default assms])

theorem dmg07_exchanges_safe_witness:
  "\<exists>ins b. run_transfers [[0x88, 0], [0x88, 0x88]] adapter_default = Inr (ins, b) \<and> adapter_ok 2 b"
  using dmg07_exchanges_safe [of "[[0x88, 0], [0x88, 0x88]]" 2] by auto

text \<open>
  A ping connects exactly the ports that acknowledge it. The four exchanges answer with the
  header, then three times with the connection mask and the port's number; a port is connected
  afterwards if its first two bytes were acknowledgements, and player one keeps its connection when
  it sends the start packet, which moves the adapter to confirmation. Otherwise discovery goes on,
  and an acknowledging player one sets the rate, unless it is zero, and the packet size, clamped.
\<close>

theorem dmg07_ping:
  assumes "adapter_ok n a" "ad_phase a = Ping 0" "1 \<le> n" "n \<le> 4"
    "length w = n" "length x = n" "length y = n" "length z = n"
  shows "\<exists>status b. run_transfers [w, x, y, z] a =
      Inr ([replicate n DMG07_PING_HEADER, map (status_for_slot a) [0..<n], status, status], b) \<and>
    (\<forall>t<n. is_connected b t \<longleftrightarrow>
      w ! t = DMG07_ACK \<and> x ! t = DMG07_ACK \<or>
      t = 0 \<and> is_connected a 0 \<and> [w ! 0, x ! 0, y ! 0, z ! 0] = replicate 4 DMG07_START) \<and>
    (if [w ! 0, x ! 0, y ! 0, z ! 0] = replicate 4 DMG07_START
     then ad_phase b = Confirm 0 \<and> ad_rate b = ad_rate a \<and> ad_packet_size b = ad_packet_size a
     else ad_phase b = Ping 0 \<and>
       (if w ! 0 = DMG07_ACK \<and> x ! 0 = DMG07_ACK
        then ad_rate b = (if y ! 0 = 0 then ad_rate a else y ! 0) \<and> ad_packet_size b = clamp_size (z ! 0)
        else ad_rate b = ad_rate a \<and> ad_packet_size b = ad_packet_size a))"
proof -
  have bind: "ad_session_count a \<in> {None, Some n}" and len: "length (ad_replies a) = 4"
      "\<forall>r\<in>set (ad_replies a). length r = 4"
    using assms(1) by (simp_all add: adapter_ok_def buffers_ok_def)
  define b where "b = a\<lparr>ad_session_count := Some n, ad_replies := record_replies 0 w (ad_replies a), ad_phase := Ping 1\<rparr>"
  have b: "adapter_transfer w a = Inr (replicate n DMG07_PING_HEADER, b)"
    using ping_byte [OF assms(2) bind len(1) assms(5,4)] by (simp add: b_def map_replicate_const)
  obtain m where c: "adapter_transfer x b = Inr (map (status_for_slot b) [0..<n],
        b\<lparr>ad_replies := record_replies 1 x (ad_replies b), ad_connected := m, ad_phase := Ping 2\<rparr>)"
      "\<forall>t<4. is_connected (b\<lparr>ad_connected := m\<rparr>) t = (if t < n then
        (case reply_says (take 2 (record_replies 1 x (ad_replies b) ! 0) = [DMG07_START, DMG07_START])
            (record_replies 1 x (ad_replies b) ! t) t of None \<Rightarrow> is_connected b t | Some v \<Rightarrow> v)
        else is_connected b t)"
    using ping_second [of b n x] assms(4,6) by (auto simp: b_def record_replies_def)
  define d where "d = b\<lparr>ad_replies := record_replies 1 x (ad_replies b), ad_connected := m, ad_phase := Ping 2\<rparr>"
  define e where "e = d\<lparr>ad_session_count := Some n, ad_replies := record_replies 2 y (ad_replies d), ad_phase := Ping 3\<rparr>"
  have e: "adapter_transfer y d = Inr (map (status_for_slot d) [0..<n], e)"
    using ping_byte [of d 2 n y] assms(4,7) by (simp add: e_def d_def b_def record_replies_def)
  let ?rs = "record_replies 3 z (ad_replies e)"
  obtain q where q: "adapter_transfer z e = Inr (map (status_for_slot e) [0..<n],
      (if ?rs ! 0 = replicate 4 DMG07_START then e\<lparr>ad_replies := ?rs, ad_connected := q, ad_phase := Confirm 0\<rparr>
       else (accept_master (e\<lparr>ad_replies := ?rs, ad_connected := q\<rparr>))\<lparr>ad_phase := Ping 0\<rparr>)\<lparr>ad_replies := no_replies\<rparr>)"
     "\<forall>t<4. is_connected (e\<lparr>ad_connected := q\<rparr>) t = (if t < n then
      (case reply_says (?rs ! 0 = replicate 4 DMG07_START) (?rs ! t) t of None \<Rightarrow> is_connected e t | Some v \<Rightarrow> v) else is_connected e t)"
    using ping_last [of e n z] assms(4,8) by (auto simp: e_def record_replies_def d_def b_def)
  have rs: "?rs ! t = [w ! t, x ! t, y ! t, z ! t]" if "t < n" for t
    using that assms(4-8) len by (intro nth_equalityI) (auto simp: record_replies_def e_def d_def b_def nth_Cons' nth_list_update)
  have rs1: "take 2 (record_replies 1 x (ad_replies b) ! 0) = [w ! 0, x ! 0]"
    using assms(3-6) len by (intro nth_equalityI) (auto simp: record_replies_def b_def nth_Cons' nth_list_update)
  have same_bits: "is_connected e = is_connected (b\<lparr>ad_connected := m\<rparr>)" "is_connected b = is_connected a"
    by (simp_all add: is_connected_def fun_eq_iff e_def d_def b_def)
  have four: "replicate 4 v = [v, v, v, v]" for v :: u8
    by (simp add: numeral_eq_Suc)
  define start where "start = ([w ! 0, x ! 0, y ! 0, z ! 0] = replicate 4 DMG07_START)"
  have kept: "is_connected e 0 = is_connected a 0" if start
    using c(2) [rule_format, of 0] that assms(3) unfolding same_bits rs1
    by (simp add: start_def four reply_says_def rs1 [simplified] DMG07_ACK_def DMG07_START_def)
  define f where "f = (if start then e\<lparr>ad_replies := ?rs, ad_connected := q, ad_phase := Confirm 0\<rparr>
       else (accept_master (e\<lparr>ad_replies := ?rs, ad_connected := q\<rparr>))\<lparr>ad_phase := Ping 0\<rparr>)\<lparr>ad_replies := no_replies\<rparr>"
  have rs0: "?rs ! 0 = [w ! 0, x ! 0, y ! 0, z ! 0]"
    using rs assms(3) by simp
  have runs: "run_transfers [w, x, y, z] a =
      Inr ([replicate n DMG07_PING_HEADER, map (status_for_slot a) [0..<n], map (status_for_slot d) [0..<n],
        map (status_for_slot d) [0..<n]], f)"
    using b c(1) e q(1) unfolding rs0 start_def [symmetric] f_def [symmetric] d_def [symmetric]
    by (simp add: status_for_slot_def e_def b_def)
  have master: "ad_connected f = q" by (simp add: f_def accept_master_def Let_def)
  have bits: "is_connected f t = is_connected (e\<lparr>ad_connected := q\<rparr>) t" for t
    by (simp add: is_connected_def master)
  have conn: "is_connected f t \<longleftrightarrow> w ! t = DMG07_ACK \<and> x ! t = DMG07_ACK \<or> t = 0 \<and> is_connected a 0 \<and> start"
    if "t < n" for t
    using q(2) [rule_format, of t] that assms(4) kept unfolding bits rs0 start_def [symmetric] rs [OF that]
    by (auto simp: reply_says_def split: if_splits)
  have e_fields: "ad_rate e = ad_rate a" "ad_packet_size e = ad_packet_size a"
    by (simp_all add: e_def d_def b_def)
  have rest: "if start then ad_phase f = Confirm 0 \<and> ad_rate f = ad_rate a \<and> ad_packet_size f = ad_packet_size a
     else ad_phase f = Ping 0 \<and>
       (if w ! 0 = DMG07_ACK \<and> x ! 0 = DMG07_ACK
        then ad_rate f = (if y ! 0 = 0 then ad_rate a else y ! 0) \<and> ad_packet_size f = clamp_size (z ! 0)
        else ad_rate f = ad_rate a \<and> ad_packet_size f = ad_packet_size a)"
    by (simp add: f_def accept_master_def rs0 Let_def e_fields)
  show ?thesis
    using runs conn rest unfolding start_def by blast
qed

end
