(* ===== verification/Spec2Isabelle.thy ===== *)
theory Spec2Isabelle
  imports Joypad_Port Interrupts Timer_Unit Serial_Port Cpu_Arith Memory_Laws Cartridge_Laws
    Ppu_Laws Ppu_Render_Laws Apu_Properties Machine_Properties Link_Properties
begin

text \<open>
  \<^bold>\<open>Kokura core: a verification library.\<close>

  The program is a Game Boy and Game Boy Color emulator; the library models its core crate
  (\<^verbatim>\<open>src/crates/kokura-core/src\<close>), the part that decides what the emulated machine does. Each
  device of the machine is a struct with a tick function and register accessors; the machine in
  \<^verbatim>\<open>lib.rs\<close> owns them all, dispatches bus accesses to them and advances their clocks after each
  instruction.

  \<^bold>\<open>Layout.\<close> \<open>Prelude\<close> holds the word types, the saturating and wrapping operations of the
  code and the lemmas on lists and words that the components share; \<open>Events\<close> the trace events,
  mapper kinds and errors (\<^verbatim>\<open>types.rs\<close>, \<^verbatim>\<open>error.rs\<close>). Then one group of theories per device:

  \<^item> \<open>Interrupts\<close>, \<open>Joypad_Port\<close>, \<open>Timer_Unit\<close>, \<open>Serial_Port\<close>: the devices of
    \<^verbatim>\<open>interrupt.rs\<close>, \<^verbatim>\<open>joypad.rs\<close>, \<^verbatim>\<open>timer.rs\<close>, \<^verbatim>\<open>serial.rs\<close>;
  \<^item> \<open>Cpu_Core\<close> and \<open>Cpu_Arith\<close>: registers, flags and the arithmetic of the instructions
    (\<^verbatim>\<open>cpu/\<close> and the helpers of \<^verbatim>\<open>lib.rs\<close>), against arithmetic specifications;
  \<^item> \<open>Memory_Map\<close> and \<open>Memory_Laws\<close>: the banked memory image of \<^verbatim>\<open>memory.rs\<close>;
  \<^item> \<open>Mbc_Banks\<close>, \<open>Mbc_Simple\<close>, \<open>Mbc3_Rtc\<close>, \<open>Mbc_Clocked\<close>, \<open>Mbc_Flash\<close>,
    \<open>Mbc_Eeprom\<close>, \<open>Mbc_Camera\<close>: the cartridge controllers of \<^verbatim>\<open>mbc/\<close>; \<open>Cartridge_Slot\<close>
    and \<open>Cartridge_Laws\<close>: \<^verbatim>\<open>cartridge.rs\<close> over all of them;
  \<^item> \<open>Ppu_State\<close>, \<open>Ppu_Timing\<close>, \<open>Ppu_Render\<close> and their laws: \<^verbatim>\<open>ppu/mod.rs\<close>;
  \<^item> \<open>Apu_State\<close>, \<open>Apu_Registers\<close>, \<open>Apu_Clock\<close>, \<open>Apu_Laws\<close>, \<open>Apu_Properties\<close>:
    \<^verbatim>\<open>apu.rs\<close>;
  \<^item> \<open>Machine_State\<close>: the \<^verbatim>\<open>Machine\<close> of \<^verbatim>\<open>lib.rs\<close> as one record that owns
    every device, with its clocks, queues of traces and hardware mode; \<open>Dma_Engine\<close>: the
    OAM and CGB block transfers (\<^verbatim>\<open>dma.rs\<close>); \<open>Machine_Bus\<close>: the dispatch of reads and
    writes over the address space, with the locks of the PPU and of DMA; \<open>Cpu_Exec\<close>: the
    instruction set, one case per opcode and one for every prefixed opcode;
  \<^item> \<open>Machine_Clocks\<close>: how the elapsed cycles reach each device, traced and fast;
    \<open>Machine_Step\<close>: ROM loading, the serial link, interrupt service, one step in both
    schedulers, and the runs of a frame and of a slice;
  \<^item> \<open>Save_State\<close>: save states and their validation (\<^verbatim>\<open>state.rs\<close>); \<open>Diagnostics\<close>: the
    counting of the diagnostic events a step emits;
  \<^item> \<open>Link_Adapter\<close>, \<open>Link_Laws\<close>, \<open>Link_Properties\<close>: outside the core crate, the DMG-07
    four-player adapter of \<^verbatim>\<open>kokura-debug/src/link.rs\<close> with its four phases and its clock. The
    adapter answers every sequence of exchanges and stays in its buffers; a ping connects the ports
    that acknowledge it, confirmation leads to the start of a packet, and a packet is broadcast
    one packet after it was collected.

  The laws of the machine are spread by subject. \<open>Observation\<close> says when two machines differ
  in their trace queues only; \<open>Exec_Relation\<close> is the interface (locale \<open>exec_relation\<close>) of a
  relation between machines that every bus operation keeps, with one proof that every
  instruction keeps it too, interpreted for the unobservable differences, for soundness of the
  machine and for the free passing of time. \<open>Machine_Fields\<close> and \<open>Machine_Ok\<close> hold
  the frame facts and the machine invariant, \<open>Clock_Laws\<close> the clock loop's termination and its
  books, \<open>Step_Same\<close> the refinement of the traced step by the fast one, \<open>Step_Time\<close> the
  account of the cycles of a step, \<open>Opcode_Laws\<close> and \<open>Bus_Laws\<close> the outcomes of single
  opcodes and bus accesses, \<open>Machine_Reach\<close> the reachable machines, \<open>Machine_Runs\<close> the
  frame and slice loops, \<open>Save_Laws\<close> what a save state keeps; \<open>Machine_Properties\<close> states
  the theorems about the whole machine.

  \<^bold>\<open>Conventions.\<close> A struct is a record with the fields of the source, a method a function
  from the old state to the new one together with what it returns; registers are words of their
  width, cycle counts and indices natural numbers with the code's saturation and wrap-around
  written out; trace vectors are event lists. The host clock of the cartridge clocks is an
  argument, constant within a step, and so is the \<open>f64\<close> arithmetic of the audio filters. The
  serialisation library behind save states is a pair of arguments, an encoder and a decoder,
  and the round trip assumes that the decoder reads back what the encoder wrote.

  \<^bold>\<open>What is shown.\<close> The equivalence of each pair of tick functions (traced and fast);
  exact counting of timers, scanlines, sample and frame-sequencer periods however the scheduler
  slices them; read-after-write of memory and cartridge RAM; the round trips of battery saves
  and of the serial EEPROM; reachable-state invariants of the memory image, the cartridge and
  the audio unit; arithmetic specifications of the CPU operations; sprite selection and
  priority; the background as arithmetic on the map, the tiles and the palettes. For the machine
  as a whole: an invariant of all reachable machines; every step returns and fails exactly on
  the undefined opcodes; the fast scheduler refines the traced one, step by step and frame by
  frame; the cycles a step reports are the cycles its clocks advance by; interrupt service, bus
  locks and OAM DMA do what they promise, under the conditions that their texts name; a save
  state brings back what it stores, in every device.

  \<^bold>\<open>Loops and fuel.\<close> No fuel is used. The loops of the devices run down a cycle count or a
  queue and have termination proofs. The clock loop of a step and the loop of a frame are
  \<open>partial_function (option)\<close>: the value \<open>None\<close> is a loop that does not return. The clock
  loop is proved to return, and with it a step and a slice, which counts its instructions. A frame need not, since a program that keeps
  writing the LCD control register keeps resetting the frame's phase; the theorem on frames
  therefore says of both schedulers that one returns if and only if the other does. The audio
  queue's eviction loop would not end in the code for a capacity of zero, which the setter
  refuses; the model stops at the empty queue, and every property about it assumes or proves a
  positive capacity.

  \<^bold>\<open>Not modelled.\<close> Within the core crate, the accessors that return one field and the byte
  format of the serialisation library. Of the link runner, the loops that interleave
  machines or debugger sessions, the topologies and the run summaries. The debugger, the source
  bridge, the command line tool and the foreign-function bindings are host-side tools around the
  core: they parse arguments, format reports, read files and hold sessions, and change no
  emulated state except through the operations modelled here.
\<close>

end
